(* ===== verification/Prelude.thy ===== *)
theory Prelude
  imports Main "HOL-Library.State_Monad"
begin

text \<open>
  Shared base of the development: Go errors as values, the state monad in which the handlers
  and services of the server are written, the combinators that stand for Go's
  \<open>if err != nil\<close> returns and \<open>defer\<close> statements, the rules that run them, and a locale of
  invariants that a computation keeps on every path.
\<close>

section \<open>Collections\<close>

named_theorems run_simps \<open>equations that run one step of a monadic computation\<close>
named_theorems success_dests \<open>what a computation did when it returned no error\<close>

section \<open>Go errors\<close>

text \<open>
  The sentinel errors the code compares against are constructors of their own;
  \<open>ErrText\<close> is any other error by its text and \<open>Wrap\<close> is \<open>fmt.Errorf\<close> with a
  \<open>%w\<close> at the end.
\<close>

datatype go_error =
    ErrText string
  | ErrNoRows
  | ErrNotFound
  | UserNotFound
  | Wrap string go_error

type_synonym 'a result = "go_error + 'a"

fun errors_is :: "go_error \<Rightarrow> go_error \<Rightarrow> bool" where
  "errors_is (Wrap s e) t = (Wrap s e = t \<or> errors_is e t)"
| "errors_is e t = (e = t)"

section \<open>The monad and its combinators\<close>

definition fail :: "go_error \<Rightarrow> ('w, 'a result) state" where
  "fail e = State_Monad.return (Inl e)"

definition ok :: "'a \<Rightarrow> ('w, 'a result) state" where
  "ok a = State_Monad.return (Inr a)"

text \<open>\<open>x, err := m; if err != nil { return err }\<close>, then the rest.\<close>

definition on_ok :: "('w, 'a result) state \<Rightarrow> ('a \<Rightarrow> ('w, 'b result) state) \<Rightarrow> ('w, 'b result) state" where
  "on_ok m f = do { r \<leftarrow> m; case r of Inl e \<Rightarrow> fail e | Inr a \<Rightarrow> f a }"

text \<open>\<open>if err != nil { return fmt.Errorf(... err) }\<close>: the error is mapped on the way out.\<close>

definition map_err :: "(go_error \<Rightarrow> go_error) \<Rightarrow> ('w, 'a result) state \<Rightarrow> ('w, 'a result) state" where
  "map_err g m = do { r \<leftarrow> m; State_Monad.return (case r of Inl e \<Rightarrow> Inl (g e) | Inr a \<Rightarrow> Inr a) }"

text \<open>\<open>defer c\<close>, and \<open>defer func() { if err != nil { c } }\<close>, around the rest of the body.\<close>

definition defer_do :: "('w, 'c) state \<Rightarrow> ('w, 'a) state \<Rightarrow> ('w, 'a) state" where
  "defer_do c m = do { r \<leftarrow> m; c; State_Monad.return r }"

definition defer_on_err :: "('w, 'c) state \<Rightarrow> ('w, 'a result) state \<Rightarrow> ('w, 'a result) state" where
  "defer_on_err c m =
     do { r \<leftarrow> m; (case r of Inl _ \<Rightarrow> do { c; State_Monad.return r } | Inr _ \<Rightarrow> State_Monad.return r) }"

text \<open>A call whose error the code ignores.\<close>

definition ignoring :: "('w, 'a) state \<Rightarrow> ('w, unit) state" where
  "ignoring m = do { m; State_Monad.return () }"

text \<open>A \<open>for range\<close> loop whose body cannot leave it.\<close>

fun for_each :: "'a list \<Rightarrow> ('a \<Rightarrow> ('w, unit) state) \<Rightarrow> ('w, unit) state" where
  "for_each [] f = State_Monad.return ()"
| "for_each (x # xs) f = do { f x; for_each xs f }"

text \<open>A loop over a list whose body may panic, which is \<open>None\<close>.\<close>

fun opt_fold :: "('a \<Rightarrow> 's \<Rightarrow> 's option) \<Rightarrow> 'a list \<Rightarrow> 's \<Rightarrow> 's option" where
  "opt_fold f [] s = Some s"
| "opt_fold f (x # xs) s = Option.bind (f x s) (opt_fold f xs)"

section \<open>Running the combinators\<close>

lemma run_bind [run_simps]:
  "run_state (m \<bind> f) w = (case run_state m w of (a, w') \<Rightarrow> run_state (f a) w')"
  by (cases m; simp)

lemma run_return [run_simps]: "run_state (State_Monad.return a) w = (a, w)"
  by simp

lemma run_get [run_simps]: "run_state State_Monad.get w = (w, w)"
  by (simp add: State_Monad.get_def)

lemma run_set [run_simps]: "run_state (State_Monad.set w') w = ((), w')"
  by (simp add: State_Monad.set_def)

lemma run_fail [run_simps]: "run_state (fail e) w = (Inl e, w)"
  by (simp add: fail_def)

lemma run_ok [run_simps]: "run_state (ok a) w = (Inr a, w)"
  by (simp add: ok_def)

lemma run_on_ok [run_simps]:
  "run_state (on_ok m f) w =
     (case run_state m w of (Inl e, w') \<Rightarrow> (Inl e, w') | (Inr a, w') \<Rightarrow> run_state (f a) w')"
  by (simp add: on_ok_def run_simps split: prod.splits sum.splits)

lemma run_map_err [run_simps]:
  "run_state (map_err g m) w =
     (case run_state m w of (Inl e, w') \<Rightarrow> (Inl (g e), w') | (Inr a, w') \<Rightarrow> (Inr a, w'))"
  by (simp add: map_err_def run_simps split: prod.splits sum.splits)

lemma run_defer_do [run_simps]:
  "run_state (defer_do c m) w = (case run_state m w of (r, w') \<Rightarrow> (r, snd (run_state c w')))"
  by (simp add: defer_do_def run_simps split: prod.splits)

lemma run_defer_on_err [run_simps]:
  "run_state (defer_on_err c m) w =
     (case run_state m w of (Inl e, w') \<Rightarrow> (Inl e, snd (run_state c w')) | (Inr a, w') \<Rightarrow> (Inr a, w'))"
  by (simp add: defer_on_err_def run_simps split: prod.splits sum.splits)

lemma run_ignoring [run_simps]: "run_state (ignoring m) w = ((), snd (run_state m w))"
  by (simp add: ignoring_def run_simps split: prod.splits)

lemma run_for_each_Nil [run_simps]: "run_state (for_each [] f) w = ((), w)"
  by simp

lemma run_for_each_Cons [run_simps]:
  "run_state (for_each (x # xs) f) w = run_state (for_each xs f) (snd (run_state (f x) w))"
  by (simp add: run_simps split: prod.splits)

text \<open>
  The path without an error is a straight line: these rules take a successful run of a
  combinator apart into the runs of its parts.
\<close>

lemma on_ok_Inr:
  assumes "run_state (on_ok m f) w = (Inr b, w'')"
  obtains a w' where "run_state m w = (Inr a, w')" and "run_state (f a) w' = (Inr b, w'')"
  using assms by (auto simp: run_simps split: prod.splits sum.splits)

lemma map_err_Inr [success_dests]:
  "run_state (map_err g m) w = (Inr a, w') \<Longrightarrow> run_state m w = (Inr a, w')"
  by (auto simp: run_simps split: prod.splits sum.splits)

lemma defer_on_err_Inr [success_dests]:
  "run_state (defer_on_err c m) w = (Inr a, w') \<Longrightarrow> run_state m w = (Inr a, w')"
  by (auto simp: run_simps split: prod.splits sum.splits)

lemma defer_do_elim:
  assumes "run_state (defer_do c m) w = (r, w'')"
  obtains w' where "run_state m w = (r, w')" and "w'' = snd (run_state c w')"
  using assms by (auto simp: run_simps split: prod.splits)

lemma map_sum_InrD: "map_sum f g r = Inr y \<Longrightarrow> \<exists>x. r = Inr x \<and> y = g x"
  by (cases r) auto

section \<open>Effects of computations\<close>

text \<open>
  What a computation may do to the state, on the paths that fail as well, as a reflexive and
  transitive relation between the state before and the state after. Each combinator has an
  effect when its parts have it, so a proof of an effect follows the text of the program.
  \<open>fails_within\<close> asks for the effect of the failing runs only.
\<close>

definition fails_within :: "('w \<Rightarrow> 'w \<Rightarrow> bool) \<Rightarrow> ('w, 'a result) state \<Rightarrow> bool" where
  "fails_within R m \<longleftrightarrow> (\<forall>w e w'. run_state m w = (Inl e, w') \<longrightarrow> R w w')"

locale effect =
  fixes R :: "'w \<Rightarrow> 'w \<Rightarrow> bool"
  assumes R_refl: "R w w"
    and R_trans: "R u v \<Longrightarrow> R v w \<Longrightarrow> R u w"
begin

lemma io_return: "state_io_rel R (State_Monad.return a)"
  by (rule state_io_relI) (auto simp: run_simps R_refl)

lemma io_get: "state_io_rel R State_Monad.get"
  by (rule state_io_relI) (auto simp: run_simps R_refl)

lemma io_fail: "state_io_rel R (fail e)"
  by (simp add: fail_def io_return)

lemma io_ok: "state_io_rel R (ok a)"
  by (simp add: ok_def io_return)

lemma io_bind:
  assumes "state_io_rel R m" and "\<And>a. state_io_rel R (f a)"
  shows "state_io_rel R (m \<bind> f)"
proof (rule state_io_relI)
  fix b w w''
  assume "run_state (m \<bind> f) w = (b, w'')"
  then obtain a w' where "run_state m w = (a, w')" and "run_state (f a) w' = (b, w'')"
    by (auto simp: run_simps split: prod.splits)
  with assms show "R w w''"
    by (blast intro: R_trans dest: state_io_relD)
qed

lemma io_on_ok:
  assumes "state_io_rel R m" and "\<And>a. state_io_rel R (f a)"
  shows "state_io_rel R (on_ok m f)"
  unfolding on_ok_def by (intro io_bind assms) (auto split: sum.split intro: io_fail assms)

lemma io_map_err: "state_io_rel R m \<Longrightarrow> state_io_rel R (map_err g m)"
  unfolding map_err_def by (intro io_bind io_return)

lemma io_defer_do: "state_io_rel R c \<Longrightarrow> state_io_rel R m \<Longrightarrow> state_io_rel R (defer_do c m)"
  unfolding defer_do_def by (intro io_bind io_return)

lemma io_defer_on_err:
  "state_io_rel R c \<Longrightarrow> state_io_rel R m \<Longrightarrow> state_io_rel R (defer_on_err c m)"
  unfolding defer_on_err_def by (intro io_bind) (auto split: sum.split intro: io_return io_bind)

lemma io_ignoring: "state_io_rel R m \<Longrightarrow> state_io_rel R (ignoring m)"
  unfolding ignoring_def by (intro io_bind io_return)

lemma io_for_each: "(\<And>x. state_io_rel R (f x)) \<Longrightarrow> state_io_rel R (for_each xs f)"
  by (induction xs) (auto intro: io_return io_bind)

lemma io_if: "state_io_rel R m \<Longrightarrow> state_io_rel R n \<Longrightarrow> state_io_rel R (if b then m else n)"
  by simp

lemma io_case_sum:
  "(\<And>e. state_io_rel R (f e)) \<Longrightarrow> (\<And>a. state_io_rel R (g a)) \<Longrightarrow> state_io_rel R (case r of Inl e \<Rightarrow> f e | Inr a \<Rightarrow> g a)"
  by (cases r) auto

lemma io_case_option:
  "state_io_rel R m \<Longrightarrow> (\<And>a. state_io_rel R (g a)) \<Longrightarrow> state_io_rel R (case x of None \<Rightarrow> m | Some a \<Rightarrow> g a)"
  by (cases x) auto

lemma io_case_prod: "(\<And>a b. state_io_rel R (f a b)) \<Longrightarrow> state_io_rel R (case p of (a, b) \<Rightarrow> f a b)"
  by (cases p) auto

lemmas io_intros = io_return io_get io_fail io_ok io_bind io_on_ok io_map_err io_defer_do
  io_defer_on_err io_ignoring io_for_each io_if io_case_sum io_case_option io_case_prod

lemma fails_io: "state_io_rel R m \<Longrightarrow> fails_within R m"
  unfolding fails_within_def by (metis state_io_relD)

lemma fails_bind:
  assumes "state_io_rel R m" and "\<And>a. fails_within R (f a)"
  shows "fails_within R (m \<bind> f)"
  unfolding fails_within_def
proof (intro allI impI)
  fix w e w''
  assume "run_state (m \<bind> f) w = (Inl e, w'')"
  then obtain a w' where "run_state m w = (a, w')" "run_state (f a) w' = (Inl e, w'')"
    by (auto simp: run_simps split: prod.splits)
  with assms show "R w w''" by (auto simp: fails_within_def intro: R_trans dest: state_io_relD)
qed

lemma fails_on_ok: "state_io_rel R m \<Longrightarrow> (\<And>a. fails_within R (f a)) \<Longrightarrow> fails_within R (on_ok m f)"
  unfolding on_ok_def by (intro fails_bind) (auto split: sum.split intro: fails_io io_fail)

lemma fails_map_err: "fails_within R m \<Longrightarrow> fails_within R (map_err g m)"
  unfolding fails_within_def by (auto simp: run_simps split: prod.splits sum.splits)

lemma fails_defer_on_err: "state_io_rel R c \<Longrightarrow> fails_within R m \<Longrightarrow> fails_within R (defer_on_err c m)"
  unfolding fails_within_def
  by (auto simp: run_simps split: prod.splits sum.splits) (metis R_trans prod.collapse state_io_relD)

lemma fails_defer_do: "state_io_rel R c \<Longrightarrow> fails_within R m \<Longrightarrow> fails_within R (defer_do c m)"
  unfolding fails_within_def
  by (auto simp: run_simps split: prod.splits) (metis R_trans prod.collapse state_io_relD)

lemmas fails_intros = fails_on_ok fails_bind fails_defer_on_err fails_defer_do

end

section \<open>Lists\<close>

text \<open>Rows of a table are lists; these are the facts about updating and filtering them.\<close>

lemma distinct_map_filter: "distinct (map f xs) \<Longrightarrow> distinct (map f (filter P xs))"
  by (induction xs) auto

lemma map_map_if_same: "(\<And>x. f (g x) = f x) \<Longrightarrow> map f (map (\<lambda>x. if P x then g x else x) xs) = map f xs"
  by (induction xs) auto

lemma length_filter_one:
  assumes "distinct (map f xs)" and "x \<in> set xs"
  shows "filter (\<lambda>y. f y = f x) xs = [x]"
  using assms
proof (induction xs)
  case Nil
  then show ?case by simp
next
  case (Cons y ys)
  then show ?case
    by (cases "y = x") (auto simp: filter_empty_conv, metis image_eqI)
qed

end
