(* ===== verification/Notification_Bus.thy ===== *)
theory Notification_Bus
  imports Prelude
begin

text \<open>
  The in-memory publish/subscribe broker of \<open>service/notificationBus.go\<close>: the map of
  subscriber channels, \<open>Subscribe\<close>, \<open>Publish\<close> and \<open>unsubscribe\<close>, and the loop of the SSE
  handler \<open>Stream\<close> of \<open>service/notificationHandler.go\<close> that drains a channel. A channel is a
  reference, so channels live in a store and the map holds their addresses; closing a closed
  channel and sending on a closed channel panic, which is the value \<open>None\<close>.
\<close>

section \<open>State\<close>

record Notification =
  n_id :: string
  n_type :: string
  n_title :: string
  n_body :: string
  n_metadata :: "string option"
  n_created_at :: int

record channel =
  ch_buf :: "Notification list"
  ch_closed :: bool

record NotificationBus =
  subscribers :: "string \<Rightarrow> nat list"
  chans :: "nat \<Rightarrow> channel"
  next_chan :: nat

definition chan_cap :: nat where
  "chan_cap = 32"

definition GlobalBus :: NotificationBus where
  "GlobalBus = \<lparr>subscribers = (\<lambda>_. []), chans = (\<lambda>_. \<lparr>ch_buf = [], ch_closed = False\<rparr>), next_chan = 0\<rparr>"

section \<open>Operations\<close>

definition Subscribe :: "string \<Rightarrow> NotificationBus \<Rightarrow> nat \<times> NotificationBus" where
  "Subscribe userID b =
     (let ch = next_chan b in
      (ch, b\<lparr>subscribers := (subscribers b)(userID := subscribers b userID @ [ch]),
             chans := (chans b)(ch := \<lparr>ch_buf = [], ch_closed = False\<rparr>),
             next_chan := Suc ch\<rparr>))"

text \<open>\<open>select { case ch <- n: default: }\<close>\<close>

definition try_send :: "Notification \<Rightarrow> nat \<Rightarrow> NotificationBus \<Rightarrow> NotificationBus option" where
  "try_send n ch b =
     (let c = chans b ch in
      if ch_closed c then None
      else if length (ch_buf c) < chan_cap
        then Some (b\<lparr>chans := (chans b)(ch := c\<lparr>ch_buf := ch_buf c @ [n]\<rparr>)\<rparr>)
        else Some b)"

fun send_all :: "Notification \<Rightarrow> nat list \<Rightarrow> NotificationBus \<Rightarrow> NotificationBus option" where
  "send_all n [] b = Some b"
| "send_all n (ch # chs) b = Option.bind (try_send n ch b) (send_all n chs)"

definition Publish :: "string \<Rightarrow> Notification \<Rightarrow> NotificationBus \<Rightarrow> NotificationBus option" where
  "Publish userID n b = send_all n (subscribers b userID) b"

definition close_chan :: "nat \<Rightarrow> NotificationBus \<Rightarrow> NotificationBus option" where
  "close_chan ch b =
     (if ch_closed (chans b ch) then None
      else Some (b\<lparr>chans := (chans b)(ch := (chans b ch)\<lparr>ch_closed := True\<rparr>)\<rparr>))"

definition unsubscribe :: "string \<Rightarrow> nat \<Rightarrow> NotificationBus \<Rightarrow> NotificationBus option" where
  "unsubscribe userID ch b =
     (if ch \<in> set (subscribers b userID)
      then close_chan ch (b\<lparr>subscribers := (subscribers b)(userID := remove1 ch (subscribers b userID))\<rparr>)
      else Some b)"

text \<open>
  The loop of \<open>Stream\<close>: every turn of the \<open>select\<close> takes one of the ready cases. A turn that
  picks the channel while its buffer is empty does not happen (that case is not ready), so it
  leaves the connection as it is.
\<close>

datatype select_case = CtxDone | FromChannel | HeartbeatTick

datatype sse_chunk = NotificationEvent Notification | Heartbeat

fun stream_loop :: "nat \<Rightarrow> select_case list \<Rightarrow> NotificationBus \<Rightarrow> sse_chunk list \<times> NotificationBus" where
  "stream_loop ch [] b = ([], b)"
| "stream_loop ch (CtxDone # es) b = ([], b)"
| "stream_loop ch (HeartbeatTick # es) b =
     (case stream_loop ch es b of (out, b') \<Rightarrow> (Heartbeat # out, b'))"
| "stream_loop ch (FromChannel # es) b =
     (case ch_buf (chans b ch) of
        [] \<Rightarrow> stream_loop ch es b
      | n # ns \<Rightarrow>
          (case stream_loop ch es (b\<lparr>chans := (chans b)(ch := (chans b ch)\<lparr>ch_buf := ns\<rparr>)\<rparr>) of
             (out, b') \<Rightarrow> (NotificationEvent n # out, b')))"

section \<open>Invariant\<close>

text \<open>
  Registered channels were allocated, are open, appear once, belong to one user and hold at
  most 32 notifications.
\<close>

definition bus_ok :: "NotificationBus \<Rightarrow> bool" where
  "bus_ok b \<longleftrightarrow>
     (\<forall>u. distinct (subscribers b u)) \<and>
     (\<forall>u. \<forall>ch \<in> set (subscribers b u). ch < next_chan b \<and> \<not> ch_closed (chans b ch)) \<and>
     (\<forall>u v. u \<noteq> v \<longrightarrow> set (subscribers b u) \<inter> set (subscribers b v) = {}) \<and>
     (\<forall>ch. length (ch_buf (chans b ch)) \<le> chan_cap)"

lemma bus_ok_GlobalBus: "bus_ok GlobalBus"
  by (simp add: bus_ok_def GlobalBus_def)

lemma bus_okD:
  assumes "bus_ok b"
  shows "distinct (subscribers b u)"
    and "ch \<in> set (subscribers b u) \<Longrightarrow> ch < next_chan b"
    and "ch \<in> set (subscribers b u) \<Longrightarrow> \<not> ch_closed (chans b ch)"
    and "ch \<in> set (subscribers b u) \<Longrightarrow> ch \<in> set (subscribers b v) \<Longrightarrow> u = v"
    and "length (ch_buf (chans b ch)) \<le> chan_cap"
  using assms unfolding bus_ok_def by blast+

lemma bus_okI:
  assumes "\<And>u. distinct (subscribers b u)"
    and "\<And>u ch. ch \<in> set (subscribers b u) \<Longrightarrow> ch < next_chan b \<and> \<not> ch_closed (chans b ch)"
    and "\<And>u v ch. ch \<in> set (subscribers b u) \<Longrightarrow> ch \<in> set (subscribers b v) \<Longrightarrow> u = v"
    and "\<And>ch. length (ch_buf (chans b ch)) \<le> chan_cap"
  shows "bus_ok b"
  using assms unfolding bus_ok_def by blast

lemma Subscribe_simps:
  assumes "Subscribe u b = (ch, b')"
  shows "ch = next_chan b" and "next_chan b' = Suc ch"
    and "subscribers b' = (subscribers b)(u := subscribers b u @ [ch])"
    and "chans b' = (chans b)(ch := \<lparr>ch_buf = [], ch_closed = False\<rparr>)"
  using assms by (auto simp: Subscribe_def Let_def)

lemma bus_ok_Subscribe:
  assumes ok: "bus_ok b" and sub: "Subscribe u b = (ch, b')"
  shows "bus_ok b'"
proof -
  note D = bus_okD[OF ok] and S = Subscribe_simps[OF sub]
  have fresh: "ch \<notin> set (subscribers b v)" for v
    using D(2) S(1) by blast
  show ?thesis
  proof (rule bus_okI)
    show "distinct (subscribers b' v)" for v
      using D(1) fresh by (simp add: S)
    show "c < next_chan b' \<and> \<not> ch_closed (chans b' c)" if "c \<in> set (subscribers b' v)" for v c
      using that D(2,3) S(1) by (auto simp: S(2-4) less_Suc_eq split: if_splits)
    show "v = v'" if "c \<in> set (subscribers b' v)" "c \<in> set (subscribers b' v')" for v v' c
      using that fresh D(4) by (auto simp: S(3) split: if_splits)
    show "length (ch_buf (chans b' c)) \<le> chan_cap" for c
      using D(5) by (simp add: S(4))
  qed
qed

lemma try_send_Some:
  assumes "try_send n ch b = Some b'"
  shows "subscribers b' = subscribers b" and "next_chan b' = next_chan b"
    and "ch_closed (chans b' c) = ch_closed (chans b c)"
    and "ch_buf (chans b' c) =
      (if c = ch \<and> length (ch_buf (chans b ch)) < chan_cap then ch_buf (chans b ch) @ [n] else ch_buf (chans b c))"
  using assms by (auto simp: try_send_def Let_def split: if_splits)

lemma bus_ok_try_send:
  assumes ok: "bus_ok b" and s: "try_send n ch b = Some b'"
  shows "bus_ok b'"
  using bus_okD[OF ok] try_send_Some[OF s] by (intro bus_okI) (auto simp: Suc_le_eq)

text \<open>Sending to distinct open channels never panics and appends exactly where there is room.\<close>

lemma send_all_spec:
  assumes "distinct chs" and "\<forall>ch \<in> set chs. \<not> ch_closed (chans b ch)"
  shows "\<exists>b'. send_all n chs b = Some b' \<and> subscribers b' = subscribers b \<and> next_chan b' = next_chan b \<and>
    (\<forall>c. ch_closed (chans b' c) = ch_closed (chans b c)) \<and>
    (\<forall>c. ch_buf (chans b' c) =
       (if c \<in> set chs \<and> length (ch_buf (chans b c)) < chan_cap then ch_buf (chans b c) @ [n] else ch_buf (chans b c)))"
  using assms
proof (induction chs arbitrary: b)
  case Nil
  then show ?case by simp
next
  case (Cons ch chs)
  have "\<exists>b1. try_send n ch b = Some b1"
    using Cons.prems(2) by (simp add: try_send_def Let_def)
  then obtain b1 where b1: "try_send n ch b = Some b1" ..
  note T = try_send_Some[OF b1]
  from Cons.IH[of b1] Cons.prems T(3) obtain b' where
    b': "send_all n chs b1 = Some b'" "subscribers b' = subscribers b1" "next_chan b' = next_chan b1"
    "\<forall>c. ch_closed (chans b' c) = ch_closed (chans b1 c)"
    "\<forall>c. ch_buf (chans b' c) =
       (if c \<in> set chs \<and> length (ch_buf (chans b1 c)) < chan_cap then ch_buf (chans b1 c) @ [n] else ch_buf (chans b1 c))"
    by auto
  from b1 b'(1) have "send_all n (ch # chs) b = Some b'" by simp
  with b'(2-) T Cons.prems(1) show ?case by auto
qed

lemma Publish_spec:
  assumes "bus_ok b"
  shows "\<exists>b'. Publish u n b = Some b' \<and> subscribers b' = subscribers b \<and> next_chan b' = next_chan b \<and>
    (\<forall>c. ch_closed (chans b' c) = ch_closed (chans b c)) \<and>
    (\<forall>c. ch_buf (chans b' c) =
       (if c \<in> set (subscribers b u) \<and> length (ch_buf (chans b c)) < chan_cap
        then ch_buf (chans b c) @ [n] else ch_buf (chans b c)))"
  unfolding Publish_def using bus_okD(1,3)[OF assms] by (intro send_all_spec) auto

lemma bus_ok_Publish:
  assumes ok: "bus_ok b" and p: "Publish u n b = Some b'"
  shows "bus_ok b'"
proof -
  from Publish_spec[OF ok, of u n] p have
    "subscribers b' = subscribers b" "next_chan b' = next_chan b"
    "\<forall>c. ch_closed (chans b' c) = ch_closed (chans b c)"
    "\<forall>c. ch_buf (chans b' c) =
       (if c \<in> set (subscribers b u) \<and> length (ch_buf (chans b c)) < chan_cap
        then ch_buf (chans b c) @ [n] else ch_buf (chans b c))"
    by auto
  with bus_okD[OF ok] show ?thesis by (intro bus_okI) (auto simp: Suc_le_eq)
qed

lemma unsubscribe_member:
  assumes ok: "bus_ok b" and mem: "ch \<in> set (subscribers b u)"
  shows "unsubscribe u ch b =
    Some (b\<lparr>subscribers := (subscribers b)(u := remove1 ch (subscribers b u)),
            chans := (chans b)(ch := (chans b ch)\<lparr>ch_closed := True\<rparr>)\<rparr>)"
  using bus_okD(3)[OF ok mem] mem by (simp add: unsubscribe_def close_chan_def)

lemma bus_ok_unsubscribe:
  assumes ok: "bus_ok b" and un: "unsubscribe u ch b = Some b'"
  shows "bus_ok b'"
proof (cases "ch \<in> set (subscribers b u)")
  case True
  note D = bus_okD[OF ok]
  have b': "subscribers b' = (subscribers b)(u := remove1 ch (subscribers b u))" "next_chan b' = next_chan b"
    "chans b' = (chans b)(ch := (chans b ch)\<lparr>ch_closed := True\<rparr>)"
    using un unfolding unsubscribe_member[OF ok True] by auto
  have gone: "ch \<notin> set (subscribers b' v)" for v
    using D(1) D(4)[OF True] by (auto simp: b' split: if_splits)
  have sub: "set (subscribers b' v) \<subseteq> set (subscribers b v)" for v
    by (simp add: b' set_remove1_subset)
  show ?thesis
  proof (rule bus_okI)
    show "distinct (subscribers b' v)" for v
      using D(1) by (simp add: b')
    show "c < next_chan b' \<and> \<not> ch_closed (chans b' c)" if "c \<in> set (subscribers b' v)" for v c
    proof -
      from that gone sub have "c \<in> set (subscribers b v)" and "c \<noteq> ch" by blast+
      with D(2,3) show ?thesis by (simp add: b'(2,3))
    qed
    show "v = v'" if "c \<in> set (subscribers b' v)" "c \<in> set (subscribers b' v')" for v v' c
      using that sub D(4) by blast
    show "length (ch_buf (chans b' c)) \<le> chan_cap" for c
      using D(5) by (simp add: b'(3))
  qed
next
  case False
  with un ok show ?thesis by (simp add: unsubscribe_def)
qed

lemma stream_loop_frame:
  assumes "stream_loop ch es b = (out, b')"
  shows "subscribers b' = subscribers b \<and> next_chan b' = next_chan b \<and>
    (\<forall>c. ch_closed (chans b' c) = ch_closed (chans b c)) \<and>
    (\<forall>c. length (ch_buf (chans b' c)) \<le> length (ch_buf (chans b c)))"
  using assms
proof (induction ch es b arbitrary: out b' rule: stream_loop.induct)
  case (4 ch es b)
  show ?case
  proof (cases "ch_buf (chans b ch)")
    case Nil
    with 4 show ?thesis by simp
  next
    case (Cons n ns)
    let ?b = "b\<lparr>chans := (chans b)(ch := (chans b ch)\<lparr>ch_buf := ns\<rparr>)\<rparr>"
    from 4(3) Cons obtain out1 where "stream_loop ch es ?b = (out1, b')"
      by (auto split: prod.splits)
    from 4(2)[OF Cons this] have IH: "subscribers b' = subscribers ?b" "next_chan b' = next_chan ?b"
      "\<And>c. ch_closed (chans b' c) = ch_closed (chans ?b c)"
      "\<And>c. length (ch_buf (chans b' c)) \<le> length (ch_buf (chans ?b c))"
      by blast+
    have "length (ch_buf (chans ?b c)) \<le> length (ch_buf (chans b c))" for c
      using Cons by simp
    with IH show ?thesis by (auto intro: le_trans)
  qed
qed (auto split: prod.splits)

lemma bus_ok_stream_loop:
  assumes ok: "bus_ok b" and l: "stream_loop ch es b = (out, b')"
  shows "bus_ok b'"
  using bus_okD[OF ok] stream_loop_frame[OF l] by (intro bus_okI) (auto intro: le_trans)

section \<open>The broker's contract\<close>

text \<open>
  What a publisher and a connected client rely on. Clients of the broker are reasoned about in
  the locale; the interpretation shows that the bus of the code keeps the contract.
\<close>

locale broker =
  fixes inv :: "'s \<Rightarrow> bool"
    and sub :: "'u \<Rightarrow> 's \<Rightarrow> 'c \<times> 's"
    and pub :: "'u \<Rightarrow> 'n \<Rightarrow> 's \<Rightarrow> 's option"
    and unsub :: "'u \<Rightarrow> 'c \<Rightarrow> 's \<Rightarrow> 's option"
    and members :: "'s \<Rightarrow> 'u \<Rightarrow> 'c set"
    and inbox :: "'s \<Rightarrow> 'c \<Rightarrow> 'n list"
    and cap :: nat
  assumes inv_sub: "inv s \<Longrightarrow> sub u s = (c, s') \<Longrightarrow> inv s'"
    and sub_fresh: "inv s \<Longrightarrow> sub u s = (c, s') \<Longrightarrow> c \<notin> members s v"
    and sub_members: "inv s \<Longrightarrow> sub u s = (c, s') \<Longrightarrow> members s' v = (if v = u then insert c (members s u) else members s v)"
    and sub_inbox: "inv s \<Longrightarrow> sub u s = (c, s') \<Longrightarrow> inbox s' c = []"
    and pub_total: "inv s \<Longrightarrow> \<exists>s'. pub u n s = Some s'"
    and inv_pub: "inv s \<Longrightarrow> pub u n s = Some s' \<Longrightarrow> inv s'"
    and pub_members: "inv s \<Longrightarrow> pub u n s = Some s' \<Longrightarrow> members s' v = members s v"
    and pub_inbox: "inv s \<Longrightarrow> pub u n s = Some s' \<Longrightarrow>
       inbox s' c = (if c \<in> members s u \<and> length (inbox s c) < cap then inbox s c @ [n] else inbox s c)"
    and inbox_cap: "inv s \<Longrightarrow> length (inbox s c) \<le> cap"
    and unsub_total: "inv s \<Longrightarrow> \<exists>s'. unsub u c s = Some s'"
    and inv_unsub: "inv s \<Longrightarrow> unsub u c s = Some s' \<Longrightarrow> inv s'"
    and unsub_members: "inv s \<Longrightarrow> c \<in> members s u \<Longrightarrow> unsub u c s = Some s' \<Longrightarrow> c \<notin> members s' v"
    and unsub_inbox: "inv s \<Longrightarrow> unsub u c s = Some s' \<Longrightarrow> inbox s' c' = inbox s c'"
begin

text \<open>
  A burst published to a user reaches each of the user's connections in order, up to the room
  its buffer has, and no other connection.
\<close>

lemma burst:
  assumes "inv s"
  shows "\<exists>s'. opt_fold (pub u) ns s = Some s' \<and> inv s' \<and> (\<forall>v. members s' v = members s v) \<and>
    (\<forall>c. inbox s' c = (if c \<in> members s u then take cap (inbox s c @ ns) else inbox s c))"
  using assms
proof (induction ns arbitrary: s)
  case Nil
  then show ?case using inbox_cap by auto
next
  case (Cons n ns)
  obtain s1 where s1: "pub u n s = Some s1" using pub_total[OF Cons.prems] by blast
  from Cons.IH[OF inv_pub[OF Cons.prems s1]] obtain s' where
    s': "opt_fold (pub u) ns s1 = Some s'" "inv s'" "\<forall>v. members s' v = members s1 v"
    "\<forall>c. inbox s' c = (if c \<in> members s1 u then take cap (inbox s1 c @ ns) else inbox s1 c)"
    by blast
  have "inbox s' c = (if c \<in> members s u then take cap (inbox s c @ n # ns) else inbox s c)" for c
    using s'(4) inbox_cap[OF Cons.prems, of c]
    by (auto simp: pub_inbox[OF Cons.prems s1] pub_members[OF Cons.prems s1] take_Cons' Suc_diff_Suc)
  with s1 s' show ?case by (auto simp: pub_members[OF Cons.prems s1])
qed

lemma fresh_connection_receives:
  assumes "inv s" and "sub u s = (c, s1)"
  shows "\<exists>s'. opt_fold (pub u) ns s1 = Some s' \<and> inbox s' c = take cap ns"
  using burst[OF inv_sub[OF assms], of u ns] sub_members[OF assms] sub_inbox[OF assms] by auto

text \<open>A cancelled connection receives nothing more, whoever publishes.\<close>

lemma cancelled_connection_silent:
  assumes "inv s" and "c \<in> members s u" and "unsub u c s = Some s1"
  shows "\<exists>s'. opt_fold (pub v) ns s1 = Some s' \<and> inbox s' c = inbox s c"
  using burst[OF inv_unsub[OF assms(1,3)], of v ns] unsub_members[OF assms, of v] unsub_inbox[OF assms(1,3), of c]
  by auto

end

interpretation nb: broker bus_ok Subscribe Publish unsubscribe
  "\<lambda>b u. set (subscribers b u)" "\<lambda>b c. ch_buf (chans b c)" chan_cap
proof unfold_locales
  fix b b' :: NotificationBus and u v :: string and n :: Notification and c c' :: nat
  assume ok: "bus_ok b"
  show "bus_ok b'" "c \<notin> set (subscribers b v)" "ch_buf (chans b' c) = []"
    "set (subscribers b' v) = (if v = u then insert c (set (subscribers b u)) else set (subscribers b v))"
    if sub: "Subscribe u b = (c, b')"
    using bus_ok_Subscribe[OF ok sub] Subscribe_simps[OF sub] bus_okD(2)[OF ok] by auto
  show "\<exists>b'. Publish u n b = Some b'"
    using Publish_spec[OF ok] by blast
  show "bus_ok b'" "set (subscribers b' v) = set (subscribers b v)"
    "ch_buf (chans b' c) =
      (if c \<in> set (subscribers b u) \<and> length (ch_buf (chans b c)) < chan_cap
       then ch_buf (chans b c) @ [n] else ch_buf (chans b c))"
    if p: "Publish u n b = Some b'"
    using bus_ok_Publish[OF ok p] Publish_spec[OF ok, of u n] p by auto
  show "length (ch_buf (chans b c)) \<le> chan_cap"
    by (rule bus_okD(5)[OF ok])
  show "\<exists>b'. unsubscribe u c b = Some b'"
    using unsubscribe_member[OF ok] by (cases "c \<in> set (subscribers b u)") (auto simp: unsubscribe_def)
  show "bus_ok b'" if "unsubscribe u c b = Some b'"
    by (rule bus_ok_unsubscribe[OF ok that])
  show "ch_buf (chans b' c') = ch_buf (chans b c')" if "unsubscribe u c b = Some b'"
    using that by (auto simp: unsubscribe_def close_chan_def split: if_splits)
  show "c \<notin> set (subscribers b' v)" if "c \<in> set (subscribers b u)" "unsubscribe u c b = Some b'"
    using that(2) bus_okD(1)[OF ok] bus_okD(4)[OF ok that(1)]
    unfolding unsubscribe_member[OF ok that(1)] by (auto split: if_splits)
qed

section \<open>Runs of the broker\<close>

datatype bus_op =
    OpSubscribe string
  | OpPublish string Notification
  | OpCancel string nat
  | OpStream nat "select_case list"

fun bus_step :: "bus_op \<Rightarrow> NotificationBus \<Rightarrow> NotificationBus option" where
  "bus_step (OpSubscribe u) b = Some (snd (Subscribe u b))"
| "bus_step (OpPublish u n) b = Publish u n b"
| "bus_step (OpCancel u ch) b = unsubscribe u ch b"
| "bus_step (OpStream ch es) b = Some (snd (stream_loop ch es b))"

lemma bus_step_ok: "bus_ok b \<Longrightarrow> \<exists>b'. bus_step x b = Some b' \<and> bus_ok b'"
proof (cases x)
  case (OpSubscribe u)
  then show "bus_ok b \<Longrightarrow> ?thesis" using bus_ok_Subscribe[OF _ prod.collapse[symmetric]] by simp
next
  case (OpStream ch es)
  then show "bus_ok b \<Longrightarrow> ?thesis" using bus_ok_stream_loop[OF _ prod.collapse[symmetric]] by simp
next
  case (OpPublish u n)
  then show "bus_ok b \<Longrightarrow> ?thesis" using nb.pub_total nb.inv_pub by (metis bus_step.simps(2))
next
  case (OpCancel u ch)
  then show "bus_ok b \<Longrightarrow> ?thesis" using nb.unsub_total nb.inv_unsub by (metis bus_step.simps(3))
qed

text \<open>
  From the empty bus, no sequence of subscriptions, publications, cancellations (a repeated
  one included) and stream turns makes the broker panic: it never sends on a closed channel and
  never closes a channel twice. Every state it reaches is well formed, so no channel holds more
  than 32 notifications.
\<close>

theorem bus_never_panics: "\<exists>b. opt_fold bus_step ops GlobalBus = Some b \<and> bus_ok b"
proof -
  have "bus_ok b0 \<Longrightarrow> \<exists>b. opt_fold bus_step ops b0 = Some b \<and> bus_ok b" for b0
  proof (induction ops arbitrary: b0)
    case Nil
    then show ?case by simp
  next
    case (Cons x xs)
    then show ?case using bus_step_ok[OF Cons.prems, of x] by auto
  qed
  then show ?thesis using bus_ok_GlobalBus .
qed

end
