(* ===== verification/World.thy ===== *)
theory World
  imports Notification_Bus
begin

text \<open>
  The state the server works on and the world outside it. The tables of the PostgreSQL schema
  (\<open>migrations/*.up.sql\<close>) are lists of rows. Everything that is not code of the repository
  (the PostgreSQL connection, the Docker daemon, the host file system, the clock, randomness,
  hashing) is a parameter: a record of answers that may depend on the whole history of calls
  made so far. Every call is recorded in the history, so that statements about the order of
  effects can be made. Nothing is assumed about the answers unless a theorem says so.
\<close>

type_synonym time = int

section \<open>Tables\<close>

record plan_row =
  pl_id :: string
  pl_name :: string
  pl_max_containers :: int
  pl_max_memory_mb :: int
  pl_max_cpu_nanocores :: int
  pl_auto_stop_minutes :: int
  pl_price_usd_cents :: int
  pl_max_networks :: int
  pl_max_auto_restarts :: int

record user_row =
  u_id :: int
  u_name :: string
  u_email :: string
  u_password_hash :: string
  u_email_verified_at :: "time option"
  u_plan_id :: string
  u_role :: string

record container_row =
  c_id :: int
  c_container_id :: string
  c_project_name :: string
  c_folder_path :: string
  c_port :: string
  c_status :: string
  c_user_id :: int
  c_started_at :: "time option"
  c_image_name :: string
  c_created_at :: time
  c_restart_count :: int
  c_last_restart_at :: "time option"
  c_health_status :: string
  c_oom_killed :: bool
  c_circuit_open :: bool

record network_row =
  nw_id :: string
  nw_user_id :: int
  nw_name :: string
  nw_docker_net_id :: string
  nw_docker_net_name :: string
  nw_created_at :: time

record container_network_row =
  cn_container_id :: int
  cn_network_id :: string
  cn_alias :: string

record token_row =
  et_id :: string
  et_user_id :: int
  et_token_hash :: string
  et_type :: string
  et_expires_at :: time
  et_used_at :: "time option"

record api_key_row =
  ak_id :: string
  ak_user_id :: int
  ak_name :: string
  ak_key_hash :: string
  ak_key_prefix :: string
  ak_last_used_at :: "time option"
  ak_created_at :: time

record notification_row =
  nr_id :: string
  nr_user_id :: int
  nr_type :: string
  nr_title :: string
  nr_body :: string
  nr_metadata :: "string option"
  nr_read_at :: "time option"
  nr_created_at :: time

record template_row =
  t_id :: int
  t_name :: string
  t_description :: string
  t_image :: string
  t_category :: string
  t_tags :: string
  t_popular :: bool
  t_icon :: "string option"
  t_default_ports :: string
  t_created_at :: time

record image_row =
  i_id :: int
  i_name :: string
  i_tag :: string
  i_created_at :: time

record audit_row =
  al_user_id :: int
  al_action :: string
  al_resource :: string
  al_resource_id :: string
  al_ip :: string
  al_user_agent :: string
  al_metadata :: "string option"

text \<open>
  The two \<open>BIGSERIAL\<close> sequences the code draws ids from are part of the database, but a
  rollback does not return the values drawn.
\<close>

record database =
  users :: "user_row list"
  containers :: "container_row list"
  plans :: "plan_row list"
  networks :: "network_row list"
  container_networks :: "container_network_row list"
  email_tokens :: "token_row list"
  api_keys :: "api_key_row list"
  notifications :: "notification_row list"
  templates :: "template_row list"
  audit_log :: "audit_row list"
  images :: "image_row list"
  users_seq :: int
  containers_seq :: int

section \<open>Calls to the outside\<close>

record container_config =
  cf_image :: string
  cf_tty :: bool
  cf_working_dir :: string
  cf_cmd :: "string list"
  cf_exposed_port :: "string option"
  cf_label_user :: string
  cf_mount_source :: string
  cf_mount_target :: string
  cf_host_ip :: string
  cf_memory :: int
  cf_nano_cpus :: int

record tar_file =
  tf_name :: string
  tf_mode :: nat
  tf_size :: nat
  tf_data :: string

text \<open>\<open>smtp.PlainAuth\<close>: identity, user, password and host.\<close>

datatype smtp_auth = PlainAuth string string string string

datatype call =
    TxBegin | TxCommit | TxRollback | Sql string
  | ImageInspect string | ImagePull string | PullRead string | DockerNewClient
  | OsMkdirAll string | OsRemoveAll string
  | ContainerCreate container_config
  | ContainerStart string
  | ContainerStop string "nat option"
  | ContainerRemove string
  | ContainerRestart string nat
  | ContainerInspect string string
  | ContainerLogs string | ContainerStats string
  | ExecCreate string "string list" bool
  | ExecAttach string bool | ExecRead string
  | ExecResize string nat nat
  | CopyToContainer string string tar_file
  | NetworkCreate string string string
  | NetworkConnect string string string
  | NetworkDisconnect string string bool
  | NetworkInspect string | NetworkRemove string
  | RandRead nat | NewUUID | BcryptGenerate string
  | Sleep int
  | SendMail string smtp_auth string "string list" string
  | TlsDial string string | SmtpNewClient string | SmtpAuth smtp_auth | SmtpMail string | SmtpRcpt string
  | SmtpData | SmtpWrite string | SmtpDataClose | SmtpQuit
  | Printf string

record env =
  env_err :: "call list \<Rightarrow> call \<Rightarrow> string option"
  env_str :: "call list \<Rightarrow> call \<Rightarrow> string"
  env_strs :: "call list \<Rightarrow> call \<Rightarrow> string list"
  env_out :: "call list \<Rightarrow> call \<Rightarrow> string \<times> string"
  env_now :: "call list \<Rightarrow> time"
  int8in :: "string \<Rightarrow> int option"
  int8out :: "int \<Rightarrow> string"
  sha256hex :: "string \<Rightarrow> string"

record world =
  db :: database
  txn :: "database option"
  hist :: "call list"
  bus :: NotificationBus
  panicked :: bool

type_synonym 'a M = "(world, 'a) state"
type_synonym 'a R = "(world, 'a result) state"

section \<open>Making a call\<close>

text \<open>The history is newest first.\<close>

definition call :: "env \<Rightarrow> call \<Rightarrow> unit R" where
  "call env c =
     do { w \<leftarrow> State_Monad.get;
          State_Monad.set (w\<lparr>hist := c # hist w\<rparr>);
          State_Monad.return (case env_err env (hist w) c of None \<Rightarrow> Inr () | Some e \<Rightarrow> Inl (ErrText e)) }"

text \<open>A call that returns an identifier, several strings, or an output pair.\<close>

definition call_str :: "env \<Rightarrow> call \<Rightarrow> string R" where
  "call_str env c =
     do { w \<leftarrow> State_Monad.get; on_ok (call env c) (\<lambda>_. ok (env_str env (hist w) c)) }"

definition call_strs :: "env \<Rightarrow> call \<Rightarrow> string list R" where
  "call_strs env c =
     do { w \<leftarrow> State_Monad.get; on_ok (call env c) (\<lambda>_. ok (env_strs env (hist w) c)) }"

definition call_out :: "env \<Rightarrow> call \<Rightarrow> (string \<times> string) R" where
  "call_out env c =
     do { w \<leftarrow> State_Monad.get; on_ok (call env c) (\<lambda>_. ok (env_out env (hist w) c)) }"

definition now :: "env \<Rightarrow> time M" where
  "now env = do { w \<leftarrow> State_Monad.get; State_Monad.return (env_now env (hist w)) }"

section \<open>Statements and transactions\<close>

text \<open>
  The \<open>DB\<close> interface of the code is met by the pool and by a transaction. A statement on the
  pool works on the committed tables; one on a transaction works on the transaction's own view.
\<close>

datatype DB = Pool | Tx

definition view :: "DB \<Rightarrow> world \<Rightarrow> database" where
  "view h w = (case h of Pool \<Rightarrow> db w | Tx \<Rightarrow> (case txn w of None \<Rightarrow> db w | Some d \<Rightarrow> d))"

definition set_view :: "DB \<Rightarrow> database \<Rightarrow> world \<Rightarrow> world" where
  "set_view h d w =
     (case h of Pool \<Rightarrow> w\<lparr>db := d\<rparr> | Tx \<Rightarrow> (case txn w of None \<Rightarrow> w | Some _ \<Rightarrow> w\<lparr>txn := Some d\<rparr>))"

text \<open>
  A statement is a function from the tables to its result and the tables after it; it is given
  the identifier the server draws for it and the server's clock.
\<close>

definition sql :: "env \<Rightarrow> DB \<Rightarrow> string \<Rightarrow> (string \<Rightarrow> time \<Rightarrow> database \<Rightarrow> 'a result \<times> database) \<Rightarrow> 'a R" where
  "sql env h tag f =
     do { w \<leftarrow> State_Monad.get;
          on_ok (call env (Sql tag)) (\<lambda>_.
            do { w1 \<leftarrow> State_Monad.get;
                 (case f (env_str env (hist w) (Sql tag)) (env_now env (hist w)) (view h w1) of
                    (r, d) \<Rightarrow> do { State_Monad.set (set_view h d w1); State_Monad.return r }) }) }"

definition BeginTx :: "env \<Rightarrow> unit R" where
  "BeginTx env =
     on_ok (call env TxBegin) (\<lambda>_.
       do { w \<leftarrow> State_Monad.get; State_Monad.set (w\<lparr>txn := Some (db w)\<rparr>); ok () })"

text \<open>A commit that fails leaves the committed tables as they were.\<close>

definition Commit :: "env \<Rightarrow> unit R" where
  "Commit env =
     on_ok (call env TxCommit) (\<lambda>_.
       do { w \<leftarrow> State_Monad.get;
            State_Monad.set (w\<lparr>db := view Tx w, txn := None\<rparr>); ok () })"

text \<open>
  \<open>defer tx.Rollback(ctx)\<close>: a no-op after a commit; otherwise the view is dropped, except for
  the sequence values drawn.
\<close>

definition rollback_world :: "world \<Rightarrow> world" where
  "rollback_world w =
     (case txn w of
        None \<Rightarrow> w
      | Some d \<Rightarrow> w\<lparr>db := (db w)\<lparr>users_seq := users_seq d, containers_seq := containers_seq d\<rparr>, txn := None\<rparr>)"

definition Rollback :: "env \<Rightarrow> unit M" where
  "Rollback env =
     do { call env TxRollback; w \<leftarrow> State_Monad.get; State_Monad.set (rollback_world w) }"

text \<open>\<open>tx, err := BeginTx(ctx); ...; defer tx.Rollback(ctx)\<close> around the rest of a method.\<close>

definition in_tx :: "env \<Rightarrow> 'a R \<Rightarrow> 'a R" where
  "in_tx env body = on_ok (BeginTx env) (\<lambda>_. defer_do (Rollback env) body)"

text \<open>Publishing on the process-wide bus. A panic there takes the whole process down.\<close>

definition publish :: "string \<Rightarrow> Notification \<Rightarrow> unit M" where
  "publish userID n =
     do { w \<leftarrow> State_Monad.get;
          (case Publish userID n (bus w) of
             None \<Rightarrow> State_Monad.set (w\<lparr>panicked := True\<rparr>)
           | Some b \<Rightarrow> State_Monad.set (w\<lparr>bus := b\<rparr>)) }"

section \<open>Running calls and statements\<close>

lemma view_hist [simp]: "view h (w\<lparr>hist := x\<rparr>) = view h w"
  by (simp add: view_def split: DB.split option.split)

lemma view_Pool [simp]: "view Pool w = db w"
  by (simp add: view_def)

lemma view_Tx_Some [simp]: "txn w = Some d \<Longrightarrow> view Tx w = d"
  by (simp add: view_def)

lemma set_view_Pool [simp]: "set_view Pool d w = w\<lparr>db := d\<rparr>"
  by (simp add: set_view_def)

lemma set_view_Tx_Some [simp]: "txn w = Some d' \<Longrightarrow> set_view Tx d w = w\<lparr>txn := Some d\<rparr>"
  by (simp add: set_view_def)

lemma set_view_frame [simp]:
  "hist (set_view h d w) = hist w" "bus (set_view h d w) = bus w" "panicked (set_view h d w) = panicked w"
  by (simp_all add: set_view_def split: DB.split option.split)

lemma run_call [run_simps]:
  "run_state (call env c) w =
     (case env_err env (hist w) c of None \<Rightarrow> Inr () | Some e \<Rightarrow> Inl (ErrText e), w\<lparr>hist := c # hist w\<rparr>)"
  by (simp add: call_def run_simps)

lemma run_call_str [run_simps]:
  "run_state (call_str env c) w =
     (case env_err env (hist w) c of None \<Rightarrow> Inr (env_str env (hist w) c) | Some e \<Rightarrow> Inl (ErrText e),
      w\<lparr>hist := c # hist w\<rparr>)"
  by (simp add: call_str_def run_simps split: option.split)

lemma run_call_strs [run_simps]:
  "run_state (call_strs env c) w =
     (case env_err env (hist w) c of None \<Rightarrow> Inr (env_strs env (hist w) c) | Some e \<Rightarrow> Inl (ErrText e),
      w\<lparr>hist := c # hist w\<rparr>)"
  by (simp add: call_strs_def run_simps split: option.split)

lemma run_call_out [run_simps]:
  "run_state (call_out env c) w =
     (case env_err env (hist w) c of None \<Rightarrow> Inr (env_out env (hist w) c) | Some e \<Rightarrow> Inl (ErrText e),
      w\<lparr>hist := c # hist w\<rparr>)"
  by (simp add: call_out_def run_simps split: option.split)

lemma run_now [run_simps]: "run_state (now env) w = (env_now env (hist w), w)"
  by (simp add: now_def run_simps)

lemma run_sql [run_simps]:
  "run_state (sql env h tag f) w =
     (case env_err env (hist w) (Sql tag) of
        Some e \<Rightarrow> (Inl (ErrText e), w\<lparr>hist := Sql tag # hist w\<rparr>)
      | None \<Rightarrow>
          (case f (env_str env (hist w) (Sql tag)) (env_now env (hist w)) (view h w) of
             (r, d) \<Rightarrow> (r, set_view h d (w\<lparr>hist := Sql tag # hist w\<rparr>))))"
  by (simp add: sql_def run_simps split: option.split prod.split)

lemma run_BeginTx [run_simps]:
  "run_state (BeginTx env) w =
     (case env_err env (hist w) TxBegin of
        Some e \<Rightarrow> (Inl (ErrText e), w\<lparr>hist := TxBegin # hist w\<rparr>)
      | None \<Rightarrow> (Inr (), w\<lparr>hist := TxBegin # hist w, txn := Some (db w)\<rparr>))"
  by (simp add: BeginTx_def run_simps split: option.split)

lemma run_Commit [run_simps]:
  "run_state (Commit env) w =
     (case env_err env (hist w) TxCommit of
        Some e \<Rightarrow> (Inl (ErrText e), w\<lparr>hist := TxCommit # hist w\<rparr>)
      | None \<Rightarrow> (Inr (), w\<lparr>hist := TxCommit # hist w, db := view Tx w, txn := None\<rparr>))"
  by (simp add: Commit_def run_simps split: option.split)

lemma run_Rollback [run_simps]:
  "run_state (Rollback env) w = ((), rollback_world (w\<lparr>hist := TxRollback # hist w\<rparr>))"
  by (simp add: Rollback_def run_simps)

lemma run_in_tx [run_simps]:
  "run_state (in_tx env body) w =
     (case env_err env (hist w) TxBegin of
        Some e \<Rightarrow> (Inl (ErrText e), w\<lparr>hist := TxBegin # hist w\<rparr>)
      | None \<Rightarrow>
          (case run_state body (w\<lparr>hist := TxBegin # hist w, txn := Some (db w)\<rparr>) of
             (r, w') \<Rightarrow> (r, rollback_world (w'\<lparr>hist := TxRollback # hist w'\<rparr>))))"
  by (simp add: in_tx_def run_simps split: option.split)

lemma run_publish [run_simps]:
  "run_state (publish u n) w =
     ((), case Publish u n (bus w) of None \<Rightarrow> w\<lparr>panicked := True\<rparr> | Some b \<Rightarrow> w\<lparr>bus := b\<rparr>)"
  by (simp add: publish_def run_simps split: option.split)

lemma rollback_world_committed [simp]: "txn w = None \<Longrightarrow> rollback_world w = w"
  by (simp add: rollback_world_def)

lemma rollback_world_frame [simp]:
  "hist (rollback_world w) = hist w" "bus (rollback_world w) = bus w"
  "panicked (rollback_world w) = panicked w" "txn (rollback_world w) = None"
  by (simp_all add: rollback_world_def split: option.split)

section \<open>What a successful step did\<close>

lemma call_Inr [success_dests]:
  "run_state (call env c) w = (Inr x, w') \<Longrightarrow> env_err env (hist w) c = None \<and> w' = w\<lparr>hist := c # hist w\<rparr>"
  by (simp add: run_simps split: option.splits)

lemma call_str_Inr [success_dests]:
  "run_state (call_str env c) w = (Inr x, w') \<Longrightarrow>
     env_err env (hist w) c = None \<and> x = env_str env (hist w) c \<and> w' = w\<lparr>hist := c # hist w\<rparr>"
  by (simp add: run_simps split: option.splits)

lemma call_strs_Inr [success_dests]:
  "run_state (call_strs env c) w = (Inr x, w') \<Longrightarrow>
     env_err env (hist w) c = None \<and> x = env_strs env (hist w) c \<and> w' = w\<lparr>hist := c # hist w\<rparr>"
  by (simp add: run_simps split: option.splits)

lemma call_out_Inr [success_dests]:
  "run_state (call_out env c) w = (Inr x, w') \<Longrightarrow>
     env_err env (hist w) c = None \<and> x = env_out env (hist w) c \<and> w' = w\<lparr>hist := c # hist w\<rparr>"
  by (simp add: run_simps split: option.splits)

lemma Commit_Inr [success_dests]:
  "run_state (Commit env) w = (Inr x, w') \<Longrightarrow>
     env_err env (hist w) TxCommit = None \<and> w' = w\<lparr>hist := TxCommit # hist w, db := view Tx w, txn := None\<rparr>"
  by (simp add: run_simps split: option.splits)

lemma sql_Inr:
  assumes "run_state (sql env h tag f) w = (Inr x, w')"
  obtains d where "f (env_str env (hist w) (Sql tag)) (env_now env (hist w)) (view h w) = (Inr x, d)"
    and "w' = set_view h d (w\<lparr>hist := Sql tag # hist w\<rparr>)"
  using assms by (auto simp: run_sql split: option.splits prod.splits)

lemma in_tx_Inr:
  assumes "run_state (in_tx env body) w = (Inr x, w'')"
  obtains w' where "env_err env (hist w) TxBegin = None"
    and "run_state body (w\<lparr>hist := TxBegin # hist w, txn := Some (db w)\<rparr>) = (Inr x, w')"
    and "w'' = rollback_world (w'\<lparr>hist := TxRollback # hist w'\<rparr>)"
  using assms by (auto simp: run_simps split: option.splits prod.splits)

section \<open>Effects\<close>

text \<open>The history only grows.\<close>

definition hist_grows :: "world \<Rightarrow> world \<Rightarrow> bool" where
  "hist_grows w w' \<longleftrightarrow> (\<exists>cs. hist w' = cs @ hist w)"

interpretation hg: effect hist_grows
  by unfold_locales (auto simp: hist_grows_def)

text \<open>The committed tables do not change.\<close>

definition same_db :: "world \<Rightarrow> world \<Rightarrow> bool" where
  "same_db w w' \<longleftrightarrow> db w' = db w"

interpretation sd: effect same_db
  by unfold_locales (auto simp: same_db_def)

lemma hist_grows_call: "state_io_rel hist_grows (call env c)"
  "state_io_rel hist_grows (call_str env c)" "state_io_rel hist_grows (call_strs env c)"
  "state_io_rel hist_grows (call_out env c)" "state_io_rel hist_grows (now env)"
  by (rule state_io_relI, simp add: run_simps hist_grows_def, blast?)+

end
