(* ===== verification/Go_Std.thy ===== *)
theory Go_Std
  imports Prelude "HOL-Library.Sublist"
begin

text \<open>
  The functions of Go's standard library that the sources use: \<open>strings\<close>, \<open>path/filepath\<close> (on
  Unix), \<open>strconv\<close>, \<open>encoding/hex\<close> and \<open>net.SplitHostPort\<close>. A Go string is a sequence of
  bytes; white space and letter case are those of ASCII.
\<close>

section \<open>strings\<close>

text \<open>\<open>strings.Split(s, sep)\<close> for a separator of one byte: there is always at least one piece.\<close>

fun split_on :: "char \<Rightarrow> string \<Rightarrow> string list" where
  "split_on c [] = [[]]"
| "split_on c (x # xs) =
     (if x = c then [] # split_on c xs
      else (case split_on c xs of [] \<Rightarrow> [[x]] | y # ys \<Rightarrow> (x # y) # ys))"

text \<open>\<open>strings.SplitN(s, sep, 2)\<close>.\<close>

definition splitN2 :: "char \<Rightarrow> string \<Rightarrow> string list" where
  "splitN2 c s =
     (case dropWhile (\<lambda>x. x \<noteq> c) s of [] \<Rightarrow> [s] | _ # rest \<Rightarrow> [takeWhile (\<lambda>x. x \<noteq> c) s, rest])"

fun join_on :: "char \<Rightarrow> string list \<Rightarrow> string" where
  "join_on c [] = []"
| "join_on c [s] = s"
| "join_on c (s # t # ss) = s @ c # join_on c (t # ss)"

definition HasPrefix :: "string \<Rightarrow> string \<Rightarrow> bool" where
  "HasPrefix s p \<longleftrightarrow> prefix p s"

definition is_space :: "char \<Rightarrow> bool" where
  "is_space c \<longleftrightarrow> of_char c \<in> {9, 10, 11, 12, 13, 32 :: nat}"

definition TrimRight :: "(char \<Rightarrow> bool) \<Rightarrow> string \<Rightarrow> string" where
  "TrimRight P s = rev (dropWhile P (rev s))"

definition TrimSpace :: "string \<Rightarrow> string" where
  "TrimSpace s = TrimRight is_space (dropWhile is_space s)"

definition lower_char :: "char \<Rightarrow> char" where
  "lower_char c = (let n = (of_char c :: nat) in if 65 \<le> n \<and> n \<le> 90 then char_of (n + 32) else c)"

definition ToLower :: "string \<Rightarrow> string" where
  "ToLower s = map lower_char s"

lemma split_on_nonempty [simp]: "split_on c s \<noteq> []"
  by (induction s) (auto split: list.split)

lemma join_split [simp]: "join_on c (split_on c s) = s"
proof (induction s)
  case Nil
  then show ?case by simp
next
  case (Cons x xs)
  then show ?case
    by (cases "split_on c xs"; cases "tl (split_on c xs)") auto
qed

lemma split_on_no_sep: "x \<in> set (split_on c s) \<Longrightarrow> c \<notin> set x"
proof (induction s arbitrary: x)
  case Nil
  then show ?case by simp
next
  case (Cons y ys)
  then show ?case
    by (cases "split_on c ys") (fastforce split: if_splits)+
qed

lemma split_on_plain: "c \<notin> set s \<Longrightarrow> split_on c s = [s]"
  by (induction s) auto

lemma split_on_append: "c \<notin> set s \<Longrightarrow> split_on c (s @ c # t) = s # split_on c t"
  by (induction s) auto

lemma split_join: "xs \<noteq> [] \<Longrightarrow> (\<And>x. x \<in> set xs \<Longrightarrow> c \<notin> set x) \<Longrightarrow> split_on c (join_on c xs) = xs"
  by (induction c xs rule: join_on.induct) (auto simp: split_on_plain split_on_append)

text \<open>\<open>Split\<close> yields exactly two pieces when the separator occurs exactly once.\<close>

lemma length_split_on: "length (split_on c s) = Suc (count_list s c)"
  by (induction s) (auto split: list.split)

section \<open>path/filepath\<close>

text \<open>
  \<open>Clean\<close>: the elements between slashes are put on a stack (newest first); an empty or dot element is
  dropped and a dot-dot element removes the one before it, or is dropped at the root.
\<close>

abbreviation slash :: char where
  "slash \<equiv> CHR ''/''"

definition dot :: string where
  "dot = ''.''"

definition dotdot :: string where
  "dotdot = ''..''"

lemma dots_distinct [simp]: "dot \<noteq> []" "dotdot \<noteq> []" "dot \<noteq> dotdot" "dotdot \<noteq> dot" "hd dot \<noteq> slash" "slash \<notin> set dot" "slash \<notin> set dotdot"
  by (simp_all add: dot_def dotdot_def)

fun clean_elems :: "bool \<Rightarrow> string list \<Rightarrow> string list \<Rightarrow> string list" where
  "clean_elems rooted st [] = st"
| "clean_elems rooted st (e # es) =
     (if e = [] \<or> e = dot then clean_elems rooted st es
      else if e = dotdot then
        (case st of
           [] \<Rightarrow> (if rooted then clean_elems rooted [] es else clean_elems rooted [dotdot] es)
         | s # ss \<Rightarrow> (if s = dotdot then clean_elems rooted (dotdot # st) es else clean_elems rooted ss es))
      else clean_elems rooted (e # st) es)"

definition Clean :: "string \<Rightarrow> string" where
  "Clean p =
     (if p = [] then dot
      else let rooted = (hd p = slash); body = join_on slash (rev (clean_elems rooted [] (split_on slash p)))
           in if rooted then slash # body else if body = [] then dot else body)"

definition Base :: "string \<Rightarrow> string" where
  "Base p =
     (if p = [] then dot
      else let q = TrimRight (\<lambda>c. c = slash) p
           in if q = [] then [slash] else rev (takeWhile (\<lambda>c. c \<noteq> slash) (rev q)))"

definition Dir :: "string \<Rightarrow> string" where
  "Dir p = Clean (rev (dropWhile (\<lambda>c. c \<noteq> slash) (rev p)))"

definition Join :: "string list \<Rightarrow> string" where
  "Join es = (case dropWhile (\<lambda>e. e = []) es of [] \<Rightarrow> [] | fs \<Rightarrow> Clean (join_on slash fs))"

definition proper_elem :: "string \<Rightarrow> bool" where
  "proper_elem e \<longleftrightarrow> e \<noteq> [] \<and> e \<noteq> dot \<and> e \<noteq> dotdot \<and> slash \<notin> set e"

lemma clean_elems_inv:
  assumes "\<And>e. e \<in> set st \<Longrightarrow> Q e" and "\<And>e. e \<in> set es \<Longrightarrow> e \<noteq> [] \<Longrightarrow> e \<noteq> dot \<Longrightarrow> e \<noteq> dotdot \<Longrightarrow> Q e"
    and dots: "\<not> rooted \<Longrightarrow> Q dotdot" and "rooted \<Longrightarrow> dotdot \<notin> set st"
  shows "\<forall>e \<in> set (clean_elems rooted st es). Q e \<and> (rooted \<longrightarrow> e \<noteq> dotdot)"
  using assms(1,2,4)
proof (induction es arbitrary: st)
  case Nil
  then show ?case by auto
next
  case (Cons e es)
  consider (skip) "e = [] \<or> e = dot" | (up) "e = dotdot" | (push) "e \<noteq> []" "e \<noteq> dot" "e \<noteq> dotdot"
    by blast
  then show ?case
  proof cases
    case skip
    have "clean_elems rooted st (e # es) = clean_elems rooted st es" using skip by auto
    then show ?thesis using Cons.IH[of st] Cons.prems by (metis list.set_intros(2))
  next
    case push
    have "clean_elems rooted st (e # es) = clean_elems rooted (e # st) es" using push by simp
    moreover have "\<forall>x \<in> set (clean_elems rooted (e # st) es). Q x \<and> (rooted \<longrightarrow> x \<noteq> dotdot)"
      by (rule Cons.IH) (use Cons.prems push in auto)
    ultimately show ?thesis by simp
  next
    case up
    define st' where "st' = (case st of [] \<Rightarrow> if rooted then [] else [dotdot] | s # ss \<Rightarrow> if s = dotdot then dotdot # st else ss)"
    have "clean_elems rooted st (e # es) = clean_elems rooted st' es"
      using up by (simp add: st'_def split: list.split)
    moreover have "\<forall>x \<in> set (clean_elems rooted st' es). Q x \<and> (rooted \<longrightarrow> x \<noteq> dotdot)"
      by (rule Cons.IH) (use Cons.prems dots in \<open>auto simp: st'_def split: list.splits if_splits\<close>)
    ultimately show ?thesis by simp
  qed
qed

lemma clean_elems_rooted:
  assumes "\<And>e. e \<in> set es \<Longrightarrow> slash \<notin> set e"
  shows "\<forall>e \<in> set (clean_elems True [] es). proper_elem e"
  using clean_elems_inv[of "[]" "\<lambda>e. e \<noteq> [] \<and> e \<noteq> dot \<and> slash \<notin> set e" es True] assms
  by (auto simp: proper_elem_def)

text \<open>A rooted path is cleaned to the root followed by proper elements: no dot-dot survives.\<close>

lemma Clean_rooted:
  assumes "p \<noteq> []" and "hd p = slash"
  obtains es where "Clean p = slash # join_on slash es" and "\<forall>e \<in> set es. proper_elem e"
proof
  let ?es = "rev (clean_elems True [] (split_on slash p))"
  show "Clean p = slash # join_on slash ?es"
    using assms by (simp add: Clean_def Let_def)
  show "\<forall>e \<in> set ?es. proper_elem e"
    using clean_elems_rooted split_on_no_sep by auto
qed

lemma Clean_unrooted_hd:
  assumes "p = [] \<or> hd p \<noteq> slash"
  shows "Clean p \<noteq> [] \<and> hd (Clean p) \<noteq> slash"
proof -
  have join: "xs \<noteq> [] \<Longrightarrow> \<forall>e \<in> set xs. e \<noteq> [] \<and> slash \<notin> set e \<Longrightarrow> join_on slash xs \<noteq> [] \<and> hd (join_on slash xs) \<noteq> slash" for xs
    by (cases "(slash, xs)" rule: join_on.cases) (auto simp: hd_append dest: hd_in_set)
  let ?es = "rev (clean_elems False [] (split_on slash p))"
  have "\<forall>e \<in> set ?es. e \<noteq> [] \<and> slash \<notin> set e"
    using clean_elems_inv[of "[]" "\<lambda>e. e \<noteq> [] \<and> slash \<notin> set e" "split_on slash p" False] split_on_no_sep by auto
  with join[of ?es] assms show ?thesis
    by (cases "?es = []") (auto simp: Clean_def Let_def)
qed

text \<open>What a rooted cleaned path looks like between its slashes.\<close>

lemma split_Clean_rooted:
  assumes "p \<noteq> []" and "hd p = slash"
  obtains es where "split_on slash (Clean p) = [] # es" and "es = [[]] \<or> (es \<noteq> [] \<and> (\<forall>e \<in> set es. proper_elem e))"
proof -
  obtain es where es: "Clean p = slash # join_on slash es" "\<forall>e \<in> set es. proper_elem e"
    using Clean_rooted[OF assms] .
  show ?thesis
  proof (cases "es = []")
    case True
    with es show ?thesis by (intro that[of "[[]]"]) auto
  next
    case False
    with es(2) have "split_on slash (join_on slash es) = es"
      by (intro split_join) (auto simp: proper_elem_def)
    with es False show ?thesis by (intro that[of es]) auto
  qed
qed

section \<open>strconv, encoding/hex\<close>

definition digit :: "nat \<Rightarrow> char" where
  "digit k = char_of (48 + k)"

definition digit_val :: "char \<Rightarrow> nat option" where
  "digit_val c = (let n = (of_char c :: nat) in if 48 \<le> n \<and> n \<le> 57 then Some (n - 48) else None)"

fun nat_str :: "nat \<Rightarrow> string" where
  "nat_str n = (if n < 10 then [digit n] else nat_str (n div 10) @ [digit (n mod 10)])"

declare nat_str.simps [simp del]

fun parse_nat :: "nat \<Rightarrow> string \<Rightarrow> nat option" where
  "parse_nat acc [] = Some acc"
| "parse_nat acc (c # cs) = (case digit_val c of None \<Rightarrow> None | Some k \<Rightarrow> parse_nat (10 * acc + k) cs)"

definition FormatInt :: "int \<Rightarrow> string" where
  "FormatInt i = (if i < 0 then CHR ''-'' # nat_str (nat (- i)) else nat_str (nat i))"

text \<open>
  \<open>strconv.ParseInt(s, 10, 64)\<close> (and \<open>Atoi\<close> on a 64-bit platform): the value and whether there is an error. A
  syntax error gives 0, a range error the nearest bound.
\<close>

definition ParseInt :: "string \<Rightarrow> int \<times> bool" where
  "ParseInt s =
     (let (neg, ds) = (case s of [] \<Rightarrow> (False, []) | c # cs \<Rightarrow>
                         if c = CHR ''-'' then (True, cs) else if c = CHR ''+'' then (False, cs) else (False, s))
      in if ds = [] then (0, True)
         else case parse_nat 0 ds of
            None \<Rightarrow> (0, True)
          | Some n \<Rightarrow>
              if \<not> neg \<and> 2 ^ 63 \<le> int n then (2 ^ 63 - 1, True)
              else if neg \<and> 2 ^ 63 < int n then (- (2 ^ 63), True)
              else (if neg then - int n else int n, False))"

definition hex_digit :: "nat \<Rightarrow> char" where
  "hex_digit k = (if k < 10 then char_of (48 + k) else char_of (87 + k))"

definition hex_EncodeToString :: "string \<Rightarrow> string" where
  "hex_EncodeToString bs = concat (map (\<lambda>c. let n = (of_char c :: nat) in [hex_digit (n div 16), hex_digit (n mod 16)]) bs)"

lemma length_hex [simp]: "length (hex_EncodeToString bs) = 2 * length bs"
  by (induction bs) (auto simp: hex_EncodeToString_def Let_def)

lemma digit_val_digit [simp]: "k < 10 \<Longrightarrow> digit_val (digit k) = Some k"
  by (simp add: digit_val_def digit_def Let_def)

lemma parse_nat_append: "parse_nat a (xs @ ys) = Option.bind (parse_nat a xs) (\<lambda>b. parse_nat b ys)"
  by (induction xs arbitrary: a) (auto split: option.split)

lemma parse_nat_str: "parse_nat 0 (nat_str n) = Some n"
proof (induction n rule: nat_str.induct)
  case (1 n)
  show ?case
  proof (cases "n < 10")
    case True
    then show ?thesis by (subst nat_str.simps) simp
  next
    case False
    with 1 show ?thesis by (subst nat_str.simps) (simp add: parse_nat_append)
  qed
qed

lemma nat_str_head: "\<exists>k < 10. \<exists>cs. nat_str n = digit k # cs"
proof (induction n rule: nat_str.induct)
  case (1 n)
  then show ?case
    by (cases "n < 10") (subst nat_str.simps, fastforce)+
qed

lemma digit_not_sign: "k < 10 \<Longrightarrow> digit k \<noteq> CHR ''-'' \<and> digit k \<noteq> CHR ''+''"
  using digit_val_digit[of k] by (auto simp: digit_val_def Let_def)

lemma ParseInt_FormatInt:
  assumes "- (2 ^ 63) \<le> i" and "i < 2 ^ 63"
  shows "ParseInt (FormatInt i) = (i, False)"
proof -
  obtain k cs where k: "k < 10" "nat_str (nat \<bar>i\<bar>) = digit k # cs"
    using nat_str_head by blast
  have p: "parse_nat 0 (digit k # cs) = Some (nat \<bar>i\<bar>)"
    using parse_nat_str[of "nat \<bar>i\<bar>"] k by simp
  show ?thesis
  proof (cases "i < 0")
    case True
    with k have "FormatInt i = CHR ''-'' # digit k # cs" by (simp add: FormatInt_def)
    with p assms True show ?thesis by (simp add: ParseInt_def del: parse_nat.simps)
  next
    case False
    with k have f: "FormatInt i = digit k # cs" by (simp add: FormatInt_def)
    from False assms have "\<not> 2 ^ 63 \<le> nat \<bar>i\<bar>" by (simp add: not_le nat_less_iff)
    with f p False digit_not_sign[OF k(1)] show ?thesis
      by (simp add: ParseInt_def del: parse_nat.simps)
  qed
qed

section \<open>net\<close>

fun index_of :: "char \<Rightarrow> string \<Rightarrow> nat option" where
  "index_of c [] = None"
| "index_of c (x # xs) = (if x = c then Some 0 else map_option Suc (index_of c xs))"

definition last_index_of :: "char \<Rightarrow> string \<Rightarrow> nat option" where
  "last_index_of c s = map_option (\<lambda>i. length s - 1 - i) (index_of c (rev s))"

text \<open>\<open>net.SplitHostPort\<close>: host and port, or \<open>None\<close> for any of its address errors.\<close>

definition SplitHostPort :: "string \<Rightarrow> (string \<times> string) option" where
  "SplitHostPort s =
     (case last_index_of CHR '':'' s of
        None \<Rightarrow> None
      | Some i \<Rightarrow>
          (case (if hd s = CHR ''['' then
                   (case index_of CHR '']'' s of
                      None \<Rightarrow> None
                    | Some e \<Rightarrow> if e + 1 = i then Some (take (e - 1) (drop 1 s), 1, e + 1) else None)
                 else if CHR '':'' \<in> set (take i s) then None
                 else Some (take i s, 0, 0)) of
             None \<Rightarrow> None
           | Some (host, j, k) \<Rightarrow>
               if CHR ''['' \<in> set (drop j s) \<or> CHR '']'' \<in> set (drop k s) then None
               else Some (host, drop (i + 1) s)))"

end
