(* ===== verification/Http.thy ===== *)
theory Http
  imports World Go_Std
begin

text \<open>
  Requests and responses as the handlers see them, and \<open>utils/utils.go\<close>. The body of a request is
  what \<open>json.Decode\<close> makes of it for the struct the handler decodes into; the value
  stored under \<open>UserIDKey\<close> in the request's context is \<open>rq_user\<close>. A response is its status, its
  headers in the order they were set, and its body. \<open>rw_flush\<close> and \<open>rw_hijack\<close> say which
  optional interfaces the \<open>ResponseWriter\<close> handed to the handler implements.
\<close>

record 'b request =
  rq_method :: string
  rq_path :: string
  rq_header :: "string \<Rightarrow> string"
  rq_query :: "string \<Rightarrow> string"
  rq_vars :: "string \<Rightarrow> string"
  rq_remote :: string
  rq_user :: "string option"
  rq_body :: "'b result"
  rw_flush :: bool
  rw_hijack :: bool

record 'd APIResponse =
  Success :: bool
  Data :: "'d option"
  Error :: string

datatype 'd payload = NoBody | Raw string | Json "'d APIResponse"

record 'd response =
  rs_status :: nat
  rs_headers :: "(string \<times> string) list"
  rs_payload :: "'d payload"

type_synonym ('b, 'd) handler = "'b request \<Rightarrow> 'd response M"

definition content_json :: "string \<times> string" where
  "content_json = (''Content-Type'', ''application/json'')"

definition RespondJSON :: "'d APIResponse \<Rightarrow> nat \<Rightarrow> 'd response M" where
  "RespondJSON data status =
     State_Monad.return \<lparr>rs_status = status, rs_headers = [content_json], rs_payload = Json data\<rparr>"

definition RespondError :: "string \<Rightarrow> nat \<Rightarrow> 'd response M" where
  "RespondError message status = RespondJSON \<lparr>Success = False, Data = None, Error = message\<rparr> status"

definition RespondData :: "'d \<Rightarrow> nat \<Rightarrow> 'd response M" where
  "RespondData d status = RespondJSON \<lparr>Success = True, Data = Some d, Error = []\<rparr> status"

definition RespondSuccess :: "nat \<Rightarrow> 'd response M" where
  "RespondSuccess status = RespondJSON \<lparr>Success = True, Data = None, Error = []\<rparr> status"

definition method_not_allowed :: "'d response M" where
  "method_not_allowed = RespondError ''method not allowed'' 405"

text \<open>The UTF-8 bytes of the dash some messages contain.\<close>

definition em_dash :: string where
  "em_dash = [CHR 0xE2, CHR 0x80, CHR 0x94]"

definition with_user :: "string \<Rightarrow> 'b request \<Rightarrow> 'b request" where
  "with_user uid r = r\<lparr>rq_user := Some uid\<rparr>"

text \<open>\<open>userID, _ := r.Context().Value(utils.UserIDKey).(string)\<close>\<close>

definition user_or_empty :: "'b request \<Rightarrow> string" where
  "user_or_empty r = (case rq_user r of None \<Rightarrow> [] | Some u \<Rightarrow> u)"

text \<open>The text of an error, for the handlers that put it into the response.\<close>

fun Error_text :: "go_error \<Rightarrow> string" where
  "Error_text (ErrText s) = s"
| "Error_text ErrNoRows = ''no rows in result set''"
| "Error_text ErrNotFound = ''container not found''"
| "Error_text UserNotFound = ''User Not Found''"
| "Error_text (Wrap s e) = s @ Error_text e"

lemma run_Respond [run_simps]:
  "run_state (RespondJSON a n) w = (\<lparr>rs_status = n, rs_headers = [content_json], rs_payload = Json a\<rparr>, w)"
  by (simp add: RespondJSON_def run_simps)

lemma run_RespondError [run_simps]:
  "run_state (RespondError m n) w =
     (\<lparr>rs_status = n, rs_headers = [content_json], rs_payload = Json \<lparr>Success = False, Data = None, Error = m\<rparr>\<rparr>, w)"
  by (simp add: RespondError_def run_simps)

lemma run_RespondData [run_simps]:
  "run_state (RespondData d n) w =
     (\<lparr>rs_status = n, rs_headers = [content_json], rs_payload = Json \<lparr>Success = True, Data = Some d, Error = []\<rparr>\<rparr>, w)"
  by (simp add: RespondData_def run_simps)

end
