(* ===== verification/Repository.thy ===== *)
theory Repository
  imports World
begin

text \<open>
  The SQL statements of \<open>service/repository.go\<close>, \<open>service/planService.go\<close> and
  \<open>repository/*.go\<close> as functions on the tables, the repositories that issue them, and the
  integrity of the database: keys are unique and foreign keys point at rows, as the migrations
  declare, and every statement keeps it.
\<close>

section \<open>Data transfer structs\<close>

record ContainerInfo =
  ContainerID :: string
  ProjectID :: string
  ProjectName :: string
  ImageName :: string
  FolderPath :: string
  Port :: string
  Status :: string
  UserId :: string
  StartedAt :: "time option"
  AutoStopAt :: "time option"
  CreatedAt :: "time option"

record User =
  usr_Id :: string
  usr_Name :: string
  usr_Email :: string
  usr_Password :: string
  usr_EmailVerified :: bool
  usr_Role :: string
  usr_PlanID :: string
  usr_Containers :: "ContainerInfo list option"

record Plan =
  plan_ID :: string
  plan_Name :: string
  MaxContainers :: int
  MaxMemoryMB :: int
  MaxCPUNanoCores :: int
  AutoStopMinutes :: int
  PriceUSDCents :: int

definition empty_info :: ContainerInfo where
  "empty_info = \<lparr>ContainerID = [], ProjectID = [], ProjectName = [], ImageName = [], FolderPath = [],
     Port = [], Status = [], UserId = [], StartedAt = None, AutoStopAt = None, CreatedAt = None\<rparr>"

section \<open>Statements\<close>

text \<open>
  \<open>$1::bigint\<close> on a string the server cannot read is an error of the statement. A query whose
  row count is zero makes \<open>Scan\<close> return \<open>pgx.ErrNoRows\<close>.
\<close>

definition bad_bigint :: go_error where
  "bad_bigint = ErrText ''invalid input syntax for type bigint''"

definition sql_violation :: "string \<Rightarrow> go_error" where
  "sql_violation c = ErrText c"

definition with_bigint :: "env \<Rightarrow> string \<Rightarrow> (int \<Rightarrow> 'a result \<times> database) \<Rightarrow> database \<Rightarrow> 'a result \<times> database" where
  "with_bigint env s f d = (case int8in env s of None \<Rightarrow> (Inl bad_bigint, d) | Some n \<Rightarrow> f n)"

text \<open>
  \<open>Query\<close> returns before the statement has run: an error of the execution ends the rows early, and only \<open>rows.Err()\<close>
  tells. A caller that does not ask sees no rows.
\<close>

definition rows_with_bigint :: "env \<Rightarrow> string \<Rightarrow> (int \<Rightarrow> 'a list) \<Rightarrow> 'a list result" where
  "rows_with_bigint env s f = Inr (case int8in env s of None \<Rightarrow> [] | Some n \<Rightarrow> f n)"

definition first_row :: "'r list \<Rightarrow> 'r result" where
  "first_row rs = (case rs of [] \<Rightarrow> Inl ErrNoRows | r # _ \<Rightarrow> Inr r)"

text \<open>\<open>SELECT id::text, container_id, ... FROM containers\<close>, scanned into a \<open>ContainerInfo\<close>.\<close>

definition scan_container :: "env \<Rightarrow> container_row \<Rightarrow> ContainerInfo" where
  "scan_container env r =
     empty_info\<lparr>ProjectID := int8out env (c_id r), ContainerID := c_container_id r,
       ProjectName := c_project_name r, FolderPath := c_folder_path r, Port := c_port r,
       Status := c_status r, StartedAt := c_started_at r, ImageName := c_image_name r,
       CreatedAt := Some (c_created_at r)\<rparr>"

definition insert_container :: "env \<Rightarrow> ContainerInfo \<Rightarrow> time \<Rightarrow> database \<Rightarrow> string result \<times> database" where
  "insert_container env info t d =
     (case int8in env (UserId info) of
        None \<Rightarrow> (Inl bad_bigint, d)
      | Some uid \<Rightarrow>
          let n = containers_seq d; d1 = d\<lparr>containers_seq := n + 1\<rparr>
          in if ContainerID info \<in> c_container_id ` set (containers d)
             then (Inl (sql_violation ''containers_container_id_key''), d1)
             else if uid \<notin> u_id ` set (users d)
             then (Inl (sql_violation ''fk_containers_user''), d1)
             else (Inr (int8out env n),
                   d1\<lparr>containers := containers d @
                     [\<lparr>c_id = n, c_container_id = ContainerID info, c_project_name = ProjectName info,
                       c_folder_path = FolderPath info, c_port = Port info, c_status = Status info,
                       c_user_id = uid, c_started_at = StartedAt info, c_image_name = ImageName info,
                       c_created_at = t, c_restart_count = 0, c_last_restart_at = None,
                       c_health_status = ''none'', c_oom_killed = False, c_circuit_open = False\<rparr>]\<rparr>))"

definition select_container :: "env \<Rightarrow> string \<Rightarrow> database \<Rightarrow> ContainerInfo result \<times> database" where
  "select_container env pid d =
     with_bigint env pid (\<lambda>n.
       (map_sum (\<lambda>e. e) (scan_container env) (first_row (filter (\<lambda>r. c_id r = n) (containers d))), d)) d"

text \<open>The rows of \<open>containers\<close> matching a condition, rewritten.\<close>

definition update_containers :: "(container_row \<Rightarrow> bool) \<Rightarrow> (container_row \<Rightarrow> container_row) \<Rightarrow> database \<Rightarrow> database" where
  "update_containers P f d = d\<lparr>containers := map (\<lambda>r. if P r then f r else r) (containers d)\<rparr>"

definition update_container :: "env \<Rightarrow> string \<Rightarrow> ContainerInfo \<Rightarrow> database \<Rightarrow> ContainerInfo result \<times> database" where
  "update_container env pid info d =
     with_bigint env pid (\<lambda>n.
       let f = (\<lambda>r. r\<lparr>c_container_id := ContainerID info, c_project_name := ProjectName info,
                      c_folder_path := FolderPath info, c_port := Port info, c_status := Status info,
                      c_started_at := StartedAt info, c_image_name := ImageName info\<rparr>);
           d1 = update_containers (\<lambda>r. c_id r = n) f d
       in if \<exists>r \<in> set (containers d). c_id r \<noteq> n \<and> c_container_id r = ContainerID info \<and>
              (\<exists>r' \<in> set (containers d). c_id r' = n)
          then (Inl (sql_violation ''containers_container_id_key''), d)
          else (map_sum (\<lambda>e. e) (scan_container env) (first_row (filter (\<lambda>r. c_id r = n) (containers d1))), d1)) d"

text \<open>Deleting rows cascades along the foreign keys declared \<open>ON DELETE CASCADE\<close>.\<close>

definition delete_containers :: "(container_row \<Rightarrow> bool) \<Rightarrow> database \<Rightarrow> nat \<times> database" where
  "delete_containers P d =
     (length (filter P (containers d)),
      d\<lparr>containers := filter (\<lambda>r. \<not> P r) (containers d),
        container_networks :=
          filter (\<lambda>m. \<not> (\<exists>r \<in> set (containers d). P r \<and> c_id r = cn_container_id m)) (container_networks d)\<rparr>)"

definition delete_container :: "env \<Rightarrow> string \<Rightarrow> database \<Rightarrow> nat result \<times> database" where
  "delete_container env pid d =
     with_bigint env pid (\<lambda>n. case delete_containers (\<lambda>r. c_id r = n) d of (k, d1) \<Rightarrow> (Inr k, d1)) d"

definition select_running_before :: "env \<Rightarrow> time \<Rightarrow> database \<Rightarrow> ContainerInfo list result \<times> database" where
  "select_running_before env cutoff d =
     (Inr (map (scan_container env)
        (filter (\<lambda>r. c_status r = ''running'' \<and> (case c_started_at r of None \<Rightarrow> False | Some t \<Rightarrow> t < cutoff))
           (containers d))), d)"

section \<open>ContainerRepo\<close>

definition repo_CreateContainer :: "env \<Rightarrow> DB \<Rightarrow> ContainerInfo \<Rightarrow> string R" where
  "repo_CreateContainer env h info = sql env h ''insert container'' (\<lambda>_ t. insert_container env info t)"

definition no_rows_to :: "go_error \<Rightarrow> go_error \<Rightarrow> go_error" where
  "no_rows_to e' e = (if errors_is e ErrNoRows then e' else e)"

definition GetContainerByID :: "env \<Rightarrow> DB \<Rightarrow> string \<Rightarrow> ContainerInfo R" where
  "GetContainerByID env h pid =
     map_err (no_rows_to ErrNotFound) (sql env h ''select container'' (\<lambda>_ _. select_container env pid))"

definition UpdateContainer :: "env \<Rightarrow> DB \<Rightarrow> string \<Rightarrow> ContainerInfo \<Rightarrow> ContainerInfo R" where
  "UpdateContainer env h pid info =
     map_err (no_rows_to ErrNotFound) (sql env h ''update container'' (\<lambda>_ _. update_container env pid info))"

definition DeleteContainer :: "env \<Rightarrow> DB \<Rightarrow> string \<Rightarrow> unit R" where
  "DeleteContainer env h pid =
     on_ok (sql env h ''delete container'' (\<lambda>_ _. delete_container env pid)) (\<lambda>n.
       if n = 0 then fail ErrNotFound else ok ())"

definition GetRunningContainersOlderThan :: "env \<Rightarrow> DB \<Rightarrow> time \<Rightarrow> ContainerInfo list R" where
  "GetRunningContainersOlderThan env h maxAge =
     do { t \<leftarrow> now env;
          sql env h ''select running'' (\<lambda>_ _. select_running_before env (t - maxAge)) }"

section \<open>UserRepo\<close>

definition empty_user :: User where
  "empty_user = \<lparr>usr_Id = [], usr_Name = [], usr_Email = [], usr_Password = [], usr_EmailVerified = False,
     usr_Role = [], usr_PlanID = [], usr_Containers = None\<rparr>"

definition scan_user :: "env \<Rightarrow> user_row \<Rightarrow> User" where
  "scan_user env r =
     empty_user\<lparr>usr_Id := int8out env (u_id r), usr_Name := u_name r, usr_Email := u_email r,
       usr_EmailVerified := (u_email_verified_at r \<noteq> None), usr_Role := u_role r, usr_PlanID := u_plan_id r\<rparr>"

definition insert_user :: "env \<Rightarrow> User \<Rightarrow> database \<Rightarrow> string result \<times> database" where
  "insert_user env usr d =
     (let n = users_seq d; d1 = d\<lparr>users_seq := n + 1\<rparr>
      in if usr_Email usr \<in> u_email ` set (users d)
         then (Inl (sql_violation ''users_email_key''), d1)
         else if ''free'' \<notin> pl_id ` set (plans d)
         then (Inl (sql_violation ''users_plan_id_fkey''), d1)
         else (Inr (int8out env n),
               d1\<lparr>users := users d @
                 [\<lparr>u_id = n, u_name = usr_Name usr, u_email = usr_Email usr, u_password_hash = usr_Password usr,
                   u_email_verified_at = None, u_plan_id = ''free'', u_role = ''user''\<rparr>]\<rparr>))"

definition select_user_by_id :: "env \<Rightarrow> string \<Rightarrow> database \<Rightarrow> User result \<times> database" where
  "select_user_by_id env uid d =
     with_bigint env uid (\<lambda>n.
       (map_sum (\<lambda>e. e) (scan_user env) (first_row (filter (\<lambda>r. u_id r = n) (users d))), d)) d"

definition select_user_by_email :: "env \<Rightarrow> string \<Rightarrow> database \<Rightarrow> User result \<times> database" where
  "select_user_by_email env email d =
     (map_sum (\<lambda>e. e) (scan_user env) (first_row (filter (\<lambda>r. u_email r = email) (users d))), d)"

definition select_user_with_password :: "env \<Rightarrow> string \<Rightarrow> database \<Rightarrow> User result \<times> database" where
  "select_user_with_password env email d =
     (map_sum (\<lambda>e. e) (\<lambda>r. (scan_user env r)\<lparr>usr_Password := u_password_hash r\<rparr>)
        (first_row (filter (\<lambda>r. u_email r = email) (users d))), d)"

definition CreateUser :: "env \<Rightarrow> DB \<Rightarrow> User \<Rightarrow> string R" where
  "CreateUser env h usr = sql env h ''insert user'' (\<lambda>_ _. insert_user env usr)"

definition GetUserByID :: "env \<Rightarrow> DB \<Rightarrow> string \<Rightarrow> User R" where
  "GetUserByID env h uid =
     map_err (no_rows_to UserNotFound) (sql env h ''select user by id'' (\<lambda>_ _. select_user_by_id env uid))"

definition GetUserByEmail :: "env \<Rightarrow> DB \<Rightarrow> string \<Rightarrow> User R" where
  "GetUserByEmail env h email =
     map_err (no_rows_to UserNotFound) (sql env h ''select user by email'' (\<lambda>_ _. select_user_by_email env email))"

definition GetUserByEmailWithPassword :: "env \<Rightarrow> DB \<Rightarrow> string \<Rightarrow> User R" where
  "GetUserByEmailWithPassword env h email =
     map_err (no_rows_to UserNotFound)
       (sql env h ''select user with password'' (\<lambda>_ _. select_user_with_password env email))"

text \<open>
  \<open>users u LEFT JOIN containers c ON c.user_id = u.id WHERE u.id = $1 ORDER BY c.id DESC\<close>: a user
  without containers gives one row whose container columns are all \<open>NULL\<close>.
\<close>

definition join_containers :: "user_row \<Rightarrow> database \<Rightarrow> (user_row \<times> container_row option) list" where
  "join_containers u d =
     (case rev (sort_key c_id (filter (\<lambda>c. c_user_id c = u_id u) (containers d))) of
        [] \<Rightarrow> [(u, None)]
      | cs \<Rightarrow> map (\<lambda>c. (u, Some c)) cs)"

definition select_user_containers :: "env \<Rightarrow> string \<Rightarrow> database \<Rightarrow> (user_row \<times> container_row option) list result \<times> database" where
  "select_user_containers env uid d =
     with_bigint env uid (\<lambda>n.
       (Inr (concat (map (\<lambda>u. join_containers u d) (filter (\<lambda>u. u_id u = n) (users d)))), d)) d"

definition joined_info :: "env \<Rightarrow> user_row \<Rightarrow> container_row \<Rightarrow> ContainerInfo" where
  "joined_info env u c =
     empty_info\<lparr>ContainerID := c_container_id c, UserId := int8out env (u_id u), CreatedAt := Some (c_created_at c),
       ProjectID := int8out env (c_id c), ProjectName := c_project_name c, FolderPath := c_folder_path c,
       Port := c_port c, Status := c_status c, ImageName := c_image_name c, StartedAt := c_started_at c\<rparr>"

text \<open>The \<open>for rows.Next()\<close> loop: \<open>user\<close>, \<open>containers\<close> and \<open>foundUser\<close> are its state.\<close>

fun scan_joined :: "env \<Rightarrow> (user_row \<times> container_row option) list \<Rightarrow> User \<times> ContainerInfo list \<times> bool \<Rightarrow>
    User \<times> ContainerInfo list \<times> bool" where
  "scan_joined env [] s = s"
| "scan_joined env ((u, c) # rs) (usr, cs, found) =
     (let usr' = (if usr_Id usr = [] then scan_user env u else usr)
      in scan_joined env rs (usr', (case c of None \<Rightarrow> cs | Some r \<Rightarrow> cs @ [joined_info env u r]), True))"

definition GetContainersForUserByID :: "env \<Rightarrow> DB \<Rightarrow> string \<Rightarrow> (User \<times> ContainerInfo list) R" where
  "GetContainersForUserByID env h uid =
     on_ok (sql env h ''select user with containers'' (\<lambda>_ _. select_user_containers env uid)) (\<lambda>rows.
       case scan_joined env rows (empty_user, [], False) of
         (usr, cs, found) \<Rightarrow>
           if \<not> found then fail UserNotFound else ok (usr\<lparr>usr_Containers := Some cs\<rparr>, cs))"

text \<open>
  Deleting a user cascades to the user's containers, networks, tokens, keys, notifications and
  audit entries, and through the containers and networks to their connections.
\<close>

definition delete_users :: "(user_row \<Rightarrow> bool) \<Rightarrow> database \<Rightarrow> nat \<times> database" where
  "delete_users P d =
     (let gone = (\<lambda>uid. \<exists>u \<in> set (users d). P u \<and> u_id u = uid);
          gone_nets = (\<lambda>nid. \<exists>n \<in> set (networks d). gone (nw_user_id n) \<and> nw_id n = nid);
          d1 = snd (delete_containers (\<lambda>c. gone (c_user_id c)) d)
      in (length (filter P (users d)),
          d1\<lparr>users := filter (\<lambda>u. \<not> P u) (users d),
             networks := filter (\<lambda>n. \<not> gone (nw_user_id n)) (networks d),
             container_networks := filter (\<lambda>m. \<not> gone_nets (cn_network_id m)) (container_networks d1),
             email_tokens := filter (\<lambda>t. \<not> gone (et_user_id t)) (email_tokens d),
             api_keys := filter (\<lambda>k. \<not> gone (ak_user_id k)) (api_keys d),
             notifications := filter (\<lambda>n. \<not> gone (nr_user_id n)) (notifications d),
             audit_log := filter (\<lambda>a. \<not> gone (al_user_id a)) (audit_log d)\<rparr>))"

definition delete_user :: "env \<Rightarrow> string \<Rightarrow> database \<Rightarrow> nat result \<times> database" where
  "delete_user env uid d =
     with_bigint env uid (\<lambda>n. case delete_users (\<lambda>u. u_id u = n) d of (k, d1) \<Rightarrow> (Inr k, d1)) d"

definition delete_user_containers :: "env \<Rightarrow> string \<Rightarrow> database \<Rightarrow> nat result \<times> database" where
  "delete_user_containers env uid d =
     with_bigint env uid (\<lambda>n. case delete_containers (\<lambda>c. c_user_id c = n) d of (k, d1) \<Rightarrow> (Inr k, d1)) d"

definition DeleteUserByID :: "env \<Rightarrow> DB \<Rightarrow> string \<Rightarrow> unit R" where
  "DeleteUserByID env h uid =
     on_ok (sql env h ''delete containers of user'' (\<lambda>_ _. delete_user_containers env uid)) (\<lambda>_.
       on_ok (sql env h ''delete user'' (\<lambda>_ _. delete_user env uid)) (\<lambda>n.
         if n = 0 then fail UserNotFound else ok ()))"

section \<open>ImageRepo, plans, templates\<close>

definition GetImages :: "env \<Rightarrow> DB \<Rightarrow> image_row list R" where
  "GetImages env h = sql env h ''select images'' (\<lambda>_ _ d. (Inr (images d), d))"

definition scan_plan :: "plan_row \<Rightarrow> Plan" where
  "scan_plan r = \<lparr>plan_ID = pl_id r, plan_Name = pl_name r, MaxContainers = pl_max_containers r,
     MaxMemoryMB = pl_max_memory_mb r, MaxCPUNanoCores = pl_max_cpu_nanocores r,
     AutoStopMinutes = pl_auto_stop_minutes r, PriceUSDCents = pl_price_usd_cents r\<rparr>"

text \<open>\<open>plans pl JOIN users u ON u.plan_id = pl.id WHERE u.id = $1\<close>\<close>

definition plans_of_user :: "int \<Rightarrow> database \<Rightarrow> plan_row list" where
  "plans_of_user n d =
     [p \<leftarrow> plans d. \<exists>u \<in> set (users d). u_id u = n \<and> u_plan_id u = pl_id p]"

definition GetPlanForUser :: "env \<Rightarrow> DB \<Rightarrow> string \<Rightarrow> Plan R" where
  "GetPlanForUser env h uid =
     map_err (Wrap (''failed to get plan for user '' @ uid @ '': ''))
       (sql env h ''select plan'' (\<lambda>_ _ d.
          with_bigint env uid (\<lambda>n. (map_sum (\<lambda>e. e) scan_plan (first_row (plans_of_user n d)), d)) d))"

definition GetAllowedImages :: "env \<Rightarrow> string list R" where
  "GetAllowedImages env = sql env Pool ''select allowed images'' (\<lambda>_ _ d. (Inr (map t_image (templates d)), d))"

end
