(* ===== verification/Integrity.thy ===== *)
theory Integrity
  imports Repository
begin

text \<open>
  Integrity of the database: the primary keys, \<open>UNIQUE\<close>, \<open>REFERENCES\<close> and \<open>CHECK\<close> clauses of
  the migrations, and that the statements of the repositories keep them. The last section lifts
  this to the world and gives the effect \<open>keeps_ok\<close> that every operation of the server has.
\<close>

section \<open>The constraints\<close>

definition users_ok :: "database \<Rightarrow> bool" where
  "users_ok d \<longleftrightarrow>
     distinct (map u_id (users d)) \<and> distinct (map u_email (users d)) \<and> distinct (map pl_id (plans d)) \<and>
     (\<forall>u \<in> set (users d). u_id u < users_seq d \<and> u_plan_id u \<in> pl_id ` set (plans d) \<and> u_role u \<in> {''user'', ''admin''})"

definition health_values :: "string set" where
  "health_values = {''none'', ''healthy'', ''unhealthy'', ''starting''}"

definition containers_ok :: "database \<Rightarrow> bool" where
  "containers_ok d \<longleftrightarrow>
     distinct (map c_id (containers d)) \<and> distinct (map c_container_id (containers d)) \<and>
     (\<forall>c \<in> set (containers d). c_id c < containers_seq d \<and> c_user_id c \<in> u_id ` set (users d) \<and>
        c_health_status c \<in> health_values \<and> 0 \<le> c_restart_count c)"

definition networks_ok :: "database \<Rightarrow> bool" where
  "networks_ok d \<longleftrightarrow>
     distinct (map nw_id (networks d)) \<and> distinct (map nw_docker_net_id (networks d)) \<and>
     distinct (map nw_docker_net_name (networks d)) \<and>
     distinct (map (\<lambda>n. (nw_user_id n, nw_name n)) (networks d)) \<and>
     nw_user_id ` set (networks d) \<subseteq> u_id ` set (users d)"

definition members_ok :: "database \<Rightarrow> bool" where
  "members_ok d \<longleftrightarrow>
     distinct (map (\<lambda>m. (cn_container_id m, cn_network_id m)) (container_networks d)) \<and>
     cn_container_id ` set (container_networks d) \<subseteq> c_id ` set (containers d) \<and>
     cn_network_id ` set (container_networks d) \<subseteq> nw_id ` set (networks d)"

definition tokens_ok :: "database \<Rightarrow> bool" where
  "tokens_ok d \<longleftrightarrow>
     distinct (map et_id (email_tokens d)) \<and> distinct (map et_token_hash (email_tokens d)) \<and>
     et_user_id ` set (email_tokens d) \<subseteq> u_id ` set (users d) \<and>
     et_type ` set (email_tokens d) \<subseteq> {''email_verification'', ''password_reset''}"

definition keys_ok :: "database \<Rightarrow> bool" where
  "keys_ok d \<longleftrightarrow>
     distinct (map ak_id (api_keys d)) \<and> distinct (map ak_key_hash (api_keys d)) \<and>
     ak_user_id ` set (api_keys d) \<subseteq> u_id ` set (users d)"

definition logs_ok :: "database \<Rightarrow> bool" where
  "logs_ok d \<longleftrightarrow>
     distinct (map nr_id (notifications d)) \<and>
     nr_user_id ` set (notifications d) \<subseteq> u_id ` set (users d) \<and>
     al_user_id ` set (audit_log d) \<subseteq> u_id ` set (users d)"

definition db_ok :: "database \<Rightarrow> bool" where
  "db_ok d \<longleftrightarrow> users_ok d \<and> containers_ok d \<and> networks_ok d \<and> members_ok d \<and> tokens_ok d \<and> keys_ok d \<and> logs_ok d"

lemmas ok_defs = users_ok_def containers_ok_def networks_ok_def members_ok_def tokens_ok_def keys_ok_def logs_ok_def

lemma db_okI:
  "users_ok d \<Longrightarrow> containers_ok d \<Longrightarrow> networks_ok d \<Longrightarrow> members_ok d \<Longrightarrow> tokens_ok d \<Longrightarrow> keys_ok d \<Longrightarrow> logs_ok d \<Longrightarrow> db_ok d"
  by (simp add: db_ok_def)

lemma db_okD:
  assumes "db_ok d"
  shows "users_ok d" "containers_ok d" "networks_ok d" "members_ok d" "tokens_ok d" "keys_ok d" "logs_ok d"
  using assms by (simp_all add: db_ok_def)

lemma container_id_unique:
  "db_ok d \<Longrightarrow> r \<in> set (containers d) \<Longrightarrow> r' \<in> set (containers d) \<Longrightarrow> c_id r = c_id r' \<Longrightarrow> r = r'"
  using db_okD(2) by (auto simp: containers_ok_def distinct_map dest: inj_onD)

lemma containers_with_id:
  "db_ok d \<Longrightarrow> r \<in> set (containers d) \<Longrightarrow> filter (\<lambda>x. c_id x = c_id r) (containers d) = [r]"
  using db_okD(2) by (auto simp: containers_ok_def intro: length_filter_one)

section \<open>Statements keep the constraints\<close>

lemma update_containers_sel [simp]:
  "containers (update_containers P f d) = map (\<lambda>r. if P r then f r else r) (containers d)"
  "users (update_containers P f d) = users d" "plans (update_containers P f d) = plans d"
  "networks (update_containers P f d) = networks d"
  "container_networks (update_containers P f d) = container_networks d"
  "email_tokens (update_containers P f d) = email_tokens d" "api_keys (update_containers P f d) = api_keys d"
  "notifications (update_containers P f d) = notifications d" "templates (update_containers P f d) = templates d"
  "audit_log (update_containers P f d) = audit_log d" "images (update_containers P f d) = images d"
  "users_seq (update_containers P f d) = users_seq d" "containers_seq (update_containers P f d) = containers_seq d"
  by (simp_all add: update_containers_def)

lemma db_ok_update_containers:
  assumes ok: "db_ok d"
    and same: "\<And>r. c_id (f r) = c_id r" "\<And>r. c_user_id (f r) = c_user_id r"
    and health: "\<And>r. r \<in> set (containers d) \<Longrightarrow> P r \<Longrightarrow> c_health_status (f r) \<in> health_values"
    and count: "\<And>r. r \<in> set (containers d) \<Longrightarrow> P r \<Longrightarrow> 0 \<le> c_restart_count (f r)"
    and docker: "distinct (map c_container_id (map (\<lambda>r. if P r then f r else r) (containers d)))"
  shows "db_ok (update_containers P f d)"
proof -
  note D = db_okD[OF ok]
  have ids: "map c_id (map (\<lambda>r. if P r then f r else r) (containers d)) = map c_id (containers d)"
    by (rule map_map_if_same) (rule same)
  have idset: "c_id ` set (map (\<lambda>r. if P r then f r else r) (containers d)) = c_id ` set (containers d)"
    using arg_cong[OF ids, of set] by (simp only: set_map)
  show ?thesis
  proof (rule db_okI)
    show "containers_ok (update_containers P f d)"
      using D(2) docker health count same unfolding containers_ok_def update_containers_sel ids by auto
    show "members_ok (update_containers P f d)"
      using D(4) unfolding members_ok_def update_containers_sel idset .
  qed (use D in \<open>simp_all add: ok_defs\<close>)
qed

lemma db_ok_update_containers_simple:
  assumes "db_ok d" and "\<And>r. c_id (f r) = c_id r" and "\<And>r. c_user_id (f r) = c_user_id r"
    and "\<And>r. c_container_id (f r) = c_container_id r"
    and "\<And>r. c_health_status r \<in> health_values \<Longrightarrow> c_health_status (f r) \<in> health_values"
    and "\<And>r. 0 \<le> c_restart_count r \<Longrightarrow> 0 \<le> c_restart_count (f r)"
  shows "db_ok (update_containers P f d)"
proof (rule db_ok_update_containers[OF assms(1-3)])
  show "distinct (map c_container_id (map (\<lambda>r. if P r then f r else r) (containers d)))"
    using db_okD(2)[OF assms(1)] assms(4) by (simp only: map_map_if_same containers_ok_def)
qed (use assms(1,5,6) in \<open>auto simp: db_ok_def containers_ok_def\<close>)

lemma db_ok_delete_containers:
  assumes ok: "db_ok d"
  shows "db_ok (snd (delete_containers P d))"
proof (rule db_okI)
  note D = db_okD[OF ok]
  let ?ms = "filter (\<lambda>m. \<not> (\<exists>r \<in> set (containers d). P r \<and> c_id r = cn_container_id m)) (container_networks d)"
  have "cn_container_id m \<in> c_id ` set (filter (\<lambda>r. \<not> P r) (containers d))" if "m \<in> set ?ms" for m
  proof -
    from that D(4) obtain r where "r \<in> set (containers d)" and "cn_container_id m = c_id r"
      by (auto simp: members_ok_def)
    with that show ?thesis by auto
  qed
  then show "members_ok (snd (delete_containers P d))"
    using D(4) by (auto simp: members_ok_def delete_containers_def distinct_map_filter)
  show "containers_ok (snd (delete_containers P d))"
    using D(2) by (simp add: containers_ok_def delete_containers_def distinct_map_filter)
qed (use db_okD[OF ok] in \<open>simp_all add: ok_defs delete_containers_def\<close>)

lemma db_ok_insert_container:
  assumes ok: "db_ok d"
  shows "db_ok (snd (insert_container env info t d))"
proof -
  note D = db_okD[OF ok]
  have seq: "db_ok (d\<lparr>containers_seq := containers_seq d + 1\<rparr>)"
    using D by (auto simp: db_ok_def ok_defs)
  have fresh: "containers_seq d \<notin> c_id ` set (containers d)"
    using D(2) by (auto simp: containers_ok_def)
  have hv: "''none'' \<in> health_values" by (simp add: health_values_def)
  show ?thesis
    using seq fresh hv D ok
    by (auto simp: insert_container_def Let_def db_ok_def ok_defs split: option.split)
qed

lemma db_ok_update_container: "db_ok d \<Longrightarrow> db_ok (snd (update_container env pid info d))"
proof (cases "int8in env pid")
  case None
  then show "db_ok d \<Longrightarrow> ?thesis" by (simp add: update_container_def with_bigint_def)
next
  case (Some n)
  assume ok: "db_ok d"
  let ?f = "\<lambda>r. r\<lparr>c_container_id := ContainerID info, c_project_name := ProjectName info,
     c_folder_path := FolderPath info, c_port := Port info, c_status := Status info,
     c_started_at := StartedAt info, c_image_name := ImageName info\<rparr>"
  have "db_ok (update_containers (\<lambda>r. c_id r = n) ?f d)"
    if free: "\<not> (\<exists>r \<in> set (containers d). c_id r \<noteq> n \<and> c_container_id r = ContainerID info \<and>
       (\<exists>r' \<in> set (containers d). c_id r' = n))"
  proof (rule db_ok_update_containers[OF ok])
    have inj: "inj_on (c_container_id \<circ> (\<lambda>r. if c_id r = n then ?f r else r)) (set (containers d))"
      using free container_id_unique[OF ok] db_okD(2)[OF ok]
      by (auto simp: inj_on_def containers_ok_def distinct_map)
    show "distinct (map c_container_id (map (\<lambda>r. if c_id r = n then ?f r else r) (containers d)))"
      using db_okD(2)[OF ok] inj by (auto simp: containers_ok_def distinct_map comp_def intro: distinct_map[THEN iffD2])
  qed (use db_okD(2)[OF ok] in \<open>auto simp: containers_ok_def\<close>)
  with ok Some show ?thesis
    by (auto simp: update_container_def with_bigint_def Let_def)
qed

lemma db_ok_delete_container: "db_ok d \<Longrightarrow> db_ok (snd (delete_container env pid d))"
  using db_ok_delete_containers
  by (auto simp: delete_container_def with_bigint_def split: option.split prod.split) (metis snd_conv)

lemma db_ok_delete_user_containers: "db_ok d \<Longrightarrow> db_ok (snd (delete_user_containers env uid d))"
  using db_ok_delete_containers
  by (auto simp: delete_user_containers_def with_bigint_def split: option.split prod.split) (metis snd_conv)

lemma db_ok_insert_user:
  assumes ok: "db_ok d"
  shows "db_ok (snd (insert_user env usr d))"
proof -
  note D = db_okD[OF ok]
  have seq: "db_ok (d\<lparr>users_seq := users_seq d + 1\<rparr>)"
    using D by (auto simp: db_ok_def ok_defs)
  have fresh: "users_seq d \<notin> u_id ` set (users d)"
    using D(1) by (auto simp: users_ok_def)
  have "db_ok (d\<lparr>users_seq := users_seq d + 1, users := users d @ [r]\<rparr>)"
    if "u_id r = users_seq d" "u_email r \<notin> u_email ` set (users d)" "u_role r = ''user''"
      "u_plan_id r \<in> pl_id ` set (plans d)" for r
  proof (rule db_okI)
    show "users_ok (d\<lparr>users_seq := users_seq d + 1, users := users d @ [r]\<rparr>)"
      using that fresh D(1) by (auto simp: users_ok_def)
  qed (use D in \<open>auto simp: ok_defs\<close>)
  with seq show ?thesis
    by (simp add: insert_user_def Let_def)
qed

lemma delete_containers_sel [simp]:
  "users (snd (delete_containers P d)) = users d" "plans (snd (delete_containers P d)) = plans d"
  "networks (snd (delete_containers P d)) = networks d"
  "containers (snd (delete_containers P d)) = filter (\<lambda>r. \<not> P r) (containers d)"
  "email_tokens (snd (delete_containers P d)) = email_tokens d" "api_keys (snd (delete_containers P d)) = api_keys d"
  "notifications (snd (delete_containers P d)) = notifications d"
  "audit_log (snd (delete_containers P d)) = audit_log d"
  "users_seq (snd (delete_containers P d)) = users_seq d"
  "containers_seq (snd (delete_containers P d)) = containers_seq d"
  by (simp_all add: delete_containers_def)

text \<open>
  A row that refers to a user survives the cascade exactly when the user does, because user ids
  are unique.
\<close>

lemma surviving_fk:
  assumes "g ` set rs \<subseteq> u_id ` set us"
  shows "g ` set (filter (\<lambda>r. \<not> (\<exists>u \<in> set us. P u \<and> u_id u = g r)) rs) \<subseteq> u_id ` set (filter (\<lambda>u. \<not> P u) us)"
proof
  fix x
  assume "x \<in> g ` set (filter (\<lambda>r. \<not> (\<exists>u \<in> set us. P u \<and> u_id u = g r)) rs)"
  then obtain r where r: "x = g r" "r \<in> set rs" "\<not> (\<exists>u \<in> set us. P u \<and> u_id u = g r)" by auto
  with assms obtain u where "u \<in> set us" "g r = u_id u" by auto
  with r show "x \<in> u_id ` set (filter (\<lambda>u. \<not> P u) us)" by auto
qed

lemma db_ok_delete_users:
  assumes ok: "db_ok d"
  shows "db_ok (snd (delete_users P d))"
proof -
  let ?gone = "\<lambda>uid. \<exists>u \<in> set (users d). P u \<and> u_id u = uid"
  let ?d1 = "snd (delete_containers (\<lambda>c. ?gone (c_user_id c)) d)"
  let ?d = "snd (delete_users P d)"
  note D = db_okD[OF ok] and D1 = db_okD[OF db_ok_delete_containers[OF ok, of "\<lambda>c. ?gone (c_user_id c)"]]
  have sel: "users ?d = filter (\<lambda>u. \<not> P u) (users d)" "plans ?d = plans d" "users_seq ?d = users_seq d"
    "containers_seq ?d = containers_seq d"
    "containers ?d = filter (\<lambda>c. \<not> ?gone (c_user_id c)) (containers d)"
    "networks ?d = filter (\<lambda>n. \<not> ?gone (nw_user_id n)) (networks d)"
    "container_networks ?d = filter (\<lambda>m. \<not> (\<exists>n \<in> set (networks d). ?gone (nw_user_id n) \<and> nw_id n = cn_network_id m))
       (container_networks ?d1)"
    "email_tokens ?d = filter (\<lambda>t. \<not> ?gone (et_user_id t)) (email_tokens d)"
    "api_keys ?d = filter (\<lambda>k. \<not> ?gone (ak_user_id k)) (api_keys d)"
    "notifications ?d = filter (\<lambda>n. \<not> ?gone (nr_user_id n)) (notifications d)"
    "audit_log ?d = filter (\<lambda>a. \<not> ?gone (al_user_id a)) (audit_log d)"
    unfolding delete_users_def Let_def by simp_all
  show ?thesis
  proof (rule db_okI)
    show "users_ok ?d" using D(1) by (simp add: users_ok_def sel distinct_map_filter)
    show "containers_ok ?d"
      using D(2) surviving_fk[of c_user_id "containers d" "users d" P]
      by (simp add: containers_ok_def sel distinct_map_filter image_subset_iff)
    show "networks_ok ?d"
      using D(3) surviving_fk[of nw_user_id "networks d" "users d" P]
      by (simp add: networks_ok_def sel distinct_map_filter)
    show "tokens_ok ?d"
      using D(5) surviving_fk[of et_user_id "email_tokens d" "users d" P]
      by (auto simp: tokens_ok_def sel distinct_map_filter)
    show "keys_ok ?d"
      using D(6) surviving_fk[of ak_user_id "api_keys d" "users d" P]
      by (simp add: keys_ok_def sel distinct_map_filter)
    show "logs_ok ?d"
      using D(7) surviving_fk[of nr_user_id "notifications d" "users d" P]
        surviving_fk[of al_user_id "audit_log d" "users d" P]
      by (simp add: logs_ok_def sel distinct_map_filter)
    have "cn_network_id m \<in> nw_id ` set (networks ?d)" if "m \<in> set (container_networks ?d)" for m
    proof -
      from that D1(4) obtain n where "n \<in> set (networks d)" "cn_network_id m = nw_id n"
        by (auto simp: members_ok_def sel(7))
      with that show ?thesis unfolding sel(6,7) by auto
    qed
    then show "members_ok ?d"
      using D1(4) by (auto simp: members_ok_def sel(5,7) distinct_map_filter)
  qed
qed

lemma db_ok_delete_user: "db_ok d \<Longrightarrow> db_ok (snd (delete_user env uid d))"
  using db_ok_delete_users
  by (auto simp: delete_user_def with_bigint_def split: option.split prod.split) (metis snd_conv)

section \<open>Integrity of the world\<close>

text \<open>
  The committed tables and those of an open transaction meet the constraints, an open
  transaction has drawn at least the sequence values the committed tables know of, the bus is
  well formed and the process has not panicked.
\<close>

definition world_ok :: "world \<Rightarrow> bool" where
  "world_ok w \<longleftrightarrow>
     db_ok (db w) \<and>
     (\<forall>d. txn w = Some d \<longrightarrow> db_ok d \<and> users_seq (db w) \<le> users_seq d \<and> containers_seq (db w) \<le> containers_seq d) \<and>
     bus_ok (bus w) \<and> \<not> panicked w"

definition keeps_ok :: "world \<Rightarrow> world \<Rightarrow> bool" where
  "keeps_ok w w' \<longleftrightarrow> (world_ok w \<longrightarrow> world_ok w')"

interpretation ko: effect keeps_ok
  by unfold_locales (auto simp: keeps_ok_def)

text \<open>A statement keeps integrity on either handle when it keeps it on tables and moves no sequence back.\<close>

definition sound_on :: "DB \<Rightarrow> (database \<Rightarrow> 'a result \<times> database) \<Rightarrow> bool" where
  "sound_on h f \<longleftrightarrow>
     (\<forall>d. db_ok d \<longrightarrow> db_ok (snd (f d))) \<and>
     (\<forall>d. users_seq d \<le> users_seq (snd (f d)) \<and> containers_seq d \<le> containers_seq (snd (f d))) \<and>
     (h = Pool \<longrightarrow> (\<forall>d. users_seq (snd (f d)) = users_seq d \<and> containers_seq (snd (f d)) = containers_seq d))"

lemma sound_onI:
  assumes "\<And>d. db_ok d \<Longrightarrow> db_ok (snd (f d))"
    and "\<And>d. users_seq (snd (f d)) = users_seq d" and "\<And>d. containers_seq (snd (f d)) = containers_seq d"
  shows "sound_on h f"
  using assms by (simp add: sound_on_def)

lemma sound_on_read: "(\<And>d. snd (f d) = d) \<Longrightarrow> sound_on h f"
  by (rule sound_onI) simp_all

lemma sound_on_with_bigint:
  assumes "\<And>n. sound_on h (f n)"
  shows "sound_on h (\<lambda>d. with_bigint env s (\<lambda>n. f n d) d)"
  using assms by (cases "int8in env s") (auto simp: with_bigint_def sound_on_def)

lemma keeps_ok_call:
  "state_io_rel keeps_ok (call env c)" "state_io_rel keeps_ok (call_str env c)"
  "state_io_rel keeps_ok (call_strs env c)" "state_io_rel keeps_ok (call_out env c)"
  "state_io_rel keeps_ok (now env)"
  by (rule state_io_relI, auto simp: run_simps keeps_ok_def world_ok_def)+

lemma keeps_ok_sql:
  assumes s: "\<And>x t. sound_on h (f x t)"
  shows "state_io_rel keeps_ok (sql env h tag f)"
proof (rule state_io_relI)
  fix r w w'
  assume run: "run_state (sql env h tag f) w = (r, w')"
  let ?g = "f (env_str env (hist w) (Sql tag)) (env_now env (hist w))"
  let ?d = "snd (?g (view h w))"
  from run have w': "w' = w\<lparr>hist := Sql tag # hist w\<rparr> \<or> w' = set_view h ?d (w\<lparr>hist := Sql tag # hist w\<rparr>)"
    by (auto simp: run_simps split: option.splits prod.splits)
  show "keeps_ok w w'"
    unfolding keeps_ok_def
  proof
    assume ok: "world_ok w"
    have hist: "world_ok (w\<lparr>hist := x\<rparr>)" for x using ok by (simp add: world_ok_def)
    have d: "db_ok (view h w) \<Longrightarrow> db_ok ?d" "users_seq (view h w) \<le> users_seq ?d"
      "containers_seq (view h w) \<le> containers_seq ?d"
      "h = Pool \<Longrightarrow> users_seq ?d = users_seq (view h w)" "h = Pool \<Longrightarrow> containers_seq ?d = containers_seq (view h w)"
      using s unfolding sound_on_def by blast+
    have "world_ok (set_view h ?d (w\<lparr>hist := Sql tag # hist w\<rparr>))"
    proof (cases h)
      case Pool
      with ok d show ?thesis by (simp add: world_ok_def)
    next
      case Tx
      show ?thesis
      proof (cases "txn w")
        case None
        with Tx hist show ?thesis by (simp add: set_view_def)
      next
        case (Some t)
        with Tx ok d(1-3) show ?thesis by (auto simp: world_ok_def intro: order_trans)
      qed
    qed
    with w' hist show "world_ok w'" by auto
  qed
qed

lemma keeps_ok_BeginTx: "state_io_rel keeps_ok (BeginTx env)"
  by (rule state_io_relI) (auto simp: run_simps keeps_ok_def world_ok_def split: option.splits)

lemma keeps_ok_Commit: "state_io_rel keeps_ok (Commit env)"
  by (rule state_io_relI) (auto simp: run_simps keeps_ok_def world_ok_def view_def split: option.splits)

lemma db_ok_seqs:
  "db_ok d \<Longrightarrow> users_seq d \<le> us \<Longrightarrow> containers_seq d \<le> cs \<Longrightarrow> db_ok (d\<lparr>users_seq := us, containers_seq := cs\<rparr>)"
  by (force simp: db_ok_def ok_defs)

lemma keeps_ok_Rollback: "state_io_rel keeps_ok (Rollback env)"
  by (rule state_io_relI)
    (auto simp: run_simps keeps_ok_def world_ok_def rollback_world_def intro: db_ok_seqs split: option.splits)

lemma keeps_ok_in_tx: "state_io_rel keeps_ok m \<Longrightarrow> state_io_rel keeps_ok (in_tx env m)"
  unfolding in_tx_def by (intro ko.io_intros keeps_ok_BeginTx keeps_ok_Rollback)

lemma keeps_ok_publish: "state_io_rel keeps_ok (publish u n)"
proof (rule state_io_relI)
  fix r w w'
  assume "run_state (publish u n) w = (r, w')"
  then have w': "w' = (case Publish u n (bus w) of None \<Rightarrow> w\<lparr>panicked := True\<rparr> | Some b \<Rightarrow> w\<lparr>bus := b\<rparr>)"
    by (simp add: run_simps)
  show "keeps_ok w w'"
    unfolding keeps_ok_def
  proof
    assume ok: "world_ok w"
    then have "bus_ok (bus w)" by (simp add: world_ok_def)
    with nb.pub_total obtain b where "Publish u n (bus w) = Some b" by blast
    with ok nb.inv_pub show "world_ok w'" by (auto simp: w' world_ok_def)
  qed
qed

lemmas keeps_ok_intros = keeps_ok_call keeps_ok_sql keeps_ok_BeginTx keeps_ok_Commit keeps_ok_Rollback
  keeps_ok_in_tx keeps_ok_publish

section \<open>The repositories keep integrity\<close>

lemma insert_container_seqs:
  "users_seq (snd (insert_container env info t d)) = users_seq d"
  "containers_seq d \<le> containers_seq (snd (insert_container env info t d))"
  by (auto simp: insert_container_def Let_def split: option.split)

lemma insert_user_seqs:
  "users_seq d \<le> users_seq (snd (insert_user env usr d))"
  "containers_seq (snd (insert_user env usr d)) = containers_seq d"
  by (auto simp: insert_user_def Let_def)

lemma read_statements:
  "snd (select_container env pid d) = d" "snd (select_running_before env t d) = d"
  "snd (select_user_by_id env pid d) = d" "snd (select_user_by_email env e d) = d"
  "snd (select_user_with_password env e d) = d" "snd (select_user_containers env pid d) = d"
  by (simp_all add: select_container_def select_running_before_def select_user_by_id_def
      select_user_by_email_def select_user_with_password_def select_user_containers_def
      with_bigint_def split: option.split)

lemma update_container_seqs:
  "users_seq (snd (update_container env pid info d)) = users_seq d"
  "containers_seq (snd (update_container env pid info d)) = containers_seq d"
  by (simp_all add: update_container_def with_bigint_def Let_def split: option.split)

lemma delete_seqs:
  "users_seq (snd (delete_container env pid d)) = users_seq d"
  "containers_seq (snd (delete_container env pid d)) = containers_seq d"
  "users_seq (snd (delete_user_containers env pid d)) = users_seq d"
  "containers_seq (snd (delete_user_containers env pid d)) = containers_seq d"
  "users_seq (snd (delete_user env pid d)) = users_seq d"
  "containers_seq (snd (delete_user env pid d)) = containers_seq d"
  by (simp_all add: delete_container_def delete_user_containers_def delete_user_def delete_users_def
      delete_containers_def with_bigint_def Let_def split: option.split)

lemma sound_inserts:
  "sound_on Tx (insert_container env info t)" "sound_on Tx (insert_user env usr)"
  by (simp_all add: sound_on_def db_ok_insert_container db_ok_insert_user insert_container_seqs insert_user_seqs)

lemma sound_statements:
  "sound_on h (select_container env pid)" "sound_on h (select_running_before env t)"
  "sound_on h (select_user_by_id env pid)" "sound_on h (select_user_by_email env e)"
  "sound_on h (select_user_with_password env e)" "sound_on h (select_user_containers env pid)"
  "sound_on h (update_container env pid info)" "sound_on h (delete_container env pid)"
  "sound_on h (delete_user_containers env pid)" "sound_on h (delete_user env pid)"
  by (intro sound_onI; simp add: read_statements update_container_seqs delete_seqs db_ok_update_container
      db_ok_delete_container db_ok_delete_user_containers db_ok_delete_user)+

lemma keeps_ok_repo:
  "state_io_rel keeps_ok (repo_CreateContainer env Tx info)"
  "state_io_rel keeps_ok (GetContainerByID env h pid)"
  "state_io_rel keeps_ok (UpdateContainer env h pid info)"
  "state_io_rel keeps_ok (DeleteContainer env h pid)"
  "state_io_rel keeps_ok (GetRunningContainersOlderThan env h t)"
  "state_io_rel keeps_ok (CreateUser env Tx usr)"
  "state_io_rel keeps_ok (GetUserByID env h pid)"
  "state_io_rel keeps_ok (GetUserByEmail env h e)"
  "state_io_rel keeps_ok (GetUserByEmailWithPassword env h e)"
  "state_io_rel keeps_ok (DeleteUserByID env h pid)"
  unfolding repo_CreateContainer_def GetContainerByID_def UpdateContainer_def DeleteContainer_def
    GetRunningContainersOlderThan_def CreateUser_def GetUserByID_def GetUserByEmail_def
    GetUserByEmailWithPassword_def DeleteUserByID_def
  by (intro ko.io_intros keeps_ok_intros sound_inserts sound_statements)+

lemma keeps_ok_repo_reads:
  "state_io_rel keeps_ok (GetContainersForUserByID env h uid)"
  "state_io_rel keeps_ok (GetImages env h)" "state_io_rel keeps_ok (GetPlanForUser env h uid)"
  "state_io_rel keeps_ok (GetAllowedImages env)"
  unfolding GetContainersForUserByID_def GetImages_def GetPlanForUser_def GetAllowedImages_def
  by (intro ko.io_intros keeps_ok_intros sound_statements sound_on_with_bigint sound_on_read; simp)+

end
