(* ===== verification/Effects.thy ===== *)
theory Effects
  imports Integrity
begin

text \<open>
  The effects the proofs about services are built from: which calls a computation may add to
  the history, when it leaves the committed tables alone, and when a failing computation has
  committed nothing.
\<close>

section \<open>Which calls are made\<close>

definition only_calls :: "(call \<Rightarrow> bool) \<Rightarrow> world \<Rightarrow> world \<Rightarrow> bool" where
  "only_calls P w w' \<longleftrightarrow> (\<exists>cs. hist w' = cs @ hist w \<and> (\<forall>c \<in> set cs. P c))"

interpretation oc: effect "only_calls P" for P
proof unfold_locales
  show "only_calls P w w" for w by (simp add: only_calls_def)
  show "only_calls P u w" if "only_calls P u v" "only_calls P v w" for u v w
  proof -
    from that obtain xs ys where "hist v = xs @ hist u" "\<forall>c \<in> set xs. P c" "hist w = ys @ hist v" "\<forall>c \<in> set ys. P c"
      unfolding only_calls_def by blast
    then show ?thesis unfolding only_calls_def by (intro exI[of _ "ys @ xs"]) auto
  qed
qed

lemma only_calls_hist: "hist w' = c # hist w \<Longrightarrow> P c \<Longrightarrow> only_calls P w w'"
  by (auto simp: only_calls_def)

lemma only_calls_call:
  assumes "P c"
  shows "state_io_rel (only_calls P) (call env c)" "state_io_rel (only_calls P) (call_str env c)"
    "state_io_rel (only_calls P) (call_strs env c)" "state_io_rel (only_calls P) (call_out env c)"
  by (rule state_io_relI, rule only_calls_hist[where c = c and P = P], use assms in \<open>auto simp: run_simps\<close>)+

lemma only_calls_now: "state_io_rel (only_calls P) (now env)"
  by (rule state_io_relI) (auto simp: run_simps only_calls_def)

lemma only_calls_sql: "P (Sql tag) \<Longrightarrow> state_io_rel (only_calls P) (sql env h tag f)"
  by (rule state_io_relI, erule only_calls_hist[rotated]) (auto simp: run_simps split: option.splits prod.splits)

lemma only_calls_tx:
  "P TxBegin \<Longrightarrow> state_io_rel (only_calls P) (BeginTx env)"
  "P TxCommit \<Longrightarrow> state_io_rel (only_calls P) (Commit env)"
  "P TxRollback \<Longrightarrow> state_io_rel (only_calls P) (Rollback env)"
  by (rule state_io_relI, erule only_calls_hist[rotated], auto simp: run_simps split: option.splits)+

lemma only_calls_publish: "state_io_rel (only_calls P) (publish u n)"
  by (rule state_io_relI) (auto simp: run_simps only_calls_def split: option.splits)

lemmas only_calls_intros = only_calls_call only_calls_now only_calls_sql only_calls_tx only_calls_publish

text \<open>A computation that does nothing but make calls of a kind.\<close>

definition just_calls :: "(call \<Rightarrow> bool) \<Rightarrow> world \<Rightarrow> world \<Rightarrow> bool" where
  "just_calls P w w' \<longleftrightarrow> (\<exists>cs. w' = w\<lparr>hist := cs @ hist w\<rparr> \<and> (\<forall>c \<in> set cs. P c))"

interpretation jc: effect "just_calls P" for P
proof unfold_locales
  show "just_calls P w w" for w by (auto simp: just_calls_def intro!: exI[of _ "[]"])
  show "just_calls P u w" if "just_calls P u v" "just_calls P v w" for u v w
  proof -
    from that obtain xs ys where "v = u\<lparr>hist := xs @ hist u\<rparr>" "\<forall>c \<in> set xs. P c" "w = v\<lparr>hist := ys @ hist v\<rparr>" "\<forall>c \<in> set ys. P c"
      unfolding just_calls_def by blast
    then show ?thesis unfolding just_calls_def by (intro exI[of _ "ys @ xs"]) auto
  qed
qed

lemma just_calls_call:
  assumes "P c"
  shows "state_io_rel (just_calls P) (call env c)" "state_io_rel (just_calls P) (call_str env c)"
    "state_io_rel (just_calls P) (call_strs env c)" "state_io_rel (just_calls P) (call_out env c)"
  by (rule state_io_relI, use assms in \<open>auto simp: run_simps just_calls_def intro!: exI[of _ "[c]"]\<close>)+

lemma just_calls_now: "state_io_rel (just_calls P) (now env)"
  by (rule state_io_relI) (auto simp: run_simps just_calls_def intro!: exI[of _ "[]"])

lemmas just_calls_intros = just_calls_call just_calls_now

lemma just_callsD:
  assumes "state_io_rel (just_calls P) m" and "run_state m w = (r, w')"
  obtains cs where "w' = w\<lparr>hist := cs @ hist w\<rparr>" and "list_all P cs"
  using state_io_relD[OF assms] by (auto simp: just_calls_def list_all_iff)

lemma run_for_each_calls:
  "run_state (for_each xs (\<lambda>x. ignoring (call env (g x)))) w = ((), w\<lparr>hist := rev (map g xs) @ hist w\<rparr>)"
  by (induction xs arbitrary: w) (simp_all add: run_simps)

section \<open>Leaving the committed tables alone\<close>

lemma same_db_call:
  "state_io_rel same_db (call env c)" "state_io_rel same_db (call_str env c)"
  "state_io_rel same_db (call_strs env c)" "state_io_rel same_db (call_out env c)" "state_io_rel same_db (now env)"
  "state_io_rel same_db (BeginTx env)" "state_io_rel same_db (publish u n)"
  by (rule state_io_relI, auto simp: run_simps same_db_def split: option.splits)+

lemma same_db_sql_Tx: "state_io_rel same_db (sql env Tx tag f)"
  by (rule state_io_relI)
    (auto simp: run_simps same_db_def set_view_def split: option.splits prod.splits)

lemma same_db_sql_read:
  assumes "\<And>x t d. snd (f x t d) = d"
  shows "state_io_rel same_db (sql env h tag f)"
proof (rule state_io_relI)
  fix r w w'
  assume "run_state (sql env h tag f) w = (r, w')"
  with assms show "same_db w w'"
    by (auto simp: run_simps same_db_def set_view_def view_def split: option.splits prod.splits DB.splits)
      (metis snd_conv)+
qed

lemmas same_db_intros = same_db_call same_db_sql_Tx same_db_sql_read

lemma same_db_repo_reads:
  "state_io_rel same_db (GetContainerByID env h pid)" "state_io_rel same_db (GetRunningContainersOlderThan env h t)"
  "state_io_rel same_db (GetContainersForUserByID env h pid)" "state_io_rel same_db (GetPlanForUser env h pid)"
  "state_io_rel same_db (GetUserByID env h pid)" "state_io_rel same_db (GetUserByEmail env h e)"
  "state_io_rel same_db (GetUserByEmailWithPassword env h e)" "state_io_rel same_db (GetAllowedImages env)"
  unfolding GetContainerByID_def GetRunningContainersOlderThan_def GetContainersForUserByID_def GetPlanForUser_def
    GetUserByID_def GetUserByEmail_def GetUserByEmailWithPassword_def GetAllowedImages_def
  by (intro sd.io_intros same_db_call same_db_sql_read;
      simp add: read_statements with_bigint_def split: option.split)+

lemma same_db_repo_Tx:
  "state_io_rel same_db (repo_CreateContainer env Tx info)" "state_io_rel same_db (UpdateContainer env Tx pid info)"
  "state_io_rel same_db (DeleteContainer env Tx pid)" "state_io_rel same_db (CreateUser env Tx usr)"
  "state_io_rel same_db (DeleteUserByID env Tx pid)"
  unfolding repo_CreateContainer_def UpdateContainer_def DeleteContainer_def CreateUser_def DeleteUserByID_def
  by (intro sd.io_intros same_db_sql_Tx)+

section \<open>Failing without a commit\<close>

abbreviation fails_clean :: "'a R \<Rightarrow> bool" where
  "fails_clean \<equiv> fails_within same_db"

lemmas fails_clean_def = fails_within_def same_db_def

lemma fails_clean_Commit: "fails_clean (Commit env)"
  by (auto simp: fails_clean_def run_simps split: option.splits)

lemma fails_clean_Commit_then:
  assumes "\<And>w. \<exists>b w'. run_state m w = (Inr b, w')"
  shows "fails_clean (on_ok (Commit env) (\<lambda>_. m))"
proof -
  have "fst (run_state m w) \<noteq> Inl e" for w e using assms[of w] by auto
  then show ?thesis
    by (auto simp: fails_clean_def run_simps split: option.splits) (metis fst_conv)
qed

text \<open>A method whose body fails cleanly changes no table when it fails; it may have used up ids.\<close>

definition same_tables :: "database \<Rightarrow> database \<Rightarrow> bool" where
  "same_tables d d' \<longleftrightarrow> d' = d\<lparr>users_seq := users_seq d', containers_seq := containers_seq d'\<rparr>"

lemma same_tables_refl [simp]: "same_tables d d"
  by (simp add: same_tables_def)

lemma in_tx_fails_clean:
  assumes "fails_clean body" and "run_state (in_tx env body) w = (Inl e, w')"
  shows "same_tables (db w) (db w')"
proof (cases "env_err env (hist w) TxBegin")
  case (Some x)
  with assms(2) show ?thesis by (auto simp: run_simps)
next
  case None
  let ?w = "w\<lparr>hist := TxBegin # hist w, txn := Some (db w)\<rparr>"
  from None assms(2) obtain w1 where w1: "run_state body ?w = (Inl e, w1)"
    "w' = rollback_world (w1\<lparr>hist := TxRollback # hist w1\<rparr>)"
    by (auto simp: run_simps split: prod.splits)
  from assms(1) w1(1) have "db w1 = db w" by (auto simp: fails_clean_def)
  with w1(2) show ?thesis
    by (cases "txn w1") (auto simp: rollback_world_def same_tables_def)
qed

end
