(* ===== verification/Container_Manager.thy ===== *)
theory Container_Manager
  imports Effects Go_Std
begin

text \<open>
  \<open>service/hostContainerService.go\<close>: the container manager. Each method is one definition in
  the order of the source; a \<open>defer\<close> is a \<open>defer_do\<close> or \<open>defer_on_err\<close> around the rest of the
  body, so the clean-up runs in the order Go runs it.
\<close>

section \<open>Types\<close>

record Project =
  prj_ID :: string
  prj_Name :: string
  prj_UserId :: string

record ContainerManager =
  basePath :: string
  autoStopTimeout :: time

definition getMaxContainersPerUser :: "string \<Rightarrow> int" where
  "getMaxContainersPerUser envMax =
     (if envMax = [] then 10
      else case ParseInt envMax of (parsed, err) \<Rightarrow> if \<not> err \<and> 0 < parsed then parsed else 10)"

definition NewContainerManager :: "env \<Rightarrow> string \<Rightarrow> time \<Rightarrow> ContainerManager R" where
  "NewContainerManager env base timeout =
     on_ok (map_err (Wrap ''failed to create docker client: '') (call env DockerNewClient)) (\<lambda>_.
       on_ok (map_err (Wrap ''failed to create base path: '') (call env (OsMkdirAll base))) (\<lambda>_.
         ok \<lparr>basePath = base, autoStopTimeout = timeout\<rparr>))"

section \<open>Commands inside a container\<close>

definition execInContainer :: "env \<Rightarrow> string \<Rightarrow> string list \<Rightarrow> unit R" where
  "execInContainer env cid cmd =
     on_ok (call_str env (ExecCreate cid cmd False)) (\<lambda>eid.
       on_ok (call env (ExecAttach eid False)) (\<lambda>_. call env (ExecRead eid)))"

definition sh :: "string \<Rightarrow> string list" where
  "sh c = [''sh'', ''-c'', c]"

definition installCmds :: "string list \<Rightarrow> (string list \<times> string list) list" where
  "installCmds packages =
     (let pkgList = join_on CHR '' '' packages in
      [(sh ''command -v apt-get'', sh (''apt-get update && apt-get install -y '' @ pkgList)),
       (sh ''command -v apk'', sh (''apk add --no-cache '' @ pkgList)),
       (sh ''command -v yum'', sh (''yum install -y '' @ pkgList)),
       (sh ''command -v dnf'', sh (''dnf install -y '' @ pkgList))])"

fun try_install :: "env \<Rightarrow> string \<Rightarrow> (string list \<times> string list) list \<Rightarrow> unit R" where
  "try_install env cid [] = fail (ErrText (''no supported package manager found in container '' @ cid))"
| "try_install env cid ((check, install) # ics) =
     do { r \<leftarrow> execInContainer env cid check;
          (case r of Inr _ \<Rightarrow> execInContainer env cid install | Inl _ \<Rightarrow> try_install env cid ics) }"

definition installPackages :: "env \<Rightarrow> string \<Rightarrow> string list \<Rightarrow> unit R" where
  "installPackages env cid packages = try_install env cid (installCmds packages)"

definition pullImageIfNeeded :: "env \<Rightarrow> string \<Rightarrow> unit R" where
  "pullImageIfNeeded env imageName =
     do { r \<leftarrow> call env (ImageInspect imageName);
          (case r of
             Inr _ \<Rightarrow> ok ()
           | Inl _ \<Rightarrow> on_ok (call env (ImagePull imageName)) (\<lambda>_. call env (PullRead imageName))) }"

section \<open>Creating containers\<close>

definition plan_limit_error :: "Plan \<Rightarrow> go_error" where
  "plan_limit_error plan =
     ErrText (''plan limit reached: your '' @ plan_Name plan @ '' plan allows '' @
              FormatInt (MaxContainers plan) @ '' containers'')"

definition project_folder :: "ContainerManager \<Rightarrow> Project \<Rightarrow> string" where
  "project_folder cm project = Join [basePath cm, prj_Name project, prj_ID project]"

definition container_config_of :: "Plan \<Rightarrow> Project \<Rightarrow> string \<Rightarrow> string \<Rightarrow> container_config" where
  "container_config_of plan project imageName folderPath =
     \<lparr>cf_image = imageName, cf_tty = True, cf_working_dir = ''/workspace'', cf_cmd = [''/bin/sh''],
      cf_exposed_port = None, cf_label_user = prj_UserId project,
      cf_mount_source = folderPath, cf_mount_target = ''/workspace'', cf_host_ip = [],
      cf_memory = MaxMemoryMB plan * 1024 * 1024, cf_nano_cpus = MaxCPUNanoCores plan\<rparr>"

definition running_info :: "Project \<Rightarrow> string \<Rightarrow> string \<Rightarrow> string \<Rightarrow> string \<Rightarrow> time \<Rightarrow> ContainerInfo" where
  "running_info project imageName folderPath cid portEntry t =
     empty_info\<lparr>ContainerID := cid, ProjectID := prj_ID project, ProjectName := prj_Name project,
       ImageName := imageName, FolderPath := folderPath, Port := portEntry, Status := ''running'',
       UserId := prj_UserId project, StartedAt := Some t, CreatedAt := Some t\<rparr>"

text \<open>The quota check both creation methods start with, inside their transaction.\<close>

definition check_quota :: "env \<Rightarrow> string \<Rightarrow> Plan R" where
  "check_quota env uid =
     on_ok (map_err (Wrap ''failed to get the user and container: '') (GetContainersForUserByID env Tx uid)) (\<lambda>(_, cs).
       on_ok (map_err (Wrap ''failed to fetch plan: '') (GetPlanForUser env Tx uid)) (\<lambda>plan.
         if MaxContainers plan \<le> int (length cs) then fail (plan_limit_error plan) else ok plan))"

definition CreateContainer :: "env \<Rightarrow> ContainerManager \<Rightarrow> Project \<Rightarrow> string \<Rightarrow> ContainerInfo R" where
  "CreateContainer env cm project imageName =
     in_tx env (
       on_ok (check_quota env (prj_UserId project)) (\<lambda>plan.
       on_ok (map_err (Wrap ''failed to pull image: '') (pullImageIfNeeded env imageName)) (\<lambda>_.
       let folderPath = project_folder cm project in
       on_ok (map_err (Wrap ''failed to create project folder: '') (call env (OsMkdirAll folderPath))) (\<lambda>_.
       defer_on_err (call env (OsRemoveAll folderPath)) (
         on_ok (map_err (Wrap ''failed to create container: '')
                  (call_str env (ContainerCreate (container_config_of plan project imageName folderPath)))) (\<lambda>cid.
         defer_on_err (do { call env (ContainerStop cid None); call env (ContainerRemove cid) }) (
           on_ok (map_err (Wrap ''failed to start container: '') (call env (ContainerStart cid))) (\<lambda>_.
           do { installPackages env cid [''tree''];
                t \<leftarrow> now env;
                let info = running_info project imageName folderPath cid [] t;
                on_ok (repo_CreateContainer env Tx info) (\<lambda>pid.
                on_ok (Commit env) (\<lambda>_. ok (info\<lparr>ProjectID := pid\<rparr>))) }))))))))"

definition removeFolderRollBack :: "env \<Rightarrow> string \<Rightarrow> unit R" where
  "removeFolderRollBack env folderPath =
     map_err (Wrap ''failed to remove project folder: '') (call env (OsRemoveAll folderPath))"

definition CreateContainerWithPort :: "env \<Rightarrow> ContainerManager \<Rightarrow> Project \<Rightarrow> string \<Rightarrow> string \<Rightarrow> ContainerInfo R" where
  "CreateContainerWithPort env cm project imageName containerPort =
     in_tx env (
       on_ok (check_quota env (prj_UserId project)) (\<lambda>plan.
       on_ok (map_err (Wrap ''failed to pull image: '') (pullImageIfNeeded env imageName)) (\<lambda>_.
       let folderPath = project_folder cm project; exposedPort = containerPort @ ''/tcp'' in
       on_ok (map_err (Wrap ''failed to create project folder: '') (call env (OsMkdirAll folderPath))) (\<lambda>_.
       on_ok (map_err (Wrap ''failed to create container: '')
                (defer_on_err (removeFolderRollBack env folderPath)
                  (call_str env (ContainerCreate ((container_config_of plan project imageName folderPath)
                     \<lparr>cf_cmd := [], cf_exposed_port := Some exposedPort, cf_host_ip := ''0.0.0.0''\<rparr>))))) (\<lambda>cid.
       on_ok (map_err (Wrap ''failed to start container: '')
                (defer_on_err (do { call env (ContainerRemove cid); removeFolderRollBack env folderPath })
                  (call env (ContainerStart cid)))) (\<lambda>_.
       do { installPackages env cid [''tree''];
            on_ok (map_err (Wrap ''failed to inspect container: '') (call_strs env (ContainerInspect cid exposedPort))) (\<lambda>bindings.
            do { let assignedPort = (case bindings of [] \<Rightarrow> [] | p # _ \<Rightarrow> p);
                 let portEntry = (if assignedPort \<noteq> [] then assignedPort @ '':'' @ containerPort else []);
                 t \<leftarrow> now env;
                 let info = running_info project imageName folderPath cid portEntry t;
                 on_ok (repo_CreateContainer env Tx info) (\<lambda>pid.
                 on_ok (Commit env) (\<lambda>_. ok (info\<lparr>ProjectID := pid\<rparr>))) }) }))))))"

section \<open>Using and changing containers\<close>

definition not_found_for :: "string \<Rightarrow> go_error \<Rightarrow> go_error" where
  "not_found_for pid e = ErrText (''container not found for project '' @ pid)"

definition ExecCommand :: "env \<Rightarrow> string \<Rightarrow> string list \<Rightarrow> (string \<times> string) R" where
  "ExecCommand env pid cmd =
     on_ok (map_err (not_found_for pid) (GetContainerByID env Pool pid)) (\<lambda>info.
     on_ok (map_err (Wrap ''failed to create exec: '') (call_str env (ExecCreate (ContainerID info) cmd False))) (\<lambda>eid.
     on_ok (map_err (Wrap ''failed to attach exec: '') (call env (ExecAttach eid False))) (\<lambda>_.
     map_err (Wrap ''failed to read output: '') (call_out env (ExecRead eid)))))"

definition ExecTerminal :: "env \<Rightarrow> string \<Rightarrow> string R" where
  "ExecTerminal env pid =
     on_ok (map_err (not_found_for pid) (GetContainerByID env Pool pid)) (\<lambda>info.
     on_ok (map_err (Wrap ''failed to create exec: '') (call_str env (ExecCreate (ContainerID info) [''/bin/sh''] True))) (\<lambda>eid.
     on_ok (map_err (Wrap ''failed to attach exec: '') (call env (ExecAttach eid True))) (\<lambda>_. ok eid)))"

definition ResizeTerminal :: "env \<Rightarrow> string \<Rightarrow> nat \<Rightarrow> nat \<Rightarrow> unit R" where
  "ResizeTerminal env eid cols rows = call env (ExecResize eid cols rows)"

definition StreamLogs :: "env \<Rightarrow> string \<Rightarrow> string R" where
  "StreamLogs env pid =
     on_ok (map_err (not_found_for pid) (GetContainerByID env Pool pid)) (\<lambda>info.
     map_err (Wrap ''failed to get container logs: '') (call_str env (ContainerLogs (ContainerID info))))"

definition StopContainer :: "env \<Rightarrow> string \<Rightarrow> unit R" where
  "StopContainer env pid =
     in_tx env (
       on_ok (map_err (not_found_for pid) (GetContainerByID env Pool pid)) (\<lambda>info0.
       let info = info0\<lparr>Status := ''stopped''\<rparr> in
       on_ok (UpdateContainer env Tx (ProjectID info) info) (\<lambda>_.
       on_ok (map_err (Wrap ''failed to stop container: '') (call env (ContainerStop (ContainerID info) (Some 10)))) (\<lambda>_.
       Commit env))))"

definition reset_health :: "env \<Rightarrow> string \<Rightarrow> database \<Rightarrow> unit result \<times> database" where
  "reset_health env pid d =
     with_bigint env pid (\<lambda>n.
       (Inr (), update_containers (\<lambda>r. c_id r = n)
                  (\<lambda>r. r\<lparr>c_health_status := ''none'', c_oom_killed := False, c_circuit_open := False\<rparr>) d)) d"

definition StartContainer :: "env \<Rightarrow> string \<Rightarrow> unit R" where
  "StartContainer env pid =
     in_tx env (
       on_ok (map_err (not_found_for pid) (GetContainerByID env Pool pid)) (\<lambda>info0.
       do { t \<leftarrow> now env;
            let info = info0\<lparr>Status := ''running'', StartedAt := Some t\<rparr>;
            on_ok (UpdateContainer env Tx (ProjectID info) info) (\<lambda>_.
            on_ok (map_err (Wrap ''failed to start container: '') (call env (ContainerStart (ContainerID info)))) (\<lambda>_.
            on_ok (Commit env) (\<lambda>_.
            do { ignoring (sql env Pool ''reset health'' (\<lambda>_ _. reset_health env (ProjectID info))); ok () }))) }))"

text \<open>\<open>container_networks cn JOIN networks n ON n.id = cn.network_id WHERE cn.container_id = $1\<close>\<close>

definition docker_nets_of :: "int \<Rightarrow> database \<Rightarrow> string list" where
  "docker_nets_of n d =
     concat (map (\<lambda>m. map nw_docker_net_id (filter (\<lambda>x. nw_id x = cn_network_id m) (networks d)))
       (filter (\<lambda>m. cn_container_id m = n) (container_networks d)))"

definition RemoveContainer :: "env \<Rightarrow> string \<Rightarrow> bool \<Rightarrow> unit R" where
  "RemoveContainer env pid removeFolder =
     in_tx env (
       on_ok (map_err (not_found_for pid) (GetContainerByID env Tx pid)) (\<lambda>info.
       do { nets \<leftarrow> sql env Pool ''select networks of container''
                     (\<lambda>_ _ d. with_bigint env pid (\<lambda>n. (Inr (docker_nets_of n d), d)) d);
            let dockerNetIDs = (case nets of Inl _ \<Rightarrow> [] | Inr ns \<Rightarrow> ns);
            on_ok (DeleteContainer env Tx pid) (\<lambda>_.
            on_ok (Commit env) (\<lambda>_.
            do { for_each dockerNetIDs (\<lambda>netID. ignoring (call env (NetworkDisconnect netID (ContainerID info) True)));
                 call env (ContainerStop (ContainerID info) (Some 5));
                 call env (ContainerRemove (ContainerID info));
                 (if removeFolder then ignoring (call env (OsRemoveAll (FolderPath info))) else State_Monad.return ());
                 ok () })) }))"

definition GetContainerInfo :: "env \<Rightarrow> ContainerManager \<Rightarrow> string \<Rightarrow> ContainerInfo R" where
  "GetContainerInfo env cm pid =
     on_ok (map_err (not_found_for pid) (GetContainerByID env Pool pid)) (\<lambda>info.
     ok (case StartedAt info of
           Some t \<Rightarrow> if Status info = ''running'' then info\<lparr>AutoStopAt := Some (t + autoStopTimeout cm)\<rparr> else info
         | None \<Rightarrow> info))"

definition WriteFileToContainer :: "env \<Rightarrow> string \<Rightarrow> string \<Rightarrow> string \<Rightarrow> unit R" where
  "WriteFileToContainer env pid destPath content =
     on_ok (map_err (not_found_for pid) (GetContainerByID env Pool pid)) (\<lambda>info.
     let fileName = Base destPath; dirPath = Dir destPath in
     on_ok (map_err (Wrap (''failed to create directory '' @ dirPath @ '': ''))
              (execInContainer env (ContainerID info) [''mkdir'', ''-p'', dirPath])) (\<lambda>_.
     call env (CopyToContainer (ContainerID info) dirPath
       \<lparr>tf_name = fileName, tf_mode = 420, tf_size = length content, tf_data = content\<rparr>)))"

section \<open>The auto-stop watcher\<close>

definition auto_stop_notification :: "ContainerInfo \<Rightarrow> time \<Rightarrow> Notification" where
  "auto_stop_notification c t =
     \<lparr>n_id = ProjectID c, n_type = ''container_auto_stopped'', n_title = ''Container auto-stopped'',
      n_body = ''Container '' @ [CHR 0x22] @ ProjectName c @ [CHR 0x22] @
               '' was automatically stopped after the idle timeout.'',
      n_metadata = None, n_created_at = t\<rparr>"

definition auto_stop_one :: "env \<Rightarrow> ContainerInfo \<Rightarrow> unit M" where
  "auto_stop_one env c =
     do { r \<leftarrow> StopContainer env (ProjectID c);
          (case r of
             Inl _ \<Rightarrow> State_Monad.return ()
           | Inr _ \<Rightarrow> do { t \<leftarrow> now env; publish (UserId c) (auto_stop_notification c t) }) }"

definition checkAndStopExpiredContainers :: "env \<Rightarrow> ContainerManager \<Rightarrow> unit M" where
  "checkAndStopExpiredContainers env cm =
     do { r \<leftarrow> GetRunningContainersOlderThan env Pool (autoStopTimeout cm);
          (case r of Inl _ \<Rightarrow> State_Monad.return () | Inr cs \<Rightarrow> for_each cs (auto_stop_one env)) }"

datatype watcher_event = Tick | StopSignal

fun StartAutoStopWatcher :: "env \<Rightarrow> ContainerManager \<Rightarrow> watcher_event list \<Rightarrow> unit M" where
  "StartAutoStopWatcher env cm [] = State_Monad.return ()"
| "StartAutoStopWatcher env cm (Tick # es) =
     do { checkAndStopExpiredContainers env cm; StartAutoStopWatcher env cm es }"
| "StartAutoStopWatcher env cm (StopSignal # es) = State_Monad.return ()"

section \<open>The rest\<close>

definition GetMetricOfContainer :: "env \<Rightarrow> string \<Rightarrow> string R" where
  "GetMetricOfContainer env cid =
     map_err (Wrap ''failed to GET METRIC OF THE CONTAINER: '') (call_str env (ContainerStats cid))"

definition withTx :: "env \<Rightarrow> unit R \<Rightarrow> unit R" where
  "withTx env fn = on_ok (BeginTx env) (\<lambda>_. defer_on_err (Rollback env) (on_ok fn (\<lambda>_. Commit env)))"

end
