(* ===== verification/Notification_Store.thy ===== *)
theory Notification_Store
  imports Effects Go_Std
begin

text \<open>
  The persistent side of notifications: the \<open>INSERT\<close> that \<open>persistAndNotify\<close>
  (\<open>service/recoveryService.go\<close>) and \<open>PersistAndPublish\<close> (\<open>service/notificationHandler.go\<close>)
  share, and the queries of the notification endpoints.
\<close>

definition insert_notification :: "env \<Rightarrow> string \<Rightarrow> Notification \<Rightarrow> string option \<Rightarrow> string \<Rightarrow> time \<Rightarrow> database \<Rightarrow> unit result \<times> database" where
  "insert_notification env userID n meta newid t d =
     with_bigint env userID (\<lambda>uid.
       if uid \<notin> u_id ` set (users d) then (Inl (sql_violation ''notifications_user_id_fkey''), d)
       else if newid \<in> nr_id ` set (notifications d) then (Inl (sql_violation ''notifications_pkey''), d)
       else (Inr (), d\<lparr>notifications := notifications d @
              [\<lparr>nr_id = newid, nr_user_id = uid, nr_type = n_type n, nr_title = n_title n, nr_body = n_body n,
                nr_metadata = meta, nr_read_at = None, nr_created_at = t\<rparr>]\<rparr>)) d"

definition persistAndNotify :: "env \<Rightarrow> string \<Rightarrow> Notification \<Rightarrow> unit M" where
  "persistAndNotify env userID n =
     do { ignoring (sql env Pool ''insert notification'' (insert_notification env userID n None));
          publish userID n }"

text \<open>\<open>json.Marshal\<close> of the metadata is a parameter; an absent map is marshalled as \<open>null\<close>.\<close>

definition PersistAndPublish :: "env \<Rightarrow> (string option \<Rightarrow> string) \<Rightarrow> string \<Rightarrow> Notification \<Rightarrow> unit M" where
  "PersistAndPublish env marshal userID n =
     do { ignoring (sql env Pool ''insert notification'' (insert_notification env userID n (Some (marshal (n_metadata n)))));
          publish userID n }"

text \<open>\<open>WHERE user_id = $1 ORDER BY created_at DESC LIMIT 20\<close>\<close>

definition select_notifications :: "env \<Rightarrow> string \<Rightarrow> database \<Rightarrow> notification_row list result \<times> database" where
  "select_notifications env userID d =
     with_bigint env userID (\<lambda>uid.
       (Inr (take 20 (sort_key (\<lambda>n. - nr_created_at n) (filter (\<lambda>n. nr_user_id n = uid) (notifications d)))), d)) d"

definition mark_all_read :: "env \<Rightarrow> string \<Rightarrow> time \<Rightarrow> database \<Rightarrow> unit result \<times> database" where
  "mark_all_read env userID t d =
     with_bigint env userID (\<lambda>uid.
       (Inr (), d\<lparr>notifications := map (\<lambda>n. if nr_user_id n = uid \<and> nr_read_at n = None then n\<lparr>nr_read_at := Some t\<rparr> else n)
                    (notifications d)\<rparr>)) d"

section \<open>Integrity\<close>

lemma sound_insert_notification: "sound_on h (insert_notification env userID n meta newid t)"
  unfolding insert_notification_def
  by (rule sound_on_with_bigint, rule sound_onI) (auto simp: db_ok_def ok_defs)

lemma sound_mark_all_read: "sound_on h (mark_all_read env userID t)"
  unfolding mark_all_read_def
proof (rule sound_on_with_bigint, rule sound_onI)
  fix uid and d :: database
  let ?f = "\<lambda>n. n\<lparr>nr_read_at := Some t\<rparr>" and ?P = "\<lambda>n. nr_user_id n = uid \<and> nr_read_at n = None"
  let ?ns = "map (\<lambda>n. if ?P n then ?f n else n) (notifications d)"
  have "map nr_id ?ns = map nr_id (notifications d)" "map nr_user_id ?ns = map nr_user_id (notifications d)"
    by (rule map_map_if_same, simp)+
  then have "logs_ok d \<Longrightarrow> logs_ok (d\<lparr>notifications := ?ns\<rparr>)"
    by (auto simp: logs_ok_def simp del: map_map dest: arg_cong[of _ _ set])
  then show "db_ok d \<Longrightarrow> db_ok (snd (Inr () :: unit result, d\<lparr>notifications := ?ns\<rparr>))"
    by (auto simp: db_ok_def users_ok_def containers_ok_def networks_ok_def members_ok_def tokens_ok_def keys_ok_def)
qed simp_all

lemma sound_select_notifications: "sound_on h (select_notifications env userID)"
  unfolding select_notifications_def by (rule sound_on_with_bigint, rule sound_on_read) simp

lemma keeps_ok_persist:
  "state_io_rel keeps_ok (persistAndNotify env userID n)" "state_io_rel keeps_ok (PersistAndPublish env marshal userID n)"
  unfolding persistAndNotify_def PersistAndPublish_def
  by (intro ko.io_intros keeps_ok_intros sound_insert_notification)+

section \<open>What persisting does\<close>

lemma insert_notification_containers [simp]:
  "containers (snd (insert_notification env userID n meta newid t d)) = containers d"
  "users (snd (insert_notification env userID n meta newid t d)) = users d"
  "plans (snd (insert_notification env userID n meta newid t d)) = plans d"
  by (auto simp: insert_notification_def with_bigint_def split: option.split)

text \<open>A statement on the pool changes only what its function changes.\<close>

lemma sql_Pool_frame:
  assumes "run_state (sql env Pool tag f) w = (r, w')" and "\<And>x t d. p (snd (f x t d)) = p d"
  shows "p (db w') = p (db w)"
proof (cases "env_err env (hist w) (Sql tag)")
  case None
  obtain r' d where "f (env_str env (hist w) (Sql tag)) (env_now env (hist w)) (db w) = (r', d)" by fastforce
  with None assms(1) assms(2)[of "env_str env (hist w) (Sql tag)" "env_now env (hist w)" "db w"] show ?thesis
    by (auto simp: run_sql)
qed (use assms(1) in \<open>auto simp: run_sql\<close>)

lemma sql_Pool_hist:
  assumes "run_state (sql env Pool tag f) w = (r, w')"
  shows "hist w' = Sql tag # hist w" "txn w' = txn w" "bus w' = bus w" "panicked w' = panicked w"
  using assms by (auto simp: run_sql split: option.splits prod.splits)

text \<open>Only the notifications table and the bus are touched, and one statement is issued.\<close>

lemma persistAndNotify_frame:
  assumes "run_state (persistAndNotify env userID n) w = (x, w')"
  shows "containers (db w') = containers (db w)" "users (db w') = users (db w)" "plans (db w') = plans (db w)"
    "hist w' = Sql ''insert notification'' # hist w" "txn w' = txn w"
proof -
  let ?s = "sql env Pool ''insert notification'' (insert_notification env userID n None)"
  obtain r w1 where r: "run_state ?s w = (r, w1)" by fastforce
  have w1: "containers (db w1) = containers (db w)" "users (db w1) = users (db w)" "plans (db w1) = plans (db w)"
    "hist w1 = Sql ''insert notification'' # hist w" "txn w1 = txn w"
    using sql_Pool_frame[OF r, of containers] sql_Pool_frame[OF r, of users] sql_Pool_frame[OF r, of plans] sql_Pool_hist[OF r]
    by simp_all
  from r assms have "w' = snd (run_state (publish userID n) w1)"
    by (simp add: persistAndNotify_def run_bind run_ignoring prod.case_eq_if)
  with w1 show "containers (db w') = containers (db w)" "users (db w') = users (db w)" "plans (db w') = plans (db w)"
    "hist w' = Sql ''insert notification'' # hist w" "txn w' = txn w"
    by (simp_all add: run_publish split: option.split)
qed

end
