(* ===== verification/Sample.thy ===== *)
theory Sample
  imports Integrity Go_Std
begin

text \<open>
  A concrete database, world and environment, on which the hypotheses of the properties are
  shown to hold together: two users on different plans, one container, and a daemon, file
  system and random source that answer every call.
\<close>

definition sample_plan :: plan_row where
  "sample_plan = \<lparr>pl_id = ''free'', pl_name = ''Free'', pl_max_containers = 2, pl_max_memory_mb = 256,
     pl_max_cpu_nanocores = 500000000, pl_auto_stop_minutes = 60, pl_price_usd_cents = 0, pl_max_networks = 1,
     pl_max_auto_restarts = 3\<rparr>"

definition sample_user :: "int \<Rightarrow> string \<Rightarrow> string \<Rightarrow> user_row" where
  "sample_user n email role = \<lparr>u_id = n, u_name = ''u'', u_email = email, u_password_hash = ''pw'', u_email_verified_at = None,
     u_plan_id = ''free'', u_role = role\<rparr>"

definition sample_container :: container_row where
  "sample_container = \<lparr>c_id = 7, c_container_id = ''c7'', c_project_name = ''demo'', c_folder_path = ''/data/demo/p7'',
     c_port = [], c_status = ''running'', c_user_id = 1, c_started_at = Some 100, c_image_name = ''alpine'',
     c_created_at = 90, c_restart_count = 0, c_last_restart_at = None, c_health_status = ''none'', c_oom_killed = False,
     c_circuit_open = False\<rparr>"

definition sample_db :: database where
  "sample_db = \<lparr>users = [sample_user 1 ''a@b'' ''user'', sample_user 2 ''c@d'' ''admin''], containers = [sample_container],
     plans = [sample_plan], networks = [], container_networks = [], email_tokens = [], api_keys = [], notifications = [],
     templates = [], audit_log = [], images = [], users_seq = 3, containers_seq = 8\<rparr>"

definition sample_env :: env where
  "sample_env = \<lparr>env_err = (\<lambda>_ _. None), env_str = (\<lambda>h _. ''x'' @ nat_str (length h)), env_strs = (\<lambda>_ _. []),
     env_out = (\<lambda>_ _. ([], [])), env_now = (\<lambda>h. 10000 + int (length h)),
     int8in = (\<lambda>s. case ParseInt s of (n, err) \<Rightarrow> if err then None else Some n), int8out = FormatInt,
     sha256hex = (\<lambda>s. s)\<rparr>"

definition sample_world :: world where
  "sample_world = \<lparr>db = sample_db, txn = None, hist = [], bus = GlobalBus, panicked = False\<rparr>"

lemma sample_db_ok: "db_ok sample_db"
  by (simp add: db_ok_def ok_defs sample_db_def sample_user_def sample_container_def sample_plan_def health_values_def)

lemma sample_world_ok: "world_ok sample_world"
  using sample_db_ok bus_ok_GlobalBus by (simp add: world_ok_def sample_world_def)

lemma sample_world_sel [simp]: "db sample_world = sample_db" "hist sample_world = []" "txn sample_world = None"
  by (simp_all add: sample_world_def)

lemma sample_containers: "containers sample_db = [sample_container]"
  by (simp add: sample_db_def)

lemma sample_env_err [simp]: "env_err sample_env h c = None"
  by (simp add: sample_env_def)

lemma sample_int8out:
  "int8out sample_env 1 = ''1''" "int8out sample_env 2 = ''2''" "int8out sample_env 7 = ''7''" "int8out sample_env 8 = ''8''"
  by (simp_all add: sample_env_def FormatInt_def nat_str.simps digit_def char_of_def bit_0)

lemma sample_int8: "- (2 ^ 63) \<le> i \<Longrightarrow> i < 2 ^ 63 \<Longrightarrow> int8in sample_env (int8out sample_env i) = Some i"
  by (simp add: sample_env_def ParseInt_FormatInt)

lemma sample_int8in: "int8in sample_env ''1'' = Some 1" "int8in sample_env ''2'' = Some 2" "int8in sample_env ''7'' = Some 7"
  using sample_int8[of 1] sample_int8[of 2] sample_int8[of 7] by (simp_all add: sample_int8out)

lemma sample_ids: "\<forall>r \<in> set (containers sample_db). int8in sample_env (int8out sample_env (c_id r)) = Some (c_id r)"
  by (simp add: sample_db_def sample_container_def sample_int8)

end
