(* ===== verification/Recovery.thy ===== *)
theory Recovery
  imports Notification_Store Sample
begin

text \<open>
  \<open>service/recoveryService.go\<close> and \<open>service/containerEventsService.go\<close>: the circuit breaker that
  restarts crashed containers with a growing delay and gives up after the plan's number of
  restarts, and the dispatch of Docker events to it. \<open>HandleCrash\<close> is in two halves, before and
  after its sleep, because other goroutines run during the sleep.
\<close>

section \<open>State and statements\<close>

definition backoffDelays :: "int list" where
  "backoffDelays = [5, 10, 20, 40, 60]"

record crash_info =
  ci_projectID :: int
  ci_projectName :: string
  ci_userID :: string
  ci_restartCount :: int
  ci_circuitOpen :: bool
  ci_maxRestarts :: int

text \<open>\<open>containers c JOIN users u ON u.id = c.user_id JOIN plans p ON p.id = u.plan_id WHERE c.container_id = $1\<close>\<close>

definition select_crash :: "env \<Rightarrow> string \<Rightarrow> database \<Rightarrow> crash_info result \<times> database" where
  "select_crash env dcid d =
     (first_row
        [\<lparr>ci_projectID = c_id c, ci_projectName = c_project_name c, ci_userID = int8out env (c_user_id c),
          ci_restartCount = c_restart_count c, ci_circuitOpen = c_circuit_open c, ci_maxRestarts = pl_max_auto_restarts p\<rparr>.
         c \<leftarrow> containers d, c_container_id c = dcid,
         u \<leftarrow> users d, u_id u = c_user_id c,
         p \<leftarrow> plans d, pl_id p = u_plan_id u], d)"

definition set_row :: "int \<Rightarrow> (container_row \<Rightarrow> container_row) \<Rightarrow> database \<Rightarrow> unit result \<times> database" where
  "set_row n f d = (Inr (), update_containers (\<lambda>c. c_id c = n) f d)"

definition open_circuit :: "container_row \<Rightarrow> container_row" where
  "open_circuit r = r\<lparr>c_circuit_open := True, c_status := ''stopped''\<rparr>"

definition mark_starting :: "time \<Rightarrow> container_row \<Rightarrow> container_row" where
  "mark_starting t r = r\<lparr>c_restart_count := c_restart_count r + 1, c_last_restart_at := Some t, c_status := ''starting''\<rparr>"

definition mark_stopped :: "container_row \<Rightarrow> container_row" where
  "mark_stopped r = r\<lparr>c_status := ''stopped''\<rparr>"

definition mark_running :: "time \<Rightarrow> container_row \<Rightarrow> container_row" where
  "mark_running t r = r\<lparr>c_status := ''running'', c_started_at := Some t\<rparr>"

section \<open>Notifications\<close>

definition uuid_New :: "env \<Rightarrow> string M" where
  "uuid_New env = do { w \<leftarrow> State_Monad.get; call env NewUUID; State_Monad.return (env_str env (hist w) NewUUID) }"

definition quoted :: "string \<Rightarrow> string" where
  "quoted s = [CHR 0x22] @ s @ [CHR 0x22]"

definition notify :: "env \<Rightarrow> string \<Rightarrow> string \<Rightarrow> string \<Rightarrow> string \<Rightarrow> unit M" where
  "notify env userID ty title body =
     do { nid \<leftarrow> uuid_New env;
          t \<leftarrow> now env;
          persistAndNotify env userID
            \<lparr>n_id = nid, n_type = ty, n_title = title, n_body = body, n_metadata = None, n_created_at = t\<rparr> }"

section \<open>HandleCrash\<close>

text \<open>
  The index into \<open>backoffDelays\<close>; a negative index would panic, and a panic in a goroutine takes
  the process down.
\<close>

definition backoff_delay :: "int \<Rightarrow> int option" where
  "backoff_delay restartCount =
     (let delayIdx = (if int (length backoffDelays) \<le> restartCount then int (length backoffDelays) - 1 else restartCount)
      in if delayIdx < 0 then None else Some (backoffDelays ! nat delayIdx))"

definition crash_check :: "env \<Rightarrow> string \<Rightarrow> crash_info option M" where
  "crash_check env dcid =
     do { r \<leftarrow> sql env Pool ''select crashed'' (\<lambda>_ _. select_crash env dcid);
          (case r of
             Inl _ \<Rightarrow> State_Monad.return None
           | Inr ci \<Rightarrow>
               if ci_circuitOpen ci then State_Monad.return None
               else if ci_maxRestarts ci \<le> ci_restartCount ci then
                 do { ignoring (sql env Pool ''open circuit'' (\<lambda>_ _. set_row (ci_projectID ci) open_circuit));
                      notify env (ci_userID ci) ''circuit_breaker_opened''
                        (''Container '' @ quoted (ci_projectName ci) @ '' permanently stopped'')
                        (''Restarted '' @ FormatInt (ci_restartCount ci) @
                         '' times without success. Circuit breaker opened. Fix the issue and reset manually.'');
                      State_Monad.return None }
               else
                 (case backoff_delay (ci_restartCount ci) of
                    None \<Rightarrow> do { w \<leftarrow> State_Monad.get; State_Monad.set (w\<lparr>panicked := True\<rparr>); State_Monad.return None }
                  | Some delay \<Rightarrow> do { call env (Sleep delay); State_Monad.return (Some ci) })) }"

definition crash_restart :: "env \<Rightarrow> string \<Rightarrow> int \<Rightarrow> crash_info \<Rightarrow> unit M" where
  "crash_restart env dcid exitCode ci =
     do { r \<leftarrow> sql env Pool ''count restart'' (\<lambda>_ t. set_row (ci_projectID ci) (mark_starting t));
          (case r of
             Inl _ \<Rightarrow> State_Monad.return ()
           | Inr _ \<Rightarrow>
               do { r2 \<leftarrow> call env (ContainerRestart dcid 10);
                    (case r2 of
                       Inl _ \<Rightarrow> ignoring (sql env Pool ''mark stopped'' (\<lambda>_ _. set_row (ci_projectID ci) mark_stopped))
                     | Inr _ \<Rightarrow>
                         do { ignoring (sql env Pool ''mark running'' (\<lambda>_ t. set_row (ci_projectID ci) (mark_running t)));
                              notify env (ci_userID ci) ''container_restarted''
                                (''Container '' @ quoted (ci_projectName ci) @ '' restarted'')
                                (''Auto-restarted after crash (exit code '' @ FormatInt exitCode @ ''). Attempt '' @
                                 FormatInt (ci_restartCount ci + 1) @ '' of '' @ FormatInt (ci_maxRestarts ci) @ ''.'') }) }) }"

definition HandleCrash :: "env \<Rightarrow> string \<Rightarrow> int \<Rightarrow> unit M" where
  "HandleCrash env dcid exitCode =
     do { r \<leftarrow> crash_check env dcid;
          (case r of None \<Rightarrow> State_Monad.return () | Some ci \<Rightarrow> crash_restart env dcid exitCode ci) }"

section \<open>The other events\<close>

definition HandleOOM :: "env \<Rightarrow> string \<Rightarrow> unit M" where
  "HandleOOM env dcid =
     ignoring (sql env Pool ''mark oom'' (\<lambda>_ _ d.
       (Inr () :: unit result, update_containers (\<lambda>c. c_container_id c = dcid) (\<lambda>r. r\<lparr>c_oom_killed := True\<rparr>) d)))"

text \<open>The \<open>CHECK\<close> constraint on \<open>health_status\<close> refuses other values when a row matches.\<close>

definition update_health :: "string \<Rightarrow> string \<Rightarrow> database \<Rightarrow> unit result \<times> database" where
  "update_health dcid status d =
     (if status \<notin> {''none'', ''healthy'', ''unhealthy'', ''starting''} \<and> (\<exists>c \<in> set (containers d). c_container_id c = dcid)
      then (Inl (sql_violation ''containers_health_status_check''), d)
      else (Inr (), update_containers (\<lambda>c. c_container_id c = dcid) (\<lambda>r. r\<lparr>c_health_status := status\<rparr>) d))"

definition select_owner :: "env \<Rightarrow> string \<Rightarrow> database \<Rightarrow> (string \<times> string) result \<times> database" where
  "select_owner env dcid d =
     (map_sum (\<lambda>e. e) (\<lambda>c. (c_project_name c, int8out env (c_user_id c)))
        (first_row (filter (\<lambda>c. c_container_id c = dcid) (containers d))), d)"

definition HandleHealthChange :: "env \<Rightarrow> string \<Rightarrow> string \<Rightarrow> unit M" where
  "HandleHealthChange env dcid status =
     do { ignoring (sql env Pool ''update health'' (\<lambda>_ _. update_health dcid status));
          (if status \<noteq> ''unhealthy'' then State_Monad.return ()
           else do { r \<leftarrow> sql env Pool ''select owner'' (\<lambda>_ _. select_owner env dcid);
                     (case r of
                        Inl _ \<Rightarrow> State_Monad.return ()
                      | Inr (projectName, userID) \<Rightarrow>
                          notify env userID ''container_unhealthy''
                            (''Container '' @ quoted projectName @ '' is unhealthy'')
                            ''Health check is failing. Check your application logs.'') }) }"

definition access_denied :: go_error where
  "access_denied = ErrText ''container not found or access denied''"

definition reset_circuit :: "container_row \<Rightarrow> container_row" where
  "reset_circuit r = r\<lparr>c_circuit_open := False, c_restart_count := 0, c_oom_killed := False\<rparr>"

text \<open>The statement's result is the number of rows it affected.\<close>

definition update_reset :: "env \<Rightarrow> string \<Rightarrow> string \<Rightarrow> database \<Rightarrow> nat result \<times> database" where
  "update_reset env userID projectID d =
     with_bigint env projectID (\<lambda>n. with_bigint env userID (\<lambda>u.
       (Inr (length (filter (\<lambda>c. c_id c = n \<and> c_user_id c = u) (containers d))),
        update_containers (\<lambda>c. c_id c = n \<and> c_user_id c = u) reset_circuit d)) d) d"

definition ResetCircuit :: "env \<Rightarrow> string \<Rightarrow> string \<Rightarrow> unit R" where
  "ResetCircuit env userID projectID =
     do { r \<leftarrow> sql env Pool ''reset circuit'' (\<lambda>_ _. update_reset env userID projectID);
          (case r of
             Inl _ \<Rightarrow> fail access_denied
           | Inr n \<Rightarrow> if n = 0 then fail access_denied else ok ()) }"

section \<open>Docker events\<close>

datatype recovery_task = Crash string int | OOM string | Health string string

definition dispatch :: "string \<Rightarrow> string \<Rightarrow> string \<Rightarrow> recovery_task option" where
  "dispatch action actorID exitCodeAttr =
     (if action = ''die'' then
        (let exitCode = fst (ParseInt exitCodeAttr)
         in if exitCode \<noteq> 0 then Some (Crash actorID exitCode) else None)
      else if action = ''oom'' then Some (OOM actorID)
      else if action = ''health_status: healthy'' then Some (Health actorID ''healthy'')
      else if action = ''health_status: unhealthy'' then Some (Health actorID ''unhealthy'')
      else if action = ''health_status: starting'' then Some (Health actorID ''starting'')
      else None)"

fun run_task :: "env \<Rightarrow> recovery_task \<Rightarrow> unit M" where
  "run_task env (Crash dcid code) = HandleCrash env dcid code"
| "run_task env (OOM dcid) = HandleOOM env dcid"
| "run_task env (Health dcid st) = HandleHealthChange env dcid st"

end
