(* ===== verification/Tree_Parser.thy ===== *)
theory Tree_Parser
  imports Go_Std
begin

text \<open>
  \<open>utils/parser.go\<close>: the folder tree made from the output of \<open>find /workspace | sort\<close>. The nodes are
  heap objects that are appended to their parent's \<open>Children\<close> after other pointers to the parent
  exist, so the model keeps them in a heap, a list of cells addressed by position; the tree the
  caller sees is read back from the heap.
\<close>

section \<open>The parser\<close>

datatype Node = Node (node_Name: string) (node_Type: string) (node_Children: "Node list")

record cell =
  cl_Name :: string
  cl_Type :: string
  cl_Children :: "nat list"

abbreviation newline :: char where
  "newline \<equiv> CHR 0x0A"

definition workspace :: string where
  "workspace = ''/workspace''"

definition parser_paths :: "string \<Rightarrow> string list" where
  "parser_paths input =
     filter (\<lambda>line. line \<noteq> [] \<and> line \<noteq> workspace) (map TrimSpace (split_on newline (TrimSpace input)))"

text \<open>First pass: a path is a directory when another one continues it after a slash.\<close>

definition dirSet :: "string list \<Rightarrow> string \<Rightarrow> bool" where
  "dirSet paths p1 \<longleftrightarrow> p1 \<in> set paths \<and> (\<exists>p2 \<in> set paths. HasPrefix p2 (p1 @ [slash]))"

definition append_child :: "nat \<Rightarrow> nat \<Rightarrow> cell list \<Rightarrow> cell list" where
  "append_child i j h = h[i := (h ! i)\<lparr>cl_Children := cl_Children (h ! i) @ [j]\<rparr>]"

text \<open>Second pass, one path. The new node is the next free cell.\<close>

definition add_path :: "(string \<Rightarrow> bool) \<Rightarrow> string \<Rightarrow> cell list \<times> (string \<rightharpoonup> nat) \<Rightarrow> cell list \<times> (string \<rightharpoonup> nat)" where
  "add_path isDir p s =
     (case s of (h, nodes) \<Rightarrow>
        let node = \<lparr>cl_Name = Base p, cl_Type = (if isDir p then ''dir'' else ''file''), cl_Children = []\<rparr> in
        case nodes (Dir p) of
          None \<Rightarrow> (h, nodes)
        | Some parent \<Rightarrow> (append_child parent (length h) h @ [node], nodes(p \<mapsto> length h)))"

definition root_cell :: cell where
  "root_cell = \<lparr>cl_Name = ''.'', cl_Type = ''dir'', cl_Children = []\<rparr>"

definition parse_heap :: "string list \<Rightarrow> cell list \<times> (string \<rightharpoonup> nat)" where
  "parse_heap paths = fold (add_path (dirSet paths)) paths ([root_cell], [workspace \<mapsto> 0])"

text \<open>
  Reading the tree back. A cell is only ever linked below an older one (\<open>heap_ok\<close> below), so the
  filter never drops a child; it makes the recursion well-founded.
\<close>

function tree_of :: "cell list \<Rightarrow> nat \<Rightarrow> Node" where
  "tree_of h i =
     (if i < length h
      then Node (cl_Name (h ! i)) (cl_Type (h ! i)) (map (tree_of h) (filter (\<lambda>j. i < j) (cl_Children (h ! i))))
      else Node [] [] [])"
  by pat_completeness auto
termination by (relation "measure (\<lambda>(h, i). length h - i)") auto

declare tree_of.simps [simp del]

definition ParserTreeFolder :: "string \<Rightarrow> Node" where
  "ParserTreeFolder input = tree_of (fst (parse_heap (parser_paths input))) 0"

section \<open>What the tree lists\<close>

text \<open>The absolute path of every node below a node whose own path is \<open>p\<close>.\<close>

fun tree_paths :: "string \<Rightarrow> Node \<Rightarrow> string list" where
  "tree_paths p (Node n t cs) = concat (map (\<lambda>c. (p @ slash # node_Name c) # tree_paths (p @ slash # node_Name c) c) cs)"

text \<open>Every node below is a directory exactly when it has children.\<close>

fun types_right :: "Node \<Rightarrow> bool" where
  "types_right (Node n t cs) \<longleftrightarrow> (t = (if cs = [] then ''file'' else ''dir'')) \<and> (\<forall>c \<in> set cs. types_right c)"

section \<open>The heap\<close>

text \<open>
  The invariant of the second pass: \<open>ps\<close> gives the path of every cell. Every cell but the first is
  the child of exactly one older cell, whose path it continues; \<open>nodes\<close> finds cells by their paths.
\<close>

definition heap_ok :: "string list \<Rightarrow> cell list \<Rightarrow> (string \<rightharpoonup> nat) \<Rightarrow> bool" where
  "heap_ok ps h nodes \<longleftrightarrow>
     length ps = length h \<and> 0 < length h \<and> ps ! 0 = workspace \<and> distinct ps \<and>
     (\<forall>p i. nodes p = Some i \<longleftrightarrow> i < length h \<and> ps ! i = p) \<and>
     (\<forall>i < length h. \<forall>j \<in> set (cl_Children (h ! i)). i < j \<and> j < length h \<and> ps ! j = ps ! i @ slash # cl_Name (h ! j)) \<and>
     (\<forall>j < length h. 0 < j \<longrightarrow> (\<exists>i < j. j \<in> set (cl_Children (h ! i))))"

lemma heap_okD:
  assumes "heap_ok ps h nodes"
  shows "length ps = length h" "0 < length h" "ps ! 0 = workspace" "distinct ps"
    "nodes p = Some i \<longleftrightarrow> i < length h \<and> ps ! i = p"
    "i < length h \<Longrightarrow> j \<in> set (cl_Children (h ! i)) \<Longrightarrow> i < j \<and> j < length h \<and> ps ! j = ps ! i @ slash # cl_Name (h ! j)"
    "j < length h \<Longrightarrow> 0 < j \<Longrightarrow> \<exists>i < j. j \<in> set (cl_Children (h ! i))"
  using assms unfolding heap_ok_def by blast+

lemma heap_ok_root: "heap_ok [workspace] [root_cell] [workspace \<mapsto> 0]"
  by (auto simp: heap_ok_def root_cell_def split: if_splits)

text \<open>A proper path: a known parent path and a proper last element.\<close>

lemma Base_append: "e \<noteq> [] \<Longrightarrow> slash \<notin> set e \<Longrightarrow> Base (d @ slash # e) = e"
proof -
  assume e: "e \<noteq> []" "slash \<notin> set e"
  then have "last e \<noteq> slash" by (metis last_in_set)
  with e have "TrimRight (\<lambda>c. c = slash) (d @ slash # e) = d @ slash # e"
    by (cases e rule: rev_cases) (auto simp: TrimRight_def)
  moreover have "takeWhile (\<lambda>c. c \<noteq> slash) (rev e @ slash # rev d) = rev e"
    using e(2) by (subst takeWhile_append2) auto
  ultimately show ?thesis using e by (simp add: Base_def)
qed

definition clean_path :: "string \<Rightarrow> bool" where
  "clean_path p \<longleftrightarrow> (\<exists>es. es \<noteq> [] \<and> (\<forall>e \<in> set es. proper_elem e) \<and> p = slash # join_on slash es)"

lemma clean_elems_proper: "\<forall>e \<in> set es. proper_elem e \<Longrightarrow> clean_elems r st (es @ [[]]) = rev es @ st"
proof (induction es arbitrary: st)
  case (Cons e es)
  then have "e \<noteq> []" "e \<noteq> dot" "e \<noteq> dotdot" by (auto simp: proper_elem_def)
  with Cons show ?case by simp
qed simp

lemma join_on_end: "xs \<noteq> [] \<Longrightarrow> join_on c (xs @ [[]]) = join_on c xs @ [c]"
  by (induction c xs rule: join_on.induct) simp_all

lemma Clean_end:
  assumes "clean_path d"
  shows "Clean (d @ [slash]) = d"
proof -
  from assms[unfolded clean_path_def] obtain es
    where es: "es \<noteq> []" "\<forall>e \<in> set es. proper_elem e" "d = slash # join_on slash es" by (elim exE conjE)
  have "slash \<notin> set x" if "x \<in> set (es @ [[]])" for x
    using that es(2) by (cases "x = []") (simp_all add: proper_elem_def)
  then have "split_on slash (join_on slash (es @ [[]])) = es @ [[]]" by (rule split_join[rotated]) simp_all
  then have sp: "split_on slash (d @ [slash]) = [] # es @ [[]]"
    unfolding es(3) append_Cons join_on_end[OF es(1), symmetric] by simp
  have "Clean (d @ [slash]) = slash # join_on slash (rev (clean_elems True [] (split_on slash (d @ [slash]))))"
    unfolding es(3) by (simp add: Clean_def Let_def)
  also have "clean_elems True [] (split_on slash (d @ [slash])) = rev es"
    unfolding sp using clean_elems_proper[OF es(2), of True "[]"] by simp
  finally show ?thesis by (simp only: es(3) rev_rev_ident)
qed

lemma to_last_slash: "slash \<notin> set e \<Longrightarrow> dropWhile (\<lambda>c. c \<noteq> slash) (rev (d @ slash # e)) = slash # rev d"
  by (simp, subst dropWhile_append2) auto

lemma Dir_append:
  assumes "clean_path d" and "slash \<notin> set e"
  shows "Dir (d @ slash # e) = d"
  using to_last_slash[OF assms(2), of d] Clean_end[OF assms(1)] by (simp add: Dir_def)

section \<open>The second pass keeps the invariant\<close>

text \<open>
  The output of \<open>find | sort\<close>: no path twice, and every path continues \<open>/workspace\<close> or an earlier path by
  one element.
\<close>

fun listed :: "string list \<Rightarrow> string list \<Rightarrow> bool" where
  "listed seen [] \<longleftrightarrow> True"
| "listed seen (p # ps) \<longleftrightarrow>
     p \<notin> set seen \<and> (\<exists>d \<in> set seen. \<exists>e. proper_elem e \<and> p = d @ slash # e) \<and> listed (seen @ [p]) ps"

definition typed :: "(string \<Rightarrow> bool) \<Rightarrow> string list \<Rightarrow> cell list \<Rightarrow> bool" where
  "typed isDir ps h \<longleftrightarrow> cl_Type (h ! 0) = ''dir'' \<and>
     (\<forall>j < length h. 0 < j \<longrightarrow>
        slash \<notin> set (cl_Name (h ! j)) \<and> cl_Type (h ! j) = (if isDir (ps ! j) then ''dir'' else ''file''))"

lemma nth_append_child:
  "i < length h \<Longrightarrow> k < length h \<Longrightarrow>
     append_child i j h ! k = (if k = i then (h ! i)\<lparr>cl_Children := cl_Children (h ! i) @ [j]\<rparr> else h ! k)"
  by (simp add: append_child_def nth_list_update)

lemma length_append_child [simp]: "length (append_child i j h) = length h"
  by (simp add: append_child_def)

lemma append_child_sel:
  assumes "i < length h" and "k < length h"
  shows "cl_Name (append_child i j h ! k) = cl_Name (h ! k)" "cl_Type (append_child i j h ! k) = cl_Type (h ! k)"
    "cl_Children (append_child i j h ! k) = cl_Children (h ! k) @ (if k = i then [j] else [])"
  using assms by (simp_all add: nth_append_child)

lemma add_path_ok:
  assumes ok: "heap_ok ps h nodes" and new: "p \<notin> set ps" and d: "d \<in> set ps" "clean_path d"
    and e: "proper_elem e" "p = d @ slash # e" and ty: "typed isDir ps h"
  obtains h' nodes' where "add_path isDir p (h, nodes) = (h', nodes')" and "heap_ok (ps @ [p]) h' nodes'" and "typed isDir (ps @ [p]) h'"
proof -
  note ok = heap_okD[OF ok]
  have e': "e \<noteq> []" "slash \<notin> set e" using e(1) by (auto simp: proper_elem_def)
  obtain i where i: "i < length h" "ps ! i = d" using d(1) ok(1) by (metis in_set_conv_nth)
  let ?n = "length h"
  let ?node = "\<lparr>cl_Name = e, cl_Type = (if isDir p then ''dir'' else ''file''), cl_Children = []\<rparr>"
  let ?h = "append_child i ?n h @ [?node]"
  have old: "(ps @ [p]) ! k = ps ! k" "?h ! k = append_child i ?n h ! k" if "k < ?n" for k
    using that ok(1) by (simp_all add: nth_append)
  have last: "(ps @ [p]) ! ?n = p" "?h ! ?n = ?node" using ok(1) by (simp_all add: nth_append)
  have "nodes (Dir p) = Some i" using ok(5) i Dir_append[OF d(2) e'(2)] e(2) by auto
  then have run: "add_path isDir p (h, nodes) = (?h, nodes(p \<mapsto> ?n))"
    using Base_append[OF e'] e(2) by (simp add: add_path_def)
  have "heap_ok (ps @ [p]) ?h (nodes(p \<mapsto> ?n))"
    unfolding heap_ok_def
  proof (intro conjI allI impI ballI)
    show "distinct (ps @ [p])" using ok(4) new by simp
    show "(ps @ [p]) ! 0 = workspace" using ok(2,3) old(1) by simp
    show "((nodes(p \<mapsto> ?n)) q = Some k) \<longleftrightarrow> k < length ?h \<and> (ps @ [p]) ! k = q" for q k
    proof (cases "k < ?n")
      case True
      then have "ps ! k \<noteq> p" using new ok(1) nth_mem by metis
      with True ok(5)[of q k] old(1)[OF True] show ?thesis by auto
    next
      case False
      with ok(5)[of q k] last(1) show ?thesis by (cases "k = ?n") auto
    qed
  next
    fix k j assume k: "k < length ?h" and j: "j \<in> set (cl_Children (?h ! k))"
    have "k < ?n" using k j last(2) by (cases "k = ?n") auto
    with j i(1) have "j \<in> set (cl_Children (h ! k)) \<or> (k = i \<and> j = ?n)"
      by (auto simp: old append_child_sel split: if_splits)
    then have "k < j \<and> j < length ?h \<and> (ps @ [p]) ! j = (ps @ [p]) ! k @ slash # cl_Name (?h ! j)"
    proof
      assume "j \<in> set (cl_Children (h ! k))"
      from ok(6)[OF \<open>k < ?n\<close> this] show ?thesis using \<open>k < ?n\<close> i(1) by (simp add: old append_child_sel)
    qed (use i old(1)[OF i(1)] e(2) last in simp)
    then show "k < j" "j < length ?h" "(ps @ [p]) ! j = (ps @ [p]) ! k @ slash # cl_Name (?h ! j)" by auto
  next
    fix j assume j: "j < length ?h" "0 < j"
    show "\<exists>k < j. j \<in> set (cl_Children (?h ! k))"
    proof (cases "j < ?n")
      case True
      with ok(7) j(2) obtain k where "k < j" "j \<in> set (cl_Children (h ! k))" by blast
      with True i(1) show ?thesis by (intro exI[of _ k]) (auto simp: old append_child_sel)
    next
      case False
      with j have "j = ?n" by simp
      with i(1) show ?thesis by (intro exI[of _ i]) (simp add: old append_child_sel)
    qed
  qed (use ok(1) in simp_all)
  moreover have "typed isDir (ps @ [p]) ?h"
    unfolding typed_def
  proof (intro conjI[of "_ = ''dir''"] allI impI)
    show "cl_Type (?h ! 0) = ''dir''" using ty ok(2) i(1) by (simp add: old append_child_sel typed_def)
  next
    fix j assume j: "j < length ?h" "0 < j"
    show "slash \<notin> set (cl_Name (?h ! j)) \<and> cl_Type (?h ! j) = (if isDir ((ps @ [p]) ! j) then ''dir'' else ''file'')"
    proof (cases "j < ?n")
      case True
      with ty j i(1) show ?thesis by (simp add: old append_child_sel typed_def)
    next
      case False
      with j have "j = ?n" by simp
      then show ?thesis using e'(2) by (simp add: last)
    qed
  qed
  ultimately show ?thesis using run that by blast
qed

lemma clean_path_workspace: "clean_path workspace"
  unfolding clean_path_def workspace_def
  by (rule exI[of _ "[''workspace'']"]) (simp add: proper_elem_def dot_def dotdot_def)

lemma join_on_snoc: "xs \<noteq> [] \<Longrightarrow> join_on c (xs @ [y]) = join_on c xs @ c # y"
  by (induction c xs rule: join_on.induct) simp_all

lemma clean_path_append: "clean_path d \<Longrightarrow> proper_elem e \<Longrightarrow> clean_path (d @ slash # e)"
  unfolding clean_path_def
  by (elim exE conjE, rule_tac x = "es @ [e]" in exI) (simp add: join_on_snoc)

lemma parse_fold:
  assumes "heap_ok ps h nodes" and "\<forall>d \<in> set ps. clean_path d" and "listed ps paths" and "typed isDir ps h"
  obtains h' nodes' where "fold (add_path isDir) paths (h, nodes) = (h', nodes')"
    and "heap_ok (ps @ paths) h' nodes'" and "typed isDir (ps @ paths) h'"
  using assms
proof (induction paths arbitrary: ps h nodes thesis)
  case Nil
  then show ?case by simp
next
  case (Cons p paths)
  from Cons.prems(4) obtain d e where p: "p \<notin> set ps" "d \<in> set ps" "proper_elem e" "p = d @ slash # e" "listed (ps @ [p]) paths"
    by auto
  with Cons.prems(3) have "clean_path d" by blast
  from add_path_ok[OF Cons.prems(2) p(1,2) this p(3,4) Cons.prems(5)] obtain h1 nodes1
    where 1: "add_path isDir p (h, nodes) = (h1, nodes1)" "heap_ok (ps @ [p]) h1 nodes1" "typed isDir (ps @ [p]) h1" .
  have "\<forall>d \<in> set (ps @ [p]). clean_path d" using Cons.prems(3) p clean_path_append by auto
  from Cons.IH[OF _ 1(2) this p(5) 1(3)] obtain h' nodes' where
    "fold (add_path isDir) paths (h1, nodes1) = (h', nodes')" "heap_ok ((ps @ [p]) @ paths) h' nodes'" "typed isDir ((ps @ [p]) @ paths) h'"
    by blast
  with 1(1) show ?case by (intro Cons.prems(1)) simp_all
qed

section \<open>Reading the tree back\<close>

definition edge :: "cell list \<Rightarrow> nat \<Rightarrow> nat \<Rightarrow> bool" where
  "edge h i j \<longleftrightarrow> i < length h \<and> j \<in> set (cl_Children (h ! i))"

lemma tranclp_first: "R\<^sup>+\<^sup>+ i k \<longleftrightarrow> (\<exists>j. R i j \<and> (k = j \<or> R\<^sup>+\<^sup>+ j k))"
  by (metis converse_tranclpE tranclp.r_into_trancl tranclp_into_tranclp2)

lemma tree_of_unfold:
  assumes "heap_ok ps h nodes" and "i < length h"
  shows "tree_of h i = Node (cl_Name (h ! i)) (cl_Type (h ! i)) (map (tree_of h) (cl_Children (h ! i)))"
proof -
  have "filter (\<lambda>j. i < j) (cl_Children (h ! i)) = cl_Children (h ! i)"
    using heap_okD(6)[OF assms] by (simp add: filter_id_conv)
  with assms(2) show ?thesis by (subst tree_of.simps) simp
qed

lemma node_Name_tree_of: "heap_ok ps h nodes \<Longrightarrow> i < length h \<Longrightarrow> node_Name (tree_of h i) = cl_Name (h ! i)"
  by (simp add: tree_of_unfold)

lemma tree_paths_reach:
  assumes "heap_ok ps h nodes" and "i < length h"
  shows "set (tree_paths (ps ! i) (tree_of h i)) = {ps ! k | k. (edge h)\<^sup>+\<^sup>+ i k}"
  using assms(2)
proof (induction "length h - i" arbitrary: i rule: less_induct)
  case less
  have child: "node_Name (tree_of h j) = cl_Name (h ! j) \<and> ps ! j = ps ! i @ slash # cl_Name (h ! j) \<and>
      set (tree_paths (ps ! i @ slash # cl_Name (h ! j)) (tree_of h j)) = {ps ! k | k. (edge h)\<^sup>+\<^sup>+ j k}" if "j \<in> set (cl_Children (h ! i))" for j
  proof -
    from heap_okD(6)[OF assms(1) less.prems that] have j: "i < j" "j < length h" "ps ! j = ps ! i @ slash # cl_Name (h ! j)" by auto
    with less.hyps[of j] less.prems node_Name_tree_of[OF assms(1) j(2)] show ?thesis by simp
  qed
  have "set (tree_paths (ps ! i) (tree_of h i)) =
      (\<Union>j \<in> set (cl_Children (h ! i)). insert (ps ! j) {ps ! k | k. (edge h)\<^sup>+\<^sup>+ j k})"
    using child by (simp add: tree_of_unfold[OF assms(1) less.prems])
  also have "\<dots> = {ps ! k | k. (edge h)\<^sup>+\<^sup>+ i k}"
    using less.prems unfolding tranclp_first[of "edge h" i] edge_def[of h i] by blast
  finally show ?case .
qed

lemma reach_all:
  assumes "heap_ok ps h nodes" and "0 < k" and "k < length h"
  shows "(edge h)\<^sup>+\<^sup>+ 0 k"
  using assms(2,3)
proof (induction k rule: less_induct)
  case (less k)
  from heap_okD(7)[OF assms(1) less.prems(2,1)] obtain i where i: "i < k" "j \<in> set (cl_Children (h ! i)) \<Longrightarrow> edge h i j"
    "k \<in> set (cl_Children (h ! i))" for j
    using less.prems(2) by (auto simp: edge_def)
  then show ?case using less.IH[of i] less.prems(2) by (cases "i = 0") (auto intro: tranclp.intros)
qed

lemma reach_above:
  assumes "heap_ok ps h nodes" and "(edge h)\<^sup>+\<^sup>+ i k"
  shows "i < k \<and> k < length h"
proof -
  have e: "a < b \<and> b < length h" if "edge h a b" for a b
    using that heap_okD(6)[OF assms(1), of a b] by (simp add: edge_def)
  from assms(2) show ?thesis
  proof induction
    case (base y)
    then show ?case by (rule e)
  next
    case (step y z)
    then show ?case using e[of y z] by linarith
  qed
qed

lemma tree_paths_all:
  assumes "heap_ok (workspace # paths) h nodes"
  shows "set (tree_paths workspace (tree_of h 0)) = set paths"
proof -
  note ok = heap_okD[OF assms]
  have "set (tree_paths ((workspace # paths) ! 0) (tree_of h 0)) = {(workspace # paths) ! k | k. (edge h)\<^sup>+\<^sup>+ 0 k}"
    by (rule tree_paths_reach[OF assms ok(2)])
  also have "\<dots> = {(workspace # paths) ! k | k. 0 < k \<and> k < length h}"
    using reach_all[OF assms] reach_above[OF assms] by blast
  also have "\<dots> = set paths"
    unfolding ok(1)[symmetric] set_conv_nth[of paths]
    by (auto simp: gr0_conv_Suc) (metis Suc_less_eq nth_Cons_Suc zero_less_Suc)
  finally show ?thesis by simp
qed

section \<open>Directories are the nodes with children\<close>

lemma slash_split_unique: "slash \<notin> set e \<Longrightarrow> slash \<notin> set e' \<Longrightarrow> d @ slash # e = d' @ slash # e' \<Longrightarrow> d = d'"
  using to_last_slash[of e d] to_last_slash[of e' d'] by simp

lemma listed_parent:
  "listed seen paths \<Longrightarrow> p \<in> set paths \<Longrightarrow> \<exists>d \<in> set seen \<union> set paths. \<exists>e. proper_elem e \<and> p = d @ slash # e"
proof (induction seen paths rule: listed.induct)
  case (2 seen q ps)
  show ?case
  proof (cases "p = q")
    case True
    with 2(2) show ?thesis by auto
  next
    case False
    with 2 have "\<exists>d \<in> set (seen @ [q]) \<union> set ps. \<exists>e. proper_elem e \<and> p = d @ slash # e" by auto
    then show ?thesis by auto
  qed
qed simp

lemma proper_no_slash: "proper_elem e \<Longrightarrow> slash \<notin> set e"
  by (simp add: proper_elem_def)

lemma parent_listed:
  assumes l: "listed [workspace] paths" and "p2 \<in> set paths" and "HasPrefix p2 (p1 @ [slash])" and "p1 \<in> set paths"
  shows "\<exists>e. proper_elem e \<and> p1 @ slash # e \<in> set paths"
  using assms(2,3)
proof (induction "length p2" arbitrary: p2 rule: less_induct)
  case less
  from listed_parent[OF l less.prems(1)] obtain d e
    where d: "d = workspace \<or> d \<in> set paths" "proper_elem e" "p2 = d @ slash # e" by auto
  from less.prems(2) d(3) obtain x where x: "d @ slash # e = p1 @ slash # x" by (auto simp: HasPrefix_def prefix_def)
  show ?case
  proof (cases "slash \<in> set x")
    case False
    from slash_split_unique[OF proper_no_slash[OF d(2)] False x] have "d = p1" .
    with d less.prems(1) show ?thesis by blast
  next
    case True
    then obtain y z where y: "x = y @ slash # z" "slash \<notin> set z" by (meson split_list_last)
    from x y(1) have "d @ slash # e = (p1 @ slash # y) @ slash # z" by simp
    from slash_split_unique[OF proper_no_slash[OF d(2)] y(2) this] have dy: "d = p1 @ slash # y" .
    have "d \<noteq> workspace"
    proof
      assume "d = workspace"
      obtain d' e' where "p1 = d' @ slash # e'" using listed_parent[OF l assms(4)] by blast
      then have "1 < count_list d slash" using dy by simp
      then show False unfolding \<open>d = workspace\<close> by (simp add: workspace_def)
    qed
    with d(1) have "d \<in> set paths" by simp
    moreover have "HasPrefix d (p1 @ [slash])" using dy by (simp add: HasPrefix_def)
    moreover have "length d < length p2" using d(3) by simp
    ultimately show ?thesis by (intro less.hyps)
  qed
qed

lemma has_child_iff:
  assumes ok: "heap_ok (workspace # paths) h nodes" and ty: "typed isDir (workspace # paths) h"
    and l: "listed [workspace] paths" and j: "0 < j" "j < length h"
  shows "dirSet paths ((workspace # paths) ! j) \<longleftrightarrow> cl_Children (h ! j) \<noteq> []"
proof -
  note ok' = heap_okD[OF ok]
  define ps where "ps = workspace # paths"
  have mem: "ps ! k \<in> set paths" if "0 < k" "k < length h" for k
    using that ok'(1) by (cases k) (auto simp: ps_def)
  have child: "j < k \<and> k < length h \<and> ps ! k = ps ! j @ slash # cl_Name (h ! k)" if "j < length h" "k \<in> set (cl_Children (h ! j))" for j k
    using ok'(6)[OF that] by (simp add: ps_def)
  show ?thesis unfolding ps_def[symmetric]
  proof
    assume "dirSet paths (ps ! j)"
    then obtain p2 where "p2 \<in> set paths" "HasPrefix p2 (ps ! j @ [slash])" by (auto simp: dirSet_def)
    from parent_listed[OF l this mem[OF j]] obtain e where e: "proper_elem e" "ps ! j @ slash # e \<in> set paths" by blast
    then obtain k0 where "k0 < length paths" "paths ! k0 = ps ! j @ slash # e" by (metis in_set_conv_nth)
    with ok'(1) obtain k where k: "k < length h" "ps ! k = ps ! j @ slash # e" "0 < k"
      by (intro that[of "Suc k0"]) (auto simp: ps_def)
    from ok'(7)[OF k(1,3)] obtain i where i: "i < k" "k \<in> set (cl_Children (h ! i))" by blast
    have "slash \<notin> set (cl_Name (h ! k))" using ty k by (simp add: typed_def)
    then have "ps ! j = ps ! i"
      by (rule slash_split_unique[OF proper_no_slash[OF e(1)]]) (use child[of i k] i k in simp)
    then have "i = j" using ok'(1,4) i(1) k(1) j(2) by (simp add: nth_eq_iff_index_eq ps_def)
    with i show "cl_Children (h ! j) \<noteq> []" by auto
  next
    assume "cl_Children (h ! j) \<noteq> []"
    then obtain k where "k \<in> set (cl_Children (h ! j))" by (meson list.set_sel(1))
    from child[OF j(2) this] have k: "j < k" "k < length h" "ps ! k = ps ! j @ slash # cl_Name (h ! k)" by auto
    then have "HasPrefix (ps ! k) (ps ! j @ [slash])" by (simp add: HasPrefix_def)
    with mem[of k] mem[OF j] k show "dirSet paths (ps ! j)" unfolding dirSet_def by auto
  qed
qed

lemma types_right_tree:
  assumes ok: "heap_ok (workspace # paths) h nodes" and ty: "typed (dirSet paths) (workspace # paths) h"
    and l: "listed [workspace] paths"
  shows "0 < j \<Longrightarrow> j < length h \<Longrightarrow> types_right (tree_of h j)"
proof (induction "length h - j" arbitrary: j rule: less_induct)
  case less
  have "types_right (tree_of h k)" if "k \<in> set (cl_Children (h ! j))" for k
    using heap_okD(6)[OF ok less.prems(2) that] less.hyps[of k] less.prems by auto
  moreover have "cl_Type (h ! j) = (if cl_Children (h ! j) = [] then ''file'' else ''dir'')"
    using ty less.prems has_child_iff[OF ok ty l less.prems] by (simp add: typed_def)
  ultimately show ?case by (simp add: tree_of_unfold[OF ok less.prems(2)])
qed

section \<open>Lines\<close>

lemma TrimSpace_fixed:
  assumes "TrimSpace p = p" and "p \<noteq> []"
  shows "\<not> is_space (hd p)" "\<not> is_space (last p)"
proof -
  have le: "length (TrimSpace s) \<le> length (dropWhile is_space s)" for s
    by (simp add: TrimSpace_def TrimRight_def length_dropWhile_le[THEN order_trans])
  show 1: "\<not> is_space (hd p)"
  proof
    assume "is_space (hd p)"
    with assms(2) have "length (dropWhile is_space p) < length p"
      by (cases p) (simp_all add: length_dropWhile_le less_Suc_eq_le)
    with le[of p] assms(1) show False by simp
  qed
  then have d: "dropWhile is_space p = p" by (cases p) simp_all
  show "\<not> is_space (last p)"
  proof
    assume "is_space (last p)"
    with assms(2) have "length (dropWhile is_space (rev p)) < length p"
      using length_dropWhile_le[of is_space "rev (butlast p)"] by (cases p rule: rev_cases) auto
    with arg_cong[OF assms(1), of length] d show False by (simp add: TrimSpace_def TrimRight_def)
  qed
qed

lemma TrimSpace_line: "s \<noteq> [] \<Longrightarrow> \<not> is_space (hd s) \<Longrightarrow> \<not> is_space (last s) \<Longrightarrow> TrimSpace (s @ [newline]) = s"
proof -
  assume s: "s \<noteq> []" "\<not> is_space (hd s)" "\<not> is_space (last s)"
  then have "dropWhile is_space (s @ [newline]) = s @ [newline]" by (cases s) simp_all
  moreover have "dropWhile is_space (rev s) = rev s" using s by (cases s rule: rev_cases) simp_all
  moreover have "is_space newline" by (simp add: is_space_def)
  ultimately show ?thesis by (simp add: TrimSpace_def TrimRight_def)
qed

definition unlines :: "string list \<Rightarrow> string" where
  "unlines ls = concat (map (\<lambda>l. l @ [newline]) ls)"

lemma unlines_join: "ls \<noteq> [] \<Longrightarrow> unlines ls = join_on newline ls @ [newline]"
  by (induction newline ls rule: join_on.induct) (simp_all add: unlines_def)

lemma join_on_ends:
  "ls \<noteq> [] \<Longrightarrow> \<forall>l \<in> set ls. l \<noteq> [] \<and> \<not> is_space (hd l) \<and> \<not> is_space (last l) \<Longrightarrow>
     join_on c ls \<noteq> [] \<and> \<not> is_space (hd (join_on c ls)) \<and> \<not> is_space (last (join_on c ls))"
  by (induction c ls rule: join_on.induct) auto

lemma parser_paths_lines:
  assumes "\<forall>l \<in> set ls. l \<noteq> [] \<and> l \<noteq> workspace \<and> newline \<notin> set l \<and> TrimSpace l = l"
  shows "parser_paths (unlines (workspace # ls)) = ls"
proof -
  have w: "workspace \<noteq> []" "newline \<notin> set workspace" "TrimSpace workspace = workspace"
    by (simp_all add: workspace_def TrimSpace_def TrimRight_def is_space_def)
  have "\<forall>l \<in> set (workspace # ls). l \<noteq> [] \<and> \<not> is_space (hd l) \<and> \<not> is_space (last l)"
    using assms w TrimSpace_fixed by auto
  from join_on_ends[OF _ this, of newline]
  have "TrimSpace (unlines (workspace # ls)) = join_on newline (workspace # ls)"
    by (simp only: unlines_join TrimSpace_line list.simps not_False_eq_True)
  moreover have "split_on newline (join_on newline (workspace # ls)) = workspace # ls"
    using assms w by (intro split_join) auto
  moreover have "map TrimSpace (workspace # ls) = workspace # ls" using assms w by (simp add: map_idI)
  moreover have "filter (\<lambda>l. l \<noteq> [] \<and> l \<noteq> workspace) (workspace # ls) = ls" using assms by (simp add: filter_id_conv)
  ultimately show ?thesis by (simp only: parser_paths_def)
qed

lemma listed_fresh: "listed seen paths \<Longrightarrow> p \<in> set paths \<Longrightarrow> p \<notin> set seen \<and> p \<noteq> []"
proof (induction seen paths rule: listed.induct)
  case (2 seen q ps)
  then show ?case by (cases "p = q") auto
qed simp


lemma sample_listing:
  "listed [workspace] [''/workspace/a'', ''/workspace/a.txt'', ''/workspace/a/b'']"
  "\<forall>p \<in> set [''/workspace/a'', ''/workspace/a.txt'', ''/workspace/a/b'']. newline \<notin> set p \<and> TrimSpace p = p"
  by (simp_all add: workspace_def proper_elem_def dot_def dotdot_def TrimSpace_def TrimRight_def is_space_def)


end
