(* ===== verification/Container_Handlers.thy ===== *)
theory Container_Handlers
  imports Http Container_Manager Recovery Tree_Parser
begin

text \<open>
  \<open>service/ContainerHandlers.go\<close>: the HTTP handlers of the container API. They take the project from the
  query string, check the method and the parameters, and call the container manager. The deadline of
  \<open>context.WithTimeout\<close> is not a step of its own: a call that exceeds it fails, as any call may.
\<close>

section \<open>Types\<close>

record CreateContainerRequest =
  cr_Project :: Project
  cr_Image :: string
  cr_Port :: string

record WriteFileRequest =
  wf_Path :: string
  wf_Content :: string

text \<open>A parsed multipart form: the file field, whose content may fail to be read, and the field \<open>path\<close>.\<close>

record upload_form =
  uf_file :: "(string \<times> string result) option"
  uf_path :: string

record health_info =
  hi_RestartCount :: int
  hi_LastRestartAt :: "time option"
  hi_HealthStatus :: string
  hi_OOMKilled :: bool
  hi_CircuitOpen :: bool
  hi_MaxRestarts :: int

datatype container_data =
    ContainerData ContainerInfo
  | Done string
  | Output string
  | Content string
  | Tree Node
  | UploadedTo string
  | HealthData health_info

record Handler =
  hd_manager :: ContainerManager
  hd_recovery :: bool

definition NewHandler :: "env \<Rightarrow> string \<Rightarrow> time \<Rightarrow> Handler R" where
  "NewHandler env base timeout =
     on_ok (NewContainerManager env base timeout) (\<lambda>manager. ok \<lparr>hd_manager = manager, hd_recovery = False\<rparr>)"

definition SetRecovery :: "Handler \<Rightarrow> Handler" where
  "SetRecovery h = h\<lparr>hd_recovery := True\<rparr>"

section \<open>Life cycle\<close>

definition image_not_allowed :: string where
  "image_not_allowed = ''image not allowed '' @ em_dash @ '' choose a predefined template''"

text \<open>The whitelist only refuses when it could be read and is not empty.\<close>

definition image_refused :: "string list result \<Rightarrow> string \<Rightarrow> bool" where
  "image_refused allowed img = (case allowed of Inl _ \<Rightarrow> False | Inr imgs \<Rightarrow> imgs \<noteq> [] \<and> img \<notin> set imgs)"

definition create_request_error :: "CreateContainerRequest \<Rightarrow> string option" where
  "create_request_error req =
     (if prj_Name (cr_Project req) = [] then Some ''project name is required''
      else if prj_UserId (cr_Project req) = [] then Some ''user Id is required'' else None)"

definition handle_CreateContainer :: "env \<Rightarrow> Handler \<Rightarrow> (CreateContainerRequest, container_data) handler" where
  "handle_CreateContainer env h r =
     (if rq_method r \<noteq> ''POST'' then method_not_allowed
      else case rq_body r of
        Inl e \<Rightarrow> RespondError (''invalid request body: '' @ Error_text e) 400
      | Inr req \<Rightarrow>
          (case create_request_error req of
             Some m \<Rightarrow> RespondError m 400
           | None \<Rightarrow>
               do { project \<leftarrow> (if prj_ID (cr_Project req) = []
                                then do { u \<leftarrow> uuid_New env; State_Monad.return ((cr_Project req)\<lparr>prj_ID := u\<rparr>) }
                                else State_Monad.return (cr_Project req));
                    let img = (if cr_Image req = [] then ''alpine:latest'' else cr_Image req);
                    allowed \<leftarrow> GetAllowedImages env;
                    (if image_refused allowed img then RespondError image_not_allowed 400
                     else
                       do { res \<leftarrow> (if cr_Port req \<noteq> []
                                     then CreateContainerWithPort env (hd_manager h) project img (cr_Port req)
                                     else CreateContainer env (hd_manager h) project img);
                            (case res of
                               Inl e \<Rightarrow> RespondError (Error_text e) 500
                             | Inr info \<Rightarrow> RespondData (ContainerData info) 201) }) }))"

definition project_id :: "'b request \<Rightarrow> string" where
  "project_id r = rq_query r ''project_id''"

definition handle_GetContainer :: "env \<Rightarrow> Handler \<Rightarrow> ('b, container_data) handler" where
  "handle_GetContainer env h r =
     (if rq_method r \<noteq> ''GET'' then method_not_allowed
      else if project_id r = [] then RespondError ''project_id is required'' 400
      else do { res \<leftarrow> GetContainerInfo env (hd_manager h) (project_id r);
                (case res of
                   Inl e \<Rightarrow> RespondError (Error_text e) 404
                 | Inr info \<Rightarrow> RespondData (ContainerData info) 200) })"

text \<open>\<open>if err := ...; err != nil\<close> answers 500 with the text of the error, else 200 with a message.\<close>

definition respond_done :: "unit R \<Rightarrow> string \<Rightarrow> container_data response M" where
  "respond_done m msg =
     do { res \<leftarrow> m;
          (case res of Inl e \<Rightarrow> RespondError (Error_text e) 500 | Inr _ \<Rightarrow> RespondData (Done msg) 200) }"

definition handle_StartContainer :: "env \<Rightarrow> ('b, container_data) handler" where
  "handle_StartContainer env r =
     (if rq_method r \<noteq> ''POST'' then method_not_allowed
      else if project_id r = [] then RespondError ''project_id is required'' 400
      else respond_done (StartContainer env (project_id r)) ''container started'')"

definition handle_StopContainer :: "env \<Rightarrow> ('b, container_data) handler" where
  "handle_StopContainer env r =
     (if rq_method r \<noteq> ''POST'' then method_not_allowed
      else if project_id r = [] then RespondError ''project_id is required'' 400
      else respond_done (StopContainer env (project_id r)) ''container stopped'')"

definition handle_RemoveContainer :: "env \<Rightarrow> ('b, container_data) handler" where
  "handle_RemoveContainer env r =
     (if rq_method r \<noteq> ''DELETE'' then method_not_allowed
      else if project_id r = [] then RespondError ''project_id is required'' 400
      else respond_done (RemoveContainer env (project_id r) (rq_query r ''remove_folder'' = ''true'')) ''container removed'')"

section \<open>Commands and files\<close>

definition handle_ExecCommand :: "env \<Rightarrow> (string list, container_data) handler" where
  "handle_ExecCommand env r =
     (if rq_method r \<noteq> ''POST'' then method_not_allowed
      else if project_id r = [] then RespondError ''project_id is required'' 400
      else case rq_body r of
        Inl _ \<Rightarrow> RespondError ''invalid request body'' 400
      | Inr commande \<Rightarrow>
          if commande = [] then RespondError ''command is required'' 400
          else do { res \<leftarrow> ExecCommand env (project_id r) commande;
                    (case res of
                       Inl e \<Rightarrow> RespondError (Error_text e) 500
                     | Inr (stdout, stderr) \<Rightarrow>
                         if stderr \<noteq> [] then RespondData (Output stderr) 200 else RespondData (Output stdout) 200) })"

definition find_command :: "string list" where
  "find_command = [''sh'', ''-c'', ''find /workspace -maxdepth 10 2>/dev/null | sort'']"

definition handle_TreeFolder :: "env \<Rightarrow> ('b, container_data) handler" where
  "handle_TreeFolder env r =
     (if rq_method r \<noteq> ''GET'' then method_not_allowed
      else if project_id r = [] then RespondError ''project_id is required'' 400
      else do { res \<leftarrow> ExecCommand env (project_id r) find_command;
                (case res of
                   Inl e \<Rightarrow> RespondError (Error_text e) 500
                 | Inr (stdout, _) \<Rightarrow> RespondData (Tree (ParserTreeFolder stdout)) 200) })"

definition access_denied_msg :: string where
  "access_denied_msg = ''access denied: path must be within /workspace''"

text \<open>The check of \<open>ReadFile\<close>, \<open>WriteFile\<close>, \<open>UploadFile\<close> and \<open>DownloadFile\<close>.\<close>

definition workspace_path :: "string \<Rightarrow> string option" where
  "workspace_path p = (let cleanPath = Clean p in if HasPrefix cleanPath workspace then Some cleanPath else None)"

definition handle_ReadFile :: "env \<Rightarrow> ('b, container_data) handler" where
  "handle_ReadFile env r =
     (if rq_method r \<noteq> ''GET'' then method_not_allowed
      else if project_id r = [] then RespondError ''project_id is required'' 400
      else if rq_query r ''path'' = [] then RespondError ''path is required'' 400
      else case workspace_path (rq_query r ''path'') of
        None \<Rightarrow> RespondError access_denied_msg 403
      | Some cleanPath \<Rightarrow>
          do { res \<leftarrow> ExecCommand env (project_id r) [''cat'', cleanPath];
               (case res of
                  Inl e \<Rightarrow> RespondError (Error_text e) 500
                | Inr (stdout, stderr) \<Rightarrow>
                    if stderr \<noteq> [] then RespondError stderr 404 else RespondData (Content stdout) 200) })"

definition handle_WriteFile :: "env \<Rightarrow> (WriteFileRequest, container_data) handler" where
  "handle_WriteFile env r =
     (if rq_method r \<noteq> ''POST'' then method_not_allowed
      else if project_id r = [] then RespondError ''project_id is required'' 400
      else case rq_body r of
        Inl e \<Rightarrow> RespondError (''invalid request body: '' @ Error_text e) 400
      | Inr req \<Rightarrow>
          if wf_Path req = [] then RespondError ''path is required'' 400
          else case workspace_path (wf_Path req) of
            None \<Rightarrow> RespondError access_denied_msg 403
          | Some cleanPath \<Rightarrow> respond_done (WriteFileToContainer env (project_id r) cleanPath (wf_Content req)) ''file saved'')"

definition upload_dest :: "string \<Rightarrow> string \<Rightarrow> string" where
  "upload_dest cleanFolder filename = Join [cleanFolder, Base filename]"

definition handle_UploadFile :: "env \<Rightarrow> (upload_form, container_data) handler" where
  "handle_UploadFile env r =
     (if rq_method r \<noteq> ''POST'' then method_not_allowed
      else if project_id r = [] then RespondError ''project_id is required'' 400
      else case rq_body r of
        Inl _ \<Rightarrow> RespondError ''file too large (max 10 MB)'' 413
      | Inr form \<Rightarrow>
          (case uf_file form of
             None \<Rightarrow> RespondError ''missing file field'' 400
           | Some (filename, content) \<Rightarrow>
               (case workspace_path (if uf_path form = [] then workspace else uf_path form) of
                  None \<Rightarrow> RespondError access_denied_msg 403
                | Some cleanFolder \<Rightarrow>
                    (case content of
                       Inl _ \<Rightarrow> RespondError ''failed to read uploaded file'' 500
                     | Inr data \<Rightarrow>
                         do { res \<leftarrow> WriteFileToContainer env (project_id r) (upload_dest cleanFolder filename) data;
                              (case res of
                                 Inl e \<Rightarrow> RespondError (''failed to write file: '' @ Error_text e) 500
                               | Inr _ \<Rightarrow> RespondData (UploadedTo (upload_dest cleanFolder filename)) 200) }))))"

text \<open>\<open>filepath.Ext\<close>: from the last dot of the last element on, or nothing.\<close>

definition Ext :: "string \<Rightarrow> string" where
  "Ext p =
     (let e = rev (takeWhile (\<lambda>c. c \<noteq> slash) (rev p))
      in if CHR ''.'' \<in> set e then CHR ''.'' # rev (takeWhile (\<lambda>c. c \<noteq> CHR ''.'') (rev e)) else [])"

text \<open>The table of MIME types of the host is the parameter \<open>mime\<close>.\<close>

definition handle_DownloadFile :: "env \<Rightarrow> (string \<Rightarrow> string) \<Rightarrow> ('b, container_data) handler" where
  "handle_DownloadFile env mime r =
     (if rq_method r \<noteq> ''GET'' then method_not_allowed
      else if project_id r = [] \<or> rq_query r ''path'' = [] then RespondError ''project_id and path are required'' 400
      else case workspace_path (rq_query r ''path'') of
        None \<Rightarrow> RespondError access_denied_msg 403
      | Some cleanPath \<Rightarrow>
          do { res \<leftarrow> ExecCommand env (project_id r) [''cat'', cleanPath];
               (case res of
                  Inl _ \<Rightarrow> RespondError ''file not found'' 404
                | Inr (stdout, stderr) \<Rightarrow>
                    if stderr \<noteq> [] then RespondError ''file not found'' 404
                    else
                      let filename = Base cleanPath;
                          mimeType = (let m = mime (Ext filename) in if m = [] then ''application/octet-stream'' else m)
                      in State_Monad.return
                           \<lparr>rs_status = 200,
                            rs_headers = [(''Content-Disposition'', ''attachment; filename='' @ quoted filename),
                                          (''Content-Type'', mimeType)],
                            rs_payload = Raw stdout\<rparr>) })"

section \<open>Health\<close>

definition select_health :: "env \<Rightarrow> string \<Rightarrow> string \<Rightarrow> database \<Rightarrow> health_info result \<times> database" where
  "select_health env projectID userID d =
     with_bigint env projectID (\<lambda>n. with_bigint env userID (\<lambda>u.
       (first_row
          [\<lparr>hi_RestartCount = c_restart_count c, hi_LastRestartAt = c_last_restart_at c, hi_HealthStatus = c_health_status c,
            hi_OOMKilled = c_oom_killed c, hi_CircuitOpen = c_circuit_open c, hi_MaxRestarts = pl_max_auto_restarts p\<rparr>.
           c \<leftarrow> containers d, c_id c = n \<and> c_user_id c = u,
           x \<leftarrow> users d, u_id x = c_user_id c,
           p \<leftarrow> plans d, pl_id p = u_plan_id x], d)) d) d"

definition handle_GetHealth :: "env \<Rightarrow> ('b, container_data) handler" where
  "handle_GetHealth env r =
     (if rq_method r \<noteq> ''GET'' then method_not_allowed
      else if project_id r = [] then RespondError ''project_id required'' 400
      else do { res \<leftarrow> sql env Pool ''select health'' (\<lambda>_ _. select_health env (project_id r) (user_or_empty r));
                (case res of
                   Inl _ \<Rightarrow> RespondError ''container not found'' 404
                 | Inr health \<Rightarrow> RespondData (HealthData health) 200) })"

definition handle_ResetCircuit :: "env \<Rightarrow> Handler \<Rightarrow> ('b, container_data) handler" where
  "handle_ResetCircuit env h r =
     (if rq_method r \<noteq> ''POST'' then method_not_allowed
      else if \<not> hd_recovery h then RespondError ''recovery service unavailable'' 500
      else if project_id r = [] then RespondError ''project_id required'' 400
      else do { res \<leftarrow> ResetCircuit env (user_or_empty r) (project_id r);
                (case res of Inl e \<Rightarrow> RespondError (Error_text e) 400 | Inr _ \<Rightarrow> RespondSuccess 200) })"

end
