(* ===== verification/Networks.thy ===== *)
theory Networks
  imports Http Effects
begin

text \<open>
  \<open>service/networkService.go\<close> and \<open>service/networkHandler.go\<close>: private Docker networks of a user. How the
  server reads a text as a \<open>uuid\<close> is the parameter \<open>uuid_in\<close> of the manager (\<open>None\<close> for a syntax error); the
  text of a timestamp is kept as the time itself.
\<close>

section \<open>Types\<close>

record ContainerMember =
  mb_ProjectID :: string
  mb_Name :: string
  mb_Alias :: string
  mb_Status :: string

record NetworkInfo =
  ni_ID :: string
  ni_Name :: string
  ni_DockerName :: string
  ni_CreatedAt :: time
  ni_Members :: "ContainerMember list"

record NetworkManager =
  uuid_in :: "string \<Rightarrow> string option"

definition bad_uuid :: go_error where
  "bad_uuid = ErrText ''invalid input syntax for type uuid''"

definition with_uuid :: "NetworkManager \<Rightarrow> string \<Rightarrow> (string \<Rightarrow> 'a result \<times> database) \<Rightarrow> database \<Rightarrow> 'a result \<times> database" where
  "with_uuid m s f d = (case uuid_in m s of None \<Rightarrow> (Inl bad_uuid, d) | Some x \<Rightarrow> f x)"

section \<open>Creating a network\<close>

definition select_max_networks :: "env \<Rightarrow> string \<Rightarrow> database \<Rightarrow> int result \<times> database" where
  "select_max_networks env userID d =
     with_bigint env userID (\<lambda>n.
       (first_row [pl_max_networks p. p \<leftarrow> plans d, u \<leftarrow> users d, u_plan_id u = pl_id p \<and> u_id u = n], d)) d"

definition count_networks :: "env \<Rightarrow> string \<Rightarrow> database \<Rightarrow> int result \<times> database" where
  "count_networks env userID d =
     with_bigint env userID (\<lambda>n. (Inr (int (length (filter (\<lambda>x. nw_user_id x = n) (networks d)))), d)) d"

definition insert_network ::
  "env \<Rightarrow> string \<Rightarrow> string \<Rightarrow> string \<Rightarrow> string \<Rightarrow> string \<Rightarrow> time \<Rightarrow> database \<Rightarrow> (string \<times> time) result \<times> database" where
  "insert_network env userID name dockerID dockerName newid t d =
     with_bigint env userID (\<lambda>n.
       if newid \<in> nw_id ` set (networks d) then (Inl (sql_violation ''networks_pkey''), d)
       else if dockerID \<in> nw_docker_net_id ` set (networks d) then (Inl (sql_violation ''networks_docker_net_id_key''), d)
       else if dockerName \<in> nw_docker_net_name ` set (networks d) then (Inl (sql_violation ''networks_docker_net_name_key''), d)
       else if (n, name) \<in> (\<lambda>x. (nw_user_id x, nw_name x)) ` set (networks d) then (Inl (sql_violation ''networks_user_id_name_key''), d)
       else if n \<notin> u_id ` set (users d) then (Inl (sql_violation ''networks_user_id_fkey''), d)
       else (Inr (newid, t), d\<lparr>networks := networks d @
               [\<lparr>nw_id = newid, nw_user_id = n, nw_name = name, nw_docker_net_id = dockerID, nw_docker_net_name = dockerName,
                 nw_created_at = t\<rparr>]\<rparr>)) d"

definition network_limit_error :: "int \<Rightarrow> go_error" where
  "network_limit_error maxNets = ErrText (''network limit reached: your plan allows '' @ FormatInt maxNets @ '' network(s)'')"

definition docker_net_name :: "string \<Rightarrow> string \<Rightarrow> string" where
  "docker_net_name userID name = ''codedock_'' @ userID @ ''_'' @ name"

definition provision_network :: "env \<Rightarrow> string \<Rightarrow> string \<Rightarrow> NetworkInfo R" where
  "provision_network env userID name =
     (let dockerName = docker_net_name userID name in
      on_ok (map_err (Wrap ''docker NetworkCreate failed: '') (call_str env (NetworkCreate dockerName userID name))) (\<lambda>respID.
      do { ins \<leftarrow> sql env Pool ''insert network'' (insert_network env userID name respID dockerName);
           (case ins of
              Inl e \<Rightarrow> do { call env (NetworkRemove respID); fail (Wrap ''db insert failed: '' e) }
            | Inr (netID, createdAt) \<Rightarrow>
                ok \<lparr>ni_ID = netID, ni_Name = name, ni_DockerName = dockerName, ni_CreatedAt = createdAt, ni_Members = []\<rparr>) }))"

definition CreateNetwork :: "env \<Rightarrow> string \<Rightarrow> string \<Rightarrow> NetworkInfo R" where
  "CreateNetwork env userID name =
     on_ok (map_err (Wrap ''plan lookup failed: '') (sql env Pool ''select max networks'' (\<lambda>_ _. select_max_networks env userID))) (\<lambda>maxNets.
     do { c \<leftarrow> sql env Pool ''count networks'' (\<lambda>_ _. count_networks env userID);
          let currentNets = (case c of Inl _ \<Rightarrow> 0 | Inr k \<Rightarrow> k);
          (if maxNets \<le> currentNets then fail (network_limit_error maxNets) else provision_network env userID name) })"

section \<open>Members\<close>

definition select_docker_net :: "env \<Rightarrow> NetworkManager \<Rightarrow> string \<Rightarrow> string \<Rightarrow> database \<Rightarrow> string result \<times> database" where
  "select_docker_net env m netID userID d =
     with_uuid m netID (\<lambda>x. with_bigint env userID (\<lambda>n.
       (map_sum (\<lambda>e. e) nw_docker_net_id (first_row (filter (\<lambda>r. nw_id r = x \<and> nw_user_id r = n) (networks d))), d)) d) d"

definition select_member_container :: "env \<Rightarrow> string \<Rightarrow> string \<Rightarrow> database \<Rightarrow> (string \<times> int) result \<times> database" where
  "select_member_container env projectID userID d =
     with_bigint env projectID (\<lambda>p. with_bigint env userID (\<lambda>n.
       (map_sum (\<lambda>e. e) (\<lambda>c. (c_container_id c, c_id c))
          (first_row (filter (\<lambda>c. c_id c = p \<and> c_user_id c = n) (containers d))), d)) d) d"

text \<open>\<open>if err == pgx.ErrNoRows { ... not found or access denied } ... lookup failed\<close>\<close>

definition lookup_error :: "string \<Rightarrow> go_error \<Rightarrow> go_error" where
  "lookup_error what e =
     (if e = ErrNoRows then ErrText (what @ '' not found or access denied'') else Wrap (what @ '' lookup failed: '') e)"

definition find_network :: "env \<Rightarrow> NetworkManager \<Rightarrow> string \<Rightarrow> string \<Rightarrow> string R" where
  "find_network env m userID netID =
     map_err (lookup_error ''network'') (sql env Pool ''select network'' (\<lambda>_ _. select_docker_net env m netID userID))"

definition find_container :: "env \<Rightarrow> string \<Rightarrow> string \<Rightarrow> (string \<times> int) R" where
  "find_container env userID projectID =
     map_err (lookup_error ''container'') (sql env Pool ''select member'' (\<lambda>_ _. select_member_container env projectID userID))"

text \<open>\<open>INSERT ... ON CONFLICT (container_id, network_id) DO UPDATE SET alias=$3\<close>\<close>

definition upsert_member :: "NetworkManager \<Rightarrow> int \<Rightarrow> string \<Rightarrow> string \<Rightarrow> database \<Rightarrow> unit result \<times> database" where
  "upsert_member m cid netID al d =
     with_uuid m netID (\<lambda>x.
       if cid \<notin> c_id ` set (containers d) then (Inl (sql_violation ''container_networks_container_id_fkey''), d)
       else if x \<notin> nw_id ` set (networks d) then (Inl (sql_violation ''container_networks_network_id_fkey''), d)
       else if (cid, x) \<in> (\<lambda>r. (cn_container_id r, cn_network_id r)) ` set (container_networks d)
       then (Inr (), d\<lparr>container_networks :=
               map (\<lambda>r. if cn_container_id r = cid \<and> cn_network_id r = x then r\<lparr>cn_alias := al\<rparr> else r) (container_networks d)\<rparr>)
       else (Inr (), d\<lparr>container_networks := container_networks d @
               [\<lparr>cn_container_id = cid, cn_network_id = x, cn_alias = al\<rparr>]\<rparr>)) d"

definition ConnectContainer :: "env \<Rightarrow> NetworkManager \<Rightarrow> string \<Rightarrow> string \<Rightarrow> string \<Rightarrow> string \<Rightarrow> unit R" where
  "ConnectContainer env m userID netID projectID al =
     on_ok (find_network env m userID netID) (\<lambda>dockerNetID.
     on_ok (find_container env userID projectID) (\<lambda>(containerDockerID, containerDBID).
     on_ok (map_err (Wrap ''docker NetworkConnect failed: '') (call env (NetworkConnect dockerNetID containerDockerID al))) (\<lambda>_.
     sql env Pool ''upsert member'' (\<lambda>_ _. upsert_member m containerDBID netID al))))"

definition delete_member :: "NetworkManager \<Rightarrow> int \<Rightarrow> string \<Rightarrow> database \<Rightarrow> unit result \<times> database" where
  "delete_member m cid netID d =
     with_uuid m netID (\<lambda>x.
       (Inr (), d\<lparr>container_networks :=
          filter (\<lambda>r. \<not> (cn_container_id r = cid \<and> cn_network_id r = x)) (container_networks d)\<rparr>)) d"

definition DisconnectContainer :: "env \<Rightarrow> NetworkManager \<Rightarrow> string \<Rightarrow> string \<Rightarrow> string \<Rightarrow> unit R" where
  "DisconnectContainer env m userID netID projectID =
     on_ok (find_network env m userID netID) (\<lambda>dockerNetID.
     on_ok (find_container env userID projectID) (\<lambda>(containerDockerID, containerDBID).
     on_ok (map_err (Wrap ''docker NetworkDisconnect failed: '') (call env (NetworkDisconnect dockerNetID containerDockerID False))) (\<lambda>_.
     sql env Pool ''delete member'' (\<lambda>_ _. delete_member m containerDBID netID))))"

section \<open>Deleting a network\<close>

definition delete_network :: "env \<Rightarrow> NetworkManager \<Rightarrow> string \<Rightarrow> string \<Rightarrow> database \<Rightarrow> unit result \<times> database" where
  "delete_network env m netID userID d =
     with_uuid m netID (\<lambda>x. with_bigint env userID (\<lambda>n.
       (Inr (), d\<lparr>networks := filter (\<lambda>r. \<not> (nw_id r = x \<and> nw_user_id r = n)) (networks d),
                 container_networks := filter (\<lambda>c. \<not> (\<exists>r \<in> set (networks d). nw_id r = x \<and> nw_user_id r = n \<and> cn_network_id c = x))
                                         (container_networks d)\<rparr>)) d) d"

definition DeleteNetwork :: "env \<Rightarrow> NetworkManager \<Rightarrow> string \<Rightarrow> string \<Rightarrow> unit R" where
  "DeleteNetwork env m userID netID =
     on_ok (find_network env m userID netID) (\<lambda>dockerNetID.
     do { inspect \<leftarrow> call_strs env (NetworkInspect dockerNetID);
          (case inspect of
             Inl _ \<Rightarrow> State_Monad.return ()
           | Inr cids \<Rightarrow> for_each cids (\<lambda>cid. ignoring (call env (NetworkDisconnect dockerNetID cid True))));
          on_ok (map_err (Wrap ''docker NetworkRemove failed: '') (call env (NetworkRemove dockerNetID))) (\<lambda>_.
          sql env Pool ''delete network'' (\<lambda>_ _. delete_network env m netID userID)) })"

section \<open>Listing\<close>

text \<open>
  A row of the two outer joins; the columns of a missing side are \<open>NULL\<close>. The rows are ordered by the creation
  time of the network, newest first, and then by the id of the container, \<open>NULL\<close> last.
\<close>

record net_row =
  jr_net :: network_row
  jr_alias :: "string option"
  jr_container :: "container_row option"

definition member_rows :: "network_row \<Rightarrow> database \<Rightarrow> net_row list" where
  "member_rows n d =
     (case filter (\<lambda>m. cn_network_id m = nw_id n) (container_networks d) of
        [] \<Rightarrow> [\<lparr>jr_net = n, jr_alias = None, jr_container = None\<rparr>]
      | ms \<Rightarrow> concat (map (\<lambda>m.
          (case filter (\<lambda>c. c_id c = cn_container_id m) (containers d) of
             [] \<Rightarrow> [\<lparr>jr_net = n, jr_alias = Some (cn_alias m), jr_container = None\<rparr>]
           | cs \<Rightarrow> map (\<lambda>c. \<lparr>jr_net = n, jr_alias = Some (cn_alias m), jr_container = Some c\<rparr>) cs)) ms))"

definition order_rows :: "net_row list \<Rightarrow> net_row list" where
  "order_rows rs =
     sort_key (\<lambda>r. - nw_created_at (jr_net r))
       (sort_key (\<lambda>r. c_id (the (jr_container r))) (filter (\<lambda>r. jr_container r \<noteq> None) rs) @ filter (\<lambda>r. jr_container r = None) rs)"

definition select_networks :: "env \<Rightarrow> string \<Rightarrow> database \<Rightarrow> net_row list result \<times> database" where
  "select_networks env userID d =
     (rows_with_bigint env userID (\<lambda>u.
        order_rows (concat (map (\<lambda>n. member_rows n d) (filter (\<lambda>n. nw_user_id n = u) (networks d))))), d)"

text \<open>\<open>netMap\<close> and \<open>order\<close>: the networks met so far by id, and their ids in the order met.\<close>

definition new_network :: "network_row \<Rightarrow> NetworkInfo" where
  "new_network n =
     \<lparr>ni_ID = nw_id n, ni_Name = nw_name n, ni_DockerName = nw_docker_net_name n, ni_CreatedAt = nw_created_at n, ni_Members = []\<rparr>"

definition row_member :: "env \<Rightarrow> net_row \<Rightarrow> ContainerMember list" where
  "row_member env r =
     (case (jr_alias r, jr_container r) of
        (Some al, Some c) \<Rightarrow> [\<lparr>mb_ProjectID = int8out env (c_id c), mb_Name = c_project_name c, mb_Alias = al, mb_Status = c_status c\<rparr>]
      | _ \<Rightarrow> [])"

definition group_row :: "env \<Rightarrow> net_row \<Rightarrow> string list \<times> (string \<rightharpoonup> NetworkInfo) \<Rightarrow> string list \<times> (string \<rightharpoonup> NetworkInfo)" where
  "group_row env r s =
     (case s of (order, netMap) \<Rightarrow>
        let nid = nw_id (jr_net r);
            (order', info) = (case netMap nid of None \<Rightarrow> (order @ [nid], new_network (jr_net r)) | Some i \<Rightarrow> (order, i))
        in (order', netMap(nid \<mapsto> info\<lparr>ni_Members := ni_Members info @ row_member env r\<rparr>)))"

definition group_rows :: "env \<Rightarrow> net_row list \<Rightarrow> NetworkInfo list" where
  "group_rows env rs = (case fold (group_row env) rs ([], \<lambda>_. None) of (order, netMap) \<Rightarrow> map (\<lambda>i. the (netMap i)) order)"

definition ListNetworks :: "env \<Rightarrow> string \<Rightarrow> NetworkInfo list R" where
  "ListNetworks env userID =
     on_ok (sql env Pool ''select networks'' (\<lambda>_ _. select_networks env userID)) (\<lambda>rows. ok (group_rows env rows))"

section \<open>Handlers\<close>

datatype network_data = NetworkData NetworkInfo | NetworkList "NetworkInfo list"

record ConnectRequest =
  cq_ProjectID :: string
  cq_Alias :: string

definition no_content :: "'d response M" where
  "no_content = State_Monad.return \<lparr>rs_status = 204, rs_headers = [], rs_payload = NoBody\<rparr>"

definition net_Create :: "env \<Rightarrow> (string, network_data) handler" where
  "net_Create env r =
     (case rq_body r of
        Inl _ \<Rightarrow> RespondError ''name is required'' 400
      | Inr name \<Rightarrow>
          if name = [] then RespondError ''name is required'' 400
          else do { res \<leftarrow> CreateNetwork env (user_or_empty r) name;
                    (case res of
                       Inl e \<Rightarrow> RespondError (Error_text e) 400
                     | Inr net \<Rightarrow> RespondData (NetworkData net) 201) })"

definition net_List :: "env \<Rightarrow> ('b, network_data) handler" where
  "net_List env r =
     do { res \<leftarrow> ListNetworks env (user_or_empty r);
          (case res of
             Inl _ \<Rightarrow> RespondError ''internal error'' 500
           | Inr nets \<Rightarrow> RespondData (NetworkList nets) 200) }"

definition net_Dispatch :: "env \<Rightarrow> (string, network_data) handler" where
  "net_Dispatch env r =
     (if rq_method r = ''GET'' then net_List env r
      else if rq_method r = ''POST'' then net_Create env r
      else method_not_allowed)"

definition net_Delete :: "env \<Rightarrow> NetworkManager \<Rightarrow> ('b, network_data) handler" where
  "net_Delete env m r =
     (if rq_method r \<noteq> ''DELETE'' then method_not_allowed
      else do { res \<leftarrow> DeleteNetwork env m (user_or_empty r) (rq_vars r ''id'');
                (case res of Inl e \<Rightarrow> RespondError (Error_text e) 400 | Inr _ \<Rightarrow> no_content) })"

definition net_Connect :: "env \<Rightarrow> NetworkManager \<Rightarrow> (ConnectRequest, network_data) handler" where
  "net_Connect env m r =
     (if rq_method r \<noteq> ''POST'' then method_not_allowed
      else case rq_body r of
        Inl _ \<Rightarrow> RespondError ''project_id and alias are required'' 400
      | Inr req \<Rightarrow>
          if cq_ProjectID req = [] \<or> cq_Alias req = [] then RespondError ''project_id and alias are required'' 400
          else do { res \<leftarrow> ConnectContainer env m (user_or_empty r) (rq_vars r ''id'') (cq_ProjectID req) (cq_Alias req);
                    (case res of Inl e \<Rightarrow> RespondError (Error_text e) 400 | Inr _ \<Rightarrow> RespondSuccess 200) })"

definition net_Disconnect :: "env \<Rightarrow> NetworkManager \<Rightarrow> ('b, network_data) handler" where
  "net_Disconnect env m r =
     (if rq_method r \<noteq> ''DELETE'' then method_not_allowed
      else do { res \<leftarrow> DisconnectContainer env m (user_or_empty r) (rq_vars r ''id'') (rq_vars r ''projectId'');
                (case res of Inl e \<Rightarrow> RespondError (Error_text e) 400 | Inr _ \<Rightarrow> no_content) })"

end
