(* ===== verification/Tokens.thy ===== *)
theory Tokens
  imports Effects Go_Std Sample
begin

text \<open>
  \<open>repository/tokenRepo.go\<close>: the one-time tokens sent by e-mail. The interface of the token table is
  the locale \<open>token_store\<close>; the statements of the repository interpret it, and one-time use,
  expiry and \<open>only the latest link works\<close> are proved once inside it.
\<close>

section \<open>Statements\<close>

definition token_matches :: "string \<Rightarrow> string \<Rightarrow> time \<Rightarrow> token_row \<Rightarrow> bool" where
  "token_matches hash ty t r \<longleftrightarrow>
     et_token_hash r = hash \<and> et_type r = ty \<and> et_used_at r = None \<and> t < et_expires_at r"

definition invalidate_tokens :: "int \<Rightarrow> string \<Rightarrow> time \<Rightarrow> database \<Rightarrow> unit result \<times> database" where
  "invalidate_tokens uid ty t d =
     (Inr (), d\<lparr>email_tokens :=
        map (\<lambda>r. if et_user_id r = uid \<and> et_type r = ty \<and> et_used_at r = None then r\<lparr>et_used_at := Some t\<rparr> else r)
          (email_tokens d)\<rparr>)"

definition insert_token :: "int \<Rightarrow> string \<Rightarrow> string \<Rightarrow> time \<Rightarrow> string \<Rightarrow> database \<Rightarrow> unit result \<times> database" where
  "insert_token uid hash ty expires newid d =
     (if newid \<in> et_id ` set (email_tokens d) then (Inl (sql_violation ''email_tokens_pkey''), d)
      else if hash \<in> et_token_hash ` set (email_tokens d) then (Inl (sql_violation ''email_tokens_token_hash_key''), d)
      else if uid \<notin> u_id ` set (users d) then (Inl (sql_violation ''email_tokens_user_id_fkey''), d)
      else if ty \<notin> {''email_verification'', ''password_reset''} then (Inl (sql_violation ''email_tokens_type_check''), d)
      else (Inr (), d\<lparr>email_tokens := email_tokens d @
              [\<lparr>et_id = newid, et_user_id = uid, et_token_hash = hash, et_type = ty, et_expires_at = expires, et_used_at = None\<rparr>]\<rparr>))"

record TokenRecord =
  tr_ID :: string
  tr_UserID :: int
  tr_Type :: string

definition consume_token :: "string \<Rightarrow> string \<Rightarrow> time \<Rightarrow> database \<Rightarrow> TokenRecord result \<times> database" where
  "consume_token hash ty t d =
     (map_sum (\<lambda>e. e) (\<lambda>r. \<lparr>tr_ID = et_id r, tr_UserID = et_user_id r, tr_Type = et_type r\<rparr>)
        (first_row (filter (token_matches hash ty t) (email_tokens d))),
      d\<lparr>email_tokens := map (\<lambda>r. if token_matches hash ty t r then r\<lparr>et_used_at := Some t\<rparr> else r) (email_tokens d)\<rparr>)"

section \<open>TokenRepo\<close>

definition GenerateRawToken :: "env \<Rightarrow> string R" where
  "GenerateRawToken env = on_ok (call_str env (RandRead 32)) (\<lambda>b. ok (hex_EncodeToString b))"

definition HashToken :: "env \<Rightarrow> string \<Rightarrow> string" where
  "HashToken env raw = sha256hex env raw"

definition token_Create :: "env \<Rightarrow> int \<Rightarrow> string \<Rightarrow> time \<Rightarrow> string R" where
  "token_Create env uid ty ttl =
     on_ok (GenerateRawToken env) (\<lambda>raw.
       do { let hash = HashToken env raw;
            ignoring (sql env Pool ''invalidate tokens'' (\<lambda>_ t. invalidate_tokens uid ty t));
            t \<leftarrow> now env;
            on_ok (sql env Pool ''insert token'' (\<lambda>x _. insert_token uid hash ty (t + ttl) x)) (\<lambda>_. ok raw) })"

definition Consume :: "env \<Rightarrow> string \<Rightarrow> string \<Rightarrow> TokenRecord R" where
  "Consume env rawToken ty = sql env Pool ''consume token'' (\<lambda>_ t. consume_token (HashToken env rawToken) ty t)"

section \<open>The interface\<close>

text \<open>
  \<open>live\<close> is the user a token would be consumed for at a time; \<open>issue\<close> replaces the user's
  tokens of a type by a new one, when it is accepted.
\<close>

locale token_store =
  fixes inv :: "'db \<Rightarrow> bool"
    and live :: "string \<Rightarrow> string \<Rightarrow> time \<Rightarrow> 'db \<Rightarrow> int option"
    and consume :: "string \<Rightarrow> string \<Rightarrow> time \<Rightarrow> 'db \<Rightarrow> int option \<times> 'db"
    and issue :: "int \<Rightarrow> string \<Rightarrow> string \<Rightarrow> time \<Rightarrow> string \<Rightarrow> time \<Rightarrow> 'db \<Rightarrow> 'db option"
  assumes inv_consume: "inv d \<Longrightarrow> inv (snd (consume h ty t d))"
    and inv_issue: "inv d \<Longrightarrow> issue uid ty h e n t d = Some d' \<Longrightarrow> inv d'"
    and consume_result: "fst (consume h ty t d) = live h ty t d"
    and consume_dead: "t \<le> t' \<Longrightarrow> live h ty t' (snd (consume h ty t d)) = None"
    and consume_other: "h' \<noteq> h \<or> ty' \<noteq> ty \<Longrightarrow> live h' ty' t' (snd (consume h ty t d)) = live h' ty' t' d"
    and issue_live: "issue uid ty h e n t d = Some d' \<Longrightarrow> live h ty t' d' = (if t' < e then Some uid else None)"
    and issue_kills: "issue uid ty h e n t d = Some d' \<Longrightarrow> h' \<noteq> h \<Longrightarrow> live h' ty t' d' \<noteq> Some uid"
    and issue_other: "inv d \<Longrightarrow> issue uid ty h e n t d = Some d' \<Longrightarrow> h' \<noteq> h \<Longrightarrow> u \<noteq> uid \<or> ty' \<noteq> ty \<Longrightarrow> live h' ty' t' d = Some u \<Longrightarrow>
      live h' ty' t' d' = Some u"
begin

lemma one_time: "t \<le> t' \<Longrightarrow> fst (consume h ty t' (snd (consume h ty t d))) = None"
  by (simp add: consume_result consume_dead)

lemma issued_once:
  assumes "issue uid ty h e n t d = Some d'" and "t1 < e" and "t1 \<le> t2"
  shows "fst (consume h ty t1 d') = Some uid" and "fst (consume h ty t2 (snd (consume h ty t1 d'))) = None"
  using assms by (simp_all add: consume_result issue_live consume_dead)

lemma expired: "issue uid ty h e n t d = Some d' \<Longrightarrow> e \<le> t' \<Longrightarrow> fst (consume h ty t' d') = None"
  by (simp add: consume_result issue_live)

lemma latest_only:
  assumes "issue uid ty h1 e1 n1 t1 d = Some d1" and "issue uid ty h2 e2 n2 t2 d1 = Some d2" and "h1 \<noteq> h2"
  shows "fst (consume h1 ty t d2) \<noteq> Some uid" and "t < e2 \<Longrightarrow> fst (consume h2 ty t d2) = Some uid"
  using assms issue_kills[OF assms(2)] issue_live[OF assms(2)] by (auto simp: consume_result)

lemma other_users_keep_theirs:
  assumes "inv d" and "issue uid ty h e n t d = Some d'" and "live h' ty' t' d = Some u" and "u \<noteq> uid" and "h' \<noteq> h"
  shows "fst (consume h' ty' t' d') = Some u"
  using assms issue_other[OF assms(1,2,5)] by (simp add: consume_result)

end

section \<open>The table meets it\<close>

definition live_token :: "string \<Rightarrow> string \<Rightarrow> time \<Rightarrow> database \<Rightarrow> int option" where
  "live_token hash ty t d = (case filter (token_matches hash ty t) (email_tokens d) of [] \<Rightarrow> None | r # _ \<Rightarrow> Some (et_user_id r))"

definition consume_user :: "string \<Rightarrow> string \<Rightarrow> time \<Rightarrow> database \<Rightarrow> int option \<times> database" where
  "consume_user hash ty t d =
     (case consume_token hash ty t d of (Inl _, d') \<Rightarrow> (None, d') | (Inr r, d') \<Rightarrow> (Some (tr_UserID r), d'))"

definition issue_token :: "int \<Rightarrow> string \<Rightarrow> string \<Rightarrow> time \<Rightarrow> string \<Rightarrow> time \<Rightarrow> database \<Rightarrow> database option" where
  "issue_token uid ty hash e newid t d =
     (case insert_token uid hash ty e newid (snd (invalidate_tokens uid ty t d)) of (Inl _, _) \<Rightarrow> None | (Inr _, d') \<Rightarrow> Some d')"

lemma live_token_None: "live_token h ty t d = None \<longleftrightarrow> (\<forall>r \<in> set (email_tokens d). \<not> token_matches h ty t r)"
  by (cases "filter (token_matches h ty t) (email_tokens d)") (auto simp: live_token_def filter_empty_conv filter_eq_Cons_iff)

lemma live_token_Some: "live_token h ty t d = Some u \<Longrightarrow> \<exists>r \<in> set (email_tokens d). token_matches h ty t r \<and> et_user_id r = u"
  by (auto simp: live_token_def filter_eq_Cons_iff split: list.splits)

text \<open>Rewriting rows in place does not change who a token is live for when the rewriting respects the match.\<close>

lemma live_token_map:
  assumes "\<And>r. r \<in> set (email_tokens d) \<Longrightarrow> token_matches h ty t (f r) \<longleftrightarrow> token_matches h ty t r"
    and "\<And>r. et_user_id (f r) = et_user_id r"
  shows "live_token h ty t (d\<lparr>email_tokens := map f (email_tokens d)\<rparr>) = live_token h ty t d"
proof -
  have "filter (token_matches h ty t) (map f (email_tokens d)) = map f (filter (token_matches h ty t) (email_tokens d))"
    using assms(1) by (auto simp: filter_map comp_def cong: filter_cong)
  then show ?thesis by (simp add: live_token_def assms(2) split: list.split)
qed

lemma invalidate_columns:
  "map et_id (email_tokens (snd (invalidate_tokens uid ty t d))) = map et_id (email_tokens d)"
  "map et_token_hash (email_tokens (snd (invalidate_tokens uid ty t d))) = map et_token_hash (email_tokens d)"
  "map et_user_id (email_tokens (snd (invalidate_tokens uid ty t d))) = map et_user_id (email_tokens d)"
  "map et_type (email_tokens (snd (invalidate_tokens uid ty t d))) = map et_type (email_tokens d)"
  unfolding invalidate_tokens_def by (simp_all del: map_map add: map_map_if_same)

lemma issue_token_Some:
  assumes "issue_token uid ty h e n t d = Some d'"
  obtains "h \<notin> et_token_hash ` set (email_tokens d)"
    and "d' = (snd (invalidate_tokens uid ty t d))\<lparr>email_tokens := email_tokens (snd (invalidate_tokens uid ty t d)) @
        [\<lparr>et_id = n, et_user_id = uid, et_token_hash = h, et_type = ty, et_expires_at = e, et_used_at = None\<rparr>]\<rparr>"
proof -
  let ?d1 = "snd (invalidate_tokens uid ty t d)"
  have hashes: "et_token_hash ` set (email_tokens ?d1) = et_token_hash ` set (email_tokens d)"
    using arg_cong[OF invalidate_columns(2), of set] by (simp only: set_map)
  from assms have "h \<notin> et_token_hash ` set (email_tokens ?d1)"
    "d' = ?d1\<lparr>email_tokens := email_tokens ?d1 @
        [\<lparr>et_id = n, et_user_id = uid, et_token_hash = h, et_type = ty, et_expires_at = e, et_used_at = None\<rparr>]\<rparr>"
    by (auto simp: issue_token_def insert_token_def split: if_splits)
  with that hashes show ?thesis by blast
qed


text \<open>A new row at the end decides for its own hash when no older row has it.\<close>

lemma live_token_append:
  assumes "h \<notin> et_token_hash ` set (email_tokens d)" and "et_token_hash r = h"
  shows "live_token h' ty t (d\<lparr>email_tokens := email_tokens d @ [r]\<rparr>) =
    (if h' = h then if token_matches h ty t r then Some (et_user_id r) else None else live_token h' ty t d)"
proof -
  have none: "filter (token_matches h ty t) (email_tokens d) = []"
    using assms(1) by (auto simp: filter_empty_conv token_matches_def)
  show ?thesis
  proof (cases "h' = h")
    case True
    then show ?thesis unfolding live_token_def by (simp add: none)
  next
    case False
    with assms(2) have "\<not> token_matches h' ty t r" by (simp add: token_matches_def)
    with False show ?thesis by (simp add: live_token_def)
  qed
qed

definition use_if :: "(token_row \<Rightarrow> bool) \<Rightarrow> time \<Rightarrow> token_row \<Rightarrow> token_row" where
  "use_if P t r = (if P r then r\<lparr>et_used_at := Some t\<rparr> else r)"

lemma use_if_matches: "token_matches h ty t' (use_if P t r) \<longleftrightarrow> \<not> P r \<and> token_matches h ty t' r"
  by (simp add: use_if_def token_matches_def)

lemma use_if_user: "et_user_id (use_if P t r) = et_user_id r"
  by (simp add: use_if_def)

lemma used_rows:
  "email_tokens (snd (invalidate_tokens uid ty t d)) =
     map (use_if (\<lambda>r. et_user_id r = uid \<and> et_type r = ty \<and> et_used_at r = None) t) (email_tokens d)"
  "email_tokens (snd (consume_token h ty t d)) = map (use_if (token_matches h ty t) t) (email_tokens d)"
  by (simp_all add: invalidate_tokens_def consume_token_def use_if_def[abs_def])

lemma live_invalidated:
  assumes "live_token h ty' t' (snd (invalidate_tokens uid ty t d)) = Some u"
  shows "u \<noteq> uid \<or> ty' \<noteq> ty"
proof -
  from live_token_Some[OF assms] obtain r where "token_matches h ty' t'
      (use_if (\<lambda>r. et_user_id r = uid \<and> et_type r = ty \<and> et_used_at r = None) t r)" "et_user_id r = u"
    unfolding used_rows set_map by (auto simp: use_if_user)
  then show ?thesis unfolding use_if_matches by (auto simp: token_matches_def)
qed

lemma live_not_invalidated:
  assumes "live_token h ty' t' d = Some u" and "u \<noteq> uid \<or> ty' \<noteq> ty" and "distinct (map et_token_hash (email_tokens d))"
  shows "live_token h ty' t' (snd (invalidate_tokens uid ty t d)) = Some u"
proof -
  from live_token_Some[OF assms(1)] obtain r where r: "r \<in> set (email_tokens d)" "token_matches h ty' t' r" "et_user_id r = u" by blast
  have "token_matches h ty' t' (if et_user_id x = uid \<and> et_type x = ty \<and> et_used_at x = None then x\<lparr>et_used_at := Some t\<rparr> else x)
      \<longleftrightarrow> token_matches h ty' t' x" if "x \<in> set (email_tokens d)" for x
  proof (cases "et_token_hash x = h")
    case True
    with r that assms(3) have "x = r" by (auto simp: token_matches_def distinct_map dest: inj_onD)
    with r assms(2) show ?thesis by (auto simp: token_matches_def)
  qed (simp add: token_matches_def)
  with assms(1) live_token_map[of d h ty' t' "\<lambda>x. if et_user_id x = uid \<and> et_type x = ty \<and> et_used_at x = None then x\<lparr>et_used_at := Some t\<rparr> else x"]
  show ?thesis by (simp add: invalidate_tokens_def)
qed


definition hashes_distinct :: "database \<Rightarrow> bool" where
  "hashes_distinct d \<longleftrightarrow> distinct (map et_token_hash (email_tokens d))"

lemma consume_columns:
  "map et_id (email_tokens (snd (consume_token h ty t d))) = map et_id (email_tokens d)"
  "map et_token_hash (email_tokens (snd (consume_token h ty t d))) = map et_token_hash (email_tokens d)"
  "map et_user_id (email_tokens (snd (consume_token h ty t d))) = map et_user_id (email_tokens d)"
  "map et_type (email_tokens (snd (consume_token h ty t d))) = map et_type (email_tokens d)"
  unfolding consume_token_def by (simp_all del: map_map add: map_map_if_same)

lemma consume_user_snd: "snd (consume_user h ty t d) = snd (consume_token h ty t d)"
  by (simp add: consume_user_def split: prod.split sum.split)

interpretation ts: token_store hashes_distinct live_token consume_user issue_token
proof unfold_locales
  fix h h' ty ty' n :: string and t t' e :: time and d d' :: database and uid u :: int
  show "hashes_distinct d \<Longrightarrow> hashes_distinct (snd (consume_user h ty t d))"
    by (simp add: hashes_distinct_def consume_user_snd consume_columns)
  show "fst (consume_user h ty t d) = live_token h ty t d"
    by (auto simp: consume_user_def consume_token_def live_token_def first_row_def split: list.split)
  show "live_token h ty t' (snd (consume_user h ty t d)) = None" if "t \<le> t'"
    using that unfolding live_token_None consume_user_snd used_rows
    by (auto simp: use_if_matches) (simp add: token_matches_def)
  show "live_token h' ty' t' (snd (consume_user h ty t d)) = live_token h' ty' t' d" if "h' \<noteq> h \<or> ty' \<noteq> ty"
    unfolding consume_user_snd consume_token_def snd_conv
    by (rule live_token_map) (use that in \<open>auto simp: token_matches_def\<close>)
  assume issue: "issue_token uid ty h e n t d = Some d'"
  let ?d1 = "snd (invalidate_tokens uid ty t d)"
  from issue obtain old: "h \<notin> et_token_hash ` set (email_tokens d)"
    and d': "d' = ?d1\<lparr>email_tokens := email_tokens ?d1 @
        [\<lparr>et_id = n, et_user_id = uid, et_token_hash = h, et_type = ty, et_expires_at = e, et_used_at = None\<rparr>]\<rparr>"
    by (rule issue_token_Some)
  from old have fresh: "h \<notin> et_token_hash ` set (email_tokens ?d1)"
    using arg_cong[OF invalidate_columns(2), of set uid ty t d] unfolding set_map by blast
  show "hashes_distinct d \<Longrightarrow> hashes_distinct d'"
    using old by (simp add: hashes_distinct_def d' invalidate_columns)
  show "live_token h ty t' d' = (if t' < e then Some uid else None)"
    unfolding d' by (subst live_token_append[OF fresh]) (simp_all add: token_matches_def)
  show "live_token h' ty t' d' \<noteq> Some uid" if "h' \<noteq> h"
    unfolding d' using live_invalidated[of h' ty t' uid ty t d uid] that by (subst live_token_append[OF fresh]) auto
  show "live_token h' ty' t' d' = Some u"
    if "hashes_distinct d" "h' \<noteq> h" "u \<noteq> uid \<or> ty' \<noteq> ty" "live_token h' ty' t' d = Some u"
    unfolding d' using live_not_invalidated[OF that(4,3)] that(1,2)
    by (subst live_token_append[OF fresh]) (auto simp: hashes_distinct_def)
qed


section \<open>Integrity\<close>

lemma db_ok_email_tokens:
  "db_ok d \<Longrightarrow> distinct (map et_id ks) \<Longrightarrow> distinct (map et_token_hash ks) \<Longrightarrow> set (map et_user_id ks) \<subseteq> u_id ` set (users d) \<Longrightarrow>
   set (map et_type ks) \<subseteq> {''email_verification'', ''password_reset''} \<Longrightarrow> db_ok (d\<lparr>email_tokens := ks\<rparr>)"
  by (simp add: db_ok_def ok_defs)

lemma db_ok_token_columns:
  assumes "db_ok d" and "map et_id ks = map et_id (email_tokens d)" and "map et_token_hash ks = map et_token_hash (email_tokens d)"
    and "map et_user_id ks = map et_user_id (email_tokens d)" and "map et_type ks = map et_type (email_tokens d)"
  shows "db_ok (d\<lparr>email_tokens := ks\<rparr>)"
  using assms(1) db_okD(5)[OF assms(1)] by (intro db_ok_email_tokens) (simp_all add: assms tokens_ok_def)

lemma sound_tokens:
  "sound_on h (invalidate_tokens uid ty t)" "sound_on h (consume_token hash ty t)" "sound_on h (insert_token uid hash ty e newid)"
proof -
  show "sound_on h (invalidate_tokens uid ty t)"
  proof (rule sound_onI)
    fix d assume "db_ok d"
    from db_ok_token_columns[OF this invalidate_columns] show "db_ok (snd (invalidate_tokens uid ty t d))"
      by (simp add: invalidate_tokens_def)
  qed (simp_all add: invalidate_tokens_def)
  show "sound_on h (consume_token hash ty t)"
  proof (rule sound_onI)
    fix d assume "db_ok d"
    from db_ok_token_columns[OF this consume_columns] show "db_ok (snd (consume_token hash ty t d))"
      by (simp add: consume_token_def)
  qed (simp_all add: consume_token_def)
  show "sound_on h (insert_token uid hash ty e newid)"
  proof (rule sound_onI)
    fix d assume ok: "db_ok d"
    with db_okD(5)[OF ok] show "db_ok (snd (insert_token uid hash ty e newid d))"
      by (auto simp: insert_token_def tokens_ok_def intro!: db_ok_email_tokens) blast+
  qed (simp_all add: insert_token_def)
qed

lemma keeps_ok_tokens: "state_io_rel keeps_ok (token_Create env uid ty ttl)" "state_io_rel keeps_ok (Consume env raw ty)"
  unfolding token_Create_def GenerateRawToken_def Consume_def Let_def
  by (intro ko.io_intros keeps_ok_intros sound_tokens)+

section \<open>The repository\<close>

lemma Consume_Inr:
  assumes "run_state (Consume env raw ty) w = (Inr rec, w')"
  shows "consume_user (HashToken env raw) ty (env_now env (hist w)) (db w) = (Some (tr_UserID rec), db w')"
  using assms unfolding Consume_def
  by (rule sql_Inr) (simp add: consume_user_def)

lemma Consume_user:
  assumes "env_err env (hist w) (Sql ''consume token'') = None"
  shows "(\<exists>rec. fst (run_state (Consume env raw ty) w) = Inr rec \<and> tr_UserID rec = uid) \<longleftrightarrow>
      fst (consume_user (HashToken env raw) ty (env_now env (hist w)) (db w)) = Some uid"
    and "fst (consume_user (HashToken env raw) ty (env_now env (hist w)) (db w)) = None \<Longrightarrow>
      fst (run_state (Consume env raw ty) w) = Inl ErrNoRows"
  using assms
  by (auto simp: Consume_def run_sql consume_user_def consume_token_def first_row_def split: list.splits)

lemma token_Create_Inr:
  assumes "run_state (token_Create env uid ty ttl) w = (Inr raw, w')"
    and "\<forall>h. env_err env h (Sql ''invalidate tokens'') = None"
  obtains n t where "issue_token uid ty (HashToken env raw)
      (env_now env (Sql ''invalidate tokens'' # RandRead 32 # hist w) + ttl) n t (db w) = Some (db w')"
proof -
  from assms(1) obtain b w1 where g: "run_state (GenerateRawToken env) w = (Inr b, w1)"
    and rest: "run_state (do { let hash = HashToken env b;
            ignoring (sql env Pool ''invalidate tokens'' (\<lambda>_ t. invalidate_tokens uid ty t));
            t \<leftarrow> now env;
            on_ok (sql env Pool ''insert token'' (\<lambda>x _. insert_token uid hash ty (t + ttl) x)) (\<lambda>_. ok b) }) w1 = (Inr raw, w')"
    unfolding token_Create_def by (rule on_ok_Inr)
  from g have w1: "w1 = w\<lparr>hist := RandRead 32 # hist w\<rparr>"
    unfolding GenerateRawToken_def by (auto elim!: on_ok_Inr dest!: success_dests simp: run_ok)
  let ?t = "env_now env (RandRead 32 # hist w)" and ?e = "env_now env (Sql ''invalidate tokens'' # RandRead 32 # hist w) + ttl"
  let ?w2 = "w\<lparr>hist := Sql ''invalidate tokens'' # RandRead 32 # hist w, db := snd (invalidate_tokens uid ty ?t (db w))\<rparr>"
  have inv: "run_state (sql env Pool ''invalidate tokens'' (\<lambda>_ t. invalidate_tokens uid ty t)) w1 = (Inr (), ?w2)"
    using assms(2) by (simp add: run_sql w1 invalidate_tokens_def)
  from rest have "run_state (on_ok (sql env Pool ''insert token'' (\<lambda>x _. insert_token uid (HashToken env b) ty ?e x)) (\<lambda>_. ok b)) ?w2
      = (Inr raw, w')"
    by (simp add: Let_def run_bind run_ignoring inv run_now)
  then obtain u w3 where ins: "run_state (sql env Pool ''insert token'' (\<lambda>x _. insert_token uid (HashToken env b) ty ?e x)) ?w2 = (Inr u, w3)"
    and fin: "run_state (ok b) w3 = (Inr raw, w')"
    by (rule on_ok_Inr)
  from ins obtain d where "insert_token uid (HashToken env b) ty ?e (env_str env (hist ?w2) (Sql ''insert token''))
      (snd (invalidate_tokens uid ty ?t (db w))) = (Inr u, d)" "db w3 = d"
    by (rule sql_Inr) simp_all
  with fin show ?thesis
    by (intro that[of "env_str env (hist ?w2) (Sql ''insert token'')" ?t]) (simp add: issue_token_def run_ok)
qed

text \<open>
  A token can be consumed once: after a successful \<open>Consume\<close>, consuming the same token
  on the same tables at any later time returns \<open>ErrNoRows\<close>.
\<close>

theorem token_used_once:
  assumes "run_state (Consume env raw ty) w = (Inr rec, w1)" and "db w2 = db w1" and "env_now env (hist w) \<le> env_now env (hist w2)"
    and "env_err env (hist w2) (Sql ''consume token'') = None"
  shows "fst (run_state (Consume env raw ty) w2) = Inl ErrNoRows"
proof -
  from Consume_Inr[OF assms(1)] ts.one_time[OF assms(3), of "HashToken env raw" ty "db w"] assms(2)
  have "fst (consume_user (HashToken env raw) ty (env_now env (hist w2)) (db w2)) = None" by simp
  with assms(4) show ?thesis by (rule Consume_user(2))
qed

text \<open>
  C27. A link works until it expires and only the latest one does: after a successful creation, on
  the same tables, the new token is consumed for its user before its expiry and refused from then
  on, and no other token of that type is consumed for that user any more.
\<close>

theorem latest_token_until_expiry:
  assumes "run_state (token_Create env uid ty ttl) w = (Inr raw, w1)" and "\<forall>h. env_err env h (Sql ''invalidate tokens'') = None"
    and "e = env_now env (Sql ''invalidate tokens'' # RandRead 32 # hist w) + ttl"
    and "db w2 = db w1" and "env_err env (hist w2) (Sql ''consume token'') = None"
  shows "(if env_now env (hist w2) < e
      then (\<exists>rec. fst (run_state (Consume env raw ty) w2) = Inr rec \<and> tr_UserID rec = uid)
      else fst (run_state (Consume env raw ty) w2) = Inl ErrNoRows) \<and>
    (\<forall>raw'. HashToken env raw' \<noteq> HashToken env raw \<longrightarrow>
      \<not> (\<exists>rec. fst (run_state (Consume env raw' ty) w2) = Inr rec \<and> tr_UserID rec = uid))"
proof -
  from assms(1,2) obtain n t where i: "issue_token uid ty (HashToken env raw) e n t (db w) = Some (db w2)"
    unfolding assms(3,4) by (rule token_Create_Inr)
  have "if env_now env (hist w2) < e
      then (\<exists>rec. fst (run_state (Consume env raw ty) w2) = Inr rec \<and> tr_UserID rec = uid)
      else fst (run_state (Consume env raw ty) w2) = Inl ErrNoRows"
    unfolding Consume_user(1)[OF assms(5)]
    using ts.consume_result[of "HashToken env raw" ty _ "db w2"] ts.issue_live[OF i] Consume_user(2)[OF assms(5)] by simp
  moreover have "HashToken env raw' \<noteq> HashToken env raw \<Longrightarrow>
      \<not> (\<exists>rec. fst (run_state (Consume env raw' ty) w2) = Inr rec \<and> tr_UserID rec = uid)" for raw'
    unfolding Consume_user(1)[OF assms(5)] ts.consume_result using ts.issue_kills[OF i] by simp
  ultimately show ?thesis by blast
qed

section \<open>Witnesses\<close>

definition sample_token :: token_row where
  "sample_token = \<lparr>et_id = ''t1'', et_user_id = 1, et_token_hash = ''abc'', et_type = ''password_reset'', et_expires_at = 20000, et_used_at = None\<rparr>"

definition token_world :: world where
  "token_world = sample_world\<lparr>db := sample_db\<lparr>email_tokens := [sample_token]\<rparr>\<rparr>"

lemma token_world_consume:
  "run_state (Consume sample_env ''abc'' ''password_reset'') token_world =
     (Inr \<lparr>tr_ID = ''t1'', tr_UserID = 1, tr_Type = ''password_reset''\<rparr>,
      snd (run_state (Consume sample_env ''abc'' ''password_reset'') token_world))"
  by (simp add: Consume_def run_sql HashToken_def consume_token_def token_world_def first_row_def)
    (simp add: sample_token_def token_matches_def sample_env_def)

theorem token_used_once_witness:
  "fst (run_state (Consume sample_env ''abc'' ''password_reset'')
     (snd (run_state (Consume sample_env ''abc'' ''password_reset'') token_world))) = Inl ErrNoRows"
  by (rule token_used_once[OF token_world_consume refl])
    (simp_all add: token_world_def Consume_def run_sql sample_env_def split: prod.split)

lemma hex_not_abc: "hex_EncodeToString bs \<noteq> ''abc''"
proof
  assume "hex_EncodeToString bs = ''abc''"
  from arg_cong[OF this, of length] show False by simp arith
qed

lemma sample_token_Create:
  "\<exists>raw w1. run_state (token_Create sample_env 1 ''password_reset'' 3600) token_world = (Inr raw, w1)"
  by (simp add: token_Create_def GenerateRawToken_def HashToken_def Let_def run_simps invalidate_tokens_def insert_token_def)
    (simp add: token_world_def sample_token_def sample_db_def sample_user_def sample_env_def hex_not_abc)

theorem latest_token_until_expiry_witness:
  "\<exists>raw w1. run_state (token_Create sample_env 1 ''password_reset'' 3600) token_world = (Inr raw, w1) \<and>
     (\<exists>rec. fst (run_state (Consume sample_env raw ''password_reset'') (w1\<lparr>hist := []\<rparr>)) = Inr rec \<and> tr_UserID rec = 1) \<and>
     \<not> (\<exists>rec. fst (run_state (Consume sample_env (raw @ ''x'') ''password_reset'') (w1\<lparr>hist := []\<rparr>)) = Inr rec \<and> tr_UserID rec = 1)"
proof -
  from sample_token_Create obtain raw w1
    where run: "run_state (token_Create sample_env 1 ''password_reset'' 3600) token_world = (Inr raw, w1)" by blast
  have now: "env_now sample_env h = 10000 + int (length h)" for h by (simp add: sample_env_def)
  have hash: "HashToken sample_env s = s" for s by (simp add: HashToken_def sample_env_def)
  from latest_token_until_expiry[OF run _ refl, of "w1\<lparr>hist := []\<rparr>"] show ?thesis
    using run by (auto simp: now hash token_world_def)
qed

end
