(* ===== verification/Auth.thy ===== *)
theory Auth
  imports Http Effects Sample
begin

text \<open>
  Authentication: \<open>jwt/helper.go\<close>, \<open>middlware/Middlware.go\<close>, \<open>middlware/auth.go\<close> and the API keys of
  \<open>service/apiKeyHandler.go\<close>. Signing and parsing of JSON web tokens is a library: it is a
  record of two functions, and what the code relies on is the predicate \<open>jwt_lawful\<close>. The secret
  is the argument \<open>key\<close>, what \<open>loadSecret\<close> returns.
\<close>

section \<open>Tokens (jwt/helper.go)\<close>

datatype claim = CStr string | CNum int | COther

type_synonym claims = "string \<Rightarrow> claim option"

record jwt_library =
  jwt_sign :: "string \<Rightarrow> claims \<Rightarrow> string result"
  jwt_parse :: "string \<Rightarrow> time \<Rightarrow> string \<Rightarrow> (claims \<times> bool) result"

text \<open>\<open>log.Fatal\<close> ends the process, which is \<open>None\<close>.\<close>

definition loadSecret :: "string \<Rightarrow> string option" where
  "loadSecret key = (if key = [] then None else if length key < 32 then None else Some key)"

definition access_claims :: "string \<Rightarrow> string \<Rightarrow> string \<Rightarrow> time \<Rightarrow> claims" where
  "access_claims username email userId t =
     [''username'' \<mapsto> CStr username, ''email'' \<mapsto> CStr email, ''id'' \<mapsto> CStr userId,
      ''type'' \<mapsto> CStr ''access'', ''exp'' \<mapsto> CNum (t + 15 * 60)]"

definition CreateToken :: "jwt_library \<Rightarrow> string \<Rightarrow> time \<Rightarrow> string \<Rightarrow> string \<Rightarrow> string \<Rightarrow> string result" where
  "CreateToken lib key t username email userId = jwt_sign lib key (access_claims username email userId t)"

definition refresh_claims :: "string \<Rightarrow> time \<Rightarrow> claims" where
  "refresh_claims userId t = [''id'' \<mapsto> CStr userId, ''type'' \<mapsto> CStr ''refresh'', ''exp'' \<mapsto> CNum (t + 7 * 24 * 3600)]"

definition CreateRefreshToken :: "jwt_library \<Rightarrow> string \<Rightarrow> time \<Rightarrow> string \<Rightarrow> string result" where
  "CreateRefreshToken lib key t userId = jwt_sign lib key (refresh_claims userId t)"

definition VerifyRefreshToken :: "jwt_library \<Rightarrow> string \<Rightarrow> time \<Rightarrow> string \<Rightarrow> string result" where
  "VerifyRefreshToken lib key t tok =
     (case jwt_parse lib key t tok of
        Inl e \<Rightarrow> Inl e
      | Inr (cl, valid) \<Rightarrow>
          if \<not> valid then Inl (ErrText ''invalid token'')
          else if cl ''type'' \<noteq> Some (CStr ''refresh'') then Inl (ErrText ''not a refresh token'')
          else case cl ''id'' of Some (CStr u) \<Rightarrow> Inr u | _ \<Rightarrow> Inl (ErrText ''user id not found in token''))"

definition VerifyToken :: "jwt_library \<Rightarrow> string \<Rightarrow> time \<Rightarrow> string \<Rightarrow> unit result" where
  "VerifyToken lib key t tok =
     (case jwt_parse lib key t tok of
        Inl e \<Rightarrow> Inl e
      | Inr (cl, valid) \<Rightarrow> if \<not> valid then Inl (ErrText ''invalid token'') else Inr ())"

definition GetUserIDFromToken :: "jwt_library \<Rightarrow> string \<Rightarrow> time \<Rightarrow> string \<Rightarrow> string result" where
  "GetUserIDFromToken lib key t tok =
     (case jwt_parse lib key t tok of
        Inl e \<Rightarrow> Inl e
      | Inr (cl, valid) \<Rightarrow>
          if \<not> valid then Inl (ErrText ''invalid token'')
          else case cl ''id'' of Some (CStr u) \<Rightarrow> Inr u | _ \<Rightarrow> Inl (ErrText ''user id not found in token''))"

text \<open>
  What the code relies on: a signed token is parsed back to its claims with the same key until
  its expiry, and refused from then on.
\<close>

definition jwt_lawful :: "jwt_library \<Rightarrow> bool" where
  "jwt_lawful lib \<longleftrightarrow>
     (\<forall>key cl tok e t. jwt_sign lib key cl = Inr tok \<and> cl ''exp'' = Some (CNum e) \<longrightarrow>
        (t < e \<longrightarrow> jwt_parse lib key t tok = Inr (cl, True)) \<and>
        (e \<le> t \<longrightarrow> (\<exists>x. jwt_parse lib key t tok = Inl x)))"

section \<open>The two middlewares\<close>

text \<open>\<open>for i := 0; i < len(s)-len(sep)+1; i++\<close>: the rest of the string from index \<open>i\<close> on.\<close>

function find_sep :: "string \<Rightarrow> string \<Rightarrow> nat \<Rightarrow> nat option" where
  "find_sep sep s i =
     (if i < length s + 1 - length sep
      then if take (length sep) (drop i s) = sep then Some i else find_sep sep s (Suc i)
      else None)"
  by pat_completeness auto
termination by (relation "measure (\<lambda>(sep, s, i). length s + 1 - i)") auto

declare find_sep.simps [simp del]

definition splitTwo :: "string \<Rightarrow> string \<Rightarrow> (string \<times> string) option" where
  "splitTwo s sep =
     (case find_sep sep s 0 of None \<Rightarrow> None | Some idx \<Rightarrow> Some (take idx s, drop (idx + length sep) s))"

text \<open>
  The token a request carries; the left value is the answer on failure. The two middlewares
  differ in how they take the header apart.
\<close>

definition header_token_split :: "'b request \<Rightarrow> string + string" where
  "header_token_split r =
     (let h = rq_header r ''Authorization'' in
      if h = [] then Inr []
      else case split_on CHR '' '' h of
             [a, b] \<Rightarrow> if a = ''Bearer'' then Inr b else Inl ''invalid authorization header format''
           | _ \<Rightarrow> Inl ''invalid authorization header format'')"

definition header_token_two :: "'b request \<Rightarrow> string + string" where
  "header_token_two r =
     (let h = rq_header r ''Authorization'' in
      if h = [] then Inr []
      else case splitTwo h '' '' of
             Some (a, b) \<Rightarrow> if a = ''Bearer'' then Inr b else Inl ''invalid authorization header format''
           | None \<Rightarrow> Inl ''invalid authorization header format'')"

definition checked_user :: "jwt_library \<Rightarrow> string \<Rightarrow> time \<Rightarrow> 'b request \<Rightarrow> string + string \<Rightarrow> string + string" where
  "checked_user lib key t r hdr =
     (case hdr of
        Inl m \<Rightarrow> Inl m
      | Inr h \<Rightarrow>
          let token = (if h = [] then rq_query r ''token'' else h) in
          if token = [] then Inl ''authorization required''
          else case VerifyToken lib key t token of
                 Inl _ \<Rightarrow> Inl ''invalid token''
               | Inr _ \<Rightarrow>
                   (case GetUserIDFromToken lib key t token of
                      Inl _ \<Rightarrow> Inl ''invalid or expired token''
                    | Inr userId \<Rightarrow> Inr userId))"

definition AuthMiddleware :: "env \<Rightarrow> jwt_library \<Rightarrow> string \<Rightarrow> ('b, 'd) handler \<Rightarrow> ('b, 'd) handler" where
  "AuthMiddleware env lib key next r =
     do { t \<leftarrow> now env;
          (case checked_user lib key t r (header_token_split r) of
             Inl m \<Rightarrow> RespondError m 401
           | Inr userId \<Rightarrow> next (with_user userId r)) }"

definition resolveJWT :: "jwt_library \<Rightarrow> string \<Rightarrow> time \<Rightarrow> 'b request \<Rightarrow> string + string" where
  "resolveJWT lib key t r = checked_user lib key t r (header_token_two r)"

text \<open>\<open>UPDATE api_keys SET last_used_at=NOW() WHERE key_hash=$1 RETURNING user_id::text\<close>\<close>

definition touch_key :: "env \<Rightarrow> string \<Rightarrow> time \<Rightarrow> database \<Rightarrow> string result \<times> database" where
  "touch_key env hash t d =
     (map_sum (\<lambda>e. e) (\<lambda>k. int8out env (ak_user_id k)) (first_row (filter (\<lambda>k. ak_key_hash k = hash) (api_keys d))),
      d\<lparr>api_keys := map (\<lambda>k. if ak_key_hash k = hash then k\<lparr>ak_last_used_at := Some t\<rparr> else k) (api_keys d)\<rparr>)"

definition resolveApiKey :: "env \<Rightarrow> string \<Rightarrow> string R" where
  "resolveApiKey env rawKey = sql env Pool ''touch api key'' (\<lambda>_ t. touch_key env (sha256hex env rawKey) t)"

definition Auth_Middleware :: "env \<Rightarrow> jwt_library \<Rightarrow> string \<Rightarrow> ('b, 'd) handler \<Rightarrow> ('b, 'd) handler" where
  "Auth_Middleware env lib key next r =
     (if rq_header r ''X-API-Key'' \<noteq> [] then
        do { u \<leftarrow> resolveApiKey env (rq_header r ''X-API-Key'');
             (case u of
                Inl _ \<Rightarrow> RespondError ''invalid API key'' 401
              | Inr userID \<Rightarrow> next (with_user userID r)) }
      else
        do { t \<leftarrow> now env;
             (case resolveJWT lib key t r of
                Inl m \<Rightarrow> RespondError m 401
              | Inr userID \<Rightarrow> next (with_user userID r)) })"

definition select_role :: "env \<Rightarrow> string \<Rightarrow> database \<Rightarrow> string result \<times> database" where
  "select_role env userID d =
     with_bigint env userID (\<lambda>n. (map_sum (\<lambda>e. e) u_role (first_row (filter (\<lambda>u. u_id u = n) (users d))), d)) d"

definition AdminOnly :: "env \<Rightarrow> ('b, 'd) handler \<Rightarrow> ('b, 'd) handler" where
  "AdminOnly env next r =
     do { role \<leftarrow> sql env Pool ''select role'' (\<lambda>_ _. select_role env (user_or_empty r));
          (case role of
             Inl _ \<Rightarrow> RespondError ''forbidden'' 403
           | Inr x \<Rightarrow> if x \<noteq> ''admin'' then RespondError ''forbidden'' 403 else next r) }"

section \<open>API keys\<close>

definition apiKeyPrefix :: string where
  "apiKeyPrefix = ''dk_live_''"

definition maxApiKeysPerUser :: int where
  "maxApiKeysPerUser = 10"

record ApiKeyItem =
  ki_ID :: string
  ki_Name :: string
  ki_Prefix :: string
  ki_LastUsedAt :: "string option"
  ki_CreatedAt :: string

datatype key_data = CreatedKey string string string string time | KeyItems "ApiKeyItem list"

definition count_keys :: "env \<Rightarrow> string \<Rightarrow> database \<Rightarrow> int result \<times> database" where
  "count_keys env userID d =
     with_bigint env userID (\<lambda>n. (Inr (int (length (filter (\<lambda>k. ak_user_id k = n) (api_keys d)))), d)) d"

definition insert_key :: "env \<Rightarrow> string \<Rightarrow> string \<Rightarrow> string \<Rightarrow> string \<Rightarrow> string \<Rightarrow> time \<Rightarrow> database \<Rightarrow> (string \<times> time) result \<times> database" where
  "insert_key env userID name hash keyPrefix newid t d =
     with_bigint env userID (\<lambda>n.
       if newid \<in> ak_id ` set (api_keys d) then (Inl (sql_violation ''api_keys_pkey''), d)
       else if hash \<in> ak_key_hash ` set (api_keys d) then (Inl (sql_violation ''api_keys_key_hash_key''), d)
       else if n \<notin> u_id ` set (users d) then (Inl (sql_violation ''api_keys_user_id_fkey''), d)
       else (Inr (newid, t), d\<lparr>api_keys := api_keys d @
               [\<lparr>ak_id = newid, ak_user_id = n, ak_name = name, ak_key_hash = hash, ak_key_prefix = keyPrefix,
                 ak_last_used_at = None, ak_created_at = t\<rparr>]\<rparr>)) d"

text \<open>
  \<open>required,min=1,max=50\<close> is checked by the validator library, a parameter. A failing count
  query leaves \<open>count\<close> at zero. \<open>rand.Read\<close> is the call \<open>RandRead 32\<close>, which answers with 32 bytes.
\<close>

definition key_Create :: "env \<Rightarrow> (string \<Rightarrow> go_error option) \<Rightarrow> (string, key_data) handler" where
  "key_Create env validate r =
     (let userID = user_or_empty r in
      case rq_body r of
        Inl _ \<Rightarrow> RespondError ''invalid body'' 400
      | Inr name \<Rightarrow>
          (case validate name of
             Some e \<Rightarrow> RespondError (Error_text e) 400
           | None \<Rightarrow>
               do { c \<leftarrow> sql env Pool ''count api keys'' (\<lambda>_ _. count_keys env userID);
                    let count = (case c of Inl _ \<Rightarrow> 0 | Inr n \<Rightarrow> n);
                    (if maxApiKeysPerUser \<le> count then RespondError ''maximum API keys reached (10)'' 400
                     else
                       do { rb \<leftarrow> call_str env (RandRead 32);
                            let rawBytes = (case rb of Inl _ \<Rightarrow> replicate 32 (CHR 0x00) | Inr b \<Rightarrow> b);
                            let rawKey = apiKeyPrefix @ hex_EncodeToString rawBytes;
                            let hash = sha256hex env rawKey;
                            let keyPrefix = take 20 rawKey;
                            ins \<leftarrow> sql env Pool ''insert api key'' (insert_key env userID name hash keyPrefix);
                            (case ins of
                               Inl _ \<Rightarrow> RespondError ''internal error'' 500
                             | Inr (keyID, createdAt) \<Rightarrow> RespondData (CreatedKey keyID rawKey name keyPrefix createdAt) 201) }) }))"

definition select_keys :: "env \<Rightarrow> string \<Rightarrow> database \<Rightarrow> api_key_row list result \<times> database" where
  "select_keys env userID d =
     (rows_with_bigint env userID (\<lambda>n. sort_key (\<lambda>k. - ak_created_at k) (filter (\<lambda>k. ak_user_id k = n) (api_keys d))), d)"

text \<open>
  The columns \<open>last_used_at\<close> and \<open>created_at\<close> are timestamps and are scanned into strings: what the
  driver makes of that is the parameter \<open>ts\<close>, \<open>None\<close> when it refuses the conversion. The error of
  \<open>rows.Scan\<close> is ignored: the item keeps what was scanned before, and the failed scan closes the rows.
\<close>

definition scan_key :: "(time \<Rightarrow> string option) \<Rightarrow> api_key_row \<Rightarrow> ApiKeyItem \<times> bool" where
  "scan_key ts k =
     (let item = \<lparr>ki_ID = ak_id k, ki_Name = ak_name k, ki_Prefix = ak_key_prefix k, ki_LastUsedAt = None, ki_CreatedAt = []\<rparr> in
      case (case ak_last_used_at k of None \<Rightarrow> Some None | Some t \<Rightarrow> map_option Some (ts t)) of
        None \<Rightarrow> (item, False)
      | Some lu \<Rightarrow>
          (case ts (ak_created_at k) of
             None \<Rightarrow> (item\<lparr>ki_LastUsedAt := lu\<rparr>, False)
           | Some c \<Rightarrow> (item\<lparr>ki_LastUsedAt := lu, ki_CreatedAt := c\<rparr>, True)))"

fun scan_keys :: "(time \<Rightarrow> string option) \<Rightarrow> api_key_row list \<Rightarrow> ApiKeyItem list" where
  "scan_keys ts [] = []"
| "scan_keys ts (k # ks) = (case scan_key ts k of (item, scanned) \<Rightarrow> item # (if scanned then scan_keys ts ks else []))"

definition key_List :: "env \<Rightarrow> (time \<Rightarrow> string option) \<Rightarrow> ('b, key_data) handler" where
  "key_List env ts r =
     do { ks \<leftarrow> sql env Pool ''select api keys'' (\<lambda>_ _. select_keys env (user_or_empty r));
          (case ks of Inl _ \<Rightarrow> RespondError ''internal error'' 500 | Inr rows \<Rightarrow> RespondData (KeyItems (scan_keys ts rows)) 200) }"

definition delete_key :: "env \<Rightarrow> string \<Rightarrow> string \<Rightarrow> database \<Rightarrow> nat result \<times> database" where
  "delete_key env keyID userID d =
     with_bigint env userID (\<lambda>n.
       (Inr (length (filter (\<lambda>k. ak_id k = keyID \<and> ak_user_id k = n) (api_keys d))),
        d\<lparr>api_keys := filter (\<lambda>k. \<not> (ak_id k = keyID \<and> ak_user_id k = n)) (api_keys d)\<rparr>)) d"

definition key_Delete :: "env \<Rightarrow> ('b, key_data) handler" where
  "key_Delete env r =
     (if rq_method r \<noteq> ''DELETE'' then method_not_allowed
      else
        do { tag \<leftarrow> sql env Pool ''delete api key'' (\<lambda>_ _. delete_key env (rq_vars r ''id'') (user_or_empty r));
             (case tag of
                Inl _ \<Rightarrow> RespondError ''key not found'' 404
              | Inr n \<Rightarrow> if n = 0 then RespondError ''key not found'' 404
                         else State_Monad.return \<lparr>rs_status = 204, rs_headers = [], rs_payload = NoBody\<rparr>) })"

definition key_Dispatch ::
  "env \<Rightarrow> (time \<Rightarrow> string option) \<Rightarrow> (string \<Rightarrow> go_error option) \<Rightarrow> (string, key_data) handler" where
  "key_Dispatch env ts validate r =
     (if rq_method r = ''GET'' then key_List env ts r
      else if rq_method r = ''POST'' then key_Create env validate r
      else method_not_allowed)"

end
