(* ===== verification/Mail.thy ===== *)
theory Mail
  imports Http
begin

text \<open>
  \<open>email/mailer.go\<close> and \<open>email/templates.go\<close>: the mailer, its SMTP dialogue over TLS step by step, and the two
  HTML mails. Of the standard library, \<open>html/template\<close> is modelled as far as the templates use it: a value
  in the text of an element is HTML-escaped; a value that is a whole \<open>href\<close> attribute is first filtered by
  its scheme, then percent-normalised, then HTML-escaped. \<open>net/smtp\<close> and \<open>crypto/tls\<close> are calls to
  the outside.
\<close>

section \<open>Escaping\<close>

text \<open>The replacement table of \<open>html/template\<close>; a NUL becomes the UTF-8 bytes of U+FFFD.\<close>

definition html_repl :: "char \<Rightarrow> string" where
  "html_repl c =
     (if c = CHR 0x00 then [CHR 0xEF, CHR 0xBF, CHR 0xBD]
      else if c = CHR 0x22 then ''&#34;''
      else if c = CHR ''&'' then ''&amp;''
      else if c = CHR 0x27 then ''&#39;''
      else if c = CHR ''+'' then ''&#43;''
      else if c = CHR ''<'' then ''&lt;''
      else if c = CHR ''>'' then ''&gt;''
      else [c])"

definition html_escape :: "string \<Rightarrow> string" where
  "html_escape s = concat (map html_repl s)"

text \<open>
  \<open>isSafeURL\<close>: what precedes the first colon is a path or one of three schemes. \<open>EqualFold\<close> takes the long s
  (U+017F) for an s.
\<close>

definition isSafeURL :: "string \<Rightarrow> bool" where
  "isSafeURL s =
     (case index_of CHR '':'' s of
        None \<Rightarrow> True
      | Some i \<Rightarrow>
          CHR ''/'' \<in> set (take i s) \<or>
          ToLower (take i s) \<in> {''http'', ''https'', ''http'' @ [CHR 0xC5, CHR 0xBF], ''mailto''})"

definition hex_chars :: string where
  "hex_chars = ''0123456789abcdefABCDEF''"

definition is_alnum :: "char \<Rightarrow> bool" where
  "is_alnum c \<longleftrightarrow> c \<in> set (hex_chars @ ''ghijklmnopqrstuvwxyzGHIJKLMNOPQRSTUVWXYZ'')"

definition is_hex :: "char \<Rightarrow> bool" where
  "is_hex c \<longleftrightarrow> c \<in> set hex_chars"

definition url_plain :: "char \<Rightarrow> bool" where
  "url_plain c \<longleftrightarrow> is_alnum c \<or> c \<in> set ''!#$&*+,/:;=?@[]-._~''"

definition percent :: "char \<Rightarrow> string" where
  "percent c = CHR ''%'' # hex_EncodeToString [c]"

text \<open>\<open>processURLOnto\<close> with \<open>norm\<close>: a valid escape sequence is left alone.\<close>

fun url_normalize :: "string \<Rightarrow> string" where
  "url_normalize [] = []"
| "url_normalize (c # cs) =
     (if url_plain c \<or> c = CHR ''%'' \<and> 2 \<le> length cs \<and> list_all is_hex (take 2 cs) then [c] else percent c) @ url_normalize cs"

definition url_filter :: "string \<Rightarrow> string" where
  "url_filter s = (if isSafeURL s then s else ''#ZgotmplZ'')"

section \<open>Templates\<close>

text \<open>A parsed template: its text, and its actions with the context \<open>html/template\<close> finds them in.\<close>

datatype piece = Lit string | TextField string | HrefField string

definition field :: "(string \<rightharpoonup> string) \<Rightarrow> string \<Rightarrow> string" where
  "field data k = (case data k of None \<Rightarrow> [] | Some v \<Rightarrow> v)"

fun render_piece :: "(string \<rightharpoonup> string) \<Rightarrow> piece \<Rightarrow> string" where
  "render_piece data (Lit s) = s"
| "render_piece data (TextField k) = html_escape (field data k)"
| "render_piece data (HrefField k) = html_escape (url_normalize (url_filter (field data k)))"

definition renderTemplate :: "piece list \<Rightarrow> (string \<rightharpoonup> string) \<Rightarrow> string" where
  "renderTemplate tmpl data = concat (map (render_piece data) tmpl)"

definition lf :: string where
  "lf = [CHR 0x0A]"

definition dq :: string where
  "dq = [CHR 0x22]"

definition apos :: string where
  "apos = [CHR 0x27]"

definition tmpl_head :: string where
  "tmpl_head =
     ''<!DOCTYPE html>'' @ lf @ ''<html>'' @ lf @
     ''<body style='' @ dq @ ''font-family:sans-serif;max-width:600px;margin:0 auto;padding:32px;background:#0f172a;color:#e2e8f0'' @ dq @ ''>'' @ lf @
     ''  <div style='' @ dq @ ''background:#1e293b;border:1px solid #334155;border-radius:12px;padding:32px'' @ dq @ ''>'' @ lf"

definition tmpl_button :: string where
  "tmpl_button = lf @ ''       style='' @ dq @
     ''display:inline-block;background:#6366f1;color:#fff;padding:12px 28px;border-radius:8px;text-decoration:none;font-weight:600;margin:16px 0''
     @ dq @ ''>'' @ lf"

definition tmpl_small :: string where
  "tmpl_small = ''    <p style='' @ dq @ ''color:#64748b;font-size:13px;margin-top:24px'' @ dq @ ''>'' @ lf"

definition tmpl_foot :: string where
  "tmpl_foot = '', you can safely ignore this email.'' @ lf @ ''    </p>'' @ lf @ ''  </div>'' @ lf @ ''</body>'' @ lf @ ''</html>''"

definition verificationTmpl :: "piece list" where
  "verificationTmpl =
     [Lit (tmpl_head @
        ''    <h2 style='' @ dq @ ''color:#818cf8;margin-top:0'' @ dq @ ''>Verify your email</h2>'' @ lf @
        ''    <p>Hi <strong>''),
      TextField ''Name'',
      Lit (''</strong>, thanks for signing up to Docker Wrapper.</p>'' @ lf @
        ''    <p>Click the button below to verify your email address.</p>'' @ lf @
        ''    <a href='' @ dq),
      HrefField ''URL'',
      Lit (dq @ tmpl_button @ ''      Verify Email'' @ lf @ ''    </a>'' @ lf @ tmpl_small @
        ''      This link expires in <strong>24 hours</strong>.<br>'' @ lf @
        ''      If you didn'' @ apos @ ''t create an account'' @ tmpl_foot)]"

definition passwordResetTmpl :: "piece list" where
  "passwordResetTmpl =
     [Lit (tmpl_head @
        ''    <h2 style='' @ dq @ ''color:#818cf8;margin-top:0'' @ dq @ ''>Reset your password</h2>'' @ lf @
        ''    <p>Hi <strong>''),
      TextField ''Name'',
      Lit (''</strong>, we received a request to reset your password.</p>'' @ lf @ ''    <a href='' @ dq),
      HrefField ''URL'',
      Lit (dq @ tmpl_button @ ''      Reset Password'' @ lf @ ''    </a>'' @ lf @ tmpl_small @
        ''      This link expires in <strong>1 hour</strong>.<br>'' @ lf @
        ''      If you didn'' @ apos @ ''t request a password reset'' @ tmpl_foot)]"

section \<open>Mailer\<close>

record Mailer =
  ml_host :: string
  ml_port :: string
  ml_user :: string
  ml_password :: string
  ml_from :: string

text \<open>\<open>os.Getenv\<close> is a function; a variable that is not set reads as the empty string.\<close>

definition NewMailer :: "(string \<Rightarrow> string) \<Rightarrow> Mailer" where
  "NewMailer getenv =
     \<lparr>ml_host = getenv ''SMTP_HOST'', ml_port = getenv ''SMTP_PORT'', ml_user = getenv ''SMTP_USER'',
      ml_password = getenv ''SMTP_PASSWORD'', ml_from = getenv ''SMTP_FROM''\<rparr>"

definition Enabled :: "Mailer \<Rightarrow> bool" where
  "Enabled m \<longleftrightarrow> ml_host m \<noteq> []"

definition crlf :: string where
  "crlf = [CHR 0x0D, CHR 0x0A]"

definition buildMessage :: "string \<Rightarrow> string \<Rightarrow> string \<Rightarrow> string \<Rightarrow> string" where
  "buildMessage from_addr to_addr subject htmlBody =
     ''From: '' @ from_addr @ crlf @ ''To: '' @ to_addr @ crlf @ ''Subject: '' @ subject @ crlf @
     ''MIME-Version: 1.0'' @ crlf @ ''Content-Type: text/html; charset=UTF-8'' @ crlf @ crlf @ htmlBody"

text \<open>
  The dialogue on port 465. \<open>defer c.Quit()\<close> runs on every path after the greeting; the error of \<open>w.Close()\<close>, which
  carries the server's answer to the whole message, is not looked at.
\<close>

definition sendTLS :: "env \<Rightarrow> string \<Rightarrow> smtp_auth \<Rightarrow> string \<Rightarrow> string \<Rightarrow> string \<Rightarrow> unit R" where
  "sendTLS env addr auth from_addr to_addr msg =
     (let host = (case SplitHostPort addr of None \<Rightarrow> [] | Some (h, _) \<Rightarrow> h) in
      on_ok (call env (TlsDial addr host)) (\<lambda>_.
      on_ok (call env (SmtpNewClient host)) (\<lambda>_.
      defer_do (call env SmtpQuit) (
        on_ok (call env (SmtpAuth auth)) (\<lambda>_.
        on_ok (call env (SmtpMail from_addr)) (\<lambda>_.
        on_ok (call env (SmtpRcpt to_addr)) (\<lambda>_.
        on_ok (call env SmtpData) (\<lambda>_.
          do { r \<leftarrow> call env (SmtpWrite msg);
               ignoring (call env SmtpDataClose);
               State_Monad.return r }))))))))"

definition Send :: "env \<Rightarrow> Mailer \<Rightarrow> string \<Rightarrow> string \<Rightarrow> string \<Rightarrow> unit R" where
  "Send env m to_addr subject htmlBody =
     (if \<not> Enabled m
      then do { ignoring (call env (Printf (''[EMAIL dev] To: '' @ to_addr @ '' | Subject: '' @ subject @ lf @ htmlBody @ lf @ ''---'' @ lf)));
                ok () }
      else
        let auth = PlainAuth [] (ml_user m) (ml_password m) (ml_host m);
            msg = buildMessage (ml_from m) to_addr subject htmlBody;
            addr = ml_host m @ '':'' @ ml_port m
        in if ml_port m = ''465'' then sendTLS env addr auth (ml_from m) to_addr msg
           else call env (SendMail addr auth (ml_from m) [to_addr] msg))"

definition SendVerificationEmail :: "env \<Rightarrow> Mailer \<Rightarrow> string \<Rightarrow> string \<Rightarrow> string \<Rightarrow> unit R" where
  "SendVerificationEmail env m to_addr name verifyURL =
     Send env m to_addr ''Verify your Docker Wrapper account'' (renderTemplate verificationTmpl [''Name'' \<mapsto> name, ''URL'' \<mapsto> verifyURL])"

definition SendPasswordResetEmail :: "env \<Rightarrow> Mailer \<Rightarrow> string \<Rightarrow> string \<Rightarrow> string \<Rightarrow> unit R" where
  "SendPasswordResetEmail env m to_addr name resetURL =
     Send env m to_addr ''Reset your Docker Wrapper password'' (renderTemplate passwordResetTmpl [''Name'' \<mapsto> name, ''URL'' \<mapsto> resetURL])"

end
