(* ===== verification/Users.thy ===== *)
theory Users
  imports Tokens Auth Mail
begin

text \<open>
  \<open>service/UserService.go\<close> and \<open>service/userHnadler.go\<close>: accounts, login, refresh,
  e-mail verification and password reset. Comparing a password with a bcrypt hash is the
  parameter \<open>bcrypt_ok\<close>, the validator library is the parameter \<open>vld\<close>, the JWT library is a
  parameter as well. A handler that starts a goroutine returns it beside its response.
\<close>

section \<open>UserService\<close>

definition IDInt :: "User \<Rightarrow> int" where
  "IDInt u = fst (ParseInt (usr_Id u))"

definition svc_CreateUser :: "env \<Rightarrow> string \<Rightarrow> string \<Rightarrow> string \<Rightarrow> string R" where
  "svc_CreateUser env name email password =
     in_tx env (
       on_ok (CreateUser env Tx (empty_user\<lparr>usr_Name := name, usr_Email := email, usr_Password := password\<rparr>)) (\<lambda>i.
       on_ok (Commit env) (\<lambda>_. ok i)))"

definition svc_GetUser :: "env \<Rightarrow> string \<Rightarrow> User R" where
  "svc_GetUser env i = GetUserByID env Pool i"

definition svc_GetUserWithContainers :: "env \<Rightarrow> string \<Rightarrow> (User \<times> ContainerInfo list) R" where
  "svc_GetUserWithContainers env i = GetContainersForUserByID env Pool i"

definition svc_DeleteUser :: "env \<Rightarrow> string \<Rightarrow> unit R" where
  "svc_DeleteUser env i = in_tx env (on_ok (DeleteUserByID env Tx i) (\<lambda>_. Commit env))"

definition svc_GetUserByEmail :: "env \<Rightarrow> string \<Rightarrow> User R" where
  "svc_GetUserByEmail env email = GetUserByEmail env Pool email"

definition svc_GetUserByEmailWithPassword :: "env \<Rightarrow> string \<Rightarrow> User R" where
  "svc_GetUserByEmailWithPassword env email = GetUserByEmailWithPassword env Pool email"

section \<open>UserHandler\<close>

record user_ctx =
  uc_lib :: jwt_library
  uc_key :: string
  uc_mailer :: Mailer
  uc_baseURL :: string
  uc_bcrypt_ok :: "string \<Rightarrow> string \<Rightarrow> bool"

datatype user_data = TokenPair string string | AccessToken string | UserData User | Text string | Message string

record LoginRequest =
  lr_Email :: string
  lr_Password :: string

record RegisterRequest =
  rr_Name :: string
  rr_Email :: string
  rr_Password :: string

record ResetRequest =
  pr_Token :: string
  pr_NewPassword :: string

type_synonym 'd async = "('d response \<times> unit M) M"

definition no_task :: "unit M" where
  "no_task = State_Monad.return ()"

definition respond_only :: "'d response M \<Rightarrow> 'd async" where
  "respond_only m = do { r \<leftarrow> m; State_Monad.return (r, no_task) }"

definition issueTokenPair :: "user_ctx \<Rightarrow> time \<Rightarrow> string \<Rightarrow> string \<Rightarrow> string \<Rightarrow> (string \<times> string) result" where
  "issueTokenPair uc t name email userId =
     (case CreateToken (uc_lib uc) (uc_key uc) t name email userId of
        Inl e \<Rightarrow> Inl e
      | Inr access \<Rightarrow>
          (case CreateRefreshToken (uc_lib uc) (uc_key uc) t userId of
             Inl e \<Rightarrow> Inl e
           | Inr refresh \<Rightarrow> Inr (access, refresh)))"

definition extractBearerToken :: "'b request \<Rightarrow> string" where
  "extractBearerToken r =
     (let auth = rq_header r ''Authorization'' in
      if auth = [] then rq_query r ''token''
      else case splitN2 CHR '' '' auth of [a, b] \<Rightarrow> if a = ''Bearer'' then b else [] | _ \<Rightarrow> [])"

definition HashPassword :: "env \<Rightarrow> string \<Rightarrow> string R" where
  "HashPassword env password = call_str env (BcryptGenerate password)"

definition Login :: "env \<Rightarrow> user_ctx \<Rightarrow> (LoginRequest \<Rightarrow> go_error option) \<Rightarrow> (LoginRequest, user_data) handler" where
  "Login env uc vld r =
     (if rq_method r \<noteq> ''POST'' then method_not_allowed
      else case rq_body r of
        Inl e \<Rightarrow> RespondError (''invalid request body: '' @ Error_text e) 400
      | Inr req \<Rightarrow>
          (case vld req of
             Some e \<Rightarrow> RespondError (''validation error: '' @ Error_text e) 400
           | None \<Rightarrow>
               do { u \<leftarrow> svc_GetUserByEmailWithPassword env (lr_Email req);
                    (case u of
                       Inl _ \<Rightarrow> RespondError ''invalid email or password'' 401
                     | Inr user \<Rightarrow>
                         if \<not> uc_bcrypt_ok uc (usr_Password user) (lr_Password req)
                         then RespondError ''invalid email or password'' 401
                         else if \<not> usr_EmailVerified user then RespondError ''email_not_verified'' 403
                         else do { t \<leftarrow> now env;
                                   (case issueTokenPair uc t (usr_Name user) (usr_Email user) (usr_Id user) of
                                      Inl _ \<Rightarrow> RespondError ''internal server error'' 500
                                    | Inr (a, f) \<Rightarrow> RespondData (TokenPair a f) 200) }) }))"

text \<open>The body of the goroutine of \<open>Register\<close>.\<close>

definition register_task :: "env \<Rightarrow> user_ctx \<Rightarrow> RegisterRequest \<Rightarrow> unit M" where
  "register_task env uc req =
     do { u \<leftarrow> svc_GetUserByEmail env (rr_Email req);
          let userIDInt = (case u of Inl _ \<Rightarrow> 0 | Inr user \<Rightarrow> IDInt user);
          (if userIDInt = 0 then State_Monad.return ()
           else do { raw \<leftarrow> token_Create env userIDInt ''email_verification'' (24 * 3600);
                     (case raw of
                        Inl _ \<Rightarrow> State_Monad.return ()
                      | Inr tok \<Rightarrow>
                          ignoring (SendVerificationEmail env (uc_mailer uc) (rr_Email req) (rr_Name req)
                            (uc_baseURL uc @ ''/verify-email?token='' @ tok))) }) }"

definition Register :: "env \<Rightarrow> user_ctx \<Rightarrow> (RegisterRequest \<Rightarrow> go_error option) \<Rightarrow> RegisterRequest request \<Rightarrow> user_data async" where
  "Register env uc vld r =
     (if rq_method r \<noteq> ''POST'' then respond_only method_not_allowed
      else case rq_body r of
        Inl e \<Rightarrow> respond_only (RespondError (''invalid request body: '' @ Error_text e) 400)
      | Inr req \<Rightarrow>
          (case vld req of
             Some e \<Rightarrow> respond_only (RespondError (''validation error: '' @ Error_text e) 400)
           | None \<Rightarrow>
               do { h \<leftarrow> HashPassword env (rr_Password req);
                    (case h of
                       Inl _ \<Rightarrow> respond_only (RespondError ''error processing password'' 500)
                     | Inr hashedPassword \<Rightarrow>
                         do { i \<leftarrow> svc_CreateUser env (rr_Name req) (rr_Email req) hashedPassword;
                              (case i of
                                 Inl e \<Rightarrow> respond_only (RespondError (''error creating user: '' @ Error_text e) 500)
                               | Inr _ \<Rightarrow>
                                   do { resp \<leftarrow> RespondData (Message (''account created '' @ em_dash @ '' please verify your email before logging in'')) 201;
                                        State_Monad.return (resp, register_task env uc req) }) }) }))"

definition RefreshToken :: "env \<Rightarrow> user_ctx \<Rightarrow> ('b, user_data) handler" where
  "RefreshToken env uc r =
     (if rq_method r \<noteq> ''POST'' then method_not_allowed
      else
        let tokenStr = extractBearerToken r in
        if tokenStr = [] then RespondError ''refresh token required'' 401
        else
          do { t \<leftarrow> now env;
               (case VerifyRefreshToken (uc_lib uc) (uc_key uc) t tokenStr of
                  Inl _ \<Rightarrow> RespondError ''invalid or expired refresh token'' 401
                | Inr userId \<Rightarrow>
                    do { u \<leftarrow> svc_GetUser env userId;
                         (case u of
                            Inl _ \<Rightarrow> RespondError ''user not found'' 401
                          | Inr user \<Rightarrow>
                              do { t2 \<leftarrow> now env;
                                   (case CreateToken (uc_lib uc) (uc_key uc) t2 (usr_Name user) (usr_Email user) (usr_Id user) of
                                      Inl _ \<Rightarrow> RespondError ''internal server error'' 500
                                    | Inr a \<Rightarrow> RespondData (AccessToken a) 200) }) }) })"

definition GetUser :: "env \<Rightarrow> ('b, user_data) handler" where
  "GetUser env r =
     (if rq_method r \<noteq> ''GET'' then RespondError ''method not allowdoed'' 405
      else case rq_user r of
        None \<Rightarrow> RespondError ''user id not found in context'' 401
      | Some userId \<Rightarrow>
          do { u \<leftarrow> svc_GetUser env userId;
               (case u of Inl _ \<Rightarrow> RespondError ''user not found'' 404 | Inr user \<Rightarrow> RespondData (UserData user) 200) })"

definition GetUserWithContainers :: "env \<Rightarrow> ('b, user_data) handler" where
  "GetUserWithContainers env r =
     (if rq_method r \<noteq> ''GET'' then method_not_allowed
      else case rq_user r of
        None \<Rightarrow> RespondError ''user id not found in context'' 401
      | Some userId \<Rightarrow>
          do { u \<leftarrow> svc_GetUserWithContainers env userId;
               (case u of
                  Inl _ \<Rightarrow> RespondError ''user not found'' 404
                | Inr (user, cs) \<Rightarrow> RespondData (UserData (user\<lparr>usr_Containers := Some cs\<rparr>)) 200) })"

definition DeleteUser :: "env \<Rightarrow> ('b, user_data) handler" where
  "DeleteUser env r =
     (if rq_method r \<noteq> ''DELETE'' then method_not_allowed
      else case rq_user r of
        None \<Rightarrow> RespondError ''user id not found in context'' 401
      | Some userId \<Rightarrow>
          do { x \<leftarrow> svc_DeleteUser env userId;
               (case x of
                  Inl e \<Rightarrow> RespondError (''error deleting user: '' @ Error_text e) 500
                | Inr _ \<Rightarrow> RespondData (Text ''user deleted successfully'') 200) })"

text \<open>\<open>UPDATE users SET ... WHERE id = $2\<close>\<close>

definition update_users :: "int \<Rightarrow> (user_row \<Rightarrow> user_row) \<Rightarrow> database \<Rightarrow> unit result \<times> database" where
  "update_users n f d = (Inr (), d\<lparr>users := map (\<lambda>u. if u_id u = n then f u else u) (users d)\<rparr>)"

definition VerifyEmail :: "env \<Rightarrow> (string \<Rightarrow> go_error option) \<Rightarrow> (string, user_data) handler" where
  "VerifyEmail env vld r =
     (if rq_method r \<noteq> ''POST'' then method_not_allowed
      else case rq_body r of
        Inl _ \<Rightarrow> RespondError ''invalid body'' 400
      | Inr token \<Rightarrow>
          (case vld token of
             Some _ \<Rightarrow> RespondError ''token required'' 400
           | None \<Rightarrow>
               do { c \<leftarrow> Consume env token ''email_verification'';
                    (case c of
                       Inl _ \<Rightarrow> RespondError ''invalid or expired verification link'' 400
                     | Inr rec \<Rightarrow>
                         do { x \<leftarrow> sql env Pool ''verify email'' (\<lambda>_ t. update_users (tr_UserID rec) (\<lambda>u. u\<lparr>u_email_verified_at := Some t\<rparr>));
                              (case x of
                                 Inl _ \<Rightarrow> RespondError ''internal error'' 500
                               | Inr _ \<Rightarrow> RespondData (Text ''email verified'') 200) }) }))"

definition resend_task :: "env \<Rightarrow> user_ctx \<Rightarrow> string \<Rightarrow> unit M" where
  "resend_task env uc email =
     do { u \<leftarrow> svc_GetUserByEmail env email;
          (case u of
             Inl _ \<Rightarrow> State_Monad.return ()
           | Inr user \<Rightarrow>
               if usr_EmailVerified user then State_Monad.return ()
               else do { raw \<leftarrow> token_Create env (IDInt user) ''email_verification'' (24 * 3600);
                         (case raw of
                            Inl _ \<Rightarrow> State_Monad.return ()
                          | Inr tok \<Rightarrow>
                              ignoring (SendVerificationEmail env (uc_mailer uc) (usr_Email user) (usr_Name user)
                                (uc_baseURL uc @ ''/verify-email?token='' @ tok))) }) }"

definition ResendVerification :: "env \<Rightarrow> user_ctx \<Rightarrow> string request \<Rightarrow> user_data async" where
  "ResendVerification env uc r =
     (if rq_method r \<noteq> ''POST'' then respond_only method_not_allowed
      else case rq_body r of
        Inl _ \<Rightarrow> respond_only (RespondError ''invalid body'' 400)
      | Inr email \<Rightarrow>
          do { resp \<leftarrow> RespondData (Text ''if that email exists and is unverified, a new link was sent'') 200;
               State_Monad.return (resp, resend_task env uc email) })"

definition forgot_task :: "env \<Rightarrow> user_ctx \<Rightarrow> string \<Rightarrow> unit M" where
  "forgot_task env uc email =
     do { u \<leftarrow> svc_GetUserByEmail env email;
          (case u of
             Inl _ \<Rightarrow> State_Monad.return ()
           | Inr user \<Rightarrow>
               do { raw \<leftarrow> token_Create env (IDInt user) ''password_reset'' 3600;
                    (case raw of
                       Inl _ \<Rightarrow> State_Monad.return ()
                     | Inr tok \<Rightarrow>
                         ignoring (SendPasswordResetEmail env (uc_mailer uc) (usr_Email user) (usr_Name user)
                           (uc_baseURL uc @ ''/reset-password?token='' @ tok))) }) }"

definition ForgotPassword :: "env \<Rightarrow> user_ctx \<Rightarrow> string request \<Rightarrow> user_data async" where
  "ForgotPassword env uc r =
     (if rq_method r \<noteq> ''POST'' then respond_only method_not_allowed
      else case rq_body r of
        Inl _ \<Rightarrow> respond_only (RespondError ''invalid body'' 400)
      | Inr email \<Rightarrow>
          do { resp \<leftarrow> RespondData (Text ''if that email exists, a reset link was sent'') 200;
               State_Monad.return (resp, forgot_task env uc email) })"

definition ResetPassword :: "env \<Rightarrow> (ResetRequest \<Rightarrow> go_error option) \<Rightarrow> (ResetRequest, user_data) handler" where
  "ResetPassword env vld r =
     (if rq_method r \<noteq> ''POST'' then method_not_allowed
      else case rq_body r of
        Inl _ \<Rightarrow> RespondError ''invalid body'' 400
      | Inr req \<Rightarrow>
          (case vld req of
             Some e \<Rightarrow> RespondError (''validation error: '' @ Error_text e) 400
           | None \<Rightarrow>
               do { c \<leftarrow> Consume env (pr_Token req) ''password_reset'';
                    (case c of
                       Inl e \<Rightarrow> if e = ErrNoRows then RespondError ''invalid or expired reset link'' 400
                                else RespondError ''internal error'' 500
                     | Inr rec \<Rightarrow>
                         do { h \<leftarrow> HashPassword env (pr_NewPassword req);
                              (case h of
                                 Inl _ \<Rightarrow> RespondError ''internal error'' 500
                               | Inr hash \<Rightarrow>
                                   do { x \<leftarrow> sql env Pool ''set password'' (\<lambda>_ _. update_users (tr_UserID rec) (\<lambda>u. u\<lparr>u_password_hash := hash\<rparr>));
                                        (case x of
                                           Inl _ \<Rightarrow> RespondError ''internal error'' 500
                                         | Inr _ \<Rightarrow> RespondData (Text ''password updated'') 200) }) }) }))"

end
