(* ===== verification/Admin_Api.thy ===== *)
theory Admin_Api
  imports Networks Users
begin

text \<open>
  \<open>service/adminHandler.go\<close>, \<open>service/templateHandler.go\<close> with \<open>repository/templateRepo.go\<close>, \<open>service/ImageService.go\<close>,
  \<open>service/ImageHndlers.go\<close>, and the small handlers and helpers of \<open>main.go\<close> and \<open>migrations_runner.go\<close>. What PostgreSQL
  decides is a parameter: the day a time belongs to, \<open>LOWER(s) LIKE pattern\<close>, and the order of names.
\<close>

section \<open>Statistics (adminHandler.go)\<close>

record AdminStats =
  TotalUsers :: int
  TotalContainers :: int
  RunningContainers :: int
  ContainersToday :: int
  FreeUsers :: int
  ProUsers :: int
  TeamUsers :: int

record AdminUser =
  au_ID :: string
  au_Name :: string
  au_Email :: string
  au_Role :: string
  au_PlanID :: string
  au_ContainerCount :: int
  au_CreatedAt :: string

datatype admin_data = StatsData AdminStats | UserList "AdminUser list"

text \<open>\<open>QueryRow(...).Scan(&x)\<close> with the error dropped: the field stays zero when the query fails.\<close>

definition count_or_zero :: "env \<Rightarrow> string \<Rightarrow> (time \<Rightarrow> database \<Rightarrow> nat) \<Rightarrow> int M" where
  "count_or_zero env tag f =
     do { x \<leftarrow> sql env Pool tag (\<lambda>_ t d. (Inr (int (f t d)), d));
          State_Monad.return (case x of Inl _ \<Rightarrow> 0 | Inr n \<Rightarrow> n) }"

definition users_on :: "string \<Rightarrow> time \<Rightarrow> database \<Rightarrow> nat" where
  "users_on plan t d = length (filter (\<lambda>u. u_plan_id u = plan) (users d))"

definition Stats :: "env \<Rightarrow> (time \<Rightarrow> time) \<Rightarrow> ('b, admin_data) handler" where
  "Stats env current_date r =
     do { tu \<leftarrow> count_or_zero env ''count users'' (\<lambda>_ d. length (users d));
          tc \<leftarrow> count_or_zero env ''count containers'' (\<lambda>_ d. length (containers d));
          rc \<leftarrow> count_or_zero env ''count running'' (\<lambda>_ d. length (filter (\<lambda>c. c_status c = ''running'') (containers d)));
          ct \<leftarrow> count_or_zero env ''count today'' (\<lambda>t d. length (filter (\<lambda>c. current_date t \<le> c_created_at c) (containers d)));
          fu \<leftarrow> count_or_zero env ''count free'' (users_on ''free'');
          pu \<leftarrow> count_or_zero env ''count pro'' (users_on ''pro'');
          mu \<leftarrow> count_or_zero env ''count team'' (users_on ''team'');
          RespondData (StatsData \<lparr>TotalUsers = tu, TotalContainers = tc, RunningContainers = rc, ContainersToday = ct,
            FreeUsers = fu, ProUsers = pu, TeamUsers = mu\<rparr>) 200 }"

section \<open>Users (adminHandler.go)\<close>

text \<open>Arithmetic of a 64-bit \<open>int\<close>.\<close>

definition wrap64 :: "int \<Rightarrow> int" where
  "wrap64 n = (n + 2 ^ 63) mod 2 ^ 64 - 2 ^ 63"

definition page_of :: "'b request \<Rightarrow> int" where
  "page_of r = (let page = fst (ParseInt (rq_query r ''page'')) in if page < 1 then 1 else page)"

definition search_pattern :: "'b request \<Rightarrow> string" where
  "search_pattern r =
     (let search = ToLower (rq_query r ''search'') in if search = [] then ''%'' else ''%'' @ search @ ''%'')"

text \<open>The query selects no creation time, so \<open>CreatedAt\<close> keeps the empty string.\<close>

definition admin_user :: "env \<Rightarrow> database \<Rightarrow> user_row \<Rightarrow> AdminUser" where
  "admin_user env d u =
     \<lparr>au_ID = int8out env (u_id u), au_Name = u_name u, au_Email = u_email u, au_Role = u_role u, au_PlanID = u_plan_id u,
      au_ContainerCount = int (length (filter (\<lambda>c. c_user_id c = u_id u) (containers d))), au_CreatedAt = []\<rparr>"

definition matching_users :: "(string \<Rightarrow> string \<Rightarrow> bool) \<Rightarrow> string \<Rightarrow> database \<Rightarrow> user_row list" where
  "matching_users lower_like pat d =
     rev (sort_key u_id (filter (\<lambda>u. lower_like (u_email u) pat \<or> lower_like (u_name u) pat) (users d)))"

text \<open>A negative \<open>OFFSET\<close> is an error of the execution, which the handler does not ask for.\<close>

definition select_users :: "env \<Rightarrow> (string \<Rightarrow> string \<Rightarrow> bool) \<Rightarrow> string \<Rightarrow> int \<Rightarrow> database \<Rightarrow> AdminUser list result \<times> database" where
  "select_users env lower_like pat offset d =
     (Inr (if offset < 0 then [] else map (admin_user env d) (take 20 (drop (nat offset) (matching_users lower_like pat d)))), d)"

definition ListUsers :: "env \<Rightarrow> (string \<Rightarrow> string \<Rightarrow> bool) \<Rightarrow> ('b, admin_data) handler" where
  "ListUsers env lower_like r =
     (let offset = wrap64 ((page_of r - 1) * 20)
      in do { x \<leftarrow> sql env Pool ''select users'' (\<lambda>_ _. select_users env lower_like (search_pattern r) offset);
              (case x of Inl _ \<Rightarrow> RespondError ''internal error'' 500 | Inr us \<Rightarrow> RespondData (UserList us) 200) })"

definition admin_DeleteUser :: "env \<Rightarrow> ('b, admin_data) handler" where
  "admin_DeleteUser env r =
     (if rq_method r \<noteq> ''DELETE'' then method_not_allowed
      else do { tag \<leftarrow> sql env Pool ''delete user'' (\<lambda>_ _. delete_user env (rq_vars r ''id''));
                (case tag of
                   Inl _ \<Rightarrow> RespondError ''user not found'' 404
                 | Inr n \<Rightarrow> if n = 0 then RespondError ''user not found'' 404 else no_content) })"

text \<open>The foreign key to \<open>plans\<close> is only checked when a row is updated.\<close>

definition update_plan :: "env \<Rightarrow> string \<Rightarrow> string \<Rightarrow> database \<Rightarrow> unit result \<times> database" where
  "update_plan env planID userID d =
     with_bigint env userID (\<lambda>n.
       if n \<in> u_id ` set (users d) \<and> planID \<notin> pl_id ` set (plans d) then (Inl (sql_violation ''users_plan_id_fkey''), d)
       else update_users n (\<lambda>u. u\<lparr>u_plan_id := planID\<rparr>) d) d"

definition UpdateUserPlan :: "env \<Rightarrow> (string, admin_data) handler" where
  "UpdateUserPlan env r =
     (if rq_method r \<noteq> ''PATCH'' then method_not_allowed
      else case rq_body r of
        Inl _ \<Rightarrow> RespondError ''invalid body'' 400
      | Inr planID \<Rightarrow>
          if planID \<noteq> ''free'' \<and> planID \<noteq> ''pro'' \<and> planID \<noteq> ''team'' then RespondError ''invalid plan_id'' 400
          else do { x \<leftarrow> sql env Pool ''update plan'' (\<lambda>_ _. update_plan env planID (rq_vars r ''id''));
                    (case x of Inl _ \<Rightarrow> RespondError ''internal error'' 500 | Inr _ \<Rightarrow> RespondSuccess 200) })"

section \<open>Templates and images\<close>

record TemplateRow =
  tr_ID :: int
  tr_Name :: string
  tr_Description :: string
  tr_Image :: string
  tr_Category :: string
  tr_Tags :: string
  tr_Popular :: bool
  tr_Icon :: string
  tr_DefaultPorts :: string
  tr_CreatedAt :: time

definition scan_template :: "template_row \<Rightarrow> TemplateRow" where
  "scan_template t =
     \<lparr>tr_ID = t_id t, tr_Name = t_name t, tr_Description = t_description t, tr_Image = t_image t, tr_Category = t_category t,
      tr_Tags = t_tags t, tr_Popular = t_popular t, tr_Icon = (case t_icon t of None \<Rightarrow> [] | Some i \<Rightarrow> i),
      tr_DefaultPorts = t_default_ports t, tr_CreatedAt = t_created_at t\<rparr>"

text \<open>\<open>ORDER BY popular DESC, name ASC\<close>: \<open>rank\<close> is the position of a name in the order of the database.\<close>

definition order_templates :: "(string \<Rightarrow> int) \<Rightarrow> template_row list \<Rightarrow> template_row list" where
  "order_templates rank ts = sort_key (\<lambda>t. \<not> t_popular t) (sort_key (\<lambda>t. rank (t_name t)) ts)"

definition GetTemplates :: "env \<Rightarrow> (string \<Rightarrow> int) \<Rightarrow> string \<Rightarrow> TemplateRow list R" where
  "GetTemplates env rank category =
     map_err (Wrap ''query templates: '')
       (sql env Pool ''select templates'' (\<lambda>_ _ d.
          (Inr (map scan_template (order_templates rank
             (if category \<noteq> [] \<and> category \<noteq> ''all'' then filter (\<lambda>t. t_category t = category) (templates d) else templates d))), d)))"

definition GetTemplateByID :: "env \<Rightarrow> string \<Rightarrow> TemplateRow R" where
  "GetTemplateByID env i =
     map_err (Wrap (''get template '' @ i @ '': ''))
       (sql env Pool ''select template'' (\<lambda>_ _ d.
          with_bigint env i (\<lambda>n. (map_sum (\<lambda>e. e) scan_template (first_row (filter (\<lambda>t. t_id t = n) (templates d))), d)) d))"

record portMapping =
  pm_Internal :: int
  pm_External :: int
  pm_Protocol :: string

record templateResponse =
  te_ID :: string
  te_Name :: string
  te_Description :: string
  te_Image :: string
  te_Category :: string
  te_Tags :: "string list"
  te_Popular :: bool
  te_Icon :: string
  te_DefaultPorts :: "portMapping list"

text \<open>\<open>json.Unmarshal\<close> of the two JSON columns is a parameter; a nil slice and an empty one are not told apart.\<close>

record json_columns =
  unmarshal_tags :: "string \<Rightarrow> string list option"
  unmarshal_ports :: "string \<Rightarrow> portMapping list option"

definition toResponse :: "json_columns \<Rightarrow> TemplateRow \<Rightarrow> templateResponse" where
  "toResponse js t =
     \<lparr>te_ID = FormatInt (tr_ID t), te_Name = tr_Name t, te_Description = tr_Description t, te_Image = tr_Image t,
      te_Category = tr_Category t,
      te_Tags = (case unmarshal_tags js (tr_Tags t) of None \<Rightarrow> [] | Some tags \<Rightarrow> tags),
      te_Popular = tr_Popular t, te_Icon = tr_Icon t,
      te_DefaultPorts = (case unmarshal_ports js (tr_DefaultPorts t) of None \<Rightarrow> [] | Some ports \<Rightarrow> ports)\<rparr>"

datatype template_data = TemplateList "templateResponse list" | TemplateData templateResponse

definition ListTemplates :: "env \<Rightarrow> (string \<Rightarrow> int) \<Rightarrow> json_columns \<Rightarrow> ('b, template_data) handler" where
  "ListTemplates env rank js r =
     (if rq_method r \<noteq> ''GET'' then method_not_allowed
      else do { x \<leftarrow> GetTemplates env rank (rq_query r ''category'');
                (case x of
                   Inl e \<Rightarrow> RespondError (''failed to fetch templates: '' @ Error_text e) 500
                 | Inr rows \<Rightarrow> RespondData (TemplateList (map (toResponse js) rows)) 200) })"

definition GetTemplate :: "env \<Rightarrow> json_columns \<Rightarrow> ('b, template_data) handler" where
  "GetTemplate env js r =
     (if rq_method r \<noteq> ''GET'' then method_not_allowed
      else if rq_vars r ''id'' = [] then RespondError ''id is required'' 400
      else do { x \<leftarrow> GetTemplateByID env (rq_vars r ''id'');
                (case x of
                   Inl _ \<Rightarrow> RespondError ''template not found'' 404
                 | Inr row \<Rightarrow> RespondData (TemplateData (toResponse js row)) 200) })"

definition svc_GetImages :: "env \<Rightarrow> image_row list R" where
  "svc_GetImages env = GetImages env Pool"

definition handle_GetImages :: "env \<Rightarrow> image_row list R" where
  "handle_GetImages env = svc_GetImages env"

section \<open>Small handlers (main.go)\<close>

record PlanItem =
  pi_ID :: string
  pi_Name :: string
  pi_MaxContainers :: int
  pi_AutoStopMinutes :: int
  pi_PriceUSDCents :: int

definition plan_item :: "plan_row \<Rightarrow> PlanItem" where
  "plan_item p = \<lparr>pi_ID = pl_id p, pi_Name = pl_name p, pi_MaxContainers = pl_max_containers p,
     pi_AutoStopMinutes = pl_auto_stop_minutes p, pi_PriceUSDCents = pl_price_usd_cents p\<rparr>"

definition plans_route :: "env \<Rightarrow> ('b, PlanItem list) handler" where
  "plans_route env r =
     do { x \<leftarrow> sql env Pool ''select plans'' (\<lambda>_ _ d. (Inr (map plan_item (sort_key pl_price_usd_cents (plans d))), d));
          (case x of
             Inl _ \<Rightarrow> State_Monad.return \<lparr>rs_status = 500, rs_headers = [], rs_payload = NoBody\<rparr>
           | Inr ps \<Rightarrow> RespondData ps 200) }"

definition raw :: "nat \<Rightarrow> (string \<times> string) list \<Rightarrow> string \<Rightarrow> 'd response" where
  "raw status headers body = \<lparr>rs_status = status, rs_headers = headers, rs_payload = Raw body\<rparr>"

definition quote_marks :: "string \<Rightarrow> string" where
  "quote_marks s = map (\<lambda>c. if c = CHR ''|'' then CHR 0x22 else c) s"

definition ping_route :: "('b, 'd) handler" where
  "ping_route r = State_Monad.return (raw 200 [] ''pong'')"

definition health_route :: "('b, 'd) handler" where
  "health_route r = State_Monad.return (raw 200 [] (quote_marks ''{|status|:|ok|}''))"

definition healthz :: "('b, 'd) handler" where
  "healthz r = State_Monad.return (raw 200 [content_json] (quote_marks ''{|status|:|ok|}''))"

definition readyz :: "env \<Rightarrow> ('b, 'd) handler" where
  "readyz env r =
     do { x \<leftarrow> call env (Sql ''ping'');
          State_Monad.return (case x of
            Inl _ \<Rightarrow> raw 503 [content_json] (quote_marks ''{|status|:|unavailable|,|reason|:|database unreachable|}'')
          | Inr _ \<Rightarrow> raw 200 [content_json] (quote_marks ''{|status|:|ready|}'')) }"

section \<open>Migrations (migrations_runner.go)\<close>

definition toMigrateURL :: "string \<Rightarrow> string" where
  "toMigrateURL dsn =
     (if HasPrefix dsn ''postgresql://'' then ''pgx5://'' @ drop (length ''postgresql://'') dsn
      else if HasPrefix dsn ''postgres://'' then ''pgx5://'' @ drop (length ''postgres://'') dsn
      else dsn)"

text \<open>
  The library's steps: opening the embedded directory, connecting, and applying what is pending. \<open>Up\<close> distinguishes
  \<open>migrate.ErrNoChange\<close>, which is not an error of the server.
\<close>

datatype up_result = Applied | ErrNoChange | UpFailed go_error

record migrator =
  iofs_New :: "go_error option"
  NewWithSourceInstance :: "string \<Rightarrow> go_error option"
  Up :: "string \<Rightarrow> up_result"

definition runMigrations :: "migrator \<Rightarrow> string \<Rightarrow> unit result" where
  "runMigrations m dsn =
     (case iofs_New m of
        Some e \<Rightarrow> Inl (Wrap ''failed to create migration source: '' e)
      | None \<Rightarrow>
          (case NewWithSourceInstance m (toMigrateURL dsn) of
             Some e \<Rightarrow> Inl (Wrap ''failed to create migrator: '' e)
           | None \<Rightarrow>
               (case Up m (toMigrateURL dsn) of
                  Applied \<Rightarrow> Inr ()
                | ErrNoChange \<Rightarrow> Inr ()
                | UpFailed e \<Rightarrow> Inl (Wrap ''migration failed: '' e))))"

section \<open>Connection pool (db_config/db.go)\<close>

text \<open>
  The pool and the \<open>sync.Once\<close> next to it: \<open>Init\<close> runs its body the first time only, whether that succeeds or not, and
  later calls report no error. \<open>connect\<close> is parsing, connecting and pinging; the pool is named by its configuration.
\<close>

record pool_state =
  ps_pool :: "string option"
  ps_once :: bool
  ps_open :: bool

definition Init :: "(string \<Rightarrow> go_error option) \<Rightarrow> string \<Rightarrow> pool_state \<Rightarrow> unit result \<times> pool_state" where
  "Init connect dsn s =
     (if ps_once s then (Inr (), s)
      else case connect dsn of
        Some e \<Rightarrow> (Inl e, s\<lparr>ps_once := True\<rparr>)
      | None \<Rightarrow> (Inr (), s\<lparr>ps_once := True, ps_pool := Some dsn, ps_open := True\<rparr>))"

text \<open>\<open>None\<close> is the panic of \<open>log.Panic\<close>.\<close>

definition Pool_of :: "pool_state \<Rightarrow> string option" where
  "Pool_of s = ps_pool s"

definition Close_pool :: "pool_state \<Rightarrow> pool_state" where
  "Close_pool s = (if ps_pool s \<noteq> None then s\<lparr>ps_open := False\<rparr> else s)"

end
