(* ===== verification/Middleware.thy ===== *)
theory Middleware
  imports Http Effects
begin

text \<open>
  The middlewares of \<open>middlware/\<close> (rate limit, CORS, request log, panic recovery, audit log), \<open>repository/auditRepository.go\<close>
  and the metrics middleware of \<open>main.go\<close>. The token bucket of \<open>golang.org/x/time/rate\<close> is a record of two functions.
\<close>

section \<open>Rate limit (ratelimit.go)\<close>

record 'l limiter_library =
  NewLimiter :: "int \<Rightarrow> int \<Rightarrow> 'l"
  Allow :: "'l \<Rightarrow> time \<Rightarrow> bool \<times> 'l"

record 'l visitor =
  v_limiter :: 'l
  v_lastSeen :: time

record 'l IPRateLimiter =
  rl_visitors :: "string \<rightharpoonup> 'l visitor"
  rl_r :: int
  rl_burst :: int

definition NewIPRateLimiter :: "int \<Rightarrow> int \<Rightarrow> 'l IPRateLimiter" where
  "NewIPRateLimiter r burst = \<lparr>rl_visitors = (\<lambda>_. None), rl_r = r, rl_burst = burst\<rparr>"

text \<open>The limiter for an address: found or new, with the time of the visit noted.\<close>

definition getLimiter :: "'l limiter_library \<Rightarrow> time \<Rightarrow> string \<Rightarrow> 'l IPRateLimiter \<Rightarrow> 'l \<times> 'l IPRateLimiter" where
  "getLimiter lib t ip rl =
     (let l = (case rl_visitors rl ip of None \<Rightarrow> NewLimiter lib (rl_r rl) (rl_burst rl) | Some v \<Rightarrow> v_limiter v)
      in (l, rl\<lparr>rl_visitors := (rl_visitors rl)(ip \<mapsto> \<lparr>v_limiter = l, v_lastSeen = t\<rparr>)\<rparr>))"

text \<open>One turn of \<open>cleanupLoop\<close>.\<close>

definition cleanup :: "time \<Rightarrow> 'l IPRateLimiter \<Rightarrow> 'l IPRateLimiter" where
  "cleanup t rl =
     rl\<lparr>rl_visitors := (\<lambda>ip. case rl_visitors rl ip of
          None \<Rightarrow> None
        | Some v \<Rightarrow> if 10 * 60 < t - v_lastSeen v then None else Some v)\<rparr>"

definition clientIP :: "'b request \<Rightarrow> string" where
  "clientIP r =
     (if rq_header r ''X-Real-IP'' \<noteq> [] then rq_header r ''X-Real-IP''
      else if rq_header r ''X-Forwarded-For'' \<noteq> [] then
        (case SplitHostPort (rq_header r ''X-Forwarded-For'') of
           Some (h, _) \<Rightarrow> h
         | None \<Rightarrow> rq_header r ''X-Forwarded-For'')
      else (case SplitHostPort (rq_remote r) of Some (host, _) \<Rightarrow> host | None \<Rightarrow> []))"

text \<open>\<open>Allow\<close> works on the limiter the map points at.\<close>

definition allow_request :: "'l limiter_library \<Rightarrow> time \<Rightarrow> string \<Rightarrow> 'l IPRateLimiter \<Rightarrow> bool \<times> 'l IPRateLimiter" where
  "allow_request lib t ip rl =
     (case getLimiter lib t ip rl of
        (l, rl1) \<Rightarrow>
          (case Allow lib l t of
             (b, l') \<Rightarrow> (b, rl1\<lparr>rl_visitors := (rl_visitors rl1)(ip \<mapsto> \<lparr>v_limiter = l', v_lastSeen = t\<rparr>)\<rparr>)))"

definition too_many :: "'d response" where
  "too_many = \<lparr>rs_status = 429, rs_headers = [content_json, (''Retry-After'', ''60'')],
     rs_payload = Raw (CHR ''{'' # [CHR 0x22] @ ''success'' @ [CHR 0x22] @ '':false,'' @ [CHR 0x22] @ ''error'' @ [CHR 0x22] @ '':'' @
                       [CHR 0x22] @ ''rate limit exceeded, please slow down'' @ [CHR 0x22] @ ''}'')\<rparr>"

text \<open>
  The middleware works on the limiter's state next to that of the handlers, which tells the time. A handler that panics
  returns \<open>None\<close>.
\<close>

definition rate_Middleware ::
  "('s \<Rightarrow> time) \<Rightarrow> 'l limiter_library \<Rightarrow> ('b request \<Rightarrow> ('s, 'd response option) state) \<Rightarrow>
     'b request \<Rightarrow> ('l IPRateLimiter \<times> 's, 'd response option) state" where
  "rate_Middleware clock lib next r =
     State (\<lambda>(rl, w).
       case allow_request lib (clock w) (clientIP r) rl of
         (allowed, rl') \<Rightarrow>
           if \<not> allowed then (Some too_many, (rl', w))
           else (case run_state (next r) w of (resp, w') \<Rightarrow> (resp, (rl', w'))))"

section \<open>CORS (cors.go)\<close>

definition parseAllowedOriginsHTTP :: "string \<Rightarrow> string set" where
  "parseAllowedOriginsHTTP raw = set (filter (\<lambda>o'. o' \<noteq> []) (map TrimSpace (split_on CHR '','' raw)))"

definition cors_headers :: "string \<Rightarrow> (string \<times> string) list" where
  "cors_headers orig =
     [(''Access-Control-Allow-Origin'', orig),
      (''Access-Control-Allow-Methods'', ''GET, POST, DELETE, OPTIONS, PATCH''),
      (''Access-Control-Allow-Headers'', ''Authorization, Content-Type''),
      (''Access-Control-Max-Age'', ''86400''), (''Vary'', ''Origin'')]"

definition CORSMiddleware ::
  "string \<Rightarrow> ('b request \<Rightarrow> ('s, 'd response) state) \<Rightarrow> 'b request \<Rightarrow> ('s, 'd response) state" where
  "CORSMiddleware allowedEnv next r =
     (let orig = rq_header r ''Origin'';
          hs = (if orig \<noteq> [] \<and> orig \<in> parseAllowedOriginsHTTP allowedEnv then cors_headers orig else [])
      in if rq_method r = ''OPTIONS'' then State_Monad.return \<lparr>rs_status = 204, rs_headers = hs, rs_payload = NoBody\<rparr>
         else do { resp \<leftarrow> next r; State_Monad.return (resp\<lparr>rs_headers := hs @ rs_headers resp\<rparr>) })"

section \<open>Request log, recovery, metrics\<close>

text \<open>
  The writer \<open>RequestLogger\<close> passes on embeds only the interface \<open>http.ResponseWriter\<close> and adds \<open>Hijack\<close>: a handler
  behind it cannot flush. The log line itself is output only.
\<close>

definition RequestLogger :: "('b request \<Rightarrow> 'a) \<Rightarrow> 'b request \<Rightarrow> 'a" where
  "RequestLogger next r = next (r\<lparr>rw_flush := False\<rparr>)"

definition Recovery :: "('b request \<Rightarrow> ('s, 'd response option) state) \<Rightarrow> 'b request \<Rightarrow> ('s, 'd response) state" where
  "Recovery next r =
     do { x \<leftarrow> next r;
          State_Monad.return (case x of
            Some resp \<Rightarrow> resp
          | None \<Rightarrow> \<lparr>rs_status = 500, rs_headers = [content_json],
              rs_payload = Raw (CHR ''{'' # [CHR 0x22] @ ''success'' @ [CHR 0x22] @ '':false,'' @ [CHR 0x22] @ ''error'' @ [CHR 0x22] @ '':'' @
                                [CHR 0x22] @ ''internal server error'' @ [CHR 0x22] @ ''}'')\<rparr>) }"

definition EqualFold :: "string \<Rightarrow> string \<Rightarrow> bool" where
  "EqualFold a b \<longleftrightarrow> ToLower a = ToLower b"

text \<open>The wrappers of \<open>otelhttp\<close> and \<open>promhttp\<close> are the parameter \<open>instrument\<close>, given the name of the route.\<close>

definition prometheusMiddleware ::
  "(string \<Rightarrow> ('b request \<Rightarrow> 'a) \<Rightarrow> 'b request \<Rightarrow> 'a) \<Rightarrow> ('b request \<Rightarrow> string option) \<Rightarrow> ('b request \<Rightarrow> 'a) \<Rightarrow> 'b request \<Rightarrow> 'a" where
  "prometheusMiddleware instrument route_template next r =
     (if EqualFold (rq_header r ''Upgrade'') ''websocket'' then next r
      else let routeName = (case route_template r of None \<Rightarrow> rq_path r | Some tpl \<Rightarrow> tpl)
           in instrument routeName next r)"

section \<open>Audit log\<close>

record AuditEntry =
  ae_UserID :: string
  ae_Action :: string
  ae_Resource :: string
  ae_ResourceID :: string
  ae_IP :: string
  ae_UserAgent :: string
  ae_Metadata :: "string option"

definition insert_audit :: "env \<Rightarrow> AuditEntry \<Rightarrow> database \<Rightarrow> unit result \<times> database" where
  "insert_audit env e d =
     with_bigint env (ae_UserID e) (\<lambda>n.
       if n \<notin> u_id ` set (users d) then (Inl (sql_violation ''audit_log_user_id_fkey''), d)
       else (Inr (), d\<lparr>audit_log := audit_log d @
               [\<lparr>al_user_id = n, al_action = ae_Action e, al_resource = ae_Resource e, al_resource_id = ae_ResourceID e,
                 al_ip = ae_IP e, al_user_agent = ae_UserAgent e, al_metadata = ae_Metadata e\<rparr>]\<rparr>)) d"

definition Log :: "env \<Rightarrow> AuditEntry \<Rightarrow> unit R" where
  "Log env e = sql env Pool ''insert audit'' (\<lambda>_ _. insert_audit env e)"

definition AuditMiddleware :: "env \<Rightarrow> string \<Rightarrow> string \<Rightarrow> ('b, 'd) handler \<Rightarrow> ('b, 'd) handler" where
  "AuditMiddleware env action resource next r =
     do { resp \<leftarrow> next r;
          (case rq_user r of
             None \<Rightarrow> State_Monad.return ()
           | Some userID \<Rightarrow>
               if userID = [] then State_Monad.return ()
               else ignoring (Log env
                 \<lparr>ae_UserID = userID, ae_Action = action, ae_Resource = resource, ae_ResourceID = [], ae_IP = clientIP r,
                  ae_UserAgent = rq_header r ''User-Agent'', ae_Metadata = None\<rparr>));
          State_Monad.return resp }"

end
