(* ===== verification/Websocket.thy ===== *)
theory Websocket
  imports Http Container_Manager "HOL-Library.Word"
begin

text \<open>
  The websocket handlers of \<open>websocket/\<close>: metrics, logs and terminal. What a connection delivers and whether a write
  to it succeeds are inputs: the result of a handler is what it sent, for every behaviour of the other side.
  Numbers that Go computes in \<open>uint64\<close> are 64-bit words.
\<close>

section \<open>Upgrade (upgrader.go)\<close>

definition parseAllowedOrigins :: "string \<Rightarrow> string set" where
  "parseAllowedOrigins raw = set (filter (\<lambda>o'. o' \<noteq> []) (map TrimSpace (split_on CHR '','' raw)))"

definition CheckOrigin :: "string \<Rightarrow> 'b request \<Rightarrow> bool" where
  "CheckOrigin allowedEnv r =
     (let orig = rq_header r ''Origin'' in if orig = [] then True else orig \<in> parseAllowedOrigins allowedEnv)"

text \<open>What became of a websocket request: refused over HTTP, not upgraded, or a session that sent messages.\<close>

datatype 'm ws_outcome = Refused "unit response" | NotUpgraded | Session "'m list" | Panicked

text \<open>The upgrade succeeds for an acceptable origin on a writer that can be hijacked, unless the handshake fails.\<close>

definition upgrade :: "string \<Rightarrow> bool \<Rightarrow> 'b request \<Rightarrow> bool" where
  "upgrade allowedEnv handshake r \<longleftrightarrow> CheckOrigin allowedEnv r \<and> rw_hijack r \<and> handshake"

definition refuse :: "string \<Rightarrow> 'm ws_outcome M" where
  "refuse m = do { resp \<leftarrow> RespondError m 400; State_Monad.return (Refused resp) }"

section \<open>Metrics (metricHandler.go)\<close>

type_synonym uint64 = "64 word"
type_synonym uint32 = "32 word"

record cpu_stats =
  TotalUsage :: uint64
  SystemUsage :: uint64
  OnlineCPUs :: uint32

record StatsResponse =
  sr_Read :: time
  sr_CPUStats :: cpu_stats
  sr_PreCPUStats :: cpu_stats
  sr_MemLimit :: uint64
  sr_MemUsage :: uint64
  sr_MemStats :: "string \<rightharpoonup> uint64"

text \<open>\<open>ms_CPU\<close> is the value converted to \<open>float64\<close>; network and block counters are never set.\<close>

record MetricsSnapshot =
  ms_Timestamp :: time
  ms_CPU :: uint64
  ms_MemoryUsed :: uint64
  ms_MemoryTotal :: uint64
  ms_NetworkRx :: uint64
  ms_NetworkTx :: uint64
  ms_BlockRead :: uint64
  ms_BlockWrite :: uint64

text \<open>An integer division by zero panics; a missing key of a map reads as zero.\<close>

definition buildSnapshot :: "StatsResponse \<Rightarrow> MetricsSnapshot option" where
  "buildSnapshot cur =
     (let deltaTotalUsage = TotalUsage (sr_CPUStats cur) - TotalUsage (sr_PreCPUStats cur);
          deltaSystemCpuUsage = SystemUsage (sr_CPUStats cur) - SystemUsage (sr_PreCPUStats cur)
      in if deltaSystemCpuUsage = 0 then None
         else Some
           \<lparr>ms_Timestamp = sr_Read cur,
            ms_CPU = (deltaTotalUsage div deltaSystemCpuUsage) * ucast (OnlineCPUs (sr_CPUStats cur)) * 100,
            ms_MemoryUsed = sr_MemUsage cur - (case sr_MemStats cur ''inactive_file'' of None \<Rightarrow> 0 | Some x \<Rightarrow> x),
            ms_MemoryTotal = sr_MemLimit cur,
            ms_NetworkRx = 0, ms_NetworkTx = 0, ms_BlockRead = 0, ms_BlockWrite = 0\<rparr>)"

text \<open>
  The loop of the handler: each element is a decoded response and whether sending its snapshot succeeds; the
  decoder fails at the end of the list. \<open>None\<close> is a panic.
\<close>

fun metric_loop :: "(StatsResponse \<times> bool) list \<Rightarrow> MetricsSnapshot list option" where
  "metric_loop [] = Some []"
| "metric_loop ((v, sent) # es) =
     (case buildSnapshot v of
        None \<Rightarrow> None
      | Some s \<Rightarrow> if sent then map_option (\<lambda>ss. s # ss) (metric_loop es) else Some [])"

definition metric_WsHandler ::
  "env \<Rightarrow> string \<Rightarrow> bool \<Rightarrow> (StatsResponse \<times> bool) list \<Rightarrow> 'b request \<Rightarrow> MetricsSnapshot ws_outcome M" where
  "metric_WsHandler env allowedEnv handshake es r =
     (if rq_query r ''containerId'' = [] then refuse ''containerId requis''
      else if \<not> upgrade allowedEnv handshake r then State_Monad.return NotUpgraded
      else do { st \<leftarrow> GetMetricOfContainer env (rq_query r ''containerId'');
                State_Monad.return (case st of
                  Inl _ \<Rightarrow> Session []
                | Inr _ \<Rightarrow> (case metric_loop es of None \<Rightarrow> Panicked | Some ss \<Rightarrow> Session ss)) })"

section \<open>Logs (logsHandler.go)\<close>

record logEntry =
  le_ID :: string
  le_Timestamp :: time
  le_Stream :: string
  le_Message :: string

text \<open>
  \<open>wsLogWriter.Write\<close> on the shared counter; \<open>can_send\<close> says whether the connection takes an entry. The result is the
  new counter, the entries sent, and whether there was no error.
\<close>

fun write_lines :: "(logEntry \<Rightarrow> bool) \<Rightarrow> (int \<Rightarrow> time) \<Rightarrow> string \<Rightarrow> string list \<Rightarrow> int \<Rightarrow> int \<times> logEntry list \<times> bool" where
  "write_lines can_send clock stream [] seq = (seq, [], True)"
| "write_lines can_send clock stream (line # ls) seq =
     (if line = [] then write_lines can_send clock stream ls seq
      else
        let n = seq + 1;
            entry = \<lparr>le_ID = FormatInt n, le_Timestamp = clock n, le_Stream = stream, le_Message = line\<rparr>
        in if can_send entry
           then (case write_lines can_send clock stream ls n of (n', es, good) \<Rightarrow> (n', entry # es, good))
           else (n, [], False))"

definition log_Write :: "(logEntry \<Rightarrow> bool) \<Rightarrow> (int \<Rightarrow> time) \<Rightarrow> string \<Rightarrow> string \<Rightarrow> int \<Rightarrow> int \<times> logEntry list \<times> bool" where
  "log_Write can_send clock stream p seq =
     write_lines can_send clock stream (split_on CHR 0x0A (TrimRight (\<lambda>c. c = CHR 0x0A) p)) seq"

text \<open>\<open>stdcopy.StdCopy\<close> writes the frames of the stream one after the other and stops at the first error.\<close>

fun copy_frames :: "(logEntry \<Rightarrow> bool) \<Rightarrow> (int \<Rightarrow> time) \<Rightarrow> (string \<times> string) list \<Rightarrow> int \<Rightarrow> logEntry list" where
  "copy_frames can_send clock [] seq = []"
| "copy_frames can_send clock ((stream, p) # fs) seq =
     (case log_Write can_send clock stream p seq of
        (seq', es, good) \<Rightarrow> es @ (if good then copy_frames can_send clock fs seq' else []))"

definition logs_WsHandler ::
  "env \<Rightarrow> string \<Rightarrow> bool \<Rightarrow> (logEntry \<Rightarrow> bool) \<Rightarrow> (int \<Rightarrow> time) \<Rightarrow> (string \<times> string) list \<Rightarrow> 'b request \<Rightarrow> logEntry ws_outcome M" where
  "logs_WsHandler env allowedEnv handshake can_send clock frames r =
     (if rq_vars r ''project_id'' = [] then refuse ''project_id requis''
      else if \<not> upgrade allowedEnv handshake r then State_Monad.return NotUpgraded
      else do { reader \<leftarrow> StreamLogs env (rq_vars r ''project_id'');
                State_Monad.return (case reader of Inl _ \<Rightarrow> Session [] | Inr _ \<Rightarrow> Session (copy_frames can_send clock frames 0)) })"

section \<open>Terminal (terminalHandler.go)\<close>

record resizeMsg =
  rz_Type :: string
  rz_Cols :: nat
  rz_Rows :: nat

text \<open>One turn of the input loop: the context is done, the read fails, or a message arrives, with whether writing it works.\<close>

datatype term_event = CtxDone | ReadError | Input string bool

definition is_resize :: "(string \<Rightarrow> resizeMsg option) \<Rightarrow> string \<Rightarrow> resizeMsg option" where
  "is_resize unmarshal data =
     (case unmarshal data of
        Some z \<Rightarrow> if rz_Type z = ''resize'' \<and> 0 < rz_Cols z \<and> 0 < rz_Rows z then Some z else None
      | None \<Rightarrow> None)"

text \<open>The bytes written to the container's input.\<close>

fun term_loop :: "env \<Rightarrow> (string \<Rightarrow> resizeMsg option) \<Rightarrow> string \<Rightarrow> term_event list \<Rightarrow> string list M" where
  "term_loop env unmarshal execID [] = State_Monad.return []"
| "term_loop env unmarshal execID (CtxDone # es) = State_Monad.return []"
| "term_loop env unmarshal execID (ReadError # es) = State_Monad.return []"
| "term_loop env unmarshal execID (Input data written # es) =
     (case is_resize unmarshal data of
        Some z \<Rightarrow> do { ignoring (ResizeTerminal env execID (rz_Cols z) (rz_Rows z)); term_loop env unmarshal execID es }
      | None \<Rightarrow>
          if written then do { rest \<leftarrow> term_loop env unmarshal execID es; State_Monad.return (data # rest) }
          else State_Monad.return [])"

definition terminal_failure :: "go_error \<Rightarrow> string" where
  "terminal_failure e =
     [CHR 0x0D, CHR 0x0A, CHR 0x1B] @ ''[31mFailed to start terminal: '' @ Error_text e @ [CHR 0x1B] @ ''[0m'' @ [CHR 0x0D, CHR 0x0A]"

text \<open>
  The goroutine that copies the container's output: each read gives some bytes, whether it also reported an error, and
  whether passing the bytes on to the browser works.
\<close>

fun output_pump :: "(string \<times> bool \<times> bool) list \<Rightarrow> string list" where
  "output_pump [] = []"
| "output_pump ((buf, read_err, written) # rs) =
     (if buf \<noteq> [] \<and> \<not> written then []
      else (if buf \<noteq> [] then [buf] else []) @ (if read_err then [] else output_pump rs))"

text \<open>The handler with what went to the container and what went to the browser; the two directions run side by side.\<close>

definition terminal_WsHandler ::
  "env \<Rightarrow> string \<Rightarrow> bool \<Rightarrow> (string \<Rightarrow> resizeMsg option) \<Rightarrow> (string \<times> bool \<times> bool) list \<Rightarrow> term_event list \<Rightarrow> 'b request \<Rightarrow>
     (string list \<times> string ws_outcome) M" where
  "terminal_WsHandler env allowedEnv handshake unmarshal reads es r =
     (if rq_vars r ''project_id'' = [] then do { x \<leftarrow> refuse ''project_id requis''; State_Monad.return ([], x) }
      else if \<not> upgrade allowedEnv handshake r then State_Monad.return ([], NotUpgraded)
      else do { ex \<leftarrow> ExecTerminal env (rq_vars r ''project_id'');
                (case ex of
                   Inl e \<Rightarrow> State_Monad.return ([], Session [terminal_failure e])
                 | Inr execID \<Rightarrow> do { stdin \<leftarrow> term_loop env unmarshal execID es; State_Monad.return (stdin, Session (output_pump reads)) }) })"

section \<open>Properties\<close>

text \<open>
  C34. The metrics are integer arithmetic: a snapshot fails, taking the handler down, exactly when the system counter has not
  moved; the CPU share shown is zero whenever the container used less than the system did, that is for every
  load below the maximum; and the memory shown is the difference modulo two to the 64, so it is huge when
  the inactive part exceeds the usage.
\<close>

theorem buildSnapshot_wraps:
  assumes dT: "dT = TotalUsage (sr_CPUStats cur) - TotalUsage (sr_PreCPUStats cur)"
    and dS: "dS = SystemUsage (sr_CPUStats cur) - SystemUsage (sr_PreCPUStats cur)"
    and inact: "sr_MemStats cur ''inactive_file'' = Some inact"
  shows "case buildSnapshot cur of
      None \<Rightarrow> SystemUsage (sr_CPUStats cur) = SystemUsage (sr_PreCPUStats cur)
    | Some s \<Rightarrow> SystemUsage (sr_CPUStats cur) \<noteq> SystemUsage (sr_PreCPUStats cur) \<and> (dT < dS \<longrightarrow> ms_CPU s = 0) \<and>
        int (unat (ms_MemoryUsed s)) =
          (if unat inact \<le> unat (sr_MemUsage cur) then int (unat (sr_MemUsage cur)) - int (unat inact)
           else 2 ^ 64 + int (unat (sr_MemUsage cur)) - int (unat inact))"
proof -
  have mem: "int (unat (sr_MemUsage cur - inact)) =
      (if unat inact \<le> unat (sr_MemUsage cur) then int (unat (sr_MemUsage cur)) - int (unat inact)
       else 2 ^ 64 + int (unat (sr_MemUsage cur)) - int (unat inact))"
    unfolding uint_nat[symmetric] by (simp add: uint_sub_if' word_le_nat_alt[symmetric] word_le_def)
  have "dT div dS = 0" if "dT < dS"
    using that by (rule div_word_less)
  then show ?thesis
    using mem inact by (auto simp: buildSnapshot_def Let_def dT dS)
qed

definition frame_lines :: "string \<Rightarrow> string list" where
  "frame_lines p = filter (\<lambda>l. l \<noteq> []) (split_on CHR 0x0A (TrimRight (\<lambda>c. c = CHR 0x0A) p))"

fun numbered :: "int \<Rightarrow> logEntry list \<Rightarrow> bool" where
  "numbered seq [] = True"
| "numbered seq (e # es) = (le_ID e = FormatInt (seq + 1) \<and> numbered (seq + 1) es)"

lemma numbered_append: "numbered seq (xs @ ys) \<longleftrightarrow> numbered seq xs \<and> numbered (seq + int (length xs)) ys"
  by (induction xs arbitrary: seq) (auto simp: algebra_simps)

lemma numbered_nth: "numbered seq es \<Longrightarrow> i < length es \<Longrightarrow> le_ID (es ! i) = FormatInt (seq + 1 + int i)"
  by (induction es arbitrary: seq i) (auto simp: nth_Cons' algebra_simps)

lemma write_lines_ids:
  "write_lines can_send clock stream ls seq = (n, es, good) \<Longrightarrow>
     numbered seq es \<and> (good \<longrightarrow> n = seq + int (length es)) \<and> [] \<notin> le_Message ` set es"
proof (induction ls arbitrary: seq n es)
  case (Cons l ls)
  let ?e = "\<lparr>le_ID = FormatInt (seq + 1), le_Timestamp = clock (seq + 1), le_Stream = stream, le_Message = l\<rparr>"
  consider (skip) "l = []" | (send) "l \<noteq> []" "can_send ?e" | (stop) "l \<noteq> []" "\<not> can_send ?e" by blast
  then show ?case
  proof cases
    case skip
    with Cons show ?thesis by simp
  next
    case send
    obtain n' es' g' where w: "write_lines can_send clock stream ls (seq + 1) = (n', es', g')" by (metis prod_cases3)
    with Cons.prems send have "es = ?e # es'" "n = n'" "good = g'" by (auto simp: Let_def)
    with Cons.IH[of "seq + 1" n' es'] w send show ?thesis by (auto simp: algebra_simps)
  next
    case stop
    with Cons.prems show ?thesis by (auto simp: Let_def)
  qed
qed simp

lemma write_lines_all:
  "write_lines (\<lambda>_. True) clock stream ls seq = (n, es, good) \<Longrightarrow> good \<and> map le_Message es = filter (\<lambda>l. l \<noteq> []) ls"
  by (induction ls arbitrary: seq n es) (auto simp: Let_def split: if_splits prod.splits)

lemma copy_frames_ids: "numbered seq (copy_frames can_send clock fs seq) \<and> [] \<notin> le_Message ` set (copy_frames can_send clock fs seq)"
proof (induction fs arbitrary: seq)
  case (Cons f fs)
  obtain stream p n es good where f: "f = (stream, p)" "log_Write can_send clock stream p seq = (n, es, good)" by (metis prod_cases3 surj_pair)
  from write_lines_ids[OF f(2)[unfolded log_Write_def]] Cons.IH[of n] f show ?case by (auto simp: numbered_append)
qed simp

lemma copy_frames_all: "map le_Message (copy_frames (\<lambda>_. True) clock fs seq) = concat (map (\<lambda>(_, p). frame_lines p) fs)"
proof (induction fs arbitrary: seq)
  case (Cons f fs)
  obtain stream p n es good where f: "f = (stream, p)" "log_Write (\<lambda>_. True) clock stream p seq = (n, es, good)" by (metis prod_cases3 surj_pair)
  from write_lines_all[OF f(2)[unfolded log_Write_def]] Cons.IH[of n] f show ?case by (simp add: frame_lines_def)
qed simp

text \<open>
  The entries of a log session are numbered one, two, three and so on in the order they are sent, over both streams,
  and none of them is empty; while the connection takes them, the messages are exactly the non-empty lines of the
  frames in order.
\<close>

theorem log_entries_numbered:
  "map le_ID (copy_frames can_send clock fs 0) = map (\<lambda>k. FormatInt (int k)) [1..<Suc (length (copy_frames can_send clock fs 0))] \<and>
   [] \<notin> le_Message ` set (copy_frames can_send clock fs 0) \<and>
   map le_Message (copy_frames (\<lambda>_. True) clock fs 0) = concat (map (\<lambda>(_, p). frame_lines p) fs)"
proof -
  have "map le_ID (copy_frames can_send clock fs 0) = map (\<lambda>k. FormatInt (int k)) [1..<Suc (length (copy_frames can_send clock fs 0))]"
    using copy_frames_ids[of 0 can_send clock fs]
    by (intro nth_equalityI) (auto simp: numbered_nth algebra_simps simp del: upt_Suc)
  then show ?thesis using copy_frames_ids copy_frames_all by blast
qed

section \<open>Integrity\<close>

lemma keeps_ok_refuse: "state_io_rel keeps_ok (refuse m)"
  by (rule state_io_relI) (auto simp: refuse_def run_simps keeps_ok_def)

lemma keeps_ok_term_loop: "state_io_rel keeps_ok (term_loop env unmarshal execID es)"
proof (induction es)
  case (Cons e es)
  then show ?case
    by (cases e) (auto simp: ResizeTerminal_def intro!: ko.io_intros keeps_ok_intros split: option.split)
qed (simp add: ko.io_return)

section \<open>Witness\<close>

definition idle_stats :: StatsResponse where
  "idle_stats = \<lparr>sr_Read = 5, sr_CPUStats = \<lparr>TotalUsage = 900, SystemUsage = 2000, OnlineCPUs = 4\<rparr>,
     sr_PreCPUStats = \<lparr>TotalUsage = 100, SystemUsage = 1000, OnlineCPUs = 4\<rparr>, sr_MemLimit = 1000, sr_MemUsage = 10,
     sr_MemStats = [''inactive_file'' \<mapsto> 11]\<rparr>"

theorem buildSnapshot_wraps_witness:
  "\<exists>s. buildSnapshot idle_stats = Some s \<and> ms_CPU s = 0 \<and> int (unat (ms_MemoryUsed s)) = 2 ^ 64 - 1"
proof -
  have "buildSnapshot idle_stats \<noteq> None" by (simp add: buildSnapshot_def idle_stats_def)
  then obtain s where s: "buildSnapshot idle_stats = Some s" by blast
  have sel: "sr_MemStats idle_stats ''inactive_file'' = Some 11" "sr_MemUsage idle_stats = 10"
    "TotalUsage (sr_CPUStats idle_stats) - TotalUsage (sr_PreCPUStats idle_stats) < SystemUsage (sr_CPUStats idle_stats) - SystemUsage (sr_PreCPUStats idle_stats)"
    by (simp_all add: idle_stats_def)
  from buildSnapshot_wraps[OF refl refl sel(1)] s sel(2,3) show ?thesis by simp
qed

end
