(* ===== verification/Auth_Proofs.thy ===== *)
theory Auth_Proofs
  imports Auth
begin

text \<open>
  Properties of authentication: what tokens and API keys prove about the caller and for how long,
  the guard of the admin routes, and that keys keep the integrity of the tables.
\<close>

section \<open>splitTwo is SplitN with limit 2\<close>

lemma find_sep_char:
  "i \<le> length s \<Longrightarrow>
   find_sep [c] s i = (case dropWhile (\<lambda>x. x \<noteq> c) (drop i s) of [] \<Rightarrow> None
     | _ # _ \<Rightarrow> Some (i + length (takeWhile (\<lambda>x. x \<noteq> c) (drop i s))))"
proof (induction "[c]" s i rule: find_sep.induct)
  case (1 s i)
  show ?case
  proof (cases "i < length s")
    case True
    then have d: "drop i s = s ! i # drop (Suc i) s" by (simp add: Cons_nth_drop_Suc)
    with 1 True show ?thesis
      by (subst find_sep.simps) (auto simp del: dropWhile_eq_Nil_conv split: list.split)
  next
    case False
    with 1(2) show ?thesis by (subst find_sep.simps) simp
  qed
qed

text \<open>
  The hand-written \<open>splitTwo\<close> of the injectable middleware agrees with
  \<open>strings.SplitN(s, sep, 2)\<close> for every one-character separator, and fails exactly when the
  separator does not occur.
\<close>

theorem splitTwo_is_SplitN:
  "splitTwo s [c] = (case splitN2 c s of [a, b] \<Rightarrow> Some (a, b) | _ \<Rightarrow> None)"
proof (cases "dropWhile (\<lambda>x. x \<noteq> c) s")
  case Nil
  then show ?thesis by (simp add: splitTwo_def find_sep_char splitN2_def del: dropWhile_eq_Nil_conv)
next
  case (Cons x rest)
  let ?n = "length (takeWhile (\<lambda>x. x \<noteq> c) s)"
  have "s = takeWhile (\<lambda>x. x \<noteq> c) s @ x # rest" using Cons by (metis takeWhile_dropWhile_id)
  then have "take ?n s = takeWhile (\<lambda>x. x \<noteq> c) s" "drop (Suc ?n) s = rest"
    by (metis append_eq_conv_conj, metis append_eq_conv_conj append_Cons append_Nil append_assoc length_append_singleton)
  with Cons show ?thesis by (simp add: splitTwo_def find_sep_char splitN2_def)
qed

section \<open>Tokens\<close>

lemma lawful_parse:
  assumes "jwt_lawful lib" and "jwt_sign lib key cl = Inr tok" and "cl ''exp'' = Some (CNum e)"
  shows "t < e \<Longrightarrow> jwt_parse lib key t tok = Inr (cl, True)" and "e \<le> t \<Longrightarrow> \<exists>x. jwt_parse lib key t tok = Inl x"
  using assms unfolding jwt_lawful_def by blast+

text \<open>
  An access token proves the identity it was issued for during 15 minutes and nothing after:
  until then it verifies and yields the user id it was created with, from then on it is
  refused, and at no time is it taken for a refresh token.
\<close>

theorem access_token_lifetime:
  assumes "jwt_lawful lib" and "CreateToken lib key t0 name email userId = Inr tok"
  shows "if t < t0 + 900
    then VerifyToken lib key t tok = Inr () \<and> GetUserIDFromToken lib key t tok = Inr userId \<and>
         VerifyRefreshToken lib key t tok = Inl (ErrText ''not a refresh token'')
    else (\<exists>e. VerifyToken lib key t tok = Inl e) \<and> (\<exists>e. GetUserIDFromToken lib key t tok = Inl e) \<and>
         (\<exists>e. VerifyRefreshToken lib key t tok = Inl e)"
  using lawful_parse[OF assms(1), of key "access_claims name email userId t0" tok "t0 + 900" t] assms(2)
  by (auto simp: CreateToken_def access_claims_def VerifyToken_def GetUserIDFromToken_def VerifyRefreshToken_def)

text \<open>
  C40. A refresh token is accepted by the refresh endpoint for seven days. It is accepted as an access
  token for the same seven days: neither \<open>VerifyToken\<close> nor \<open>GetUserIDFromToken\<close> looks at the
  token's type.
\<close>

theorem refresh_token_is_an_access_token:
  assumes "jwt_lawful lib" and "CreateRefreshToken lib key t0 userId = Inr tok" and "t < t0 + 604800"
  shows "VerifyRefreshToken lib key t tok = Inr userId \<and> VerifyToken lib key t tok = Inr () \<and>
    GetUserIDFromToken lib key t tok = Inr userId"
  using lawful_parse(1)[OF assms(1), of key "refresh_claims userId t0" tok "t0 + 604800" t] assms(2,3)
  by (auto simp: CreateRefreshToken_def refresh_claims_def VerifyToken_def GetUserIDFromToken_def VerifyRefreshToken_def)


text \<open>A library that knows two tokens.\<close>

definition sample_jwt :: jwt_library where
  "sample_jwt = \<lparr>jwt_sign = (\<lambda>key cl.
      if cl = refresh_claims ''1'' 0 then Inr ''ref'' else if cl = access_claims ''u'' ''e'' ''1'' 0 then Inr ''acc''
      else Inl (ErrText ''claims'')),
     jwt_parse = (\<lambda>key t tok.
       if tok = ''ref'' \<and> t < 604800 then Inr (refresh_claims ''1'' 0, True)
       else if tok = ''acc'' \<and> t < 900 then Inr (access_claims ''u'' ''e'' ''1'' 0, True)
       else Inl (ErrText ''expired''))\<rparr>"

lemma sample_claims_differ: "access_claims ''u'' ''e'' ''1'' 0 \<noteq> refresh_claims ''1'' 0"
  by (auto simp: access_claims_def refresh_claims_def fun_eq_iff)

lemma sample_jwt_lawful: "jwt_lawful sample_jwt"
  by (auto simp: jwt_lawful_def sample_jwt_def refresh_claims_def access_claims_def)

theorem access_token_lifetime_witness:
  "CreateToken sample_jwt ''k'' 0 ''u'' ''e'' ''1'' = Inr ''acc'' \<and> GetUserIDFromToken sample_jwt ''k'' 899 ''acc'' = Inr ''1'' \<and>
   (\<exists>e. VerifyToken sample_jwt ''k'' 900 ''acc'' = Inl e)"
proof -
  have t: "CreateToken sample_jwt ''k'' 0 ''u'' ''e'' ''1'' = Inr ''acc''"
    by (simp add: CreateToken_def sample_jwt_def sample_claims_differ)
  show ?thesis
    using t access_token_lifetime[OF sample_jwt_lawful t, of 899] access_token_lifetime[OF sample_jwt_lawful t, of 900] by simp
qed

theorem refresh_token_is_an_access_token_witness:
  "CreateRefreshToken sample_jwt ''k'' 0 ''1'' = Inr ''ref'' \<and> GetUserIDFromToken sample_jwt ''k'' 604799 ''ref'' = Inr ''1''"
proof -
  have t: "CreateRefreshToken sample_jwt ''k'' 0 ''1'' = Inr ''ref''" by (simp add: CreateRefreshToken_def sample_jwt_def)
  show ?thesis using t refresh_token_is_an_access_token[OF sample_jwt_lawful t, of 604799] by simp
qed

section \<open>Integrity\<close>

lemma db_ok_api_keys:
  "db_ok d \<Longrightarrow> distinct (map ak_id ks) \<Longrightarrow> distinct (map ak_key_hash ks) \<Longrightarrow> ak_user_id ` set ks \<subseteq> u_id ` set (users d) \<Longrightarrow>
   db_ok (d\<lparr>api_keys := ks\<rparr>)"
  by (simp add: db_ok_def ok_defs)

lemma sound_keys:
  "sound_on h (touch_key env hash t)" "sound_on h (count_keys env userID)"
  "sound_on h (insert_key env userID name hash p newid t)" "sound_on h (select_keys env userID)"
  "sound_on h (delete_key env keyID userID)" "sound_on h (select_role env userID)"
proof -
  show "sound_on h (touch_key env hash t)"
  proof (rule sound_onI)
    fix d :: database
    assume ok: "db_ok d"
    let ?ks = "map (\<lambda>k. if ak_key_hash k = hash then k\<lparr>ak_last_used_at := Some t\<rparr> else k) (api_keys d)"
    have same: "map ak_id ?ks = map ak_id (api_keys d)" "map ak_key_hash ?ks = map ak_key_hash (api_keys d)"
      "map ak_user_id ?ks = map ak_user_id (api_keys d)"
      by (rule map_map_if_same, simp)+
    from arg_cong[OF same(3), of set] have "ak_user_id ` set ?ks = ak_user_id ` set (api_keys d)" unfolding set_map .
    then have "db_ok (d\<lparr>api_keys := ?ks\<rparr>)"
      using db_okD(6)[OF ok] ok unfolding keys_ok_def by (intro db_ok_api_keys) (simp_all only: same)
    then show "db_ok (snd (touch_key env hash t d))" by (simp add: touch_key_def)
  qed (simp_all add: touch_key_def)
  show "sound_on h (insert_key env userID name hash p newid t)"
    unfolding insert_key_def
  proof (intro sound_on_with_bigint sound_onI)
    fix n and d :: database
    assume ok: "db_ok d"
    then show "db_ok (snd (if newid \<in> ak_id ` set (api_keys d) then (Inl (sql_violation ''api_keys_pkey''), d)
       else if hash \<in> ak_key_hash ` set (api_keys d) then (Inl (sql_violation ''api_keys_key_hash_key''), d)
       else if n \<notin> u_id ` set (users d) then (Inl (sql_violation ''api_keys_user_id_fkey''), d)
       else (Inr (newid, t), d\<lparr>api_keys := api_keys d @
               [\<lparr>ak_id = newid, ak_user_id = n, ak_name = name, ak_key_hash = hash, ak_key_prefix = p,
                 ak_last_used_at = None, ak_created_at = t\<rparr>]\<rparr>)))"
      using db_okD(6)[OF ok] by (auto simp: keys_ok_def intro!: db_ok_api_keys) blast
  qed auto
  show "sound_on h (delete_key env keyID userID)"
    unfolding delete_key_def
  proof (intro sound_on_with_bigint sound_onI)
    fix n and d :: database
    assume ok: "db_ok d"
    then show "db_ok (snd (Inr (length (filter (\<lambda>k. ak_id k = keyID \<and> ak_user_id k = n) (api_keys d))) :: nat result,
        d\<lparr>api_keys := filter (\<lambda>k. \<not> (ak_id k = keyID \<and> ak_user_id k = n)) (api_keys d)\<rparr>))"
      using db_okD(6)[OF ok] by (auto simp: keys_ok_def intro!: db_ok_api_keys distinct_map_filter)
  qed auto
  show "sound_on h (count_keys env userID)" "sound_on h (select_keys env userID)" "sound_on h (select_role env userID)"
    unfolding count_keys_def select_keys_def select_role_def by ((intro sound_on_with_bigint)?, rule sound_on_read, simp)+
qed

lemma keeps_ok_respond:
  "state_io_rel keeps_ok (RespondJSON a n)" "state_io_rel keeps_ok (RespondError m n)" "state_io_rel keeps_ok (RespondData d n)"
  "state_io_rel keeps_ok (RespondSuccess n)" "state_io_rel keeps_ok method_not_allowed"
  unfolding method_not_allowed_def RespondError_def RespondData_def RespondSuccess_def RespondJSON_def by (intro ko.io_return)+

lemma keeps_ok_key_handlers:
  "state_io_rel keeps_ok (key_Create env validate r)" "state_io_rel keeps_ok (key_List env ts r)" "state_io_rel keeps_ok (key_Delete env r)"
  unfolding key_Create_def key_List_def key_Delete_def Let_def
  by (intro ko.io_intros keeps_ok_respond keeps_ok_intros sound_keys)+

lemma keeps_ok_auth:
  assumes "\<And>r. state_io_rel keeps_ok (next r)"
  shows "state_io_rel keeps_ok (AuthMiddleware env lib key next r)" "state_io_rel keeps_ok (Auth_Middleware env lib key next r)"
    "state_io_rel keeps_ok (AdminOnly env next r)"
  unfolding AuthMiddleware_def Auth_Middleware_def AdminOnly_def resolveApiKey_def
  by (intro ko.io_intros keeps_ok_respond keeps_ok_intros sound_keys assms)+


section \<open>The admin guard\<close>

text \<open>
  A handler behind \<open>AdminOnly\<close> runs only for a caller whose user row has the role
  \<open>admin\<close>, and then on the world as the caller found it; everyone else gets 403 and no
  table changes.
\<close>

theorem AdminOnly_guards:
  assumes "run_state (AdminOnly env next r) w = (resp, w')"
  shows "(\<exists>u \<in> set (users (db w)). int8in env (user_or_empty r) = Some (u_id u) \<and> u_role u = ''admin'' \<and>
           run_state (next r) (w\<lparr>hist := Sql ''select role'' # hist w\<rparr>) = (resp, w')) \<or>
         rs_status resp = 403 \<and> db w' = db w"
proof -
  let ?q = "sql env Pool ''select role'' (\<lambda>_ _. select_role env (user_or_empty r))"
  obtain res w1 where q: "run_state ?q w = (res, w1)" by fastforce
  then have w1: "w1 = w\<lparr>hist := Sql ''select role'' # hist w\<rparr>"
    by (auto simp: run_sql select_role_def with_bigint_def split: option.splits)
  show ?thesis
  proof (cases "res = Inr ''admin''")
    case True
    with q obtain n where n: "int8in env (user_or_empty r) = Some n"
      "map_sum (\<lambda>e. e) u_role (first_row (filter (\<lambda>u. u_id u = n) (users (db w)))) = Inr ''admin''"
      by (auto elim!: sql_Inr simp: select_role_def with_bigint_def split: option.splits)
    from n(2) obtain u us where "filter (\<lambda>u. u_id u = n) (users (db w)) = u # us" "u_role u = ''admin''"
      by (auto simp: first_row_def split: list.splits)
    then have "u \<in> set (users (db w))" "u_id u = n" "u_role u = ''admin''" by (auto simp: filter_eq_Cons_iff)
    moreover from assms q w1 True have "run_state (next r) (w\<lparr>hist := Sql ''select role'' # hist w\<rparr>) = (resp, w')"
      by (simp add: AdminOnly_def run_bind)
    ultimately show ?thesis using n(1) by blast
  next
    case False
    with assms q w1 have "rs_status resp = 403 \<and> db w' = db w"
      by (cases res) (auto simp: AdminOnly_def run_bind run_RespondError split: if_splits)
    then show ?thesis ..
  qed
qed

section \<open>API keys\<close>

lemma key_Create_201:
  assumes "run_state (key_Create env validate r) w = (resp, w')" and "rs_payload resp = Json \<lparr>Success = True, Data = Some dat, Error = []\<rparr>"
  obtains n kid raw name t h where "int8in env (user_or_empty r) = Some n" and "dat = CreatedKey kid raw name (take 20 raw) t"
    and "sha256hex env raw \<notin> ak_key_hash ` set (api_keys (db w))"
    and "env_err env (hist w) (Sql ''count api keys'') = None \<Longrightarrow>
      int (length (filter (\<lambda>k. ak_user_id k = n) (api_keys (db w)))) < maxApiKeysPerUser"
    and "w' = w\<lparr>hist := h, db := (db w)\<lparr>api_keys := api_keys (db w) @
        [\<lparr>ak_id = kid, ak_user_id = n, ak_name = name, ak_key_hash = sha256hex env raw, ak_key_prefix = take 20 raw,
          ak_last_used_at = None, ak_created_at = t\<rparr>]\<rparr>\<rparr>"
proof -
  let ?uid = "user_or_empty r"
  obtain name where name: "rq_body r = Inr name" "validate name = None"
    using assms by (auto simp: key_Create_def Let_def run_RespondError split: sum.splits option.splits)
  obtain c w1 where c: "run_state (sql env Pool ''count api keys'' (\<lambda>_ _. count_keys env ?uid)) w = (c, w1)" by fastforce
  then have w1: "w1 = w\<lparr>hist := Sql ''count api keys'' # hist w\<rparr>"
    by (auto simp: run_sql count_keys_def with_bigint_def split: option.splits)
  define cnt where "cnt = (case c of Inl _ \<Rightarrow> 0 | Inr n \<Rightarrow> n)"
  obtain rb where rb: "run_state (call_str env (RandRead 32)) w1 = (rb, w1\<lparr>hist := RandRead 32 # hist w1\<rparr>)"
    by (simp add: run_call_str)
  define raw where "raw = apiKeyPrefix @ hex_EncodeToString (case rb of Inl _ \<Rightarrow> replicate 32 (CHR 0x00) | Inr b \<Rightarrow> b)"
  let ?w2 = "w\<lparr>hist := RandRead 32 # Sql ''count api keys'' # hist w\<rparr>"
  let ?ins = "sql env Pool ''insert api key'' (insert_key env ?uid name (sha256hex env raw) (take 20 raw))"
  have cnt: "cnt < maxApiKeysPerUser"
    and fin: "run_state (do { ins \<leftarrow> ?ins; (case ins of Inl _ \<Rightarrow> RespondError ''internal error'' 500
        | Inr (keyID, createdAt) \<Rightarrow> RespondData (CreatedKey keyID raw name (take 20 raw) createdAt) 201) }) ?w2 = (resp, w')"
    using assms unfolding raw_def
    by (auto simp: key_Create_def Let_def name run_bind c w1[symmetric] rb cnt_def[symmetric] run_RespondError
        simp del: take_append split: if_splits) (simp_all add: w1 del: take_append)
  obtain ir w3 where ir: "run_state ?ins ?w2 = (ir, w3)" by fastforce
  with fin assms(2) obtain kid t where ok: "ir = Inr (kid, t)" "dat = CreatedKey kid raw name (take 20 raw) t" "w3 = w'"
    by (cases ir) (auto simp: run_bind run_RespondError run_RespondData)
  from ir[unfolded ok] obtain d where d: "insert_key env ?uid name (sha256hex env raw) (take 20 raw)
      (env_str env (hist ?w2) (Sql ''insert api key'')) (env_now env (hist ?w2)) (db w) = (Inr (kid, t), d)"
    and w': "w' = ?w2\<lparr>hist := Sql ''insert api key'' # hist ?w2, db := d\<rparr>"
    by (rule sql_Inr) simp_all
  from d obtain n where n: "int8in env ?uid = Some n" "sha256hex env raw \<notin> ak_key_hash ` set (api_keys (db w))"
    "d = (db w)\<lparr>api_keys := api_keys (db w) @
        [\<lparr>ak_id = kid, ak_user_id = n, ak_name = name, ak_key_hash = sha256hex env raw, ak_key_prefix = take 20 raw,
          ak_last_used_at = None, ak_created_at = t\<rparr>]\<rparr>"
    by (auto simp: insert_key_def with_bigint_def split: option.splits if_splits)
  have "int (length (filter (\<lambda>k. ak_user_id k = n) (api_keys (db w)))) < maxApiKeysPerUser"
    if "env_err env (hist w) (Sql ''count api keys'') = None"
    using cnt c that n(1) by (auto simp: cnt_def run_sql count_keys_def with_bigint_def)
  with n ok w' show ?thesis by (intro that[of n kid raw name t "hist w'"]) auto
qed

text \<open>
  C30. A created API key identifies its owner: whenever the key's row is still in the table, with
  whatever happened to the other rows, resolving the raw key returned by the creation yields the user id of the
  creator. A creation whose count query worked leaves the user with at most ten keys.
\<close>

theorem api_key_identifies_its_owner:
  assumes "run_state (key_Create env validate r) w = (resp, w')"
    and "rs_payload resp = Json \<lparr>Success = True, Data = Some (CreatedKey kid raw name pre t), Error = []\<rparr>"
    and "env_err env (hist w) (Sql ''count api keys'') = None"
    and "db_ok (db w2)" and "set (filter (\<lambda>k. ak_id k = kid) (api_keys (db w'))) \<subseteq> set (api_keys (db w2))"
    and "env_err env (hist w2) (Sql ''touch api key'') = None"
  shows "\<exists>n. int8in env (user_or_empty r) = Some n \<and>
    fst (run_state (resolveApiKey env raw) w2) = Inr (int8out env n) \<and>
    length (filter (\<lambda>k. ak_user_id k = n) (api_keys (db w'))) \<le> 10"
proof -
  from assms(1,2) obtain n h where n: "int8in env (user_or_empty r) = Some n" "pre = take 20 raw"
    and cnt: "env_err env (hist w) (Sql ''count api keys'') = None \<Longrightarrow>
      int (length (filter (\<lambda>k. ak_user_id k = n) (api_keys (db w)))) < maxApiKeysPerUser"
    and w': "w' = w\<lparr>hist := h, db := (db w)\<lparr>api_keys := api_keys (db w) @
        [\<lparr>ak_id = kid, ak_user_id = n, ak_name = name, ak_key_hash = sha256hex env raw, ak_key_prefix = take 20 raw,
          ak_last_used_at = None, ak_created_at = t\<rparr>]\<rparr>\<rparr>"
    by (rule key_Create_201) (auto simp: that)
  define k where "k = \<lparr>ak_id = kid, ak_user_id = n, ak_name = name, ak_key_hash = sha256hex env raw, ak_key_prefix = take 20 raw,
          ak_last_used_at = None, ak_created_at = t\<rparr>"
  from assms(5) w' have k2: "k \<in> set (api_keys (db w2))" by (auto simp: k_def)
  have "distinct (map ak_key_hash (api_keys (db w2)))" using db_okD(6)[OF assms(4)] by (simp add: keys_ok_def)
  from length_filter_one[OF this k2] have "filter (\<lambda>x. ak_key_hash x = sha256hex env raw) (api_keys (db w2)) = [k]"
    by (simp add: k_def)
  with assms(6) have "fst (run_state (resolveApiKey env raw) w2) = Inr (int8out env n)"
    by (simp add: resolveApiKey_def run_sql touch_key_def first_row_def k_def)
  with n cnt[OF assms(3)] w' show ?thesis by (auto simp: maxApiKeysPerUser_def)
qed


text \<open>
  Deleting a key works for its owner only: the owner gets 204 and the raw key no longer
  resolves; any other caller gets 404 and no table changes.
\<close>

theorem key_Delete_only_for_the_owner:
  assumes ok: "db_ok (db w)" and k: "k \<in> set (api_keys (db w))" and "rq_method r = ''DELETE''" and id: "rq_vars r ''id'' = ak_id k"
    and n: "int8in env (user_or_empty r) = Some n" and "env_err env (hist w) (Sql ''delete api key'') = None"
    and run: "run_state (key_Delete env r) w = (resp, w')"
  shows "if ak_user_id k = n
    then rs_status resp = 204 \<and> fst (touch_key env (ak_key_hash k) t (db w')) = Inl ErrNoRows
    else rs_status resp = 404 \<and> db w' = db w"
proof -
  from db_okD(6)[OF ok] have dist: "distinct (map ak_id (api_keys (db w)))" "distinct (map ak_key_hash (api_keys (db w)))"
    by (simp_all add: keys_ok_def)
  have only: "x = k" if "x \<in> set (api_keys (db w))" "ak_id x = ak_id k \<or> ak_key_hash x = ak_key_hash k" for x
    using that k dist by (auto simp: distinct_map dest: inj_onD)
  let ?P = "\<lambda>x. ak_id x = ak_id k \<and> ak_user_id x = n"
  have found: "length (filter ?P (api_keys (db w))) = 0 \<longleftrightarrow> ak_user_id k \<noteq> n"
    using k only by (auto simp: filter_empty_conv)
  have w': "run_state (sql env Pool ''delete api key'' (\<lambda>_ _. delete_key env (rq_vars r ''id'') (user_or_empty r))) w =
      (Inr (length (filter ?P (api_keys (db w)))),
       w\<lparr>hist := Sql ''delete api key'' # hist w, db := (db w)\<lparr>api_keys := filter (\<lambda>x. \<not> ?P x) (api_keys (db w))\<rparr>\<rparr>)"
    by (simp add: run_sql assms(6) delete_key_def with_bigint_def n id)
  show ?thesis
  proof (cases "ak_user_id k = n")
    case True
    then have "filter (\<lambda>x. ak_key_hash x = ak_key_hash k) (filter (\<lambda>x. \<not> ?P x) (api_keys (db w))) = []"
      using only by (auto simp: filter_empty_conv)
    with True run w' found assms(3) show ?thesis
      by (auto simp: key_Delete_def run_bind run_return touch_key_def first_row_def)
  next
    case False
    then have "filter (\<lambda>x. \<not> ?P x) (api_keys (db w)) = api_keys (db w)"
      using only by (intro filter_True) auto
    with False run w' found assms(3) show ?thesis
      by (auto simp: key_Delete_def run_bind run_RespondError)
  qed
qed

section \<open>Witnesses\<close>

definition sample_request :: "string request" where
  "sample_request = \<lparr>rq_method = ''POST'', rq_path = ''/api-keys'', rq_header = (\<lambda>_. []), rq_query = (\<lambda>_. []), rq_vars = (\<lambda>_. []),
     rq_remote = ''10.0.0.1:99'', rq_user = Some ''1'', rq_body = Inr ''ci'', rw_flush = False, rw_hijack = True\<rparr>"

lemma sample_request_sel [simp]:
  "rq_user sample_request = Some ''1''" "rq_body sample_request = Inr ''ci''" "user_or_empty sample_request = ''1''"
  "user_or_empty (sample_request\<lparr>rq_method := m, rq_vars := v\<rparr>) = ''1''"
  by (simp_all add: sample_request_def user_or_empty_def)

definition sample_key :: api_key_row where
  "sample_key = \<lparr>ak_id = ''k1'', ak_user_id = 1, ak_name = ''ci'', ak_key_hash = ''h'', ak_key_prefix = ''dk'', ak_last_used_at = None, ak_created_at = 5\<rparr>"

definition key_world :: world where
  "key_world = sample_world\<lparr>db := sample_db\<lparr>api_keys := [sample_key]\<rparr>\<rparr>"

lemma key_world_keys: "api_keys (db key_world) = [sample_key]"
  by (simp add: key_world_def)

lemma sample_key_sel: "ak_id sample_key = ''k1''" "ak_user_id sample_key = 1" "ak_key_hash sample_key = ''h''"
  by (simp_all add: sample_key_def)

lemma key_world_ok: "db_ok (db key_world)"
  using db_ok_api_keys[OF sample_db_ok, of "[sample_key]"]
  by (simp add: key_world_def sample_key_def sample_db_def sample_user_def)

theorem key_Delete_only_for_the_owner_witness:
  "fst (touch_key sample_env ''h'' 9 (db (snd (run_state
     (key_Delete sample_env (sample_request\<lparr>rq_method := ''DELETE'', rq_vars := (\<lambda>_. ''k1'')\<rparr>)) key_world)))) = Inl ErrNoRows"
  using key_Delete_only_for_the_owner[OF key_world_ok, of sample_key "sample_request\<lparr>rq_method := ''DELETE'', rq_vars := (\<lambda>_. ''k1'')\<rparr>"
      sample_env 1, OF _ _ _ _ _ prod.collapse[symmetric], of 9]
  by (simp add: key_world_keys sample_int8in sample_key_sel)

theorem AdminOnly_guards_witness:
  "rs_status (fst (run_state (AdminOnly sample_env (\<lambda>r. RespondSuccess 200 :: unit response M) sample_request) sample_world)) = 403"
proof -
  have "users sample_db = [sample_user 1 ''a@b'' ''user'', sample_user 2 ''c@d'' ''admin'']" by (simp add: sample_db_def)
  then show ?thesis
    using AdminOnly_guards[of sample_env "\<lambda>r. RespondSuccess 200 :: unit response M" sample_request sample_world, OF prod.collapse[symmetric]]
    by (auto simp: sample_int8in sample_user_def)
qed

lemma sample_key_created:
  "\<exists>kid raw t. rs_payload (fst (run_state (key_Create sample_env (\<lambda>_. None) sample_request) sample_world)) =
     Json \<lparr>Success = True, Data = Some (CreatedKey kid raw ''ci'' (take 20 raw) t), Error = []\<rparr>"
  by (simp add: key_Create_def Let_def run_simps count_keys_def insert_key_def with_bigint_def
      sample_int8in maxApiKeysPerUser_def del: take_append) (simp add: sample_db_def sample_user_def)

theorem api_key_identifies_its_owner_witness:
  "\<exists>raw. fst (run_state (resolveApiKey sample_env raw)
     (snd (run_state (key_Create sample_env (\<lambda>_. None) sample_request) sample_world))) = Inr ''1''"
proof -
  let ?w = "snd (run_state (key_Create sample_env (\<lambda>_. None) sample_request) sample_world)"
  let ?resp = "fst (run_state (key_Create sample_env (\<lambda>_. None) sample_request) sample_world)"
  have run: "run_state (key_Create sample_env (\<lambda>_. None) sample_request) sample_world = (?resp, ?w)" by simp
  from sample_key_created obtain kid raw t where
    p: "rs_payload ?resp = Json \<lparr>Success = True, Data = Some (CreatedKey kid raw ''ci'' (take 20 raw) t), Error = []\<rparr>"
    by blast
  have "db_ok (db ?w)"
    using state_io_relD[OF keeps_ok_key_handlers(1) run] sample_world_ok by (simp add: keeps_ok_def world_ok_def)
  from api_key_identifies_its_owner[OF run p _ this] show ?thesis
    by (auto simp: sample_int8in sample_int8out)
qed

end
