(* ===== verification/Sample_Requests.thy ===== *)
theory Sample_Requests
  imports Http
begin

text \<open>Concrete requests, on which the hypotheses of the handlers' properties are shown to hold together.\<close>

definition plain_request :: "string \<Rightarrow> string option \<Rightarrow> (string \<Rightarrow> string) \<Rightarrow> (string \<Rightarrow> string) \<Rightarrow> 'b \<Rightarrow> 'b request" where
  "plain_request meth usr query vars b =
     \<lparr>rq_method = meth, rq_path = ''/'', rq_header = (\<lambda>_. []), rq_query = query, rq_vars = vars,
      rq_remote = ''10.0.0.1:99'', rq_user = usr, rq_body = Inr b, rw_flush = False, rw_hijack = True\<rparr>"

lemma plain_request_sel [simp]:
  "rq_method (plain_request m u q v b) = m" "rq_user (plain_request m u q v b) = u" "rq_query (plain_request m u q v b) = q"
  "rq_vars (plain_request m u q v b) = v" "rq_body (plain_request m u q v b) = Inr b" "rq_header (plain_request m u q v b) = (\<lambda>_. [])"
  "rq_remote (plain_request m u q v b) = ''10.0.0.1:99''" "rw_flush (plain_request m u q v b) = False"
  by (simp_all add: plain_request_def)

end
