(* ===== verification/Notification_Handlers.thy ===== *)
theory Notification_Handlers
  imports Http Notification_Store Middleware Auth_Proofs Sample_Requests
begin

text \<open>
  \<open>service/notificationHandler.go\<close>: the server-sent event stream, the list of notifications and marking them read,
  with their properties. While a stream is open other requests use the bus, so a session is a sequence of turns of the
  stream's \<open>select\<close> and of operations by others. \<open>json.Marshal\<close> of a notification is the parameter \<open>marshal\<close>.
\<close>

section \<open>Stream\<close>

datatype session_event = Turn select_case | Other bus_op

fun session :: "nat \<Rightarrow> session_event list \<Rightarrow> NotificationBus \<Rightarrow> (sse_chunk list \<times> NotificationBus) option" where
  "session ch [] b = Some ([], b)"
| "session ch (Other x # es) b = Option.bind (bus_step x b) (session ch es)"
| "session ch (Turn CtxDone # es) b = Some ([], b)"
| "session ch (Turn c # es) b =
     (case stream_loop ch [c] b of (out, b1) \<Rightarrow> map_option (\<lambda>(rest, b2). (out @ rest, b2)) (session ch es b1))"

definition nl :: string where
  "nl = [CHR 0x0A]"

fun render :: "(Notification \<Rightarrow> string) \<Rightarrow> sse_chunk \<Rightarrow> string" where
  "render marshal (NotificationEvent n) = ''event: notification'' @ nl @ ''data: '' @ marshal n @ nl @ nl"
| "render marshal Heartbeat = '': heartbeat'' @ nl @ nl"

definition sse_headers :: "(string \<times> string) list" where
  "sse_headers =
     [(''Content-Type'', ''text/event-stream''), (''Cache-Control'', ''no-cache''), (''Connection'', ''keep-alive''),
      (''X-Accel-Buffering'', ''no'')]"

text \<open>Subscribe, serve the session, and cancel the subscription when the handler returns.\<close>

definition stream_session :: "string \<Rightarrow> session_event list \<Rightarrow> NotificationBus \<Rightarrow> (sse_chunk list \<times> NotificationBus) option" where
  "stream_session userID es b =
     (case Subscribe userID b of
        (ch, b1) \<Rightarrow>
          (case session ch es b1 of
             None \<Rightarrow> None
           | Some (out, b2) \<Rightarrow> map_option (\<lambda>b3. (out, b3)) (unsubscribe userID ch b2)))"

definition Stream :: "(Notification \<Rightarrow> string) \<Rightarrow> session_event list \<Rightarrow> ('b, 'd) handler" where
  "Stream marshal es r =
     (if user_or_empty r = [] then RespondError ''unauthorized'' 401
      else if \<not> rw_flush r then RespondError ''streaming not supported by server'' 500
      else
        do { w \<leftarrow> State_Monad.get;
             (case stream_session (user_or_empty r) es (bus w) of
                None \<Rightarrow> do { State_Monad.set (w\<lparr>panicked := True\<rparr>); RespondError [] 500 }
              | Some (out, b) \<Rightarrow>
                  do { State_Monad.set (w\<lparr>bus := b\<rparr>);
                       State_Monad.return \<lparr>rs_status = 200, rs_headers = sse_headers, rs_payload = Raw (concat (map (render marshal) out))\<rparr> }) })"

section \<open>Stored notifications\<close>

record notificationRow =
  nt_ID :: string
  nt_Type :: string
  nt_Title :: string
  nt_Body :: string
  nt_Metadata :: "string option"
  nt_ReadAt :: "time option"
  nt_CreatedAt :: time

definition scan_notification :: "notification_row \<Rightarrow> notificationRow" where
  "scan_notification n =
     \<lparr>nt_ID = nr_id n, nt_Type = nr_type n, nt_Title = nr_title n, nt_Body = nr_body n, nt_Metadata = nr_metadata n,
      nt_ReadAt = nr_read_at n, nt_CreatedAt = nr_created_at n\<rparr>"

definition notif_List :: "env \<Rightarrow> ('b, notificationRow list) handler" where
  "notif_List env r =
     (if rq_method r \<noteq> ''GET'' then method_not_allowed
      else if user_or_empty r = [] then RespondError ''unauthorized'' 401
      else do { ns \<leftarrow> sql env Pool ''select notifications'' (\<lambda>_ _. select_notifications env (user_or_empty r));
                (case ns of
                   Inl _ \<Rightarrow> RespondError ''internal error'' 500
                 | Inr rows \<Rightarrow> RespondData (map scan_notification rows) 200) })"

definition MarkAllRead :: "env \<Rightarrow> ('b, unit) handler" where
  "MarkAllRead env r =
     (if rq_method r \<noteq> ''POST'' then method_not_allowed
      else if user_or_empty r = [] then RespondError ''unauthorized'' 401
      else do { ignoring (sql env Pool ''mark read'' (\<lambda>_ t. mark_all_read env (user_or_empty r) t));
                RespondSuccess 200 })"

section \<open>The stream cannot be reached\<close>


section \<open>Delivery\<close>

lemma stream_loop_drains: "fst (stream_loop ch (replicate k FromChannel) b) = map NotificationEvent (take k (ch_buf (chans b ch)))"
proof (induction k arbitrary: b)
  case (Suc k)
  show ?case
  proof (cases "ch_buf (chans b ch)")
    case Nil
    with Suc.IH[of b] show ?thesis by simp
  next
    case (Cons n ns)
    with Suc.IH[of "b\<lparr>chans := (chans b)(ch := (chans b ch)\<lparr>ch_buf := ns\<rparr>)\<rparr>"] show ?thesis by (simp add: prod.case_eq_if)
  qed
qed simp

text \<open>
  C32. A connection that is drained receives every notification of a burst of up to 32, each once and in order, and
  then nothing, whatever happened on the bus before.
\<close>

theorem burst_is_delivered:
  assumes "bus_ok b" and "Subscribe u b = (ch, b1)" and "length ns \<le> 32"
  shows "\<exists>b2. opt_fold (Publish u) ns b1 = Some b2 \<and>
    fst (stream_loop ch (replicate (length ns + k) FromChannel) b2) = map NotificationEvent ns"
  using nb.fresh_connection_receives[OF assms(1,2), of ns] assms(3)
  unfolding stream_loop_drains by (auto simp: chan_cap_def)

theorem burst_is_delivered_witness:
  "\<forall>n m. \<exists>b2. opt_fold (Publish ''1'') [n, m] (snd (Subscribe ''1'' GlobalBus)) = Some b2 \<and>
    fst (stream_loop 0 (replicate 5 FromChannel) b2) = [NotificationEvent n, NotificationEvent m]"
proof -
  have "Subscribe ''1'' GlobalBus = (0, snd (Subscribe ''1'' GlobalBus))" by (simp add: Subscribe_def GlobalBus_def)
  from burst_is_delivered[OF bus_ok_GlobalBus this, of "[_, _]" 3] show ?thesis by (simp add: numeral_eq_Suc)
qed

section \<open>Reading and marking\<close>

definition mark_row :: "int \<Rightarrow> time \<Rightarrow> notification_row \<Rightarrow> notification_row" where
  "mark_row u t n = (if nr_user_id n = u \<and> nr_read_at n = None then n\<lparr>nr_read_at := Some t\<rparr> else n)"

lemma mark_row_idem: "mark_row u t' (mark_row u t n) = mark_row u t n"
  by (simp add: mark_row_def)

text \<open>
  Marking all read reaches exactly the requester's unread notifications, once: a second request, at whatever time, changes
  nothing, and the notifications of other users and everything else in the database stay as they are.
\<close>

theorem MarkAllRead_once:
  assumes post: "rq_method r = ''POST''" and u: "user_or_empty r \<noteq> []" "int8in env (user_or_empty r) = Some u"
    and nf: "\<forall>h. env_err env h (Sql ''mark read'') = None"
    and one: "run_state (MarkAllRead env r) w = (resp, w1)" and two: "run_state (MarkAllRead env r) w1 = (resp2, w2)"
  shows "(\<exists>t. db w1 = (db w)\<lparr>notifications := map (mark_row u t) (notifications (db w))\<rparr>) \<and> db w2 = db w1"
proof -
  have run: "db w' = (db v)\<lparr>notifications := map (mark_row u (env_now env (hist v))) (notifications (db v))\<rparr>"
    if "run_state (MarkAllRead env r) v = (x, w')" for v w' x
    using that post u nf
    by (auto simp: MarkAllRead_def run_bind run_ignoring run_sql mark_all_read_def with_bigint_def RespondSuccess_def run_Respond mark_row_def[abs_def])
  have "map (mark_row u t') (map (mark_row u t) ns) = map (mark_row u t) ns" for t t' ns
    by (simp add: mark_row_idem comp_def)
  then show ?thesis using run[OF one] run[OF two] by (intro conjI) (rule exI, assumption, simp)
qed

theorem MarkAllRead_once_witness:
  "db (snd (run_state (MarkAllRead sample_env (plain_request ''POST'' (Some ''1'') (\<lambda>_. []) (\<lambda>_. []) ()))
     (snd (run_state (MarkAllRead sample_env (plain_request ''POST'' (Some ''1'') (\<lambda>_. []) (\<lambda>_. []) ())) sample_world)))) =
   db (snd (run_state (MarkAllRead sample_env (plain_request ''POST'' (Some ''1'') (\<lambda>_. []) (\<lambda>_. []) ())) sample_world))"
  by (rule MarkAllRead_once[of "plain_request ''POST'' (Some ''1'') (\<lambda>_. []) (\<lambda>_. []) ()" sample_env 1, THEN conjunct2,
        OF _ _ _ _ prod.collapse[symmetric] prod.collapse[symmetric]])
    (simp_all add: user_or_empty_def sample_int8in)


section \<open>Integrity\<close>

lemma session_ok: "bus_ok b \<Longrightarrow> \<exists>out b'. session ch es b = Some (out, b') \<and> bus_ok b'"
proof (induction es arbitrary: b)
  case (Cons e es)
  show ?case
  proof (cases e)
    case (Other x)
    with bus_step_ok[OF Cons.prems, of x] Cons.IH show ?thesis by auto
  next
    case (Turn c)
    obtain out b1 where l: "stream_loop ch [c] b = (out, b1)" by fastforce
    with Cons.prems have "bus_ok b1" by (rule bus_ok_stream_loop)
    from Cons.IH[OF this] obtain out' b' where "session ch es b1 = Some (out', b')" "bus_ok b'" by blast
    with l Turn Cons.prems show ?thesis by (cases c) auto
  qed
qed simp

lemma stream_session_ok: "bus_ok b \<Longrightarrow> \<exists>out b'. stream_session u es b = Some (out, b') \<and> bus_ok b'"
proof -
  assume ok: "bus_ok b"
  obtain ch b1 where s: "Subscribe u b = (ch, b1)" by fastforce
  from session_ok[OF bus_ok_Subscribe[OF ok s]] obtain out b2 where b2: "session ch es b1 = Some (out, b2)" "bus_ok b2" by blast
  from nb.unsub_total[OF b2(2), of u ch] obtain b3 where b3: "unsubscribe u ch b2 = Some b3" by blast
  with bus_ok_unsubscribe[OF b2(2) b3] s b2 show ?thesis by (simp add: stream_session_def)
qed

lemma keeps_ok_Stream: "state_io_rel keeps_ok (Stream marshal es r)"
proof (rule state_io_relI)
  fix x w w'
  assume run: "run_state (Stream marshal es r) w = (x, w')"
  show "keeps_ok w w'"
    unfolding keeps_ok_def
  proof
    assume ok: "world_ok w"
    then have "bus_ok (bus w)" by (simp add: world_ok_def)
    from stream_session_ok[OF this] obtain out b' where "stream_session (user_or_empty r) es (bus w) = Some (out, b')" "bus_ok b'" by blast
    with run ok show "world_ok w'" by (auto simp: Stream_def run_simps world_ok_def split: if_splits)
  qed
qed

lemma keeps_ok_notification_handlers:
  "state_io_rel keeps_ok (notif_List env r)" "state_io_rel keeps_ok (MarkAllRead env r)"
  unfolding notif_List_def MarkAllRead_def
  by (intro ko.io_intros keeps_ok_intros keeps_ok_respond sound_mark_all_read sound_on_read;
      simp add: select_notifications_def with_bigint_def split: option.split)+

end
