(* ===== verification/Server.thy ===== *)
theory Server
  imports Container_Handlers Admin_Api Middleware Websocket Notification_Handlers
begin

text \<open>
  The application server of \<open>main.go\<close>: the route table, the stack of middlewares around every route and the CORS
  handler in front. The handlers differ in what they decode from the body and in what they answer, so the table works on
  raw requests, whose body is text, and on one type of data. Matching a path against the table is \<open>gorilla/mux\<close>,
  decoding a body is \<open>encoding/json\<close> on the struct of the handler, and what the other end of a websocket or of an event
  stream does is an input: all are fields of the configuration.
\<close>

section \<open>Configuration\<close>

text \<open>What the client of a long-lived connection does.\<close>

record peer =
  pe_handshake :: bool
  pe_stats :: "(StatsResponse \<times> bool) list"
  pe_can_send :: "logEntry \<Rightarrow> bool"
  pe_clock :: "int \<Rightarrow> time"
  pe_frames :: "(string \<times> string) list"
  pe_resize :: "string \<Rightarrow> resizeMsg option"
  pe_reads :: "(string \<times> bool \<times> bool) list"
  pe_inputs :: "term_event list"
  pe_events :: "session_event list"

record decoders =
  dec_login :: "string \<Rightarrow> LoginRequest result"
  dec_register :: "string \<Rightarrow> RegisterRequest result"
  dec_token :: "string \<Rightarrow> string result"
  dec_email :: "string \<Rightarrow> string result"
  dec_reset :: "string \<Rightarrow> ResetRequest result"
  dec_create :: "string \<Rightarrow> CreateContainerRequest result"
  dec_exec :: "string \<Rightarrow> string list result"
  dec_write :: "string \<Rightarrow> WriteFileRequest result"
  dec_upload :: "string \<Rightarrow> upload_form result"
  dec_name :: "string \<Rightarrow> string result"
  dec_connect :: "string \<Rightarrow> ConnectRequest result"
  dec_plan :: "string \<Rightarrow> string result"

record validators =
  val_login :: "LoginRequest \<Rightarrow> go_error option"
  val_register :: "RegisterRequest \<Rightarrow> go_error option"
  val_token :: "string \<Rightarrow> go_error option"
  val_reset :: "ResetRequest \<Rightarrow> go_error option"
  val_name :: "string \<Rightarrow> go_error option"

datatype server_data =
    OfUser user_data | OfContainer container_data | OfKey key_data | OfNotifications "notificationRow list" | OfNothing unit
  | OfNetwork network_data | OfAdmin admin_data | OfTemplate template_data | OfPlans "PlanItem list"

text \<open>The state of the handlers: the world and the goroutines they have started that have not run yet.\<close>

type_synonym running = "world \<times> unit M list"
type_synonym route = "string request \<Rightarrow> (running, server_data response option) state"

record 'l config =
  cf_env :: env
  cf_users :: user_ctx
  cf_handler :: Handler
  cf_nets :: NetworkManager
  cf_limiter :: "'l limiter_library"
  cf_origins :: string
  cf_mux :: "string list \<Rightarrow> string \<Rightarrow> (string \<times> (string \<Rightarrow> string)) option"
  cf_instrument :: "string \<Rightarrow> route \<Rightarrow> route"
  cf_dec :: decoders
  cf_val :: validators
  cf_peer :: "string request \<Rightarrow> peer"
  cf_marshal :: "Notification \<Rightarrow> string"
  cf_mime :: "string \<Rightarrow> string"
  cf_timestamp :: "time \<Rightarrow> string option"
  cf_date :: "time \<Rightarrow> time"
  cf_like :: "string \<Rightarrow> string \<Rightarrow> bool"
  cf_rank :: "string \<Rightarrow> int"
  cf_json :: json_columns
  cf_handshake_status :: nat

section \<open>From handlers to routes\<close>

definition with_body :: "'c result \<Rightarrow> 'b request \<Rightarrow> 'c request" where
  "with_body b r =
     \<lparr>rq_method = rq_method r, rq_path = rq_path r, rq_header = rq_header r, rq_query = rq_query r, rq_vars = rq_vars r,
      rq_remote = rq_remote r, rq_user = rq_user r, rq_body = b, rw_flush = rw_flush r, rw_hijack = rw_hijack r\<rparr>"

definition decoded :: "(string \<Rightarrow> 'c result) \<Rightarrow> string request \<Rightarrow> 'c request" where
  "decoded dec r = with_body (case rq_body r of Inl e \<Rightarrow> Inl e | Inr s \<Rightarrow> dec s) r"

definition map_response :: "('a \<Rightarrow> 'b) \<Rightarrow> 'a response \<Rightarrow> 'b response" where
  "map_response f resp =
     \<lparr>rs_status = rs_status resp, rs_headers = rs_headers resp,
      rs_payload = (case rs_payload resp of
          NoBody \<Rightarrow> NoBody
        | Raw s \<Rightarrow> Raw s
        | Json a \<Rightarrow> Json \<lparr>Success = Success a, Data = map_option f (Data a), Error = Error a\<rparr>)\<rparr>"

definition as_data :: "('a \<Rightarrow> server_data) \<Rightarrow> 'a response M \<Rightarrow> server_data response M" where
  "as_data f m = do { x \<leftarrow> m; State_Monad.return (map_response f x) }"

text \<open>
  The outcome of a websocket handler as an answer: 101 once the connection is taken over. Status 0 stands for a handler
  that panicked.
\<close>

definition ws_response :: "nat \<Rightarrow> 'm ws_outcome \<Rightarrow> server_data response" where
  "ws_response st out =
     (case out of
        Refused resp \<Rightarrow> map_response OfNothing resp
      | NotUpgraded \<Rightarrow> \<lparr>rs_status = st, rs_headers = [], rs_payload = NoBody\<rparr>
      | Session _ \<Rightarrow> \<lparr>rs_status = 101, rs_headers = [], rs_payload = NoBody\<rparr>
      | Panicked \<Rightarrow> \<lparr>rs_status = 0, rs_headers = [], rs_payload = NoBody\<rparr>)"

text \<open>A handler as a route, and one that starts a goroutine.\<close>

definition sync :: "(string, server_data) handler \<Rightarrow> route" where
  "sync h r =
     State (\<lambda>(w, ts). case run_state (h r) w of (resp, w') \<Rightarrow> (if rs_status resp = 0 then None else Some resp, (w', ts)))"

definition async :: "(string request \<Rightarrow> user_data async) \<Rightarrow> route" where
  "async h r = State (\<lambda>(w, ts). case run_state (h r) w of ((resp, task), w') \<Rightarrow> (Some (map_response OfUser resp), (w', ts @ [task])))"

text \<open>The three ways \<open>main.go\<close> protects a route.\<close>

definition authed :: "'l config \<Rightarrow> (string, server_data) handler \<Rightarrow> route" where
  "authed cf h = sync (AuthMiddleware (cf_env cf) (uc_lib (cf_users cf)) (uc_key (cf_users cf)) h)"

definition keyed :: "'l config \<Rightarrow> (string, server_data) handler \<Rightarrow> route" where
  "keyed cf h = sync (Auth_Middleware (cf_env cf) (uc_lib (cf_users cf)) (uc_key (cf_users cf)) h)"

definition admin :: "'l config \<Rightarrow> (string, server_data) handler \<Rightarrow> route" where
  "admin cf h = keyed cf (AdminOnly (cf_env cf) h)"

text \<open>The switch of the route \<open>/containers\<close>: \<open>GET\<close> answers nothing at all.\<close>

definition http_Error :: "string \<Rightarrow> nat \<Rightarrow> 'd response" where
  "http_Error m status =
     \<lparr>rs_status = status, rs_headers = [(''Content-Type'', ''text/plain; charset=utf-8''), (''X-Content-Type-Options'', ''nosniff'')],
      rs_payload = Raw (m @ nl)\<rparr>"

definition containers_route :: "'l config \<Rightarrow> (string, server_data) handler" where
  "containers_route cf r =
     (if rq_method r = ''GET'' then State_Monad.return \<lparr>rs_status = 200, rs_headers = [], rs_payload = NoBody\<rparr>
      else if rq_method r = ''POST''
      then as_data OfContainer (handle_CreateContainer (cf_env cf) (cf_handler cf) (decoded (dec_create (cf_dec cf)) r))
      else State_Monad.return (http_Error ''Method not allowed'' 405))"

definition metrics_route :: "'l config \<Rightarrow> (string, server_data) handler" where
  "metrics_route cf r =
     do { out \<leftarrow> metric_WsHandler (cf_env cf) (cf_origins cf) (pe_handshake (cf_peer cf r)) (pe_stats (cf_peer cf r)) r;
          State_Monad.return (ws_response (cf_handshake_status cf) out) }"

definition logs_route :: "'l config \<Rightarrow> (string, server_data) handler" where
  "logs_route cf r =
     do { out \<leftarrow> logs_WsHandler (cf_env cf) (cf_origins cf) (pe_handshake (cf_peer cf r)) (pe_can_send (cf_peer cf r))
                   (pe_clock (cf_peer cf r)) (pe_frames (cf_peer cf r)) r;
          State_Monad.return (ws_response (cf_handshake_status cf) out) }"

definition terminal_route :: "'l config \<Rightarrow> (string, server_data) handler" where
  "terminal_route cf r =
     do { (_, out) \<leftarrow> terminal_WsHandler (cf_env cf) (cf_origins cf) (pe_handshake (cf_peer cf r)) (pe_resize (cf_peer cf r))
                         (pe_reads (cf_peer cf r)) (pe_inputs (cf_peer cf r)) r;
          State_Monad.return (ws_response (cf_handshake_status cf) out) }"

section \<open>The route table\<close>

definition auth_routes :: "'l config \<Rightarrow> (string \<times> route) list" where
  "auth_routes cf = (let env = cf_env cf; uc = cf_users cf; dec = cf_dec cf; vld = cf_val cf in
     [(''/ping'', sync ping_route),
      (''/auth/login'', sync (\<lambda>r. as_data OfUser (Login env uc (val_login vld) (decoded (dec_login dec) r)))),
      (''/auth/register'', async (\<lambda>r. Register env uc (val_register vld) (decoded (dec_register dec) r))),
      (''/auth/refresh'', sync (\<lambda>r. as_data OfUser (RefreshToken env uc r))),
      (''/auth/verify-email'', sync (\<lambda>r. as_data OfUser (VerifyEmail env (val_token vld) (decoded (dec_token dec) r)))),
      (''/auth/resend-verification'', async (\<lambda>r. ResendVerification env uc (decoded (dec_email dec) r))),
      (''/auth/forgot-password'', async (\<lambda>r. ForgotPassword env uc (decoded (dec_email dec) r))),
      (''/auth/reset-password'', sync (\<lambda>r. as_data OfUser (ResetPassword env (val_reset vld) (decoded (dec_reset dec) r)))),
      (''/health'', sync health_route)])"

definition user_routes :: "'l config \<Rightarrow> (string \<times> route) list" where
  "user_routes cf = (let env = cf_env cf in
     [(''/user/me'', authed cf (\<lambda>r. as_data OfUser (GetUser env r))),
      (''/user/containers'', authed cf (\<lambda>r. as_data OfUser (GetUserWithContainers env r))),
      (''/user'', authed cf (\<lambda>r. as_data OfUser (DeleteUser env r)))])"

definition container_routes :: "'l config \<Rightarrow> (string \<times> route) list" where
  "container_routes cf = (let env = cf_env cf; dec = cf_dec cf in
     [(''/containers'', authed cf (containers_route cf)),
      (''/containers/get'', authed cf (\<lambda>r. as_data OfContainer (handle_GetContainer env (cf_handler cf) r))),
      (''/containers/start'', authed cf (\<lambda>r. as_data OfContainer (handle_StartContainer env r))),
      (''/containers/stop'', authed cf (\<lambda>r. as_data OfContainer (handle_StopContainer env r))),
      (''/containers/remove'', authed cf (\<lambda>r. as_data OfContainer (handle_RemoveContainer env r))),
      (''/containers/exec'', authed cf (\<lambda>r. as_data OfContainer (handle_ExecCommand env (decoded (dec_exec dec) r)))),
      (''/containers/showTreeFolder'', authed cf (\<lambda>r. as_data OfContainer (handle_TreeFolder env r))),
      (''/containers/file/read'', authed cf (\<lambda>r. as_data OfContainer (handle_ReadFile env r))),
      (''/containers/file/write'', authed cf (\<lambda>r. as_data OfContainer (handle_WriteFile env (decoded (dec_write dec) r)))),
      (''/containers/file/upload'', authed cf (\<lambda>r. as_data OfContainer (handle_UploadFile env (decoded (dec_upload dec) r)))),
      (''/containers/file/download'', authed cf (\<lambda>r. as_data OfContainer (handle_DownloadFile env (cf_mime cf) r)))])"

definition stream_routes :: "'l config \<Rightarrow> (string \<times> route) list" where
  "stream_routes cf = (let env = cf_env cf in
     [(''/ws'', authed cf (metrics_route cf)),
      (''/ws/terminal/{project_id}'', authed cf (terminal_route cf)),
      (''/ws/logs/{project_id}'', authed cf (logs_route cf)),
      (''/templates'', sync (\<lambda>r. as_data OfTemplate (ListTemplates env (cf_rank cf) (cf_json cf) r))),
      (''/templates/{id}'', sync (\<lambda>r. as_data OfTemplate (GetTemplate env (cf_json cf) r))),
      (''/notifications/stream'', authed cf (\<lambda>r. Stream (cf_marshal cf) (pe_events (cf_peer cf r)) r)),
      (''/notifications'', authed cf (\<lambda>r. as_data OfNotifications (notif_List env r))),
      (''/notifications/read-all'', authed cf (\<lambda>r. as_data OfNothing (MarkAllRead env r)))])"

definition api_routes :: "'l config \<Rightarrow> (string \<times> route) list" where
  "api_routes cf = (let env = cf_env cf; dec = cf_dec cf; nm = cf_nets cf in
     [(''/api-keys'', keyed cf (\<lambda>r. as_data OfKey (key_Dispatch env (cf_timestamp cf) (val_name (cf_val cf)) (decoded (dec_name dec) r)))),
      (''/api-keys/{id}'', keyed cf (\<lambda>r. as_data OfKey (key_Delete env r))),
      (''/networks'', keyed cf (\<lambda>r. as_data OfNetwork (net_Dispatch env (decoded (dec_name dec) r)))),
      (''/networks/{id}'', keyed cf (\<lambda>r. as_data OfNetwork (net_Delete env nm r))),
      (''/networks/{id}/connect'', keyed cf (\<lambda>r. as_data OfNetwork (net_Connect env nm (decoded (dec_connect dec) r)))),
      (''/networks/{id}/containers/{projectId}'', keyed cf (\<lambda>r. as_data OfNetwork (net_Disconnect env nm r))),
      (''/containers/health'', keyed cf (\<lambda>r. as_data OfContainer (handle_GetHealth env r))),
      (''/containers/health/reset'', keyed cf (\<lambda>r. as_data OfContainer (handle_ResetCircuit env (cf_handler cf) r)))])"

definition admin_routes :: "'l config \<Rightarrow> (string \<times> route) list" where
  "admin_routes cf = (let env = cf_env cf in
     [(''/admin/stats'', admin cf (\<lambda>r. as_data OfAdmin (Stats env (cf_date cf) r))),
      (''/admin/users'', admin cf (\<lambda>r. as_data OfAdmin (ListUsers env (cf_like cf) r))),
      (''/admin/users/{id}'', admin cf (\<lambda>r. as_data OfAdmin (admin_DeleteUser env r))),
      (''/admin/users/{id}/plan'', admin cf (\<lambda>r. as_data OfAdmin (UpdateUserPlan env (decoded (dec_plan (cf_dec cf)) r))))])"

definition plan_routes :: "'l config \<Rightarrow> (string \<times> route) list" where
  "plan_routes cf = [(''/plans'', sync (\<lambda>r. as_data OfPlans (plans_route (cf_env cf) r)))]"

definition routes :: "'l config \<Rightarrow> (string \<times> route) list" where
  "routes cf = auth_routes cf @ user_routes cf @ container_routes cf @ stream_routes cf @ api_routes cf @ admin_routes cf @ plan_routes cf"

section \<open>Serving a request\<close>

definition not_found :: "server_data response" where
  "not_found = http_Error ''404 page not found'' 404"

definition clock_of :: "'l config \<Rightarrow> running \<Rightarrow> time" where
  "clock_of cf s = env_now (cf_env cf) (hist (fst s))"

text \<open>The middlewares in the order of \<open>router.Use\<close>, outermost first; they run for a matched route only.\<close>

definition middleware_stack :: "'l config \<Rightarrow> string \<Rightarrow> route \<Rightarrow> string request \<Rightarrow> ('l IPRateLimiter \<times> running, server_data response) state" where
  "middleware_stack cf tpl h =
     Recovery (rate_Middleware (clock_of cf) (cf_limiter cf)
       (RequestLogger (prometheusMiddleware (cf_instrument cf) (\<lambda>_. Some tpl) h)))"

definition router :: "'l config \<Rightarrow> string request \<Rightarrow> ('l IPRateLimiter \<times> running, server_data response) state" where
  "router cf r =
     (case cf_mux cf (map fst (routes cf)) (rq_path r) of
        None \<Rightarrow> State_Monad.return not_found
      | Some (tpl, vars) \<Rightarrow>
          (case map_of (routes cf) tpl of
             None \<Rightarrow> State_Monad.return not_found
           | Some h \<Rightarrow> middleware_stack cf tpl h (r\<lparr>rq_vars := vars\<rparr>)))"

definition server :: "'l config \<Rightarrow> string request \<Rightarrow> ('l IPRateLimiter \<times> running, server_data response) state" where
  "server cf = CORSMiddleware (cf_origins cf) (router cf)"

definition start_state :: "world \<Rightarrow> 'l IPRateLimiter \<times> running" where
  "start_state w = (NewIPRateLimiter 10 30, (w, []))"

end
