(* ===== verification/Container_Proofs.thy ===== *)
theory Container_Proofs
  imports Container_Manager
begin

text \<open>
  Properties of the container manager: integrity is kept on every path, a failing method
  commits nothing, and what each method does to the tables, to Docker and to the bus when it
  succeeds.
\<close>

section \<open>Integrity\<close>

lemma keeps_ok_exec: "state_io_rel keeps_ok (execInContainer env cid cmd)"
  unfolding execInContainer_def by (intro ko.io_intros keeps_ok_intros)

lemma keeps_ok_try_install: "state_io_rel keeps_ok (try_install env cid ics)"
  by (induction env cid ics rule: try_install.induct) (auto intro!: ko.io_intros keeps_ok_exec)

lemma keeps_ok_check_quota: "state_io_rel keeps_ok (check_quota env uid)"
  unfolding check_quota_def by (intro ko.io_intros keeps_ok_repo_reads)

lemma sound_reset_health: "sound_on h (reset_health env pid)"
  unfolding reset_health_def
  by (intro sound_on_with_bigint sound_onI) (auto intro!: db_ok_update_containers_simple simp: health_values_def)

lemma sound_docker_nets: "sound_on h (\<lambda>d. with_bigint env pid (\<lambda>n. (Inr (docker_nets_of n d), d)) d)"
  by (intro sound_on_with_bigint sound_on_read) simp

lemmas keeps_ok_manager_parts = keeps_ok_exec keeps_ok_check_quota keeps_ok_repo keeps_ok_repo_reads sound_reset_health
  sound_docker_nets keeps_ok_try_install

lemma keeps_ok_manager:
  "state_io_rel keeps_ok (CreateContainer env cm p img)"
  "state_io_rel keeps_ok (CreateContainerWithPort env cm p img port)"
  "state_io_rel keeps_ok (ExecCommand env pid cmd)"
  "state_io_rel keeps_ok (ExecTerminal env pid)"
  "state_io_rel keeps_ok (StreamLogs env pid)"
  "state_io_rel keeps_ok (StopContainer env pid)"
  "state_io_rel keeps_ok (StartContainer env pid)"
  "state_io_rel keeps_ok (RemoveContainer env pid rf)"
  "state_io_rel keeps_ok (GetContainerInfo env cm pid)"
  "state_io_rel keeps_ok (WriteFileToContainer env pid path content)"
  unfolding CreateContainer_def CreateContainerWithPort_def ExecCommand_def ExecTerminal_def StreamLogs_def
    StopContainer_def StartContainer_def RemoveContainer_def GetContainerInfo_def WriteFileToContainer_def
    installPackages_def pullImageIfNeeded_def removeFolderRollBack_def Let_def
  by (intro ko.io_intros keeps_ok_intros keeps_ok_manager_parts)+

lemma keeps_ok_watcher: "state_io_rel keeps_ok (checkAndStopExpiredContainers env cm)"
  unfolding checkAndStopExpiredContainers_def auto_stop_one_def
  by (intro ko.io_intros keeps_ok_intros keeps_ok_manager keeps_ok_repo)

section \<open>Failing methods commit nothing\<close>

lemma same_db_exec: "state_io_rel same_db (execInContainer env cid cmd)"
  unfolding execInContainer_def by (intro sd.io_intros same_db_call)

lemma same_db_try_install: "state_io_rel same_db (try_install env cid ics)"
  by (induction env cid ics rule: try_install.induct) (auto intro!: sd.io_intros same_db_exec)

lemmas same_db_manager = same_db_exec same_db_try_install same_db_call same_db_repo_reads same_db_repo_Tx

lemma same_db_create_parts:
  "state_io_rel same_db (check_quota env uid)" "state_io_rel same_db (pullImageIfNeeded env img)"
  "state_io_rel same_db (installPackages env cid pkgs)" "state_io_rel same_db (removeFolderRollBack env f)"
  unfolding check_quota_def pullImageIfNeeded_def installPackages_def removeFolderRollBack_def
  by (intro sd.io_intros same_db_manager)+

lemma ok_total: "\<exists>b w'. run_state (ok a) w = (Inr b, w')"
  by (simp add: run_simps)

lemma CreateContainer_fails_clean:
  "run_state (CreateContainer env cm p img) w = (Inl e, w') \<Longrightarrow> same_tables (db w) (db w')"
  unfolding CreateContainer_def Let_def
  by (erule in_tx_fails_clean[rotated])
    (intro sd.fails_intros fails_clean_Commit_then ok_total sd.io_intros same_db_manager same_db_create_parts)+

lemma CreateContainerWithPort_fails_clean:
  "run_state (CreateContainerWithPort env cm p img port) w = (Inl e, w') \<Longrightarrow> same_tables (db w) (db w')"
  unfolding CreateContainerWithPort_def Let_def
  by (erule in_tx_fails_clean[rotated])
    (intro sd.fails_intros fails_clean_Commit_then ok_total sd.io_intros same_db_manager same_db_create_parts)+

lemma StopContainer_fails_clean:
  "run_state (StopContainer env pid) w = (Inl e, w') \<Longrightarrow> same_tables (db w) (db w')"
  unfolding StopContainer_def Let_def
  by (erule in_tx_fails_clean[rotated])
    (intro sd.fails_on_ok fails_clean_Commit sd.io_intros same_db_manager)+

lemma StartContainer_fails_clean:
  "run_state (StartContainer env pid) w = (Inl e, w') \<Longrightarrow> same_tables (db w) (db w')"
  unfolding StartContainer_def Let_def
  by (erule in_tx_fails_clean[rotated])
    (intro sd.fails_on_ok sd.fails_bind fails_clean_Commit_then sd.io_intros same_db_manager; simp add: run_simps)+

lemma RemoveContainer_fails_clean:
  "run_state (RemoveContainer env pid rf) w = (Inl e, w') \<Longrightarrow> same_tables (db w) (db w')"
  unfolding RemoveContainer_def Let_def
  by (erule in_tx_fails_clean[rotated])
    (intro sd.fails_on_ok sd.fails_bind fails_clean_Commit_then sd.io_intros same_db_manager same_db_sql_read;
      simp add: run_simps with_bigint_def split: prod.split option.split)+

section \<open>What a successful statement did\<close>

lemma set_view_same [simp]: "set_view h (view h w) (w\<lparr>hist := x\<rparr>) = w\<lparr>hist := x\<rparr>"
  by (cases h; cases "txn w") (simp_all add: set_view_def view_def)

text \<open>
  Container ids are read back from the text they are printed as: what the code relies on when
  it passes \<open>id::text\<close> of one statement to \<open>$1::bigint\<close> of the next.
\<close>

definition ids_print :: "env \<Rightarrow> database \<Rightarrow> bool" where
  "ids_print env d \<longleftrightarrow> (\<forall>r \<in> set (containers d). int8in env (int8out env (c_id r)) = Some (c_id r))"

text \<open>The row an API project id names.\<close>

definition names_row :: "env \<Rightarrow> database \<Rightarrow> string \<Rightarrow> container_row \<Rightarrow> bool" where
  "names_row env d pid r \<longleftrightarrow> r \<in> set (containers d) \<and> int8in env pid = Some (c_id r)"

lemma select_container_Inr:
  assumes "select_container env pid d = (Inr info, d')"
  obtains r where "names_row env d pid r" and "info = scan_container env r" and "d' = d"
proof -
  from assms obtain n where n: "int8in env pid = Some n" "d' = d"
    "map_sum (\<lambda>e. e) (scan_container env) (first_row (filter (\<lambda>r. c_id r = n) (containers d))) = Inr info"
    by (auto simp: select_container_def with_bigint_def split: option.splits)
  from n(3) obtain r rs where "filter (\<lambda>r. c_id r = n) (containers d) = r # rs" "info = scan_container env r"
    by (auto simp: first_row_def split: list.splits)
  moreover from this(1) have "r \<in> set (containers d) \<and> c_id r = n"
    by (auto simp: filter_eq_Cons_iff)
  ultimately show ?thesis using that[of r] n by (auto simp: names_row_def)
qed

lemma GetContainerByID_Inr:
  assumes "run_state (GetContainerByID env h pid) w = (Inr info, w')"
  obtains r where "names_row env (view h w) pid r" and "info = scan_container env r"
    and "w' = w\<lparr>hist := Sql ''select container'' # hist w\<rparr>"
proof -
  from assms have "run_state (sql env h ''select container'' (\<lambda>_ _. select_container env pid)) w = (Inr info, w')"
    unfolding GetContainerByID_def by (rule map_err_Inr)
  then obtain d where d: "select_container env pid (view h w) = (Inr info, d)"
    "w' = set_view h d (w\<lparr>hist := Sql ''select container'' # hist w\<rparr>)"
    by (auto simp: run_simps split: option.splits prod.splits)
  from d(1) obtain r where "names_row env (view h w) pid r" "info = scan_container env r" "d = view h w"
    by (rule select_container_Inr)
  with d(2) show ?thesis by (intro that) auto
qed

definition store_info :: "ContainerInfo \<Rightarrow> container_row \<Rightarrow> container_row" where
  "store_info info r = r\<lparr>c_container_id := ContainerID info, c_project_name := ProjectName info,
     c_folder_path := FolderPath info, c_port := Port info, c_status := Status info,
     c_started_at := StartedAt info, c_image_name := ImageName info\<rparr>"

lemma UpdateContainer_Inr:
  assumes "run_state (UpdateContainer env Tx pid info) w = (Inr x, w')" and "txn w = Some d"
  obtains n where "int8in env pid = Some n"
    and "w' = w\<lparr>hist := Sql ''update container'' # hist w, txn := Some (update_containers (\<lambda>r. c_id r = n) (store_info info) d)\<rparr>"
  using assms map_err_Inr[of _ "sql env Tx ''update container'' (\<lambda>_ _. update_container env pid info)" w x w']
  unfolding UpdateContainer_def
  by (auto simp: run_simps update_container_def with_bigint_def Let_def store_info_def[abs_def]
      split: option.splits prod.splits if_splits)

lemma update_containers_cong:
  "(\<And>r. r \<in> set (containers d) \<Longrightarrow> P r \<Longrightarrow> f r = g r) \<Longrightarrow> update_containers P f d = update_containers P g d"
  by (simp add: update_containers_def cong: map_cong)

text \<open>Storing back a scanned row with a new status and start time changes only those.\<close>

lemma store_scanned:
  assumes "db_ok d" and "r \<in> set (containers d)"
  shows "update_containers (\<lambda>x. c_id x = c_id r) (store_info ((scan_container env r)\<lparr>Status := st\<rparr>)) d =
         update_containers (\<lambda>x. c_id x = c_id r) (\<lambda>x. x\<lparr>c_status := st\<rparr>) d"
    and "update_containers (\<lambda>x. c_id x = c_id r) (store_info ((scan_container env r)\<lparr>Status := st, StartedAt := t\<rparr>)) d =
         update_containers (\<lambda>x. c_id x = c_id r) (\<lambda>x. x\<lparr>c_status := st, c_started_at := t\<rparr>) d"
proof -
  have uniq: "x = r" if "x \<in> set (containers d)" "c_id x = c_id r" for x
    using container_id_unique[OF assms(1) that(1) assms(2) that(2)] .
  have "store_info ((scan_container env r)\<lparr>Status := st\<rparr>) r = r\<lparr>c_status := st\<rparr>"
    "store_info ((scan_container env r)\<lparr>Status := st, StartedAt := t\<rparr>) r = r\<lparr>c_status := st, c_started_at := t\<rparr>"
    by (cases r; simp add: store_info_def scan_container_def empty_info_def)+
  then show "update_containers (\<lambda>x. c_id x = c_id r) (store_info ((scan_container env r)\<lparr>Status := st\<rparr>)) d =
         update_containers (\<lambda>x. c_id x = c_id r) (\<lambda>x. x\<lparr>c_status := st\<rparr>) d"
    and "update_containers (\<lambda>x. c_id x = c_id r) (store_info ((scan_container env r)\<lparr>Status := st, StartedAt := t\<rparr>)) d =
         update_containers (\<lambda>x. c_id x = c_id r) (\<lambda>x. x\<lparr>c_status := st, c_started_at := t\<rparr>) d"
    by (intro update_containers_cong, metis uniq)+
qed

definition set_status :: "string \<Rightarrow> container_row \<Rightarrow> container_row" where
  "set_status st r = r\<lparr>c_status := st\<rparr>"

lemma set_status_sel [simp]:
  "c_id (set_status st r) = c_id r" "c_container_id (set_status st r) = c_container_id r"
  "c_status (set_status st r) = st" "c_started_at (set_status st r) = c_started_at r"
  by (simp_all add: set_status_def)

lemma scan_container_sel [simp]:
  "ContainerID (scan_container env r) = c_container_id r" "ProjectID (scan_container env r) = int8out env (c_id r)"
  "FolderPath (scan_container env r) = c_folder_path r" "Status (scan_container env r) = c_status r"
  "StartedAt (scan_container env r) = c_started_at r" "UserId (scan_container env r) = []"
  by (simp_all add: scan_container_def empty_info_def)

text \<open>The two steps that stopping, starting and removing begin with.\<close>

lemma lookup_then:
  assumes "run_state (on_ok (map_err g (GetContainerByID env h pid)) k) w = (Inr x, w')"
  obtains r where "names_row env (view h w) pid r"
    and "run_state (k (scan_container env r)) (w\<lparr>hist := Sql ''select container'' # hist w\<rparr>) = (Inr x, w')"
proof -
  from assms obtain info w1 where "run_state (map_err g (GetContainerByID env h pid)) w = (Inr info, w1)"
    and k: "run_state (k info) w1 = (Inr x, w')"
    by (rule on_ok_Inr)
  then obtain r where "names_row env (view h w) pid r" "info = scan_container env r"
    "w1 = w\<lparr>hist := Sql ''select container'' # hist w\<rparr>"
    by (auto dest!: map_err_Inr elim!: GetContainerByID_Inr)
  with k that show ?thesis by blast
qed

lemma update_then:
  assumes run: "run_state (on_ok (UpdateContainer env Tx (int8out env (c_id r)) info) (\<lambda>_. k)) w = (Inr x, w')"
    and "txn w = Some d" and "ids_print env d" and "r \<in> set (containers d)"
  shows "run_state k (w\<lparr>hist := Sql ''update container'' # hist w,
    txn := Some (update_containers (\<lambda>c. c_id c = c_id r) (store_info info) d)\<rparr>) = (Inr x, w')"
proof -
  from run obtain y w1 where "run_state (UpdateContainer env Tx (int8out env (c_id r)) info) w = (Inr y, w1)"
    and k: "run_state k w1 = (Inr x, w')"
    by (rule on_ok_Inr)
  from this(1) assms(2) obtain n where n: "int8in env (int8out env (c_id r)) = Some n"
    "w1 = w\<lparr>hist := Sql ''update container'' # hist w, txn := Some (update_containers (\<lambda>r. c_id r = n) (store_info info) d)\<rparr>"
    by (rule UpdateContainer_Inr)
  with assms(3,4) k show ?thesis by (auto simp: ids_print_def)
qed

section \<open>Stopping\<close>

lemma StopContainer_Inr:
  assumes run: "run_state (StopContainer env pid) w = (Inr x, w')"
    and ok: "db_ok (db w)" and ids: "ids_print env (db w)"
  obtains r where "names_row env (db w) pid r"
    and "db w' = update_containers (\<lambda>c. c_id c = c_id r) (set_status ''stopped'') (db w)"
    and "hist w' = [TxRollback, TxCommit, ContainerStop (c_container_id r) (Some 10),
           Sql ''update container'', Sql ''select container'', TxBegin] @ hist w"
    and "txn w' = None" and "bus w' = bus w"
proof -
  from run obtain w4 where w4: "w' = rollback_world (w4\<lparr>hist := TxRollback # hist w4\<rparr>)"
    and body: "run_state (on_ok (map_err (not_found_for pid) (GetContainerByID env Pool pid)) (\<lambda>info0.
       let info = info0\<lparr>Status := ''stopped''\<rparr> in
       on_ok (UpdateContainer env Tx (ProjectID info) info) (\<lambda>_.
       on_ok (map_err (Wrap ''failed to stop container: '') (call env (ContainerStop (ContainerID info) (Some 10)))) (\<lambda>_.
       Commit env)))) (w\<lparr>hist := TxBegin # hist w, txn := Some (db w)\<rparr>) = (Inr x, w4)"
    unfolding StopContainer_def by (rule in_tx_Inr)
  from body obtain r where r: "names_row env (db w) pid r"
    and upd: "run_state (on_ok (UpdateContainer env Tx (int8out env (c_id r)) ((scan_container env r)\<lparr>Status := ''stopped''\<rparr>)) (\<lambda>_.
       on_ok (map_err (Wrap ''failed to stop container: '') (call env (ContainerStop (c_container_id r) (Some 10)))) (\<lambda>_.
       Commit env))) (w\<lparr>txn := Some (db w), hist := Sql ''select container'' # TxBegin # hist w\<rparr>) = (Inr x, w4)"
    by (rule lookup_then) (simp add: Let_def)
  from r have rin: "r \<in> set (containers (db w))" by (simp add: names_row_def)
  show ?thesis
    using update_then[OF upd _ ids rin] w4 store_scanned(1)[OF ok rin, where env = env and st = "''stopped''"]
    by (auto elim!: on_ok_Inr dest!: success_dests intro!: that[OF r] simp: set_status_def[abs_def])
qed

section \<open>Starting\<close>

definition restart_row :: "time \<Rightarrow> container_row \<Rightarrow> container_row" where
  "restart_row t r = r\<lparr>c_status := ''running'', c_started_at := Some t\<rparr>"

definition clear_health :: "container_row \<Rightarrow> container_row" where
  "clear_health r = r\<lparr>c_health_status := ''none'', c_oom_killed := False, c_circuit_open := False\<rparr>"

lemma reset_health_printed:
  "ids_print env d \<Longrightarrow> r \<in> set (containers d) \<Longrightarrow>
   reset_health env (int8out env (c_id r)) d' = (Inr (), update_containers (\<lambda>c. c_id c = c_id r) clear_health d')"
  by (simp add: reset_health_def with_bigint_def ids_print_def clear_health_def[abs_def])

lemma StartContainer_Inr:
  assumes run: "run_state (StartContainer env pid) w = (Inr x, w')"
    and ok: "db_ok (db w)" and ids: "ids_print env (db w)"
  obtains r t d1 where "names_row env (db w) pid r"
    and "d1 = update_containers (\<lambda>c. c_id c = c_id r) (restart_row t) (db w)"
    and "db w' = d1 \<or> db w' = update_containers (\<lambda>c. c_id c = c_id r) clear_health d1"
    and "(\<forall>h. env_err env h (Sql ''reset health'') = None) \<longrightarrow>
         db w' = update_containers (\<lambda>c. c_id c = c_id r) clear_health d1"
    and "hist w' = [TxRollback, Sql ''reset health'', TxCommit, ContainerStart (c_container_id r),
           Sql ''update container'', Sql ''select container'', TxBegin] @ hist w"
    and "txn w' = None" and "bus w' = bus w"
proof -
  from run obtain w4 where w4: "w' = rollback_world (w4\<lparr>hist := TxRollback # hist w4\<rparr>)"
    and body: "run_state (on_ok (map_err (not_found_for pid) (GetContainerByID env Pool pid)) (\<lambda>info0.
       do { t \<leftarrow> now env;
            let info = info0\<lparr>Status := ''running'', StartedAt := Some t\<rparr>;
            on_ok (UpdateContainer env Tx (ProjectID info) info) (\<lambda>_.
            on_ok (map_err (Wrap ''failed to start container: '') (call env (ContainerStart (ContainerID info)))) (\<lambda>_.
            on_ok (Commit env) (\<lambda>_.
            do { ignoring (sql env Pool ''reset health'' (\<lambda>_ _. reset_health env (ProjectID info))); ok () }))) }))
       (w\<lparr>hist := TxBegin # hist w, txn := Some (db w)\<rparr>) = (Inr x, w4)"
    unfolding StartContainer_def by (rule in_tx_Inr)
  from body obtain r t where r: "names_row env (db w) pid r"
    and upd: "run_state (on_ok (UpdateContainer env Tx (int8out env (c_id r))
         ((scan_container env r)\<lparr>Status := ''running'', StartedAt := Some t\<rparr>)) (\<lambda>_.
       on_ok (map_err (Wrap ''failed to start container: '') (call env (ContainerStart (c_container_id r)))) (\<lambda>_.
       on_ok (Commit env) (\<lambda>_.
       do { ignoring (sql env Pool ''reset health'' (\<lambda>_ _. reset_health env (int8out env (c_id r)))); ok () }))))
       (w\<lparr>txn := Some (db w), hist := Sql ''select container'' # TxBegin # hist w\<rparr>) = (Inr x, w4)"
    by (rule lookup_then) (simp add: Let_def run_bind run_now)
  from r have rin: "r \<in> set (containers (db w))" by (simp add: names_row_def)
  let ?d1 = "update_containers (\<lambda>c. c_id c = c_id r) (restart_row t) (db w)"
  have "run_state (on_ok (map_err (Wrap ''failed to start container: '') (call env (ContainerStart (c_container_id r)))) (\<lambda>_.
       on_ok (Commit env) (\<lambda>_.
       do { ignoring (sql env Pool ''reset health'' (\<lambda>_ _. reset_health env (int8out env (c_id r)))); ok () })))
       (w\<lparr>hist := Sql ''update container'' # Sql ''select container'' # TxBegin # hist w, txn := Some ?d1\<rparr>) = (Inr x, w4)"
    using update_then[OF upd _ ids rin] store_scanned(2)[OF ok rin, where env = env and st = "''running''" and t = "Some t"]
    by (simp add: restart_row_def[abs_def])
  then obtain w3 where w3: "w3 = w\<lparr>hist := TxCommit # ContainerStart (c_container_id r) # Sql ''update container'' #
         Sql ''select container'' # TxBegin # hist w, db := ?d1, txn := None\<rparr>"
    and fin: "run_state (do { ignoring (sql env Pool ''reset health'' (\<lambda>_ _. reset_health env (int8out env (c_id r)))); ok () }) w3
       = (Inr x, w4)"
    by (auto elim!: on_ok_Inr dest!: success_dests)
  from fin w3 have "db w4 = (case env_err env (hist w3) (Sql ''reset health'') of None \<Rightarrow>
      update_containers (\<lambda>c. c_id c = c_id r) clear_health ?d1 | Some _ \<Rightarrow> ?d1)"
    "txn w4 = None" "bus w4 = bus w" "hist w4 = Sql ''reset health'' # hist w3"
    by (auto simp: run_simps reset_health_printed[OF ids rin] split: option.splits)
  with w4 w3 show ?thesis
    by (intro that[OF r refl, of t]) (auto split: option.splits)
qed

section \<open>Removing\<close>

lemma DeleteContainer_Inr:
  assumes "run_state (DeleteContainer env Tx pid) w = (Inr x, w')" and "txn w = Some d"
  obtains n where "int8in env pid = Some n"
    and "w' = w\<lparr>hist := Sql ''delete container'' # hist w, txn := Some (snd (delete_containers (\<lambda>c. c_id c = n) d))\<rparr>"
  using assms unfolding DeleteContainer_def
  by (auto simp: run_simps delete_container_def with_bigint_def split: option.splits prod.splits if_splits)

lemma RemoveContainer_Inr:
  assumes run: "run_state (RemoveContainer env pid rf) w = (Inr x, w')"
  obtains r nets where "names_row env (db w) pid r"
    and "db w' = snd (delete_containers (\<lambda>c. c_id c = c_id r) (db w))"
    and "nets = docker_nets_of (c_id r) (db w) \<or> nets = []"
    and "(\<forall>h. env_err env h (Sql ''select networks of container'') = None) \<longrightarrow> nets = docker_nets_of (c_id r) (db w)"
    and "hist w' = [TxRollback] @ (if rf then [OsRemoveAll (c_folder_path r)] else []) @
           [ContainerRemove (c_container_id r), ContainerStop (c_container_id r) (Some 5)] @
           rev (map (\<lambda>n. NetworkDisconnect n (c_container_id r) True) nets) @
           [TxCommit, Sql ''delete container'', Sql ''select networks of container'', Sql ''select container'', TxBegin] @ hist w"
    and "txn w' = None" and "bus w' = bus w"
proof -
  let ?tail = "\<lambda>info nets. do { for_each nets (\<lambda>netID. ignoring (call env (NetworkDisconnect netID (ContainerID info) True)));
                 call env (ContainerStop (ContainerID info) (Some 5));
                 call env (ContainerRemove (ContainerID info));
                 (if rf then ignoring (call env (OsRemoveAll (FolderPath info))) else State_Monad.return ());
                 ok () }"
  let ?q = "sql env Pool ''select networks of container'' (\<lambda>_ _ d. with_bigint env pid (\<lambda>n. (Inr (docker_nets_of n d), d)) d)"
  from run obtain w4 where w4: "w' = rollback_world (w4\<lparr>hist := TxRollback # hist w4\<rparr>)"
    and body: "run_state (on_ok (map_err (not_found_for pid) (GetContainerByID env Tx pid)) (\<lambda>info.
       do { nets \<leftarrow> ?q;
            let dockerNetIDs = (case nets of Inl _ \<Rightarrow> [] | Inr ns \<Rightarrow> ns);
            on_ok (DeleteContainer env Tx pid) (\<lambda>_. on_ok (Commit env) (\<lambda>_. ?tail info dockerNetIDs)) }))
       (w\<lparr>hist := TxBegin # hist w, txn := Some (db w)\<rparr>) = (Inr x, w4)"
    unfolding RemoveContainer_def by (rule in_tx_Inr)
  let ?w1 = "w\<lparr>txn := Some (db w), hist := Sql ''select container'' # TxBegin # hist w\<rparr>"
  from body obtain r where r: "names_row env (db w) pid r"
    and rest: "run_state (do { nets \<leftarrow> ?q;
            let dockerNetIDs = (case nets of Inl _ \<Rightarrow> [] | Inr ns \<Rightarrow> ns);
            on_ok (DeleteContainer env Tx pid) (\<lambda>_. on_ok (Commit env) (\<lambda>_. ?tail (scan_container env r) dockerNetIDs)) }) ?w1
         = (Inr x, w4)"
    by (rule lookup_then) simp
  from r have pid: "int8in env pid = Some (c_id r)" by (simp add: names_row_def)
  define nets where "nets = (case env_err env (hist ?w1) (Sql ''select networks of container'') of
      None \<Rightarrow> docker_nets_of (c_id r) (db w) | Some _ \<Rightarrow> [])"
  let ?w2 = "w\<lparr>txn := Some (db w), hist := Sql ''select networks of container'' # Sql ''select container'' # TxBegin # hist w\<rparr>"
  have q: "run_state ?q ?w1 = (case env_err env (hist ?w1) (Sql ''select networks of container'') of
      None \<Rightarrow> Inr (docker_nets_of (c_id r) (db w)) | Some e \<Rightarrow> Inl (ErrText e), ?w2)"
    by (simp add: run_simps with_bigint_def pid split: option.split)
  have "run_state (on_ok (DeleteContainer env Tx pid) (\<lambda>_. on_ok (Commit env) (\<lambda>_. ?tail (scan_container env r) nets))) ?w2
         = (Inr x, w4)"
    using rest unfolding run_bind q nets_def by (auto simp: Let_def split: option.splits)
  then obtain y w3 where del: "run_state (DeleteContainer env Tx pid) ?w2 = (Inr y, w3)"
    and fin: "run_state (on_ok (Commit env) (\<lambda>_. ?tail (scan_container env r) nets)) w3 = (Inr x, w4)"
    by (rule on_ok_Inr)
  from del have w3: "w3 = ?w2\<lparr>hist := Sql ''delete container'' # hist ?w2,
      txn := Some (snd (delete_containers (\<lambda>c. c_id c = c_id r) (db w)))\<rparr>"
    by (rule DeleteContainer_Inr[where d = "db w"]) (simp_all add: pid)
  show ?thesis
    using fin w4 w3 by (intro that[OF r, of nets])
      (auto simp: nets_def run_simps run_for_each_calls split: option.splits if_splits)
qed

section \<open>Creating\<close>

lemma just_calls_exec:
  "(\<And>c. P (ExecCreate cid cmd c)) \<Longrightarrow> (\<And>e b. P (ExecAttach e b)) \<Longrightarrow> (\<And>e. P (ExecRead e)) \<Longrightarrow>
   state_io_rel (just_calls P) (execInContainer env cid cmd)"
  unfolding execInContainer_def by (intro jc.io_intros just_calls_intros)

fun is_exec :: "call \<Rightarrow> bool" where
  "is_exec (ExecCreate _ _ _) = True"
| "is_exec (ExecAttach _ _) = True"
| "is_exec (ExecRead _) = True"
| "is_exec _ = False"

fun is_pull :: "call \<Rightarrow> bool" where
  "is_pull (ImageInspect _) = True"
| "is_pull (ImagePull _) = True"
| "is_pull (PullRead _) = True"
| "is_pull _ = False"

lemma just_exec_installPackages: "state_io_rel (just_calls is_exec) (installPackages env cid pkgs)"
proof -
  have "state_io_rel (just_calls is_exec) (try_install env cid ics)" for ics
    by (induction env cid ics rule: try_install.induct) (auto intro!: jc.io_intros just_calls_exec)
  then show ?thesis by (simp add: installPackages_def)
qed

lemma just_pull: "state_io_rel (just_calls is_pull) (pullImageIfNeeded env img)"
  unfolding pullImageIfNeeded_def by (intro jc.io_intros just_calls_intros) simp_all

definition containers_of :: "int \<Rightarrow> database \<Rightarrow> container_row list" where
  "containers_of uid d = filter (\<lambda>c. c_user_id c = uid) (containers d)"

lemma scan_joined_user:
  "\<exists>usr. scan_joined env (map (\<lambda>c. (u, Some c)) cs) s =
     (usr, fst (snd s) @ map (joined_info env u) cs, snd (snd s) \<or> cs \<noteq> [])"
proof (induction cs arbitrary: s)
  case Nil
  then show ?case by (cases s) simp
next
  case (Cons c cs)
  obtain usr acc f where s: "s = (usr, acc, f)" by (cases s)
  let ?s = "(if usr_Id usr = [] then scan_user env u else usr, acc @ [joined_info env u c], True)"
  from Cons[of ?s] show ?case by (simp add: s Let_def)
qed

lemma scan_joined_containers:
  assumes "scan_joined env (join_containers u d) (usr0, [], False) = (usr, cs, found)"
  shows "found" and "length cs = length (containers_of (u_id u) d)"
proof -
  let ?cs = "rev (sort_key c_id (containers_of (u_id u) d))"
  have "found \<and> length cs = length ?cs"
  proof (cases "?cs = []")
    case True
    with assms show ?thesis by (simp add: join_containers_def containers_of_def Let_def)
  next
    case False
    then have "join_containers u d = map (\<lambda>c. (u, Some c)) ?cs"
      by (simp add: join_containers_def containers_of_def split: list.split)
    with assms False scan_joined_user[of env u ?cs "(usr0, [], False)"] show ?thesis by auto
  qed
  then show "found" and "length cs = length (containers_of (u_id u) d)" by simp_all
qed


lemma user_unique:
  "db_ok d \<Longrightarrow> u \<in> set (users d) \<Longrightarrow> filter (\<lambda>x. u_id x = u_id u) (users d) = [u]"
  using db_okD(1) by (auto simp: users_ok_def intro: length_filter_one)

lemma GetContainersForUserByID_Inr:
  assumes "run_state (GetContainersForUserByID env h uid) w = (Inr (usr, cs), w')" and "db_ok (view h w)"
  obtains n u where "int8in env uid = Some n" and "u \<in> set (users (view h w))" and "u_id u = n"
    and "length cs = length (containers_of n (view h w))"
    and "w' = w\<lparr>hist := Sql ''select user with containers'' # hist w\<rparr>"
proof -
  let ?d = "view h w"
  from assms(1) obtain rows usr' where rows: "select_user_containers env uid ?d = (Inr rows, ?d)"
    and scan: "scan_joined env rows (empty_user, [], False) = (usr', cs, True)"
    and w': "w' = w\<lparr>hist := Sql ''select user with containers'' # hist w\<rparr>"
    unfolding GetContainersForUserByID_def
    by (auto simp: run_simps select_user_containers_def with_bigint_def split: option.splits prod.splits if_splits)
  from rows obtain n where n: "int8in env uid = Some n"
    "rows = concat (map (\<lambda>u. join_containers u ?d) (filter (\<lambda>u. u_id u = n) (users ?d)))"
    by (auto simp: select_user_containers_def with_bigint_def split: option.splits)
  from scan n(2) have "filter (\<lambda>u. u_id u = n) (users ?d) \<noteq> []" by auto
  then obtain u where u: "u \<in> set (users ?d)" "u_id u = n"
    by (auto simp: filter_empty_conv)
  with user_unique[OF assms(2) u(1)] n(2) have "rows = join_containers u ?d" by simp
  with scan scan_joined_containers(2) u(2) have "length cs = length (containers_of n ?d)" by blast
  with n(1) u w' show ?thesis by (intro that)
qed

text \<open>The plan row a user id has.\<close>

definition has_plan :: "database \<Rightarrow> int \<Rightarrow> plan_row \<Rightarrow> bool" where
  "has_plan d n p \<longleftrightarrow> p \<in> set (plans d) \<and> (\<exists>u \<in> set (users d). u_id u = n \<and> u_plan_id u = pl_id p)"

lemma GetPlanForUser_Inr:
  assumes "run_state (GetPlanForUser env h uid) w = (Inr plan, w')" and "int8in env uid = Some n"
  obtains p where "has_plan (view h w) n p" and "plan = scan_plan p"
    and "w' = w\<lparr>hist := Sql ''select plan'' # hist w\<rparr>"
proof -
  let ?d = "view h w"
  from map_err_Inr[OF assms(1)[unfolded GetPlanForUser_def]] assms(2)
  obtain p where p: "first_row (plans_of_user n ?d) = Inr p" "plan = scan_plan p"
    and w': "w' = w\<lparr>hist := Sql ''select plan'' # hist w\<rparr>"
    by (auto elim!: sql_Inr dest!: map_sum_InrD simp: with_bigint_def)
  from p(1) have "p \<in> set (plans_of_user n ?d)"
    by (auto simp: first_row_def split: list.splits)
  with p(2) w' show ?thesis by (intro that) (auto simp: plans_of_user_def has_plan_def)
qed

lemma check_quota_Inr:
  assumes "run_state (check_quota env uid) w = (Inr plan, w')" and "txn w = Some d" and "db_ok d"
  obtains n p where "int8in env uid = Some n" and "has_plan d n p" and "plan = scan_plan p"
    and "int (length (containers_of n d)) < pl_max_containers p"
    and "w' = w\<lparr>hist := Sql ''select plan'' # Sql ''select user with containers'' # hist w\<rparr>"
proof -
  from assms(1) obtain usr cs w1 where a: "run_state (GetContainersForUserByID env Tx uid) w = (Inr (usr, cs), w1)"
    and b: "run_state (on_ok (map_err (Wrap ''failed to fetch plan: '') (GetPlanForUser env Tx uid)) (\<lambda>plan.
         if MaxContainers plan \<le> int (length cs) then fail (plan_limit_error plan) else ok plan)) w1 = (Inr plan, w')"
    unfolding check_quota_def by (rule on_ok_Inr) (auto dest: map_err_Inr split: prod.splits)
  from a obtain n where n: "int8in env uid = Some n" "length cs = length (containers_of n d)"
    "w1 = w\<lparr>hist := Sql ''select user with containers'' # hist w\<rparr>"
    by (rule GetContainersForUserByID_Inr) (use assms(2,3) in auto)
  from b have pl: "run_state (GetPlanForUser env Tx uid) w1 = (Inr plan, w')" "\<not> MaxContainers plan \<le> int (length cs)"
    by (auto elim!: on_ok_Inr dest!: map_err_Inr simp: run_fail run_ok split: if_splits)
  from pl(1) n(1) obtain p where "has_plan d n p" "plan = scan_plan p" "w' = w1\<lparr>hist := Sql ''select plan'' # hist w1\<rparr>"
    by (rule GetPlanForUser_Inr) (use assms(2) n(3) in auto)
  with pl(2) n show ?thesis by (intro that) (auto simp: scan_plan_def)
qed


text \<open>The row a creation inserts.\<close>

definition new_row :: "int \<Rightarrow> int \<Rightarrow> ContainerInfo \<Rightarrow> time \<Rightarrow> container_row" where
  "new_row n uid info t =
     \<lparr>c_id = n, c_container_id = ContainerID info, c_project_name = ProjectName info,
      c_folder_path = FolderPath info, c_port = Port info, c_status = Status info,
      c_user_id = uid, c_started_at = StartedAt info, c_image_name = ImageName info,
      c_created_at = t, c_restart_count = 0, c_last_restart_at = None,
      c_health_status = ''none'', c_oom_killed = False, c_circuit_open = False\<rparr>"

definition add_container :: "container_row \<Rightarrow> database \<Rightarrow> database" where
  "add_container r d = d\<lparr>containers_seq := containers_seq d + 1, containers := containers d @ [r]\<rparr>"

lemma repo_CreateContainer_Inr:
  assumes "run_state (repo_CreateContainer env Tx info) w = (Inr pid, w')" and "txn w = Some d"
    and "int8in env (UserId info) = Some uid"
  obtains t where "pid = int8out env (containers_seq d)" and "ContainerID info \<notin> c_container_id ` set (containers d)"
    and "w' = w\<lparr>hist := Sql ''insert container'' # hist w,
           txn := Some (add_container (new_row (containers_seq d) uid info t) d)\<rparr>"
proof -
  from assms(1) obtain d1 where "insert_container env info (env_now env (hist w)) (view Tx w) = (Inr pid, d1)"
    "w' = set_view Tx d1 (w\<lparr>hist := Sql ''insert container'' # hist w\<rparr>)"
    unfolding repo_CreateContainer_def by (rule sql_Inr)
  with assms(2,3) show ?thesis
    by (intro that[of "env_now env (hist w)"])
      (auto simp: insert_container_def add_container_def new_row_def Let_def split: if_splits)
qed

text \<open>The step both methods end with.\<close>

lemma insert_commit_Inr:
  assumes "run_state (on_ok (repo_CreateContainer env Tx info) (\<lambda>pid.
      on_ok (Commit env) (\<lambda>_. ok (info\<lparr>ProjectID := pid\<rparr>)))) w = (Inr x, w')" and "txn w = Some d"
    and "int8in env (UserId info) = Some uid"
  obtains t where "x = info\<lparr>ProjectID := int8out env (containers_seq d)\<rparr>"
    and "ContainerID info \<notin> c_container_id ` set (containers d)"
    and "w' = w\<lparr>hist := TxCommit # Sql ''insert container'' # hist w,
           db := add_container (new_row (containers_seq d) uid info t) d, txn := None\<rparr>"
proof -
  from assms(1) obtain pid w1 where ins: "run_state (repo_CreateContainer env Tx info) w = (Inr pid, w1)"
    and com: "run_state (on_ok (Commit env) (\<lambda>_. ok (info\<lparr>ProjectID := pid\<rparr>))) w1 = (Inr x, w')"
    by (rule on_ok_Inr)
  from ins assms(2,3) obtain t where "pid = int8out env (containers_seq d)"
    "ContainerID info \<notin> c_container_id ` set (containers d)"
    "w1 = w\<lparr>hist := Sql ''insert container'' # hist w,
           txn := Some (add_container (new_row (containers_seq d) uid info t) d)\<rparr>"
    by (rule repo_CreateContainer_Inr)
  with com show ?thesis
    by (intro that[of t]) (auto elim!: on_ok_Inr dest!: success_dests simp: run_ok)
qed


text \<open>What both methods do before they touch Docker's containers.\<close>

lemma create_prefix_Inr:
  assumes run: "run_state (in_tx env (on_ok (check_quota env uid) (\<lambda>plan.
       on_ok (map_err g (pullImageIfNeeded env img)) (\<lambda>_. k plan)))) w = (Inr x, w')"
    and ok: "db_ok (db w)"
  obtains n p pulls w3 where "int8in env uid = Some n" and "has_plan (db w) n p"
    and "int (length (containers_of n (db w))) < pl_max_containers p" and "list_all is_pull pulls"
    and "run_state (k (scan_plan p)) (w\<lparr>txn := Some (db w), hist := pulls @
           [Sql ''select plan'', Sql ''select user with containers'', TxBegin] @ hist w\<rparr>) = (Inr x, w3)"
    and "w' = rollback_world (w3\<lparr>hist := TxRollback # hist w3\<rparr>)"
proof -
  from run obtain w3 where w3: "w' = rollback_world (w3\<lparr>hist := TxRollback # hist w3\<rparr>)"
    and body: "run_state (on_ok (check_quota env uid) (\<lambda>plan. on_ok (map_err g (pullImageIfNeeded env img)) (\<lambda>_. k plan)))
      (w\<lparr>hist := TxBegin # hist w, txn := Some (db w)\<rparr>) = (Inr x, w3)"
    by (rule in_tx_Inr)
  from body obtain plan w1 where q: "run_state (check_quota env uid) (w\<lparr>hist := TxBegin # hist w, txn := Some (db w)\<rparr>) = (Inr plan, w1)"
    and pull: "run_state (on_ok (map_err g (pullImageIfNeeded env img)) (\<lambda>_. k plan)) w1 = (Inr x, w3)"
    by (rule on_ok_Inr)
  from q obtain n p where np: "int8in env uid = Some n" "has_plan (db w) n p" "plan = scan_plan p"
    "int (length (containers_of n (db w))) < pl_max_containers p"
    "w1 = w\<lparr>txn := Some (db w), hist := Sql ''select plan'' # Sql ''select user with containers'' # TxBegin # hist w\<rparr>"
    by (rule check_quota_Inr[where d = "db w"]) (use ok in auto)
  from pull obtain u w2 where pu: "run_state (pullImageIfNeeded env img) w1 = (Inr u, w2)"
    and rest: "run_state (k plan) w2 = (Inr x, w3)"
    by (rule on_ok_Inr) (auto dest: map_err_Inr)
  from just_callsD[OF just_pull pu] obtain pulls where "w2 = w1\<lparr>hist := pulls @ hist w1\<rparr>" "list_all is_pull pulls" .
  with np rest w3 show ?thesis by (intro that[of n p pulls w3]) auto
qed

lemma CreateContainer_Inr:
  assumes run: "run_state (CreateContainer env cm prj img) w = (Inr info, w')" and ok: "db_ok (db w)"
  obtains n p t t' pulls execs h where "int8in env (prj_UserId prj) = Some n" and "has_plan (db w) n p"
    and "int (length (containers_of n (db w))) < pl_max_containers p"
    and "h = OsMkdirAll (project_folder cm prj) # pulls @
           [Sql ''select plan'', Sql ''select user with containers'', TxBegin] @ hist w"
    and "env_err env h (ContainerCreate (container_config_of (scan_plan p) prj img (project_folder cm prj))) = None"
    and "ContainerID info = env_str env h (ContainerCreate (container_config_of (scan_plan p) prj img (project_folder cm prj)))"
    and "info = (running_info prj img (project_folder cm prj) (ContainerID info) [] t)
           \<lparr>ProjectID := int8out env (containers_seq (db w))\<rparr>"
    and "db w' = add_container (new_row (containers_seq (db w)) n info t') (db w)"
    and "list_all is_pull pulls" and "list_all is_exec execs"
    and "hist w' = [TxRollback, TxCommit, Sql ''insert container''] @ execs @
           [ContainerStart (ContainerID info),
            ContainerCreate (container_config_of (scan_plan p) prj img (project_folder cm prj))] @ h"
    and "txn w' = None" and "bus w' = bus w"
proof -
  let ?folder = "project_folder cm prj"
  let ?fin = "\<lambda>info. on_ok (repo_CreateContainer env Tx info) (\<lambda>pid. on_ok (Commit env) (\<lambda>_. ok (info\<lparr>ProjectID := pid\<rparr>)))"
  from run obtain n p pulls w3 where np: "int8in env (prj_UserId prj) = Some n" "has_plan (db w) n p"
      "int (length (containers_of n (db w))) < pl_max_containers p" "list_all is_pull pulls"
    and w': "w' = rollback_world (w3\<lparr>hist := TxRollback # hist w3\<rparr>)"
    and rest: "run_state (on_ok (map_err (Wrap ''failed to create project folder: '') (call env (OsMkdirAll ?folder))) (\<lambda>_.
       defer_on_err (call env (OsRemoveAll ?folder)) (
         on_ok (map_err (Wrap ''failed to create container: '')
                  (call_str env (ContainerCreate (container_config_of (scan_plan p) prj img ?folder)))) (\<lambda>cid.
         defer_on_err (do { call env (ContainerStop cid None); call env (ContainerRemove cid) }) (
           on_ok (map_err (Wrap ''failed to start container: '') (call env (ContainerStart cid))) (\<lambda>_.
           do { installPackages env cid [''tree''];
                t \<leftarrow> now env;
                ?fin (running_info prj img ?folder cid [] t) }))))))
       (w\<lparr>txn := Some (db w), hist := pulls @
           [Sql ''select plan'', Sql ''select user with containers'', TxBegin] @ hist w\<rparr>) = (Inr info, w3)"
    unfolding CreateContainer_def Let_def by (rule create_prefix_Inr[OF _ ok])
  let ?h = "\<lambda>cid. [ContainerStart cid, ContainerCreate (container_config_of (scan_plan p) prj img ?folder),
            OsMkdirAll ?folder] @ pulls @ [Sql ''select plan'', Sql ''select user with containers'', TxBegin] @ hist w"
  let ?start = "OsMkdirAll ?folder # pulls @ [Sql ''select plan'', Sql ''select user with containers'', TxBegin] @ hist w"
  let ?cf = "ContainerCreate (container_config_of (scan_plan p) prj img ?folder)"
  from rest obtain cid where cid: "env_err env ?start ?cf = None" "cid = env_str env ?start ?cf" and inst: "run_state (do { installPackages env cid [''tree''];
                t \<leftarrow> now env; ?fin (running_info prj img ?folder cid [] t) })
       (w\<lparr>txn := Some (db w), hist := ?h cid\<rparr>) = (Inr info, w3)"
    by (auto elim!: on_ok_Inr dest!: success_dests)
  obtain r w4 where ip: "run_state (installPackages env cid [''tree'']) (w\<lparr>txn := Some (db w), hist := ?h cid\<rparr>) = (r, w4)"
    by fastforce
  from just_callsD[OF just_exec_installPackages ip] obtain execs
    where ex: "w4 = w\<lparr>txn := Some (db w), hist := execs @ ?h cid\<rparr>" "list_all is_exec execs" by auto
  let ?i = "running_info prj img ?folder cid [] (env_now env (hist w4))"
  from inst ip have "run_state (?fin ?i) w4 = (Inr info, w3)" by (simp add: run_bind run_now)
  then obtain t' where "info = ?i\<lparr>ProjectID := int8out env (containers_seq (db w))\<rparr>"
    "w3 = w4\<lparr>hist := TxCommit # Sql ''insert container'' # hist w4,
       db := add_container (new_row (containers_seq (db w)) n ?i t') (db w), txn := None\<rparr>"
    by (rule insert_commit_Inr[where d = "db w" and uid = n]) (use np ex in \<open>auto simp: running_info_def\<close>)
  then show ?thesis
    using np w' ex cid by (intro that[of n p ?start pulls _ t' execs]) (auto simp: new_row_def running_info_def)
qed

end
