(* ===== verification/Orphans.thy ===== *)
theory Orphans
  imports Container_Proofs Sample
begin

text \<open>
  Containers at the Docker daemon and folders on the host that no row accounts for. The history
  of calls determines which containers were created and not removed again, so a leak of a
  failing method is visible there.
\<close>

section \<open>What the calls so far have left behind\<close>

fun alive :: "env \<Rightarrow> call list \<Rightarrow> string set" where
  "alive env [] = {}"
| "alive env (ContainerCreate cf # h) =
     (if env_err env h (ContainerCreate cf) = None then insert (env_str env h (ContainerCreate cf)) (alive env h)
      else alive env h)"
| "alive env (ContainerRemove cid # h) =
     (if env_err env h (ContainerRemove cid) = None then alive env h - {cid} else alive env h)"
| "alive env (c # h) = alive env h"

fun made :: "env \<Rightarrow> call list \<Rightarrow> string set" where
  "made env [] = {}"
| "made env (OsMkdirAll f # h) = (if env_err env h (OsMkdirAll f) = None then insert f (made env h) else made env h)"
| "made env (OsRemoveAll f # h) = (if env_err env h (OsRemoveAll f) = None then made env h - {f} else made env h)"
| "made env (c # h) = made env h"

text \<open>Removing never fails: the documented behaviour of \<open>Force: true\<close> and of \<open>os.RemoveAll\<close>.\<close>

definition removals_work :: "env \<Rightarrow> bool" where
  "removals_work env \<longleftrightarrow>
     (\<forall>h cid. env_err env h (ContainerRemove cid) = None) \<and> (\<forall>h f. env_err env h (OsRemoveAll f) = None)"

definition frees :: "env \<Rightarrow> world \<Rightarrow> world \<Rightarrow> bool" where
  "frees env w w' \<longleftrightarrow> alive env (hist w') \<subseteq> alive env (hist w) \<and> made env (hist w') \<subseteq> made env (hist w)"

interpretation fr: effect "frees env" for env
  by unfold_locales (auto simp: frees_def)

fun is_make :: "call \<Rightarrow> bool" where
  "is_make (ContainerCreate _) = True"
| "is_make (OsMkdirAll _) = True"
| "is_make _ = False"

lemma only_calls_frees:
  assumes "only_calls (\<lambda>c. \<not> is_make c) w w'"
  shows "frees env w w'"
proof -
  have shrink: "alive env (cs @ h) \<subseteq> alive env h \<and> made env (cs @ h) \<subseteq> made env h" if "\<forall>c \<in> set cs. \<not> is_make c" for cs h
    using that
  proof (induction cs)
    case Nil
    then show ?case by simp
  next
    case (Cons c cs)
    then show ?case by (cases c) auto
  qed
  from assms obtain cs where "hist w' = cs @ hist w" "\<forall>c \<in> set cs. \<not> is_make c"
    unfolding only_calls_def by blast
  with shrink[of cs "hist w"] show ?thesis by (simp add: frees_def)
qed

lemma frees_io:
  assumes "state_io_rel (only_calls (\<lambda>c. \<not> is_make c)) m"
  shows "state_io_rel (frees env) m"
  by (rule state_io_relI) (blast intro: only_calls_frees state_io_relD[OF assms])

section \<open>The manager's steps that make nothing\<close>

lemma only_calls_exec: "state_io_rel (only_calls (\<lambda>c. \<not> is_make c)) (execInContainer env cid cmd)"
  unfolding execInContainer_def by (intro oc.io_intros only_calls_intros) simp_all

lemma only_calls_try_install: "state_io_rel (only_calls (\<lambda>c. \<not> is_make c)) (try_install env cid ics)"
  by (induction env cid ics rule: try_install.induct) (auto intro!: oc.io_intros only_calls_exec)

lemma only_calls_repo:
  assumes "\<And>tag. P (Sql tag)"
  shows "state_io_rel (only_calls P) (GetContainerByID env h pid)"
    "state_io_rel (only_calls P) (GetContainersForUserByID env h pid)"
    "state_io_rel (only_calls P) (GetPlanForUser env h pid)"
    "state_io_rel (only_calls P) (GetRunningContainersOlderThan env h t)"
    "state_io_rel (only_calls P) (repo_CreateContainer env h info)"
    "state_io_rel (only_calls P) (UpdateContainer env h pid info)"
    "state_io_rel (only_calls P) (DeleteContainer env h pid)"
  unfolding GetContainerByID_def GetContainersForUserByID_def GetPlanForUser_def GetRunningContainersOlderThan_def
    repo_CreateContainer_def UpdateContainer_def DeleteContainer_def
  by (intro oc.io_intros only_calls_intros assms)+

lemma only_calls_create_parts:
  "state_io_rel (only_calls (\<lambda>c. \<not> is_make c)) (check_quota env uid)"
  "state_io_rel (only_calls (\<lambda>c. \<not> is_make c)) (pullImageIfNeeded env img)"
  "state_io_rel (only_calls (\<lambda>c. \<not> is_make c)) (installPackages env cid pkgs)"
  "state_io_rel (only_calls (\<lambda>c. \<not> is_make c)) (removeFolderRollBack env f)"
  unfolding check_quota_def pullImageIfNeeded_def installPackages_def removeFolderRollBack_def
  by (intro oc.io_intros only_calls_intros only_calls_repo only_calls_try_install; simp)+

lemma frees_parts:
  "state_io_rel (frees env') (BeginTx env)" "state_io_rel (frees env') (Commit env)"
  "state_io_rel (frees env') (Rollback env)" "state_io_rel (frees env') (now env)"
  "state_io_rel (frees env') (repo_CreateContainer env h info)"
  "\<not> is_make c \<Longrightarrow> state_io_rel (frees env') (call env c)"
  "\<not> is_make c \<Longrightarrow> state_io_rel (frees env') (call_strs env c)"
  "state_io_rel (frees env') (check_quota env uid)" "state_io_rel (frees env') (pullImageIfNeeded env img)"
  "state_io_rel (frees env') (installPackages env cid pkgs)" "state_io_rel (frees env') (removeFolderRollBack env f)"
  by (rule frees_io, intro only_calls_intros only_calls_repo only_calls_create_parts; simp)+

section \<open>A guarded creation leaves nothing behind when it fails\<close>

lemma guarded_folder:
  assumes "removals_work env" and "fails_within (frees env) m"
  shows "fails_within (frees env)
    (on_ok (map_err g (call env (OsMkdirAll f))) (\<lambda>_. defer_on_err (call env (OsRemoveAll f)) m))"
  using assms unfolding fails_within_def removals_work_def
  by (auto simp: run_simps frees_def split: option.splits prod.splits sum.splits) fastforce+

lemma guarded_container:
  assumes "removals_work env" and "\<And>cid. fails_within (frees env) (m cid)"
  shows "fails_within (frees env)
    (on_ok (map_err g (call_str env (ContainerCreate cf))) (\<lambda>cid.
       defer_on_err (do { call env (ContainerStop cid None); call env (ContainerRemove cid) }) (m cid)))"
  using assms unfolding fails_within_def removals_work_def
  by (auto simp: run_simps frees_def split: option.splits prod.splits sum.splits) fastforce+

lemma CreateContainer_fails_frees:
  assumes "removals_work env"
  shows "fails_within (frees env) (CreateContainer env cm prj img)"
  unfolding CreateContainer_def in_tx_def Let_def
  by (intro fr.fails_on_ok fr.fails_defer_do guarded_folder guarded_container assms fr.io_map_err frees_parts
      fr.fails_bind fr.fails_io fr.io_intros) simp


section \<open>Every container at the daemon has a row\<close>

definition no_orphans :: "env \<Rightarrow> world \<Rightarrow> bool" where
  "no_orphans env w \<longleftrightarrow> alive env (hist w) \<subseteq> c_container_id ` set (containers (db w))"


lemma alive_skip: "\<forall>c \<in> set cs. \<not> is_make c \<and> (\<forall>cid. c \<noteq> ContainerRemove cid) \<Longrightarrow> alive env (cs @ h) = alive env h"
proof (induction cs)
  case Nil
  then show ?case by simp
next
  case (Cons c cs)
  then show ?case by (cases c) auto
qed

lemma is_pull_not_make: "is_pull c \<Longrightarrow> \<not> is_make c \<and> (\<forall>cid. c \<noteq> ContainerRemove cid)"
  by (cases c) auto

lemma is_exec_not_make: "is_exec c \<Longrightarrow> \<not> is_make c \<and> (\<forall>cid. c \<noteq> ContainerRemove cid)"
  by (cases c) auto

text \<open>The daemon after a successful creation has exactly one more container, the one in the new row.\<close>

lemma CreateContainer_alive:
  assumes "run_state (CreateContainer env cm prj img) w = (Inr info, w')" and "db_ok (db w)"
  shows "alive env (hist w') = insert (ContainerID info) (alive env (hist w))"
proof -
  let ?cf = "\<lambda>p. ContainerCreate (container_config_of (scan_plan p) prj img (project_folder cm prj))"
  from assms obtain p pulls execs h where e: "list_all is_pull pulls" "list_all is_exec execs"
    and h: "h = OsMkdirAll (project_folder cm prj) # pulls @
           [Sql ''select plan'', Sql ''select user with containers'', TxBegin] @ hist w"
    and c: "env_err env h (?cf p) = None" "ContainerID info = env_str env h (?cf p)"
    and h': "hist w' = [TxRollback, TxCommit, Sql ''insert container''] @ execs @ [ContainerStart (ContainerID info), ?cf p] @ h"
    by (rule CreateContainer_Inr)
  have "alive env h = alive env (hist w)"
    using e(1) alive_skip[of pulls env] unfolding h by (simp add: list_all_iff is_pull_not_make)
  moreover have "alive env (hist w') = insert (ContainerID info) (alive env h)"
    using e(2) c alive_skip[of execs env] unfolding h' by (simp add: list_all_iff is_exec_not_make)
  ultimately show ?thesis by simp
qed


lemma frees_manager:
  "state_io_rel (frees env') (StopContainer env pid)" "state_io_rel (frees env') (StartContainer env pid)"
  "state_io_rel (frees env') (RemoveContainer env pid rf)"
  unfolding StopContainer_def StartContainer_def RemoveContainer_def in_tx_def Let_def
  by (rule frees_io, intro oc.io_intros only_calls_intros only_calls_repo; simp)+

lemma failed_no_orphans:
  assumes "no_orphans env w" and "frees env w w'" and "same_tables (db w) (db w')"
  shows "no_orphans env w'"
proof -
  have "containers (db w') = containers (db w)"
    using assms(3) by (metis (no_types) same_tables_def database.select_convs(2) database.surjective database.update_convs(12,13))
  with assms(1,2) show ?thesis by (auto simp: no_orphans_def frees_def)
qed

lemma updated_no_orphans:
  assumes "no_orphans env w" and "frees env w w'"
    and "map c_container_id (containers (db w')) = map c_container_id (containers (db w))"
  shows "no_orphans env w'"
  using assms unfolding no_orphans_def frees_def by (metis list.set_map subset_trans)

lemma removed_no_orphans:
  assumes "no_orphans env w" and "frees env w w'" and "db_ok (db w)" and "r \<in> set (containers (db w))"
    and "db w' = snd (delete_containers (\<lambda>c. c_id c = c_id r) (db w))" and "c_container_id r \<notin> alive env (hist w')"
  shows "no_orphans env w'"
  unfolding no_orphans_def
proof
  fix x
  assume x: "x \<in> alive env (hist w')"
  with assms(1,2) obtain c where c: "c \<in> set (containers (db w))" "x = c_container_id c"
    by (auto simp: no_orphans_def frees_def)
  with x assms(6) have "c \<noteq> r" by auto
  with c assms(3,4) have "c_id c \<noteq> c_id r" by (auto dest: container_id_unique)
  with c show "x \<in> c_container_id ` set (containers (db w'))" by (auto simp: assms(5))
qed

datatype manager_op = OpCreate Project string | OpStop string | OpStart string | OpRemove string bool

fun manager_step :: "env \<Rightarrow> ContainerManager \<Rightarrow> manager_op \<Rightarrow> world \<Rightarrow> world" where
  "manager_step env cm (OpCreate prj img) w = snd (run_state (CreateContainer env cm prj img) w)"
| "manager_step env cm (OpStop pid) w = snd (run_state (StopContainer env pid) w)"
| "manager_step env cm (OpStart pid) w = snd (run_state (StartContainer env pid) w)"
| "manager_step env cm (OpRemove pid rf) w = snd (run_state (RemoveContainer env pid rf) w)"

lemma update_keeps_container_ids:
  "(\<And>r. c_container_id (f r) = c_container_id r) \<Longrightarrow>
   map c_container_id (containers (update_containers P f d)) = map c_container_id (containers d)"
  by (simp add: map_map_if_same)

lemma create_no_orphans:
  assumes "removals_work env" and "world_ok w" and "no_orphans env w"
    and run: "run_state (CreateContainer env cm prj img) w = (res, w')"
  shows "no_orphans env w'"
proof (cases res)
  case (Inl e)
  with run CreateContainer_fails_frees[OF assms(1)] have "frees env w w'" by (auto simp: fails_within_def)
  with Inl run assms(3) CreateContainer_fails_clean show ?thesis by (blast intro: failed_no_orphans)
next
  case (Inr info)
  from assms(2) have ok: "db_ok (db w)" by (simp add: world_ok_def)
  from CreateContainer_alive[OF run[unfolded Inr] ok] CreateContainer_Inr[OF run[unfolded Inr] ok]
  obtain n t' where "alive env (hist w') = insert (ContainerID info) (alive env (hist w))"
    "db w' = add_container (new_row (containers_seq (db w)) n info t') (db w)" by metis
  with assms(3) show ?thesis by (auto simp: no_orphans_def add_container_def new_row_def)
qed

lemma stop_no_orphans:
  assumes "db_ok (db w)" and "ids_print env (db w)" and "no_orphans env w"
    and run: "run_state (StopContainer env pid) w = (res, w')"
  shows "no_orphans env w'"
proof -
  have fr: "frees env w w'" using frees_manager(1) run by (rule state_io_relD)
  show ?thesis
  proof (cases res)
    case (Inl e)
    with fr run assms(3) StopContainer_fails_clean show ?thesis by (blast intro: failed_no_orphans)
  next
    case (Inr u)
    from run[unfolded Inr] assms(1,2) obtain r where "names_row env (db w) pid r"
      "db w' = update_containers (\<lambda>c. c_id c = c_id r) (set_status ''stopped'') (db w)"
      by (rule StopContainer_Inr)
    then have "map c_container_id (containers (db w')) = map c_container_id (containers (db w))"
      by (metis update_keeps_container_ids set_status_sel)
    with fr assms(3) show ?thesis by (blast intro: updated_no_orphans)
  qed
qed

lemma start_no_orphans:
  assumes "db_ok (db w)" and "ids_print env (db w)" and "no_orphans env w"
    and run: "run_state (StartContainer env pid) w = (res, w')"
  shows "no_orphans env w'"
proof -
  have fr: "frees env w w'" using frees_manager(2) run by (rule state_io_relD)
  show ?thesis
  proof (cases res)
    case (Inl e)
    with fr run assms(3) StartContainer_fails_clean show ?thesis by (blast intro: failed_no_orphans)
  next
    case (Inr u)
    from run[unfolded Inr] assms(1,2) obtain r t d1 where "names_row env (db w) pid r"
      and d1: "d1 = update_containers (\<lambda>c. c_id c = c_id r) (restart_row t) (db w)"
      "db w' = d1 \<or> db w' = update_containers (\<lambda>c. c_id c = c_id r) clear_health d1"
      by (rule StartContainer_Inr)
    have "map c_container_id (containers d1) = map c_container_id (containers (db w))"
      unfolding d1(1) by (rule update_keeps_container_ids) (simp add: restart_row_def)
    moreover have "map c_container_id (containers (update_containers (\<lambda>c. c_id c = c_id r) clear_health d1)) =
        map c_container_id (containers d1)"
      by (rule update_keeps_container_ids) (simp add: clear_health_def)
    ultimately have "map c_container_id (containers (db w')) = map c_container_id (containers (db w))"
      using d1(2) by metis
    with fr assms(3) show ?thesis by (blast intro: updated_no_orphans)
  qed
qed

lemma remove_no_orphans:
  assumes "removals_work env" and "db_ok (db w)" and "no_orphans env w"
    and run: "run_state (RemoveContainer env pid rf) w = (res, w')"
  shows "no_orphans env w'"
proof -
  have fr: "frees env w w'" using frees_manager(3) run by (rule state_io_relD)
  show ?thesis
  proof (cases res)
    case (Inl e)
    with fr run assms(3) RemoveContainer_fails_clean show ?thesis by (blast intro: failed_no_orphans)
  next
    case (Inr u)
    from run[unfolded Inr] obtain r nets where r: "names_row env (db w) pid r"
      "db w' = snd (delete_containers (\<lambda>c. c_id c = c_id r) (db w))"
      and h: "hist w' = [TxRollback] @ (if rf then [OsRemoveAll (c_folder_path r)] else []) @
           [ContainerRemove (c_container_id r), ContainerStop (c_container_id r) (Some 5)] @
           rev (map (\<lambda>n. NetworkDisconnect n (c_container_id r) True) nets) @
           [TxCommit, Sql ''delete container'', Sql ''select networks of container'', Sql ''select container'', TxBegin] @ hist w"
      by (rule RemoveContainer_Inr)
    from assms(1) have "c_container_id r \<notin> alive env (hist w')"
      by (simp add: h removals_work_def)
    with fr assms(2,3) r show ?thesis by (auto simp: names_row_def intro: removed_no_orphans)
  qed
qed




section \<open>Creating with a port can leave an orphan\<close>

text \<open>An environment in which everything works but the inspection of a container.\<close>

definition leak_env :: env where
  "leak_env = sample_env\<lparr>env_err := (\<lambda>h c. case c of ContainerInspect _ _ \<Rightarrow> Some ''x'' | _ \<Rightarrow> None)\<rparr>"

definition leak_cm :: ContainerManager where
  "leak_cm = \<lparr>basePath = ''/data'', autoStopTimeout = 60\<rparr>"

definition leak_project :: Project where
  "leak_project = \<lparr>prj_ID = ''p'', prj_Name = ''n'', prj_UserId = ''1''\<rparr>"

lemma leak_env_sel:
  "int8in leak_env = int8in sample_env" "int8out leak_env = int8out sample_env"
  "env_err leak_env h c = (case c of ContainerInspect _ _ \<Rightarrow> Some ''x'' | _ \<Rightarrow> None)"
  "env_str leak_env h c = ''x'' @ nat_str (length h)"
  by (simp_all add: leak_env_def sample_env_def)

lemma leak_quota:
  "run_state (check_quota leak_env ''1'') (sample_world\<lparr>hist := [TxBegin], txn := Some sample_db\<rparr>) =
   (Inr (scan_plan sample_plan),
    sample_world\<lparr>hist := [Sql ''select plan'', Sql ''select user with containers'', TxBegin], txn := Some sample_db\<rparr>)"
  by (simp add: check_quota_def GetContainersForUserByID_def select_user_containers_def with_bigint_def sample_int8in
      leak_env_sel run_simps sample_db_def sample_user_def sample_container_def sample_plan_def join_containers_def Let_def
      GetPlanForUser_def plans_of_user_def first_row_def scan_plan_def set_view_def)

lemma leak_run:
  "alive leak_env (hist (snd (run_state (CreateContainerWithPort leak_env leak_cm leak_project ''alpine'' ''80'') sample_world)))
     = {''x5''}"
  "containers (db (snd (run_state (CreateContainerWithPort leak_env leak_cm leak_project ''alpine'' ''80'') sample_world)))
     = [sample_container]"
  by (simp_all add: CreateContainerWithPort_def leak_project_def run_in_tx leak_env_sel run_on_ok leak_quota Let_def
      pullImageIfNeeded_def run_call run_call_str run_call_strs run_map_err run_bind run_ok run_defer_on_err
      installPackages_def installCmds_def execInContainer_def nat_str.simps digit_def
      char_of_def bit_0 rollback_world_def sample_containers)

text \<open>
  Creating with a port does not keep it: when the inspection that follows the start fails,
  the method returns its error with the container still at the daemon and no row for it.
\<close>

theorem CreateContainerWithPort_leaks:
  "\<exists>env cm prj w. removals_work env \<and> world_ok w \<and> ids_print env (db w) \<and> no_orphans env w \<and>
     \<not> no_orphans env (snd (run_state (CreateContainerWithPort env cm prj ''alpine'' ''80'') w))"
proof (intro exI conjI)
  show "removals_work leak_env" by (simp add: removals_work_def leak_env_sel)
  show "ids_print leak_env (db sample_world)" by (simp add: ids_print_def leak_env_sel sample_ids)
  show "no_orphans leak_env sample_world" by (simp add: no_orphans_def)
  show "\<not> no_orphans leak_env
      (snd (run_state (CreateContainerWithPort leak_env leak_cm leak_project ''alpine'' ''80'') sample_world))"
    by (simp add: no_orphans_def leak_run sample_container_def)
qed (rule sample_world_ok)

end
