(* ===== verification/Auto_Stop.thy ===== *)
theory Auto_Stop
  imports Container_Proofs Sample
begin

text \<open>
  The sweep of the auto-stop watcher, \<open>checkAndStopExpiredContainers\<close> of
  \<open>service/hostContainerService.go\<close>: which rows it stops, which Docker containers it stops, and
  whom it tells.
\<close>

section \<open>Stopping succeeds when nothing fails\<close>

definition no_faults :: "env \<Rightarrow> bool" where
  "no_faults env \<longleftrightarrow> (\<forall>h c. env_err env h c = None)"

lemma updated_row:
  "r \<in> set (containers d) \<Longrightarrow> (if P r then f r else r) \<in> set (containers (update_containers P f d))"
  unfolding update_containers_sel set_map by (erule imageI)

lemma store_info_id [simp]: "c_id (store_info i r) = c_id r"
  by (simp add: store_info_def)

lemma select_printed:
  assumes "db_ok d" and "ids_print env d" and "r \<in> set (containers d)"
  shows "select_container env (int8out env (c_id r)) d = (Inr (scan_container env r), d)"
  using assms containers_with_id[OF assms(1,3)]
  by (simp add: select_container_def with_bigint_def ids_print_def first_row_def)

lemma update_container_store:
  "update_container env pid info d =
     with_bigint env pid (\<lambda>n.
       if \<exists>r \<in> set (containers d). c_id r \<noteq> n \<and> c_container_id r = ContainerID info \<and>
            (\<exists>r' \<in> set (containers d). c_id r' = n)
       then (Inl (sql_violation ''containers_container_id_key''), d)
       else (map_sum (\<lambda>e. e) (scan_container env) (first_row (filter (\<lambda>r. c_id r = n)
               (containers (update_containers (\<lambda>r. c_id r = n) (store_info info) d)))),
             update_containers (\<lambda>r. c_id r = n) (store_info info) d)) d"
proof -
  have "store_info info = (\<lambda>r. r\<lparr>c_container_id := ContainerID info, c_project_name := ProjectName info,
      c_folder_path := FolderPath info, c_port := Port info, c_status := Status info,
      c_started_at := StartedAt info, c_image_name := ImageName info\<rparr>)"
    by (simp add: fun_eq_iff store_info_def)
  then show ?thesis by (simp only: update_container_def Let_def)
qed

lemma update_scanned_succeeds:
  assumes ok: "db_ok d" and "ids_print env d" and rin: "r \<in> set (containers d)"
    and cid: "ContainerID info = c_container_id r"
  shows "\<exists>i d'. update_container env (int8out env (c_id r)) info d = (Inr i, d')"
proof -
  have other: "c_id c = c_id r" if "c \<in> set (containers d)" "c_container_id c = c_container_id r" for c
    using that rin db_okD(2)[OF ok] by (auto simp: containers_ok_def distinct_map dest: inj_onD)
  have "filter (\<lambda>c. c_id c = c_id r) (containers (update_containers (\<lambda>c. c_id c = c_id r) (store_info info) d)) \<noteq> []"
    unfolding filter_empty_conv
    using updated_row[OF rin, of "\<lambda>c. c_id c = c_id r" "store_info info"] store_info_id[of info r]
    by (metis (mono_tags, lifting))
  then obtain x xs where "filter (\<lambda>c. c_id c = c_id r) (containers (update_containers (\<lambda>c. c_id c = c_id r) (store_info info) d)) = x # xs"
    by (meson neq_Nil_conv)
  moreover have "\<not> (\<exists>c \<in> set (containers d). c_id c \<noteq> c_id r \<and> c_container_id c = ContainerID info \<and>
      (\<exists>r' \<in> set (containers d). c_id r' = c_id r))"
    using other cid by auto
  ultimately show ?thesis
    using assms(2) rin unfolding update_container_store
    by (simp add: with_bigint_def ids_print_def first_row_def del: update_containers_sel)
qed

lemma StopContainer_succeeds:
  assumes nf: "no_faults env" and ok: "db_ok (db w)" and ids: "ids_print env (db w)" and rin: "r \<in> set (containers (db w))"
  shows "\<exists>w'. run_state (StopContainer env (int8out env (c_id r))) w = (Inr (), w')"
proof -
  obtain i d' where "update_container env (int8out env (c_id r)) ((scan_container env r)\<lparr>Status := ''stopped''\<rparr>) (db w) = (Inr i, d')"
    using update_scanned_succeeds[OF ok ids rin, of "(scan_container env r)\<lparr>Status := ''stopped''\<rparr>"] by auto
  with nf select_printed[OF ok ids rin] show ?thesis
    by (simp add: StopContainer_def run_simps GetContainerByID_def UpdateContainer_def no_faults_def Let_def)
qed

lemma StartContainer_succeeds:
  assumes nf: "no_faults env" and ok: "db_ok (db w)" and ids: "ids_print env (db w)" and rin: "r \<in> set (containers (db w))"
  shows "\<exists>w'. run_state (StartContainer env (int8out env (c_id r))) w = (Inr (), w')"
proof -
  let ?t = "env_now env (Sql ''select container'' # TxBegin # hist w)"
  obtain i d' where "update_container env (int8out env (c_id r))
      ((scan_container env r)\<lparr>Status := ''running'', StartedAt := Some ?t\<rparr>) (db w) = (Inr i, d')"
    using update_scanned_succeeds[OF ok ids rin, of "(scan_container env r)\<lparr>Status := ''running'', StartedAt := Some ?t\<rparr>"] by auto
  with nf select_printed[OF ok ids rin] show ?thesis
    by (simp add: StartContainer_def run_simps GetContainerByID_def UpdateContainer_def no_faults_def Let_def)
qed

section \<open>The sweep\<close>

definition expired :: "time \<Rightarrow> container_row \<Rightarrow> bool" where
  "expired cutoff r \<longleftrightarrow> c_status r = ''running'' \<and> (case c_started_at r of None \<Rightarrow> False | Some t \<Rightarrow> t < cutoff)"

definition stop_rows :: "int set \<Rightarrow> database \<Rightarrow> database" where
  "stop_rows S d = update_containers (\<lambda>c. c_id c \<in> S) (set_status ''stopped'') d"

fun is_stop :: "call \<Rightarrow> bool" where
  "is_stop (ContainerStop _ _) = True"
| "is_stop _ = False"

definition stop_call :: "container_row \<Rightarrow> call" where
  "stop_call r = ContainerStop (c_container_id r) (Some 10)"

lemma stop_rows_one:
  "update_containers (\<lambda>c. c_id c = i) (set_status ''stopped'') (stop_rows S d) = stop_rows (insert i S) d"
  by (simp add: stop_rows_def update_containers_def set_status_def)

lemma stop_rows_ok: "db_ok d \<Longrightarrow> db_ok (stop_rows S d)"
  unfolding stop_rows_def by (rule db_ok_update_containers_simple) (simp_all add: set_status_def)

lemma stop_rows_ids: "ids_print env d \<Longrightarrow> ids_print env (stop_rows S d)"
  by (auto simp: ids_print_def stop_rows_def)

lemma stop_rows_row: "r \<in> set (containers d) \<Longrightarrow>
  \<exists>x \<in> set (containers (stop_rows S d)). c_id x = c_id r \<and> c_container_id x = c_container_id r"
  unfolding stop_rows_def
  by (drule updated_row[of r d "\<lambda>c. c_id c \<in> S" "set_status ''stopped''"], erule rev_bexI) simp

lemma auto_stop_one_step:
  assumes "no_faults env" and "db_ok d" and "ids_print env d" and "r \<in> set (containers d)" and "db w = stop_rows S d"
  obtains w' where "run_state (auto_stop_one env (scan_container env r)) w = ((), w')"
    and "db w' = stop_rows (insert (c_id r) S) d" and "filter is_stop (hist w') = stop_call r # filter is_stop (hist w)"
proof -
  note ok = stop_rows_ok[OF assms(2), of S, folded assms(5)] and ids = stop_rows_ids[OF assms(3), of S, folded assms(5)]
  from stop_rows_row[OF assms(4), of S] obtain x where x: "x \<in> set (containers (db w))" "c_id x = c_id r"
    "c_container_id x = c_container_id r"
    by (auto simp: assms(5))
  from StopContainer_succeeds[OF assms(1) ok ids x(1)] obtain w1
    where run: "run_state (StopContainer env (int8out env (c_id r))) w = (Inr (), w1)" by (auto simp: x(2))
  from run ok ids obtain y where y: "names_row env (db w) (int8out env (c_id r)) y"
    and d1: "db w1 = update_containers (\<lambda>c. c_id c = c_id y) (set_status ''stopped'') (db w)"
    and h1: "hist w1 = [TxRollback, TxCommit, ContainerStop (c_container_id y) (Some 10),
           Sql ''update container'', Sql ''select container'', TxBegin] @ hist w"
    by (rule StopContainer_Inr)
  from ids x have "int8in env (int8out env (c_id r)) = Some (c_id r)" by (auto simp: ids_print_def)
  with y x have "y = x" using container_id_unique[OF ok] by (auto simp: names_row_def)
  let ?n = "auto_stop_notification (scan_container env r) (env_now env (hist w1))"
  let ?w2 = "snd (run_state (publish [] ?n) w1)"
  have "run_state (auto_stop_one env (scan_container env r)) w = ((), ?w2)"
    by (simp add: auto_stop_one_def run_bind run_now run run_publish)
  moreover have "db ?w2 = db w1" "hist ?w2 = hist w1"
    by (simp_all add: run_publish split: option.split)
  ultimately show ?thesis
    using that[of ?w2] d1 h1 x \<open>y = x\<close> by (simp add: assms(5) stop_rows_one stop_call_def)
qed

lemma sweep_rows:
  assumes "no_faults env" and "db_ok d" and "ids_print env d" and "set rs \<subseteq> set (containers d)" and "db w = stop_rows S d"
  shows "\<exists>w'. run_state (for_each (map (scan_container env) rs) (auto_stop_one env)) w = ((), w') \<and>
    db w' = stop_rows (c_id ` set rs \<union> S) d \<and> filter is_stop (hist w') = rev (map stop_call rs) @ filter is_stop (hist w)"
  using assms(4,5)
proof (induction rs arbitrary: w S)
  case Nil
  then show ?case by (simp add: run_simps)
next
  case (Cons r rs)
  from Cons.prems have "r \<in> set (containers d)" by simp
  from auto_stop_one_step[OF assms(1-3) this Cons.prems(2)] obtain w1
    where w1: "run_state (auto_stop_one env (scan_container env r)) w = ((), w1)"
      "db w1 = stop_rows (insert (c_id r) S) d" "filter is_stop (hist w1) = stop_call r # filter is_stop (hist w)" .
  from Cons.IH[OF _ w1(2)] Cons.prems(1) w1 show ?case by (auto simp: run_for_each_Cons)
qed

lemma stop_rows_expired:
  assumes "db_ok d"
  shows "stop_rows (c_id ` set (filter (expired cutoff) (containers d))) d =
    update_containers (expired cutoff) (set_status ''stopped'') d"
proof -
  have "c_id c \<in> c_id ` set (filter (expired cutoff) (containers d)) \<longleftrightarrow> expired cutoff c" if "c \<in> set (containers d)" for c
    using that container_id_unique[OF assms] by auto
  then show ?thesis by (simp add: stop_rows_def update_containers_def cong: map_cong)
qed

lemma sweep_run:
  assumes "no_faults env"
  shows "run_state (checkAndStopExpiredContainers env cm) w =
    run_state (for_each (map (scan_container env) (filter (expired (env_now env (hist w) - autoStopTimeout cm)) (containers (db w))))
      (auto_stop_one env)) (w\<lparr>hist := Sql ''select running'' # hist w\<rparr>)"
  using assms
  by (simp add: checkAndStopExpiredContainers_def GetRunningContainersOlderThan_def run_bind run_now run_sql no_faults_def
      select_running_before_def expired_def[abs_def])

text \<open>
  C29. A sweep of the watcher in which no call fails stops exactly the containers that are running
  and were started before the cut-off: their rows become stopped and all other rows and tables
  stay as they are, and the Docker containers stopped are exactly theirs, in the order of the table.
\<close>

theorem sweep_stops_exactly_the_expired:
  assumes "no_faults env" and "db_ok (db w)" and "ids_print env (db w)"
    and "cutoff = env_now env (hist w) - autoStopTimeout cm"
    and "w' = snd (run_state (checkAndStopExpiredContainers env cm) w)"
  shows "db w' = update_containers (expired cutoff) (set_status ''stopped'') (db w) \<and>
    filter is_stop (hist w') = rev (map stop_call (filter (expired cutoff) (containers (db w)))) @ filter is_stop (hist w)"
proof -
  let ?rs = "filter (expired cutoff) (containers (db w))"
  have "db (w\<lparr>hist := Sql ''select running'' # hist w\<rparr>) = stop_rows {} (db w)"
    by (simp add: stop_rows_def update_containers_def)
  from sweep_rows[OF assms(1-3) _ this, of ?rs] show ?thesis
    unfolding assms(5) sweep_run[OF assms(1)] assms(4)[symmetric]
    using stop_rows_expired[OF assms(2), of cutoff] by auto
qed

theorem sweep_stops_exactly_the_expired_witness:
  "db (snd (run_state (checkAndStopExpiredContainers sample_env \<lparr>basePath = ''/data'', autoStopTimeout = 60\<rparr>) sample_world)) =
     update_containers (expired 9940) (set_status ''stopped'') sample_db"
  using sweep_stops_exactly_the_expired[of sample_env sample_world 9940 "\<lparr>basePath = ''/data'', autoStopTimeout = 60\<rparr>", OF _ _ _ _ refl]
  by (simp add: no_faults_def sample_db_ok ids_print_def sample_ids) (simp add: sample_env_def)

section \<open>Who is told\<close>

definition quiet :: "world \<Rightarrow> world \<Rightarrow> bool" where
  "quiet w w' \<longleftrightarrow> (subscribers (bus w) [] = [] \<longrightarrow> bus w' = bus w)"

interpretation qu: effect quiet
  by unfold_locales (auto simp: quiet_def)

lemma quiet_publish: "state_io_rel quiet (publish [] n)"
  by (rule state_io_relI) (auto simp: quiet_def run_publish Publish_def)

lemma quiet_parts:
  "state_io_rel quiet (call env c)" "state_io_rel quiet (sql env h tag f)" "state_io_rel quiet (now env)"
  "state_io_rel quiet (BeginTx env)" "state_io_rel quiet (Commit env)" "state_io_rel quiet (Rollback env)"
  by (rule state_io_relI, auto simp: quiet_def run_simps split: option.splits prod.splits)+

lemma quiet_Stop: "state_io_rel quiet (StopContainer env pid)"
  unfolding StopContainer_def in_tx_def GetContainerByID_def UpdateContainer_def Let_def
  by (intro qu.io_intros quiet_parts)

lemma quiet_sweep_rows:
  assumes "\<forall>c \<in> set cs. UserId c = []"
  shows "state_io_rel quiet (for_each cs (auto_stop_one env))"
  using assms
proof (induction cs)
  case Nil
  then show ?case by (simp add: qu.io_return)
next
  case (Cons c cs)
  then have "state_io_rel quiet (auto_stop_one env c)"
    unfolding auto_stop_one_def by (auto intro!: qu.io_intros quiet_parts quiet_publish quiet_Stop)
  with Cons show ?case by (auto intro: qu.io_bind)
qed

text \<open>
  The rows the sweep reads carry no user id, so its notifications go to the user with the
  empty id: when nobody is subscribed under that id the sweep leaves the bus, and with it
  every connected client's channel, as it was, whatever it stopped.
\<close>

theorem sweep_tells_no_user:
  assumes "subscribers (bus w) [] = []"
  shows "bus (snd (run_state (checkAndStopExpiredContainers env cm) w)) = bus w"
proof -
  let ?g = "GetRunningContainersOlderThan env Pool (autoStopTimeout cm)"
  obtain r w1 where r: "run_state ?g w = (r, w1)" by fastforce
  have "state_io_rel quiet ?g"
    unfolding GetRunningContainersOlderThan_def by (intro qu.io_intros quiet_parts)
  with r assms have b: "bus w1 = bus w" by (auto dest: state_io_relD simp: quiet_def)
  show ?thesis
  proof (cases r)
    case (Inl e)
    with r b show ?thesis by (simp add: checkAndStopExpiredContainers_def run_bind)
  next
    case (Inr cs)
    with r have "\<forall>c \<in> set cs. UserId c = []"
      by (auto simp: GetRunningContainersOlderThan_def run_simps select_running_before_def split: option.splits)
    from state_io_relD[OF quiet_sweep_rows[OF this] prod.collapse[symmetric]] b assms
    have "bus (snd (run_state (for_each cs (auto_stop_one env)) w1)) = bus w" by (auto simp: quiet_def)
    with r Inr show ?thesis by (simp add: checkAndStopExpiredContainers_def run_bind)
  qed
qed

theorem sweep_tells_no_user_witness:
  "bus (snd (run_state (checkAndStopExpiredContainers sample_env \<lparr>basePath = ''/data'', autoStopTimeout = 60\<rparr>)
     (sample_world\<lparr>bus := snd (Subscribe ''1'' GlobalBus)\<rparr>))) = snd (Subscribe ''1'' GlobalBus)"
  using sweep_tells_no_user[of "sample_world\<lparr>bus := snd (Subscribe ''1'' GlobalBus)\<rparr>"]
  by (simp add: Subscribe_def GlobalBus_def Let_def)

end
