(* ===== verification/Container_Properties.thy ===== *)
theory Container_Properties
  imports Orphans Auto_Stop
begin

text \<open>
  The properties of the container manager's methods one by one: what a successful creation, stop,
  start and removal did to the tables and in which order it called Docker and committed, and
  that a failing method committed nothing.
\<close>

lemma containers_of_add:
  "c_user_id r = n \<Longrightarrow> containers_of n (add_container r d) = containers_of n d @ [r]"
  by (simp add: containers_of_def add_container_def)

text \<open>
  C5. A successful \<open>CreateContainer\<close> found its user with fewer containers than the user's plan
  allows, adds exactly one row (a running container of that user with the id the daemon
  returned, the next id of the sequence and no health problems), returns that row's ids, and
  leaves the user within the plan's maximum.
\<close>

theorem CreateContainer_within_quota:
  assumes "run_state (CreateContainer env cm prj img) w = (Inr info, w')" and "db_ok (db w)"
  shows "\<exists>n p t. int8in env (prj_UserId prj) = Some n \<and> has_plan (db w) n p \<and>
     db w' = add_container (new_row (containers_seq (db w)) n info t) (db w) \<and>
     ProjectID info = int8out env (containers_seq (db w)) \<and> Status info = ''running'' \<and>
     int (length (containers_of n (db w'))) \<le> pl_max_containers p \<and> txn w' = None"
proof -
  from assms obtain n p t t' where "int8in env (prj_UserId prj) = Some n" "has_plan (db w) n p"
    "int (length (containers_of n (db w))) < pl_max_containers p"
    "info = (running_info prj img (project_folder cm prj) (ContainerID info) [] t)\<lparr>ProjectID := int8out env (containers_seq (db w))\<rparr>"
    "db w' = add_container (new_row (containers_seq (db w)) n info t') (db w)" "txn w' = None"
    by (rule CreateContainer_Inr)
  moreover from arg_cong[OF this(4), of ProjectID] arg_cong[OF this(4), of Status]
  have "ProjectID info = int8out env (containers_seq (db w))" "Status info = ''running''"
    by (simp_all add: running_info_def)
  ultimately show ?thesis
    by (intro exI[of _ n] exI[of _ p] exI[of _ t']) (simp add: containers_of_add new_row_def)
qed

text \<open>
  C11. When \<open>CreateContainer\<close>, \<open>CreateContainerWithPort\<close>, \<open>StopContainer\<close>, \<open>StartContainer\<close> or
  \<open>RemoveContainer\<close> returns an error, at whichever statement or call, every table is as it was; only
  ids drawn from the sequences may be used up.
\<close>

theorem failing_methods_commit_nothing:
  "(run_state (CreateContainer env cm prj img) w = (Inl e, w') \<or>
    run_state (CreateContainerWithPort env cm prj img port) w = (Inl e, w') \<or>
    run_state (StopContainer env pid) w = (Inl e, w') \<or>
    run_state (StartContainer env pid) w = (Inl e, w') \<or>
    run_state (RemoveContainer env pid rf) w = (Inl e, w')) \<Longrightarrow> same_tables (db w) (db w')"
  by (elim disjE; erule CreateContainer_fails_clean CreateContainerWithPort_fails_clean StopContainer_fails_clean
      StartContainer_fails_clean RemoveContainer_fails_clean)

text \<open>
  A successful \<open>StopContainer\<close> found the row the id names, changed nothing but that row's
  status, and stopped that row's Docker container after the update and before the commit.
\<close>

theorem StopContainer_effect:
  assumes "run_state (StopContainer env pid) w = (Inr x, w')" and "db_ok (db w)" and "ids_print env (db w)"
  shows "\<exists>r. names_row env (db w) pid r \<and>
     db w' = update_containers (\<lambda>c. c_id c = c_id r) (set_status ''stopped'') (db w) \<and>
     hist w' = [TxRollback, TxCommit, ContainerStop (c_container_id r) (Some 10),
       Sql ''update container'', Sql ''select container'', TxBegin] @ hist w"
  using assms by (rule StopContainer_Inr) blast

text \<open>
  A successful \<open>StartContainer\<close> set the row's status and start time, started its Docker
  container before the commit, and after the commit cleared the row's health, OOM and circuit
  flags unless that statement failed; nothing else changed.
\<close>

theorem StartContainer_effect:
  assumes "run_state (StartContainer env pid) w = (Inr x, w')" and "db_ok (db w)" and "ids_print env (db w)"
    and "\<forall>h. env_err env h (Sql ''reset health'') = None"
  shows "\<exists>r t. names_row env (db w) pid r \<and>
     db w' = update_containers (\<lambda>c. c_id c = c_id r) (clear_health \<circ> restart_row t) (db w) \<and>
     hist w' = [TxRollback, Sql ''reset health'', TxCommit, ContainerStart (c_container_id r),
       Sql ''update container'', Sql ''select container'', TxBegin] @ hist w"
proof -
  from assms(1-3) obtain r t d1 where r: "names_row env (db w) pid r"
    and d1: "d1 = update_containers (\<lambda>c. c_id c = c_id r) (restart_row t) (db w)"
    and imp: "(\<forall>h. env_err env h (Sql ''reset health'') = None) \<longrightarrow>
         db w' = update_containers (\<lambda>c. c_id c = c_id r) clear_health d1"
    and h: "hist w' = [TxRollback, Sql ''reset health'', TxCommit, ContainerStart (c_container_id r),
           Sql ''update container'', Sql ''select container'', TxBegin] @ hist w"
    by (rule StartContainer_Inr)
  from imp assms(4) have "db w' = update_containers (\<lambda>c. c_id c = c_id r) (clear_health \<circ> restart_row t) (db w)"
    by (simp add: d1 update_containers_def restart_row_def)
  with r h show ?thesis by blast
qed

text \<open>
  A successful \<open>RemoveContainer\<close> deleted the row the id names and its network connections
  and nothing else, and only after the commit disconnected the container from the networks it was on,
  stopped it, removed it and, when asked, removed its folder, in this order.
\<close>

theorem RemoveContainer_effect:
  assumes "run_state (RemoveContainer env pid rf) w = (Inr x, w')"
    and "\<forall>h. env_err env h (Sql ''select networks of container'') = None"
  shows "\<exists>r. names_row env (db w) pid r \<and>
     db w' = snd (delete_containers (\<lambda>c. c_id c = c_id r) (db w)) \<and>
     hist w' = [TxRollback] @ (if rf then [OsRemoveAll (c_folder_path r)] else []) @
       [ContainerRemove (c_container_id r), ContainerStop (c_container_id r) (Some 5)] @
       rev (map (\<lambda>n. NetworkDisconnect n (c_container_id r) True) (docker_nets_of (c_id r) (db w))) @
       [TxCommit, Sql ''delete container'', Sql ''select networks of container'', Sql ''select container'', TxBegin] @ hist w"
proof -
  from assms(1) obtain r nets where r: "names_row env (db w) pid r"
    and d: "db w' = snd (delete_containers (\<lambda>c. c_id c = c_id r) (db w))"
    and n: "(\<forall>h. env_err env h (Sql ''select networks of container'') = None) \<longrightarrow> nets = docker_nets_of (c_id r) (db w)"
    and h: "hist w' = [TxRollback] @ (if rf then [OsRemoveAll (c_folder_path r)] else []) @
       [ContainerRemove (c_container_id r), ContainerStop (c_container_id r) (Some 5)] @
       rev (map (\<lambda>n. NetworkDisconnect n (c_container_id r) True) nets) @
       [TxCommit, Sql ''delete container'', Sql ''select networks of container'', Sql ''select container'', TxBegin] @ hist w"
    by (rule RemoveContainer_Inr)
  from n assms(2) have "nets = docker_nets_of (c_id r) (db w)" by simp
  with r d h show ?thesis by auto
qed

text \<open>
  \<open>installPackages\<close> looks only at whether the exec API answered, never at the exit code of
  the probe: when no call fails it runs the \<open>apt-get\<close> commands, whatever package manager the
  image has.
\<close>

theorem installPackages_always_apt_get:
  assumes "no_faults env"
  shows "\<exists>e1 e2. run_state (installPackages env cid pkgs) w =
    (Inr (), w\<lparr>hist := [ExecRead e2, ExecAttach e2 False,
        ExecCreate cid (sh (''apt-get update && apt-get install -y '' @ join_on CHR '' '' pkgs)) False,
        ExecRead e1, ExecAttach e1 False, ExecCreate cid (sh ''command -v apt-get'') False] @ hist w\<rparr>)"
proof -
  have exec: "\<exists>e. run_state (execInContainer env cid cmd) v =
      (Inr (), v\<lparr>hist := [ExecRead e, ExecAttach e False, ExecCreate cid cmd False] @ hist v\<rparr>)" for cmd v
    using assms by (auto simp: execInContainer_def run_simps no_faults_def)
  let ?probe = "sh ''command -v apt-get''" and ?install = "sh (''apt-get update && apt-get install -y '' @ join_on CHR '' '' pkgs)"
  from exec[of ?probe w] obtain e1 where e1: "run_state (execInContainer env cid ?probe) w =
      (Inr (), w\<lparr>hist := [ExecRead e1, ExecAttach e1 False, ExecCreate cid ?probe False] @ hist w\<rparr>)" by blast
  from exec[of ?install "w\<lparr>hist := [ExecRead e1, ExecAttach e1 False, ExecCreate cid ?probe False] @ hist w\<rparr>"]
  obtain e2 where e2: "run_state (execInContainer env cid ?install)
      (w\<lparr>hist := [ExecRead e1, ExecAttach e1 False, ExecCreate cid ?probe False] @ hist w\<rparr>) =
      (Inr (), w\<lparr>hist := [ExecRead e2, ExecAttach e2 False, ExecCreate cid ?install False,
         ExecRead e1, ExecAttach e1 False, ExecCreate cid ?probe False] @ hist w\<rparr>)" by auto
  have "run_state (installPackages env cid pkgs) w = run_state (execInContainer env cid ?install)
      (w\<lparr>hist := [ExecRead e1, ExecAttach e1 False, ExecCreate cid ?probe False] @ hist w\<rparr>)"
    by (simp only: installPackages_def installCmds_def Let_def try_install.simps run_bind e1 prod.case sum.case)
  with e2 show ?thesis by auto
qed

section \<open>Witnesses\<close>

lemma sample_no_faults: "no_faults sample_env"
  by (simp add: no_faults_def)

lemma sample_ids_print: "ids_print sample_env sample_db"
  by (simp add: ids_print_def sample_ids)

definition sample_cm :: ContainerManager where
  "sample_cm = \<lparr>basePath = ''/data'', autoStopTimeout = 60\<rparr>"

definition sample_project :: Project where
  "sample_project = \<lparr>prj_ID = ''p'', prj_Name = ''n'', prj_UserId = ''1''\<rparr>"

lemma sample_quota:
  "run_state (check_quota sample_env ''1'') (sample_world\<lparr>hist := [TxBegin], txn := Some sample_db\<rparr>) =
   (Inr (scan_plan sample_plan),
    sample_world\<lparr>hist := [Sql ''select plan'', Sql ''select user with containers'', TxBegin], txn := Some sample_db\<rparr>)"
  by (simp add: check_quota_def GetContainersForUserByID_def select_user_containers_def with_bigint_def sample_int8in
      run_simps sample_db_def sample_user_def sample_container_def sample_plan_def join_containers_def Let_def
      GetPlanForUser_def plans_of_user_def first_row_def scan_plan_def set_view_def)

lemma sample_env_str: "env_str sample_env h c = ''x'' @ nat_str (length h)"
  by (simp add: sample_env_def)

lemma sample_env_now: "env_now sample_env h = 10000 + int (length h)"
  by (simp add: sample_env_def)

lemma sample_user_id: "prj_UserId sample_project = ''1''"
  by (simp add: sample_project_def)

lemma sample_insert:
  "UserId info = ''1'' \<Longrightarrow> ContainerID info \<noteq> ''c7'' \<Longrightarrow>
   \<exists>d. insert_container sample_env info t sample_db = (Inr (int8out sample_env 8), d)"
  by (simp add: insert_container_def sample_int8in sample_db_def sample_container_def sample_user_def)

lemma sample_create:
  "\<exists>info w'. run_state (CreateContainer sample_env sample_cm sample_project ''alpine'') sample_world = (Inr info, w')"
proof -
  let ?info = "running_info sample_project ''alpine'' (project_folder sample_cm sample_project) ''x5'' [] 10013"
  from sample_insert[of ?info 10013] obtain d where "insert_container sample_env ?info 10013 sample_db = (Inr (int8out sample_env 8), d)"
    by (auto simp: running_info_def sample_project_def)
  then show ?thesis
  by (simp add: CreateContainer_def sample_user_id run_in_tx run_on_ok sample_quota Let_def
      pullImageIfNeeded_def run_call run_call_str run_map_err run_bind run_ok run_defer_on_err run_now run_sql run_Commit
      installPackages_def installCmds_def execInContainer_def nat_str.simps digit_def char_of_def bit_0
      repo_CreateContainer_def sample_env_str sample_env_now)
qed

lemma sample_select: "select_container sample_env ''7'' sample_db = (Inr (scan_container sample_env sample_container), sample_db)"
  by (simp add: select_container_def with_bigint_def sample_int8in sample_db_def first_row_def sample_container_def)

lemma sample_stop: "\<exists>w'. run_state (StopContainer sample_env ''7'') sample_world = (Inr (), w')"
  using StopContainer_succeeds[of sample_env sample_world sample_container]
  by (simp add: sample_no_faults sample_db_ok sample_ids_print sample_containers)
    (simp add: sample_container_def sample_int8out)

lemma sample_start: "\<exists>w'. run_state (StartContainer sample_env ''7'') sample_world = (Inr (), w')"
  using StartContainer_succeeds[of sample_env sample_world sample_container]
  by (simp add: sample_no_faults sample_db_ok sample_ids_print sample_containers)
    (simp add: sample_container_def sample_int8out)

lemma sample_remove: "\<exists>w'. run_state (RemoveContainer sample_env ''7'' True) sample_world = (Inr (), w')"
  by (simp add: RemoveContainer_def run_simps GetContainerByID_def sample_select DeleteContainer_def delete_container_def
      with_bigint_def sample_int8in Let_def sample_containers delete_containers_def run_for_each_calls)
    (simp add: sample_container_def)

theorem CreateContainer_within_quota_witness:
  "\<exists>info w'. run_state (CreateContainer sample_env sample_cm sample_project ''alpine'') sample_world = (Inr info, w') \<and>
     (\<exists>n p t. int8in sample_env (prj_UserId sample_project) = Some n \<and> has_plan (db sample_world) n p \<and>
       db w' = add_container (new_row (containers_seq (db sample_world)) n info t) (db sample_world) \<and>
       ProjectID info = int8out sample_env (containers_seq (db sample_world)) \<and> Status info = ''running'' \<and>
       int (length (containers_of n (db w'))) \<le> pl_max_containers p \<and> txn w' = None)"
proof -
  from sample_create obtain info w'
    where run: "run_state (CreateContainer sample_env sample_cm sample_project ''alpine'') sample_world = (Inr info, w')" by blast
  show ?thesis
    by (intro exI[of _ info] exI[of _ w'], rule conjI[OF run], rule CreateContainer_within_quota[OF run]) (simp add: sample_db_ok)
qed

text \<open>A daemon that refuses to stop containers, after the row was updated in the transaction.\<close>

definition down_env :: env where
  "down_env = sample_env\<lparr>env_err := (\<lambda>h c. if is_stop c then Some ''down'' else None)\<rparr>"

lemma down_env_sel:
  "env_err down_env h c = (if is_stop c then Some ''down'' else None)" "int8in down_env = int8in sample_env"
  "int8out down_env = int8out sample_env"
  by (simp_all add: down_env_def)

lemma down_stop: "\<exists>e w'. run_state (StopContainer down_env ''7'') sample_world = (Inl e, w')"
proof -
  have r: "sample_container \<in> set (containers sample_db)" and id: "int8out down_env (c_id sample_container) = ''7''"
    by (simp_all add: sample_containers down_env_sel) (simp add: sample_container_def sample_int8out)
  have ids: "ids_print down_env sample_db" by (simp add: ids_print_def down_env_sel sample_ids)
  obtain i d' where "update_container down_env ''7'' ((scan_container down_env sample_container)\<lparr>Status := ''stopped''\<rparr>) sample_db
      = (Inr i, d')"
    using update_scanned_succeeds[OF sample_db_ok ids r, of "(scan_container down_env sample_container)\<lparr>Status := ''stopped''\<rparr>"]
    by (auto simp: id)
  with select_printed[OF sample_db_ok ids r] show ?thesis
    by (simp add: StopContainer_def run_simps GetContainerByID_def UpdateContainer_def Let_def id down_env_sel(1))
qed

theorem failing_methods_commit_nothing_witness:
  "\<exists>e w'. run_state (StopContainer down_env ''7'') sample_world = (Inl e, w') \<and> same_tables sample_db (db w')"
proof -
  from down_stop obtain e w' where run: "run_state (StopContainer down_env ''7'') sample_world = (Inl e, w')" by blast
  with failing_methods_commit_nothing[of down_env undefined undefined undefined sample_world e w' undefined "''7''" undefined]
  show ?thesis by auto
qed

theorem StopContainer_effect_witness:
  "\<exists>w'. run_state (StopContainer sample_env ''7'') sample_world = (Inr (), w') \<and>
     (\<exists>r. names_row sample_env (db sample_world) ''7'' r \<and>
       db w' = update_containers (\<lambda>c. c_id c = c_id r) (set_status ''stopped'') (db sample_world) \<and>
       hist w' = [TxRollback, TxCommit, ContainerStop (c_container_id r) (Some 10),
         Sql ''update container'', Sql ''select container'', TxBegin] @ hist sample_world)"
proof -
  from sample_stop obtain w' where run: "run_state (StopContainer sample_env ''7'') sample_world = (Inr (), w')" by blast
  show ?thesis
    by (intro exI[of _ w'], rule conjI[OF run], rule StopContainer_effect[OF run]) (simp_all add: sample_db_ok sample_ids_print)
qed

theorem StartContainer_effect_witness:
  "\<exists>w'. run_state (StartContainer sample_env ''7'') sample_world = (Inr (), w') \<and>
     (\<exists>r t. names_row sample_env (db sample_world) ''7'' r \<and>
       db w' = update_containers (\<lambda>c. c_id c = c_id r) (clear_health \<circ> restart_row t) (db sample_world) \<and>
       hist w' = [TxRollback, Sql ''reset health'', TxCommit, ContainerStart (c_container_id r),
         Sql ''update container'', Sql ''select container'', TxBegin] @ hist sample_world)"
proof -
  from sample_start obtain w' where run: "run_state (StartContainer sample_env ''7'') sample_world = (Inr (), w')" by blast
  show ?thesis
    by (intro exI[of _ w'], rule conjI[OF run], rule StartContainer_effect[OF run]) (simp_all add: sample_db_ok sample_ids_print)
qed

theorem RemoveContainer_effect_witness:
  "\<exists>w'. run_state (RemoveContainer sample_env ''7'' True) sample_world = (Inr (), w') \<and>
     (\<exists>r. names_row sample_env (db sample_world) ''7'' r \<and>
       db w' = snd (delete_containers (\<lambda>c. c_id c = c_id r) (db sample_world)) \<and>
       hist w' = [TxRollback] @ (if True then [OsRemoveAll (c_folder_path r)] else []) @
         [ContainerRemove (c_container_id r), ContainerStop (c_container_id r) (Some 5)] @
         rev (map (\<lambda>n. NetworkDisconnect n (c_container_id r) True) (docker_nets_of (c_id r) (db sample_world))) @
         [TxCommit, Sql ''delete container'', Sql ''select networks of container'', Sql ''select container'', TxBegin] @
         hist sample_world)"
proof -
  from sample_remove obtain w' where run: "run_state (RemoveContainer sample_env ''7'' True) sample_world = (Inr (), w')" by blast
  show ?thesis
    by (intro exI[of _ w'], rule conjI[OF run], rule RemoveContainer_effect[OF run]) simp
qed

theorem installPackages_always_apt_get_witness:
  "\<exists>e1 e2. run_state (installPackages sample_env ''c7'' [''tree'']) sample_world =
    (Inr (), sample_world\<lparr>hist := [ExecRead e2, ExecAttach e2 False,
        ExecCreate ''c7'' (sh (''apt-get update && apt-get install -y tree'')) False,
        ExecRead e1, ExecAttach e1 False, ExecCreate ''c7'' (sh ''command -v apt-get'') False]\<rparr>)"
  using installPackages_always_apt_get[OF sample_no_faults, of "''c7''" "[''tree'']" sample_world] by simp

end
