(* ===== verification/Recovery_Proofs.thy ===== *)
theory Recovery_Proofs
  imports Recovery Container_Proofs
begin

text \<open>
  The circuit breaker: integrity, the abstract breaker that \<open>HandleCrash\<close> and \<open>ResetCircuit\<close>
  implement, what a series of crashes leads to, and what two crashes handled at the same time can do.
\<close>

section \<open>Integrity\<close>

lemma sound_set_row:
  assumes "\<And>r. c_id (f r) = c_id r" and "\<And>r. c_user_id (f r) = c_user_id r" and "\<And>r. c_container_id (f r) = c_container_id r"
    and "\<And>r. c_health_status (f r) = c_health_status r" and "\<And>r. 0 \<le> c_restart_count r \<Longrightarrow> 0 \<le> c_restart_count (f r)"
  shows "sound_on h (set_row n f)"
  unfolding set_row_def
  by (rule sound_onI) (use assms in \<open>auto intro!: db_ok_update_containers_simple\<close>)

lemma sound_crash_rows:
  "sound_on h (set_row n open_circuit)" "sound_on h (set_row n (mark_starting t))" "sound_on h (set_row n mark_stopped)"
  "sound_on h (set_row n (mark_running t))"
  by (rule sound_set_row; simp add: open_circuit_def mark_starting_def mark_stopped_def mark_running_def)+

lemma keeps_ok_notify: "state_io_rel keeps_ok (notify env userID ty title body)"
  unfolding notify_def uuid_New_def by (intro ko.io_intros keeps_ok_intros keeps_ok_persist)

lemma first_row_in: "first_row rs = Inr x \<Longrightarrow> x \<in> set rs"
  by (auto simp: first_row_def split: list.splits)

lemma select_crash_count:
  "db_ok d \<Longrightarrow> select_crash env dcid d = (Inr ci, d') \<Longrightarrow> 0 \<le> ci_restartCount ci"
proof -
  assume ok: "db_ok d" and sel: "select_crash env dcid d = (Inr ci, d')"
  from sel have "ci \<in> set [\<lparr>ci_projectID = c_id c, ci_projectName = c_project_name c, ci_userID = int8out env (c_user_id c),
          ci_restartCount = c_restart_count c, ci_circuitOpen = c_circuit_open c, ci_maxRestarts = pl_max_auto_restarts p\<rparr>.
         c \<leftarrow> containers d, c_container_id c = dcid, u \<leftarrow> users d, u_id u = c_user_id c, p \<leftarrow> plans d, pl_id p = u_plan_id u]"
    unfolding select_crash_def prod.inject by (blast dest: first_row_in)
  with db_okD(2)[OF ok] show ?thesis by (auto simp: containers_ok_def)
qed

lemma backoff_delay_nonneg: "0 \<le> n \<Longrightarrow> \<exists>t. backoff_delay n = Some t"
  by (simp add: backoff_delay_def backoffDelays_def Let_def)

lemma keeps_ok_crash_check: "state_io_rel keeps_ok (crash_check env dcid)"
proof (rule state_io_relI)
  fix x w w'
  assume run: "run_state (crash_check env dcid) w = (x, w')"
  show "keeps_ok w w'"
    unfolding keeps_ok_def
  proof
    assume ok: "world_ok w"
    let ?q = "sql env Pool ''select crashed'' (\<lambda>_ _. select_crash env dcid)"
    let ?k = "\<lambda>ci. if ci_circuitOpen ci then State_Monad.return None
               else if ci_maxRestarts ci \<le> ci_restartCount ci then
                 do { ignoring (sql env Pool ''open circuit'' (\<lambda>_ _. set_row (ci_projectID ci) open_circuit));
                      notify env (ci_userID ci) ''circuit_breaker_opened''
                        (''Container '' @ quoted (ci_projectName ci) @ '' permanently stopped'')
                        (''Restarted '' @ FormatInt (ci_restartCount ci) @
                         '' times without success. Circuit breaker opened. Fix the issue and reset manually.'');
                      State_Monad.return None }
               else
                 (case backoff_delay (ci_restartCount ci) of
                    None \<Rightarrow> do { w \<leftarrow> State_Monad.get; State_Monad.set (w\<lparr>panicked := True\<rparr>); State_Monad.return None }
                  | Some delay \<Rightarrow> do { call env (Sleep delay); State_Monad.return (Some ci) })"
    obtain r w1 where r: "run_state ?q w = (r, w1)" by fastforce
    have "state_io_rel keeps_ok ?q"
      by (rule keeps_ok_sql) (rule sound_on_read, simp add: select_crash_def)
    with r ok have ok1: "world_ok w1" by (auto dest: state_io_relD simp: keeps_ok_def)
    show "world_ok w'"
    proof (cases r)
      case (Inl e)
      with run r ok1 show ?thesis by (simp add: crash_check_def run_bind)
    next
      case (Inr ci)
      with r have "select_crash env dcid (db w) = (Inr ci, db w)"
        by (auto elim!: sql_Inr simp: select_crash_def)
      with ok have "0 \<le> ci_restartCount ci" by (auto simp: world_ok_def dest: select_crash_count)
      then obtain t where t: "backoff_delay (ci_restartCount ci) = Some t" using backoff_delay_nonneg by blast
      have "state_io_rel keeps_ok (?k ci)"
        by (simp only: t option.case) (intro ko.io_intros keeps_ok_intros keeps_ok_notify sound_crash_rows)
      moreover from run r Inr have "run_state (?k ci) w1 = (x, w')" by (simp add: crash_check_def run_bind)
      ultimately show ?thesis using ok1 by (auto dest: state_io_relD simp: keeps_ok_def)
    qed
  qed
qed

lemma sound_other_events:
  "sound_on h (\<lambda>d. (Inr () :: unit result, update_containers (\<lambda>c. c_container_id c = dcid) (\<lambda>r. r\<lparr>c_oom_killed := True\<rparr>) d))"
  "sound_on h (update_health dcid status)" "sound_on h (select_owner env dcid)" "sound_on h (update_reset env userID projectID)"
proof -
  show "sound_on h (\<lambda>d. (Inr () :: unit result, update_containers (\<lambda>c. c_container_id c = dcid) (\<lambda>r. r\<lparr>c_oom_killed := True\<rparr>) d))"
    by (rule sound_onI) (auto intro!: db_ok_update_containers_simple)
  show "sound_on h (update_health dcid status)"
  proof (rule sound_onI)
    fix d
    assume ok: "db_ok d"
    then have "db_ok (update_containers (\<lambda>c. c_container_id c = dcid) (\<lambda>r. r\<lparr>c_health_status := status\<rparr>) d)"
      if "status \<in> health_values \<or> \<not> (\<exists>c \<in> set (containers d). c_container_id c = dcid)"
      using that db_okD(2)[OF ok]
      by (intro db_ok_update_containers) (auto simp: containers_ok_def map_map_if_same simp del: map_map)
    with ok show "db_ok (snd (update_health dcid status d))"
      by (auto simp: update_health_def health_values_def simp del: update_containers_sel)
  qed (simp_all add: update_health_def)
  show "sound_on h (select_owner env dcid)" by (rule sound_on_read) (simp add: select_owner_def)
  show "sound_on h (update_reset env userID projectID)"
    unfolding update_reset_def
    by (intro sound_on_with_bigint sound_onI) (auto intro!: db_ok_update_containers_simple simp: reset_circuit_def)
qed


lemma keeps_ok_recovery:
  "state_io_rel keeps_ok (crash_restart env dcid code ci)" "state_io_rel keeps_ok (HandleCrash env dcid code)"
  "state_io_rel keeps_ok (HandleOOM env dcid)" "state_io_rel keeps_ok (HandleHealthChange env dcid st)"
  "state_io_rel keeps_ok (ResetCircuit env userID projectID)"
proof -
  show c: "state_io_rel keeps_ok (crash_restart env dcid code ci)" for ci
    unfolding crash_restart_def by (intro ko.io_intros keeps_ok_intros keeps_ok_notify sound_crash_rows)
  show "state_io_rel keeps_ok (HandleCrash env dcid code)"
    unfolding HandleCrash_def by (intro ko.io_intros keeps_ok_crash_check c)
  show "state_io_rel keeps_ok (HandleOOM env dcid)" "state_io_rel keeps_ok (HandleHealthChange env dcid st)"
    "state_io_rel keeps_ok (ResetCircuit env userID projectID)"
    unfolding HandleOOM_def HandleHealthChange_def ResetCircuit_def
    by (intro ko.io_intros keeps_ok_intros keeps_ok_notify sound_other_events)+
qed

lemma keeps_ok_run_task: "state_io_rel keeps_ok (run_task env task)"
  by (cases task) (simp_all add: keeps_ok_recovery)

section \<open>Finding the row, its owner and the plan\<close>

lemma concat_map_if: "concat (map (\<lambda>x. if P x then g x else []) xs) = concat (map g (filter P xs))"
  by (induction xs) auto

lemma docker_id_filter: "db_ok d \<Longrightarrow> r \<in> set (containers d) \<Longrightarrow> filter (\<lambda>x. c_container_id x = c_container_id r) (containers d) = [r]"
  using db_okD(2) by (auto simp: containers_ok_def intro: length_filter_one)

lemma plan_filter: "db_ok d \<Longrightarrow> p \<in> set (plans d) \<Longrightarrow> filter (\<lambda>x. pl_id x = pl_id p) (plans d) = [p]"
  using db_okD(1) by (auto simp: users_ok_def intro: length_filter_one)

lemma select_crash_row:
  assumes ok: "db_ok d" and r: "r \<in> set (containers d)" and p: "has_plan d (c_user_id r) p"
  shows "select_crash env (c_container_id r) d =
    (Inr \<lparr>ci_projectID = c_id r, ci_projectName = c_project_name r, ci_userID = int8out env (c_user_id r),
       ci_restartCount = c_restart_count r, ci_circuitOpen = c_circuit_open r, ci_maxRestarts = pl_max_auto_restarts p\<rparr>, d)"
proof -
  from p obtain u where u: "u \<in> set (users d)" "u_id u = c_user_id r" "u_plan_id u = pl_id p" and pl: "p \<in> set (plans d)"
    by (auto simp: has_plan_def)
  note filters = docker_id_filter[OF ok r] user_unique[OF ok u(1), unfolded u(2)] plan_filter[OF ok pl]
  show ?thesis
    unfolding select_crash_def concat_map_if filters
    by (simp add: concat_map_if filters u first_row_def)
qed

section \<open>One crash\<close>

text \<open>Statements reach the database; the Docker daemon may still refuse.\<close>

definition sql_works :: "env \<Rightarrow> bool" where
  "sql_works env \<longleftrightarrow> (\<forall>h tag. env_err env h (Sql tag) = None)"

fun is_recovery :: "call \<Rightarrow> bool" where
  "is_recovery (Sleep _) = True"
| "is_recovery (ContainerRestart _ _) = True"
| "is_recovery _ = False"

text \<open>The row after a crash of a container whose plan allows \<open>m\<close> restarts.\<close>

definition crash_row :: "int \<Rightarrow> time \<Rightarrow> (container_row \<Rightarrow> container_row) \<Rightarrow> container_row \<Rightarrow> container_row" where
  "crash_row m t fin r =
     (if c_circuit_open r then r
      else if m \<le> c_restart_count r then open_circuit r
      else fin (mark_starting t r))"

definition crash_calls :: "int \<Rightarrow> container_row \<Rightarrow> call list" where
  "crash_calls m r =
     (if c_circuit_open r \<or> m \<le> c_restart_count r then []
      else [ContainerRestart (c_container_id r) 10, Sleep (the (backoff_delay (c_restart_count r)))])"

lemma notify_frame:
  assumes "run_state (notify env userID ty title body) w = (x, w')"
  shows "containers (db w') = containers (db w)" "users (db w') = users (db w)" "plans (db w') = plans (db w)"
    "filter is_recovery (hist w') = filter is_recovery (hist w)"
proof -
  let ?w1 = "w\<lparr>hist := NewUUID # hist w\<rparr>"
  from assms have "\<exists>n. run_state (persistAndNotify env userID n) ?w1 = (x, w')"
    unfolding notify_def uuid_New_def by (auto simp: run_bind run_get run_call run_now run_return)
  then obtain n where "run_state (persistAndNotify env userID n) ?w1 = (x, w')" by blast
  from persistAndNotify_frame[OF this]
  show "containers (db w') = containers (db w)" "users (db w') = users (db w)" "plans (db w') = plans (db w)"
    "filter is_recovery (hist w') = filter is_recovery (hist w)"
    by simp_all
qed

lemma run_set_row:
  "sql_works env \<Longrightarrow> run_state (sql env Pool tag (\<lambda>x t. set_row n (f t))) w =
     (Inr (), w\<lparr>hist := Sql tag # hist w, db := update_containers (\<lambda>c. c_id c = n) (f (env_now env (hist w))) (db w)\<rparr>)"
  by (simp add: run_sql sql_works_def set_row_def)


text \<open>The three ways the first half ends.\<close>

lemma crash_check_row:
  assumes works: "sql_works env" and ok: "db_ok (db w)" and r: "r \<in> set (containers (db w))"
    and p: "has_plan (db w) (c_user_id r) p" and m: "m = pl_max_auto_restarts p"
    and ci: "ci = \<lparr>ci_projectID = c_id r, ci_projectName = c_project_name r, ci_userID = int8out env (c_user_id r),
       ci_restartCount = c_restart_count r, ci_circuitOpen = c_circuit_open r, ci_maxRestarts = m\<rparr>"
    and run: "run_state (crash_check env (c_container_id r)) w = (x, w')"
  shows "c_circuit_open r \<Longrightarrow> x = None \<and> w' = w\<lparr>hist := Sql ''select crashed'' # hist w\<rparr>"
    and "\<not> c_circuit_open r \<Longrightarrow> m \<le> c_restart_count r \<Longrightarrow>
      x = None \<and> containers (db w') = containers (update_containers (\<lambda>c. c_id c = c_id r) open_circuit (db w)) \<and>
      users (db w') = users (db w) \<and> plans (db w') = plans (db w) \<and> filter is_recovery (hist w') = filter is_recovery (hist w)"
    and "\<not> c_circuit_open r \<Longrightarrow> c_restart_count r < m \<Longrightarrow>
      x = Some ci \<and> w' = w\<lparr>hist := Sleep (the (backoff_delay (c_restart_count r))) # Sql ''select crashed'' # hist w\<rparr>"
proof -
  note sel = select_crash_row[OF ok r p, where env = env, folded m, folded ci]
  have q: "run_state (sql env Pool ''select crashed'' (\<lambda>_ _. select_crash env (c_container_id r))) w =
      (Inr ci, w\<lparr>hist := Sql ''select crashed'' # hist w\<rparr>)"
    using works sel by (simp add: run_sql sql_works_def)
  from ok r have "0 \<le> c_restart_count r" by (auto simp: db_ok_def containers_ok_def)
  then obtain t where t: "backoff_delay (c_restart_count r) = Some t" using backoff_delay_nonneg by blast
  show "c_circuit_open r \<Longrightarrow> x = None \<and> w' = w\<lparr>hist := Sql ''select crashed'' # hist w\<rparr>"
    using run by (simp add: crash_check_def run_bind q run_return) (simp add: ci run_return)
  show "\<not> c_circuit_open r \<Longrightarrow> c_restart_count r < m \<Longrightarrow>
      x = Some ci \<and> w' = w\<lparr>hist := Sleep (the (backoff_delay (c_restart_count r))) # Sql ''select crashed'' # hist w\<rparr>"
    using run by (simp add: crash_check_def run_bind q) (simp add: ci t run_bind run_call)
  assume lim: "\<not> c_circuit_open r" "m \<le> c_restart_count r"
  let ?w1 = "w\<lparr>hist := Sql ''open circuit'' # Sql ''select crashed'' # hist w,
      db := update_containers (\<lambda>c. c_id c = c_id r) open_circuit (db w)\<rparr>"
  have o: "run_state (sql env Pool ''open circuit'' (\<lambda>_ _. set_row (c_id r) open_circuit)) (w\<lparr>hist := Sql ''select crashed'' # hist w\<rparr>)
      = (Inr (), ?w1)"
    using run_set_row[OF works, of "''open circuit''" "c_id r" "\<lambda>_. open_circuit"] by simp
  have sel_ci: "\<not> ci_circuitOpen ci" "ci_maxRestarts ci \<le> ci_restartCount ci" "ci_projectID ci = c_id r"
    using lim by (simp_all add: ci)
  obtain title body y w2 where n: "run_state (notify env (ci_userID ci) ''circuit_breaker_opened'' title body) ?w1 = (y, w2)"
    and x: "x = None" "w' = w2"
    using run by (auto simp: crash_check_def run_bind q sel_ci run_ignoring o split: prod.splits)
  from notify_frame[OF n] x
  show "x = None \<and> containers (db w') = containers (update_containers (\<lambda>c. c_id c = c_id r) open_circuit (db w)) \<and>
      users (db w') = users (db w) \<and> plans (db w') = plans (db w) \<and> filter is_recovery (hist w') = filter is_recovery (hist w)"
    by simp
qed

lemma crash_restart_row:
  assumes works: "sql_works env" and run: "run_state (crash_restart env dcid code ci) w = (x, w')"
  shows "\<exists>t fin. (fin = mark_stopped \<or> (\<exists>t2. fin = mark_running t2)) \<and>
    containers (db w') = map (\<lambda>c. if c_id c = ci_projectID ci then fin (mark_starting t c) else c) (containers (db w)) \<and>
    users (db w') = users (db w) \<and> plans (db w') = plans (db w) \<and>
    filter is_recovery (hist w') = ContainerRestart dcid 10 # filter is_recovery (hist w)"
proof -
  let ?n = "ci_projectID ci" and ?t = "env_now env (hist w)"
  let ?w1 = "w\<lparr>hist := Sql ''count restart'' # hist w, db := update_containers (\<lambda>c. c_id c = ?n) (mark_starting ?t) (db w)\<rparr>"
  let ?w2 = "?w1\<lparr>hist := ContainerRestart dcid 10 # hist ?w1\<rparr>"
  have twice: "containers (update_containers (\<lambda>c. c_id c = ?n) fin (update_containers (\<lambda>c. c_id c = ?n) (mark_starting ?t) (db w))) =
      map (\<lambda>c. if c_id c = ?n then fin (mark_starting ?t c) else c) (containers (db w))" for fin
    by (simp add: mark_starting_def)
  have a: "run_state (sql env Pool ''count restart'' (\<lambda>_ t. set_row ?n (mark_starting t))) w = (Inr (), ?w1)"
    by (rule run_set_row[OF works])
  show ?thesis
  proof (cases "env_err env (hist ?w1) (ContainerRestart dcid 10)")
    case (Some e)
    have "run_state (sql env Pool ''mark stopped'' (\<lambda>_ _. set_row ?n mark_stopped)) ?w2 =
        (Inr (), ?w2\<lparr>hist := Sql ''mark stopped'' # hist ?w2, db := update_containers (\<lambda>c. c_id c = ?n) mark_stopped (db ?w2)\<rparr>)"
      using run_set_row[OF works, of "''mark stopped''" ?n "\<lambda>_. mark_stopped"] by simp
    with Some run a have w': "w' = ?w2\<lparr>hist := Sql ''mark stopped'' # hist ?w2,
        db := update_containers (\<lambda>c. c_id c = ?n) mark_stopped (db ?w2)\<rparr>"
      by (simp add: crash_restart_def run_bind run_call run_ignoring)
    show ?thesis
      by (intro exI[of _ ?t] exI[of _ mark_stopped]) (simp add: w' twice del: update_containers_sel(1))
  next
    case None
    let ?t2 = "env_now env (hist ?w2)"
    let ?w3 = "?w2\<lparr>hist := Sql ''mark running'' # hist ?w2, db := update_containers (\<lambda>c. c_id c = ?n) (mark_running ?t2) (db ?w2)\<rparr>"
    have "run_state (sql env Pool ''mark running'' (\<lambda>_ t. set_row ?n (mark_running t))) ?w2 = (Inr (), ?w3)"
      by (rule run_set_row[OF works])
    with None run a obtain title body where
      n: "run_state (notify env (ci_userID ci) ''container_restarted'' title body) ?w3 = (x, w')"
      by (auto simp: crash_restart_def run_bind run_call run_ignoring)
    show ?thesis
      by (intro exI[of _ ?t] exI[of _ "mark_running ?t2"])
        (simp add: notify_frame[OF n] twice del: update_containers_sel(1), blast)
  qed
qed


lemma HandleCrash_row:
  assumes works: "sql_works env" and ok: "db_ok (db w)" and r: "r \<in> set (containers (db w))"
    and p: "has_plan (db w) (c_user_id r) p" and m: "m = pl_max_auto_restarts p"
    and run: "run_state (HandleCrash env (c_container_id r) code) w = (x, w')"
  shows "\<exists>t fin. (fin = mark_stopped \<or> (\<exists>t2. fin = mark_running t2)) \<and>
    containers (db w') = map (\<lambda>c. if c_id c = c_id r then crash_row m t fin c else c) (containers (db w)) \<and>
    users (db w') = users (db w) \<and> plans (db w') = plans (db w) \<and>
    filter is_recovery (hist w') = crash_calls m r @ filter is_recovery (hist w)"
proof -
  obtain y w1 where chk: "run_state (crash_check env (c_container_id r)) w = (y, w1)" by fastforce
  note C = crash_check_row[OF works ok r p m refl chk]
  have only_r: "c = r" if "c \<in> set (containers (db w))" "c_id c = c_id r" for c
    using container_id_unique[OF ok that(1) r that(2)] .
  consider "c_circuit_open r" | "\<not> c_circuit_open r" "m \<le> c_restart_count r" | "\<not> c_circuit_open r" "c_restart_count r < m"
    by linarith
  then show ?thesis
  proof cases
    case 1
    from run C(1)[OF 1] chk have w': "w' = w\<lparr>hist := Sql ''select crashed'' # hist w\<rparr>"
      by (simp add: HandleCrash_def run_bind run_return)
    have "map (\<lambda>c. if c_id c = c_id r then crash_row m 0 mark_stopped c else c) (containers (db w)) = containers (db w)"
      using only_r 1 by (intro map_idI) (auto simp: crash_row_def)
    then show ?thesis
      by (intro exI[of _ 0] exI[of _ mark_stopped]) (simp add: w' crash_calls_def 1)
  next
    case 2
    from run C(2)[OF 2] chk have "w' = w1" by (simp add: HandleCrash_def run_bind run_return)
    moreover have "map (\<lambda>c. if c_id c = c_id r then crash_row m 0 mark_stopped c else c) (containers (db w)) =
        containers (update_containers (\<lambda>c. c_id c = c_id r) open_circuit (db w))"
      using only_r 2 by (auto simp: crash_row_def)
    ultimately show ?thesis
      using C(2)[OF 2] by (intro exI[of _ 0] exI[of _ mark_stopped]) (simp add: crash_calls_def 2)
  next
    case 3
    let ?ci = "\<lparr>ci_projectID = c_id r, ci_projectName = c_project_name r, ci_userID = int8out env (c_user_id r),
       ci_restartCount = c_restart_count r, ci_circuitOpen = c_circuit_open r, ci_maxRestarts = m\<rparr>"
    from run C(3)[OF 3] chk have "run_state (crash_restart env (c_container_id r) code ?ci) w1 = (x, w')"
      by (simp add: HandleCrash_def run_bind)
    from crash_restart_row[OF works this] obtain t fin where fin: "fin = mark_stopped \<or> (\<exists>t2. fin = mark_running t2)"
      and w': "containers (db w') = map (\<lambda>c. if c_id c = c_id r then fin (mark_starting t c) else c) (containers (db w1))"
        "users (db w') = users (db w1)" "plans (db w') = plans (db w1)"
        "filter is_recovery (hist w') = ContainerRestart (c_container_id r) 10 # filter is_recovery (hist w1)"
      by auto
    have "map (\<lambda>c. if c_id c = c_id r then crash_row m t fin c else c) (containers (db w)) =
        map (\<lambda>c. if c_id c = c_id r then fin (mark_starting t c) else c) (containers (db w))"
      using 3 by (intro map_cong refl) (auto simp: crash_row_def dest!: only_r)
    with fin w' C(3)[OF 3] 3 show ?thesis
      by (intro exI[of _ t] exI[of _ fin]) (simp add: crash_calls_def)
  qed
qed

section \<open>A series of crashes\<close>

text \<open>The breaker a row is: how often it was restarted and whether it has given up.\<close>

definition breaker_of :: "container_row \<Rightarrow> int \<times> bool" where
  "breaker_of r = (c_restart_count r, c_circuit_open r)"

fun breaker_crash :: "int \<Rightarrow> int \<times> bool \<Rightarrow> int \<times> bool" where
  "breaker_crash m (n, opened) = (if opened then (n, opened) else if m \<le> n then (n, True) else (n + 1, False))"

fun breaker_reset :: "int \<times> bool \<Rightarrow> int \<times> bool" where
  "breaker_reset b = (0, False)"

lemma crash_row_breaker:
  "fin = mark_stopped \<or> (\<exists>t2. fin = mark_running t2) \<Longrightarrow> breaker_of (crash_row m t fin r) = breaker_crash m (breaker_of r)"
  by (auto simp: crash_row_def breaker_of_def open_circuit_def mark_starting_def mark_stopped_def mark_running_def)

lemma crash_row_same:
  "fin = mark_stopped \<or> (\<exists>t2. fin = mark_running t2) \<Longrightarrow>
   c_id (crash_row m t fin r) = c_id r \<and> c_container_id (crash_row m t fin r) = c_container_id r \<and>
   c_user_id (crash_row m t fin r) = c_user_id r"
  by (auto simp: crash_row_def open_circuit_def mark_starting_def mark_stopped_def mark_running_def)

lemma HandleCrash_step:
  assumes works: "sql_works env" and ok: "world_ok w" and r: "r \<in> set (containers (db w))"
    and p: "has_plan (db w) (c_user_id r) p" and m: "m = pl_max_auto_restarts p"
    and w': "w' = snd (run_state (HandleCrash env (c_container_id r) code) w)"
  obtains r' where "r' \<in> set (containers (db w'))" and "c_id r' = c_id r" and "c_container_id r' = c_container_id r"
    and "c_user_id r' = c_user_id r" and "breaker_of r' = breaker_crash m (breaker_of r)"
    and "has_plan (db w') (c_user_id r) p" and "world_ok w'"
    and "filter is_recovery (hist w') = crash_calls m r @ filter is_recovery (hist w)"
proof -
  obtain x where run: "run_state (HandleCrash env (c_container_id r) code) w = (x, w')"
    using w' by (metis prod.collapse)
  from ok have dbok: "db_ok (db w)" by (simp add: world_ok_def)
  from HandleCrash_row[OF works dbok r p m run] obtain t fin where fin: "fin = mark_stopped \<or> (\<exists>t2. fin = mark_running t2)"
    and cs: "containers (db w') = map (\<lambda>c. if c_id c = c_id r then crash_row m t fin c else c) (containers (db w))"
    and rest: "users (db w') = users (db w)" "plans (db w') = plans (db w)"
      "filter is_recovery (hist w') = crash_calls m r @ filter is_recovery (hist w)" by blast
  show ?thesis
  proof (rule that[of "crash_row m t fin r"])
    show "crash_row m t fin r \<in> set (containers (db w'))" unfolding cs using r by force
    show "world_ok w'" using state_io_relD[OF keeps_ok_recovery(2) run] ok by (simp add: keeps_ok_def)
  qed (use rest p crash_row_breaker[OF fin] crash_row_same[OF fin] in \<open>auto simp: has_plan_def\<close>)
qed

definition crash_series :: "env \<Rightarrow> string \<Rightarrow> int list \<Rightarrow> unit M" where
  "crash_series env dcid codes = for_each codes (HandleCrash env dcid)"

definition attempt_calls :: "string \<Rightarrow> int \<Rightarrow> call list" where
  "attempt_calls dcid i = [Sleep (the (backoff_delay i)), ContainerRestart dcid 10]"

lemma series_open:
  assumes works: "sql_works env" and "world_ok w" and "r \<in> set (containers (db w))" and "has_plan (db w) (c_user_id r) p"
    and m: "m = pl_max_auto_restarts p" and "breaker_of r = (n, True)"
  shows "\<exists>r' \<in> set (containers (db (snd (run_state (crash_series env (c_container_id r) codes) w)))).
     c_id r' = c_id r \<and> breaker_of r' = (n, True) \<and>
     filter is_recovery (hist (snd (run_state (crash_series env (c_container_id r) codes) w))) = filter is_recovery (hist w)"
  using assms(2-4,6)
proof (induction codes arbitrary: w r)
  case Nil
  then show ?case by (auto simp: crash_series_def run_simps)
next
  case (Cons code codes)
  from HandleCrash_step[OF works Cons.prems(1-3) m refl, of code] obtain r1 w1 where
    w1: "w1 = snd (run_state (HandleCrash env (c_container_id r) code) w)" "world_ok w1"
    and r1: "r1 \<in> set (containers (db w1))" "c_id r1 = c_id r" "c_container_id r1 = c_container_id r" "c_user_id r1 = c_user_id r"
      "breaker_of r1 = breaker_crash m (breaker_of r)" "has_plan (db w1) (c_user_id r1) p"
      "filter is_recovery (hist w1) = crash_calls m r @ filter is_recovery (hist w)" by metis
  from r1 Cons.prems(4) have "breaker_of r1 = (n, True)" "filter is_recovery (hist w1) = filter is_recovery (hist w)"
    by (auto simp: crash_calls_def breaker_of_def)
  moreover have "run_state (crash_series env (c_container_id r) (code # codes)) w = run_state (crash_series env (c_container_id r1) codes) w1"
    by (simp only: crash_series_def run_for_each_Cons w1(1) r1(3))
  ultimately show ?case using Cons.IH[OF w1(2) r1(1,6)] r1(2) by (simp only:)
qed

lemma series_closed:
  assumes works: "sql_works env" and "world_ok w" and "r \<in> set (containers (db w))" and "has_plan (db w) (c_user_id r) p"
    and m: "m = pl_max_auto_restarts p" and "breaker_of r = (n, False)" and "n \<le> m"
  shows "\<exists>r' \<in> set (containers (db (snd (run_state (crash_series env (c_container_id r) codes) w)))).
     c_id r' = c_id r \<and> breaker_of r' = (min (n + int (length codes)) m, m < n + int (length codes)) \<and>
     filter is_recovery (hist (snd (run_state (crash_series env (c_container_id r) codes) w))) =
       rev (concat (map (attempt_calls (c_container_id r)) [n..min (n + int (length codes)) m - 1])) @ filter is_recovery (hist w)"
  using assms(2-4,6,7)
proof (induction codes arbitrary: w r n)
  case Nil
  then show ?case by (auto simp: crash_series_def run_simps)
next
  case (Cons code codes)
  from HandleCrash_step[OF works Cons.prems(1-3) m refl, of code] obtain r1 w1 where
    w1: "w1 = snd (run_state (HandleCrash env (c_container_id r) code) w)" "world_ok w1"
    and r1: "r1 \<in> set (containers (db w1))" "c_id r1 = c_id r" "c_container_id r1 = c_container_id r" "c_user_id r1 = c_user_id r"
      "breaker_of r1 = breaker_crash m (breaker_of r)" "has_plan (db w1) (c_user_id r1) p"
      "filter is_recovery (hist w1) = crash_calls m r @ filter is_recovery (hist w)" by metis
  have unfold: "run_state (crash_series env (c_container_id r) (code # codes)) w = run_state (crash_series env (c_container_id r1) codes) w1"
    by (simp only: crash_series_def run_for_each_Cons w1(1) r1(3))
  show ?case
  proof (cases "m \<le> n")
    case True
    with r1 Cons.prems(4,5) have b: "breaker_of r1 = (m, True)" "filter is_recovery (hist w1) = filter is_recovery (hist w)"
      by (auto simp: crash_calls_def breaker_of_def)
    from series_open[OF works w1(2) r1(1,6) m b(1), of codes] True Cons.prems(5) b(2) r1(2) show ?thesis
      unfolding unfold by (auto simp: min_def)
  next
    case False
    with r1 Cons.prems(4) have b: "breaker_of r1 = (n + 1, False)"
      "filter is_recovery (hist w1) = rev (attempt_calls (c_container_id r) n) @ filter is_recovery (hist w)"
      by (auto simp: crash_calls_def breaker_of_def attempt_calls_def)
    have "[n..min (n + int (length (code # codes))) m - 1] = n # [n + 1..min (n + 1 + int (length codes)) m - 1]"
      using False by (subst upto_rec1) (auto simp: algebra_simps)
    with Cons.IH[OF w1(2) r1(1,6) b(1)] False b(2) r1(2,3) show ?thesis
      unfolding unfold by (auto simp: algebra_simps)
  qed
qed


text \<open>
  C13. A container that was never restarted and crashes \<open>k\<close> times in a row is restarted for
  exactly the first \<open>m\<close> of these crashes, \<open>m\<close> being the number its owner's plan allows, the
  \<open>i\<close>-th time after the \<open>i\<close>-th delay of \<open>backoffDelays\<close>; its counter is then \<open>min k m\<close>, and its circuit is open
  exactly when it crashed more often than that. The restarts themselves may fail at the daemon.
\<close>

theorem crashes_restart_up_to_the_limit:
  assumes "sql_works env" and "world_ok w" and "r \<in> set (containers (db w))" and "has_plan (db w) (c_user_id r) p"
    and "m = pl_max_auto_restarts p" and "0 \<le> m" and "c_restart_count r = 0" and "\<not> c_circuit_open r"
    and "w' = snd (run_state (crash_series env (c_container_id r) codes) w)"
  shows "\<exists>r' \<in> set (containers (db w')). c_id r' = c_id r \<and> c_restart_count r' = min (int (length codes)) m \<and>
     (c_circuit_open r' \<longleftrightarrow> m < int (length codes)) \<and>
     filter is_recovery (hist w') =
       rev (concat (map (\<lambda>i. [Sleep (the (backoff_delay i)), ContainerRestart (c_container_id r) 10])
              [0..min (int (length codes)) m - 1])) @ filter is_recovery (hist w)"
proof -
  from assms(7,8) have b: "breaker_of r = (0, False)" by (simp add: breaker_of_def)
  from series_closed[OF assms(1-5) b assms(6), of codes] show ?thesis
    unfolding assms(9) by (auto simp: breaker_of_def attempt_calls_def[abs_def])
qed

lemma sample_has_plan: "has_plan sample_db (c_user_id sample_container) sample_plan"
  by (simp add: has_plan_def sample_db_def sample_user_def sample_container_def sample_plan_def)

theorem crashes_restart_up_to_the_limit_witness:
  "\<exists>r' \<in> set (containers (db (snd (run_state (crash_series sample_env ''c7'' [1, 1, 137, 1, 1]) sample_world)))).
     c_id r' = 7 \<and> c_restart_count r' = 3 \<and> c_circuit_open r'"
  using crashes_restart_up_to_the_limit[of sample_env sample_world sample_container sample_plan 3 _ "[1, 1, 137, 1, 1]", OF _ _ _ _ _ _ _ _ refl]
  by (auto simp: sql_works_def sample_world_ok sample_containers sample_has_plan)
    (auto simp: sample_container_def sample_plan_def)

text \<open>
  The delay before a restart is defined for every counter the table can hold, lies between 5
  and 60 seconds, never shrinks as the counter grows, and stays at 60 seconds from the fifth restart on.
\<close>

theorem backoff_grows_to_a_minute:
  assumes "0 \<le> i" and "i \<le> j"
  shows "\<exists>s t. backoff_delay i = Some s \<and> backoff_delay j = Some t \<and> 5 \<le> s \<and> s \<le> t \<and> t \<le> 60 \<and> (4 \<le> i \<longrightarrow> s = 60)"
proof -
  have cases: "k = 0 \<or> k = 1 \<or> k = 2 \<or> k = 3 \<or> 4 \<le> k" if "0 \<le> k" for k :: int using that by linarith
  have v: "backoff_delay 0 = Some 5" "backoff_delay 1 = Some 10" "backoff_delay 2 = Some 20" "backoff_delay 3 = Some 40"
    by (simp_all add: backoff_delay_def backoffDelays_def Let_def eval_nat_numeral)
  have cap: "backoff_delay k = Some 60" if "4 \<le> k" for k
    using that by (cases "k = 4") (simp_all add: backoff_delay_def backoffDelays_def Let_def eval_nat_numeral)
  from cases[of i] cases[of j] assms show ?thesis by (auto simp: v cap)
qed

theorem backoff_grows_to_a_minute_witness:
  "\<exists>s t. backoff_delay 2 = Some s \<and> backoff_delay 7 = Some t \<and> 5 \<le> s \<and> s \<le> t \<and> t \<le> 60"
  using backoff_grows_to_a_minute[of 2 7] by auto

text \<open>
  \<open>ResetCircuit\<close> succeeds exactly when the statement runs and the project id names a
  container of the calling user; it then closes that container's circuit and sets its counter
  to zero. Otherwise it reports that access is denied and no row of any other user or container changes.
\<close>

theorem ResetCircuit_only_for_the_owner:
  assumes "int8in env projectID = Some n" and "int8in env userID = Some u" and "db_ok (db w)"
    and "run_state (ResetCircuit env userID projectID) w = (res, w')"
  shows "if env_err env (hist w) (Sql ''reset circuit'') = None \<and> (\<exists>c \<in> set (containers (db w)). c_id c = n \<and> c_user_id c = u)
    then res = Inr () \<and> db w' = update_containers (\<lambda>c. c_id c = n) reset_circuit (db w)
    else res = Inl access_denied \<and> db w' = db w"
proof -
  let ?P = "\<lambda>c. c_id c = n \<and> c_user_id c = u"
  have none: "update_containers ?P f (db w) = db w" if "\<not> (\<exists>c \<in> set (containers (db w)). ?P c)" for f
  proof -
    from that have "map (\<lambda>c. if ?P c then f c else c) (containers (db w)) = containers (db w)" by (intro map_idI) auto
    then show ?thesis by (simp add: update_containers_def)
  qed
  have one: "update_containers ?P f (db w) = update_containers (\<lambda>c. c_id c = n) f (db w)"
    if "\<exists>c \<in> set (containers (db w)). ?P c" for f
  proof -
    have "map (\<lambda>c. if ?P c then f c else c) (containers (db w)) = map (\<lambda>c. if c_id c = n then f c else c) (containers (db w))"
      using that container_id_unique[OF assms(3)] by (intro map_cong refl) metis
    then show ?thesis by (simp add: update_containers_def)
  qed
  have some: "length (filter ?P (containers (db w))) = 0 \<longleftrightarrow> \<not> (\<exists>c \<in> set (containers (db w)). ?P c)"
    by (auto simp: filter_empty_conv)
  show ?thesis
    using assms(4) none[of reset_circuit] one[of reset_circuit] some
    by (auto simp: ResetCircuit_def run_bind run_sql update_reset_def with_bigint_def assms(1,2) run_fail run_ok
        simp del: update_containers_sel split: option.splits if_splits)
qed

theorem ResetCircuit_only_for_the_owner_witness:
  "fst (run_state (ResetCircuit sample_env ''1'' ''7'') sample_world) = Inr () \<and>
   fst (run_state (ResetCircuit sample_env ''2'' ''7'') sample_world) = Inl access_denied"
  using ResetCircuit_only_for_the_owner[of sample_env "''7''" 7 "''1''" 1 sample_world _ _, OF _ _ _ prod.collapse[symmetric]]
    ResetCircuit_only_for_the_owner[of sample_env "''7''" 7 "''2''" 2 sample_world _ _, OF _ _ _ prod.collapse[symmetric]]
  by (simp add: sample_int8in sample_db_ok sample_containers) (simp add: sample_container_def)

section \<open>Crashes handled at the same time\<close>

text \<open>
  Every crash event is handled in a goroutine of its own. The world and the handlers asleep
  between the two halves of \<open>HandleCrash\<close>:
\<close>

type_synonym sleeping = "(string \<times> int \<times> crash_info) list"

inductive crash_step :: "env \<Rightarrow> world \<times> sleeping \<Rightarrow> world \<times> sleeping \<Rightarrow> bool" for env where
  schedule: "run_state (crash_check env dcid) w = (Some ci, w') \<Longrightarrow> crash_step env (w, S) (w', S @ [(dcid, code, ci)])"
| give_up: "run_state (crash_check env dcid) w = (None, w') \<Longrightarrow> crash_step env (w, S) (w', S)"
| wake_up: "run_state (crash_restart env dcid code ci) w = ((), w') \<Longrightarrow> crash_step env (w, S1 @ (dcid, code, ci) # S2) (w', S1 @ S2)"

lemma crash_steps_keep_integrity:
  assumes "(crash_step env)\<^sup>*\<^sup>* s s'" and "world_ok (fst s)"
  shows "world_ok (fst s')"
  using assms
proof (induction rule: rtranclp_induct)
  case (step s s')
  then have "world_ok (fst s)" by simp
  with step.hyps(2) show ?case
    by cases (auto simp: keeps_ok_def dest: state_io_relD[OF keeps_ok_crash_check] state_io_relD[OF keeps_ok_recovery(1)])
qed

lemma wake_up_count:
  assumes "sql_works env" and "r \<in> set (containers (db w))" and "ci_projectID ci = c_id r"
    and "w' = snd (run_state (crash_restart env dcid code ci) w)"
  shows "\<exists>r' \<in> set (containers (db w')). c_id r' = c_id r \<and> c_restart_count r' = c_restart_count r + 1"
proof -
  from assms(4) have "run_state (crash_restart env dcid code ci) w = ((), w')" by (metis old.unit.exhaust prod.collapse)
  from crash_restart_row[OF assms(1) this] obtain t fin where fin: "fin = mark_stopped \<or> (\<exists>t2. fin = mark_running t2)"
    and cs: "containers (db w') = map (\<lambda>c. if c_id c = ci_projectID ci then fin (mark_starting t c) else c) (containers (db w))"
    by blast
  have "fin (mark_starting t r) \<in> set (containers (db w'))" unfolding cs using assms(2,3) by force
  moreover from fin have "c_id (fin (mark_starting t r)) = c_id r" "c_restart_count (fin (mark_starting t r)) = c_restart_count r + 1"
    by (auto simp: mark_starting_def mark_stopped_def mark_running_def)
  ultimately show ?thesis by blast
qed

text \<open>
  C38. The limit is only checked before the delay, so it does not hold when a container crashes
  again while a restart is pending: from any state in which one restart is left, two crashes
  handled at the same time restart the container twice and leave its counter above the plan's limit.
\<close>

theorem concurrent_crashes_exceed_the_limit:
  assumes works: "sql_works env" and ok: "world_ok w" and r: "r \<in> set (containers (db w))"
    and p: "has_plan (db w) (c_user_id r) p" and m: "m = pl_max_auto_restarts p"
    and cnt: "c_restart_count r + 1 = m" and closed: "\<not> c_circuit_open r"
  shows "\<exists>w'. (crash_step env)\<^sup>*\<^sup>* (w, []) (w', []) \<and>
    (\<exists>r' \<in> set (containers (db w')). c_id r' = c_id r \<and> c_restart_count r' = m + 1)"
proof -
  let ?dcid = "c_container_id r"
  define ci where "ci = \<lparr>ci_projectID = c_id r, ci_projectName = c_project_name r, ci_userID = int8out env (c_user_id r),
       ci_restartCount = c_restart_count r, ci_circuitOpen = c_circuit_open r, ci_maxRestarts = m\<rparr>"
  have check: "\<exists>v'. run_state (crash_check env ?dcid) v = (Some ci, v') \<and> db v' = db w" if "db v = db w" for v
  proof -
    obtain x v' where run: "run_state (crash_check env ?dcid) v = (x, v')" by fastforce
    have "x = Some ci \<and> v' = v\<lparr>hist := Sleep (the (backoff_delay (c_restart_count r))) # Sql ''select crashed'' # hist v\<rparr>"
      using that ok r p cnt closed by (intro crash_check_row(3)[OF works _ _ _ m ci_def run]) (auto simp: world_ok_def)
    with run that show ?thesis by simp
  qed
  from check[of w] obtain w1 where w1: "run_state (crash_check env ?dcid) w = (Some ci, w1)" "db w1 = db w" by blast
  from check[of w1] w1 obtain w2 where w2: "run_state (crash_check env ?dcid) w1 = (Some ci, w2)" "db w2 = db w" by blast
  define w3 where "w3 = snd (run_state (crash_restart env ?dcid 1 ci) w2)"
  define w4 where "w4 = snd (run_state (crash_restart env ?dcid 1 ci) w3)"
  have runs: "run_state (crash_restart env ?dcid 1 ci) w2 = ((), w3)" "run_state (crash_restart env ?dcid 1 ci) w3 = ((), w4)"
    unfolding w3_def w4_def by (metis old.unit.exhaust prod.collapse)+
  from wake_up_count[OF works _ _ w3_def, of r] r w2(2) obtain r3
    where r3: "r3 \<in> set (containers (db w3))" "c_id r3 = c_id r" "c_restart_count r3 = c_restart_count r + 1"
    by (auto simp: ci_def)
  from wake_up_count[OF works r3(1) _ w4_def] r3 obtain r4
    where r4: "r4 \<in> set (containers (db w4))" "c_id r4 = c_id r" "c_restart_count r4 = c_restart_count r + 2"
    by (auto simp: ci_def)
  have "crash_step env (w, []) (w1, [(?dcid, 1, ci)])" "crash_step env (w1, [(?dcid, 1, ci)]) (w2, [(?dcid, 1, ci), (?dcid, 1, ci)])"
    "crash_step env (w2, [(?dcid, 1, ci), (?dcid, 1, ci)]) (w3, [(?dcid, 1, ci)])" "crash_step env (w3, [(?dcid, 1, ci)]) (w4, [])"
    using schedule[OF w1(1), of "[]" 1] schedule[OF w2(1), of "[(?dcid, 1, ci)]" 1]
      wake_up[OF runs(1), of "[]" "[(?dcid, 1, ci)]"] wake_up[OF runs(2), of "[]" "[]"] by simp_all
  then have "(crash_step env)\<^sup>*\<^sup>* (w, []) (w4, [])"
    by (meson converse_rtranclp_into_rtranclp rtranclp.rtrancl_refl)
  with r4 cnt show ?thesis by force
qed

text \<open>A world in which one restart is left.\<close>

definition crashed_world :: world where
  "crashed_world = sample_world\<lparr>db := sample_db\<lparr>containers := [sample_container\<lparr>c_restart_count := 2\<rparr>]\<rparr>\<rparr>"

lemma crashed_world_ok: "world_ok crashed_world"
  using bus_ok_GlobalBus
  by (simp add: world_ok_def crashed_world_def sample_world_def db_ok_def ok_defs sample_db_def sample_user_def
      sample_container_def sample_plan_def health_values_def)

theorem concurrent_crashes_exceed_the_limit_witness:
  "\<exists>w'. (crash_step sample_env)\<^sup>*\<^sup>* (crashed_world, []) (w', []) \<and>
    (\<exists>r' \<in> set (containers (db w')). c_id r' = 7 \<and> c_restart_count r' = 4)"
  using concurrent_crashes_exceed_the_limit[of sample_env crashed_world "sample_container\<lparr>c_restart_count := 2\<rparr>" sample_plan 3]
    sample_has_plan crashed_world_ok
  by (simp add: sql_works_def crashed_world_def has_plan_def) (simp add: sample_container_def sample_plan_def)

end
