(* ===== verification/Container_Handler_Proofs.thy ===== *)
theory Container_Handler_Proofs
  imports Container_Handlers Recovery_Proofs Auth_Proofs Container_Proofs Sample_Requests
begin

text \<open>
  Properties of the container handlers: where file requests may reach inside a container, which
  images a request may start, and who may act on a container.
\<close>

section \<open>Paths\<close>

text \<open>A path inside: it starts like \<open>/workspace\<close> and never goes up.\<close>

definition path_inside :: "string \<Rightarrow> bool" where
  "path_inside q \<longleftrightarrow> HasPrefix q workspace \<and> clean_path q"

lemma clean_path_no_dots: "clean_path q \<Longrightarrow> dotdot \<notin> set (split_on slash q)"
proof -
  assume "clean_path q"
  then obtain es where es: "es \<noteq> []" "\<forall>e \<in> set es. proper_elem e" "q = slash # join_on slash es"
    unfolding clean_path_def by (elim exE conjE)
  have "split_on slash (join_on slash es) = es"
    by (rule split_join[OF es(1)]) (use es(2) proper_no_slash in blast)
  with es(2,3) show ?thesis by (auto simp: proper_elem_def)
qed

lemma workspace_path_inside:
  assumes "workspace_path p = Some q"
  shows "path_inside q"
proof -
  from assms have q: "q = Clean p" "HasPrefix q workspace" by (auto simp: workspace_path_def Let_def split: if_splits)
  then obtain z where z: "Clean p = slash # ''workspace'' @ z" by (auto simp: HasPrefix_def prefix_def workspace_def)
  then have "p \<noteq> []" "hd p = slash" using Clean_unrooted_hd[of p] by auto
  then obtain es where es: "Clean p = slash # join_on slash es" "\<forall>e \<in> set es. proper_elem e" by (rule Clean_rooted)
  with z have "es \<noteq> []" by auto
  with es q show ?thesis unfolding path_inside_def clean_path_def by blast
qed

lemma clean_path_cases:
  assumes "clean_path q"
  obtains (top) e where "proper_elem e" and "q = slash # e"
  | (below) d e where "clean_path d" and "proper_elem e" and "q = d @ slash # e"
proof -
  from assms obtain es where es: "es \<noteq> []" "\<forall>e \<in> set es. proper_elem e" "q = slash # join_on slash es"
    unfolding clean_path_def by (elim exE conjE)
  from es(1) obtain ds e where de: "es = ds @ [e]" by (cases es rule: rev_cases) auto
  show ?thesis
  proof (cases "ds = []")
    case True
    with de es show ?thesis by (intro top) auto
  next
    case False
    with de es show ?thesis
      by (intro below[of "slash # join_on slash ds" e]) (auto simp: clean_path_def join_on_snoc)
  qed
qed

lemma Clean_id: "clean_path q \<Longrightarrow> Clean q = q"
proof -
  assume "clean_path q"
  then obtain es where es: "es \<noteq> []" "\<forall>e \<in> set es. proper_elem e" "q = slash # join_on slash es"
    unfolding clean_path_def by (elim exE conjE)
  have sp: "split_on slash (join_on slash es) = es"
    by (rule split_join[OF es(1)]) (use es(2) proper_no_slash in blast)
  have "clean_elems True st es = rev es @ st" for st
    using es(2) by (induction es arbitrary: st) (simp_all add: proper_elem_def)
  with es(3) sp show ?thesis by (simp add: Clean_def Let_def)
qed

lemma Join_dir_base:
  assumes c: "clean_path q"
  shows "Join [Dir q, Base q] = q"
  using c
proof (cases rule: clean_path_cases)
  case (top e)
  have "Base q = e" using Base_append[of e "[]"] top by (simp add: proper_elem_def)
  moreover have "Dir q = [slash]" using to_last_slash[of e "[]"] top by (simp add: Dir_def Clean_def proper_elem_def)
  moreover have "Clean (slash # slash # e) = Clean (slash # e)" by (simp add: Clean_def)
  ultimately show ?thesis using Clean_id[OF c] top by (simp add: Join_def)
next
  case (below d e)
  have "d \<noteq> []" using below(1) by (auto simp: clean_path_def)
  moreover have "Base q = e" "Dir q = d" using Base_append[of e d] Dir_append[of d e] below by (auto simp: proper_elem_def)
  ultimately show ?thesis using Clean_id[OF c] below by (simp add: Join_def)
qed

lemma upload_dest_inside:
  assumes "path_inside folder" and "proper_elem (Base filename)"
  shows "path_inside (upload_dest folder filename)"
proof -
  from assms have c: "clean_path (folder @ slash # Base filename)" "folder \<noteq> []"
    by (auto simp: path_inside_def clean_path_append) (auto simp: clean_path_def)
  then have "upload_dest folder filename = folder @ slash # Base filename"
    by (simp add: upload_dest_def Join_def Clean_id)
  with c assms(1) show ?thesis by (auto simp: path_inside_def HasPrefix_def)
qed

section \<open>Which calls the file handlers make\<close>

fun inside_call :: "call \<Rightarrow> bool" where
  "inside_call (Sql _) = True"
| "inside_call (ExecAttach _ _) = True"
| "inside_call (ExecRead _) = True"
| "inside_call (ExecCreate _ cmd _) = (\<exists>q. path_inside q \<and> (cmd = [''cat'', q] \<or> cmd = [''mkdir'', ''-p'', Dir q]))"
| "inside_call (CopyToContainer _ dir tf) = path_inside (Join [dir, tf_name tf])"
| "inside_call _ = False"

lemma only_calls_respond:
  "state_io_rel (only_calls P) (RespondError m n)" "state_io_rel (only_calls P) (RespondData d n)"
  "state_io_rel (only_calls P) (RespondSuccess n)" "state_io_rel (only_calls P) method_not_allowed"
  by (rule state_io_relI, auto simp: run_simps RespondSuccess_def method_not_allowed_def oc.R_refl)+

lemma only_calls_ExecCommand:
  assumes "\<And>t. P (Sql t)" and "\<And>cid tty. P (ExecCreate cid cmd tty)" and "\<And>i tty. P (ExecAttach i tty)" and "\<And>i. P (ExecRead i)"
  shows "state_io_rel (only_calls P) (ExecCommand env pid cmd)" "state_io_rel (only_calls P) (execInContainer env cid cmd)"
  unfolding ExecCommand_def execInContainer_def GetContainerByID_def
  by (intro oc.io_intros only_calls_intros assms)+

lemma only_calls_cat: "path_inside q \<Longrightarrow> state_io_rel (only_calls inside_call) (ExecCommand env pid [''cat'', q])"
  by (rule only_calls_ExecCommand) auto

lemma only_calls_write:
  assumes "path_inside q"
  shows "state_io_rel (only_calls inside_call) (WriteFileToContainer env pid q content)"
proof -
  have "Join [Dir q, Base q] = q" using assms Join_dir_base by (simp add: path_inside_def)
  then show ?thesis
    using assms unfolding WriteFileToContainer_def GetContainerByID_def Let_def
    by (intro oc.io_intros only_calls_intros only_calls_ExecCommand) auto
qed

lemma only_calls_workspace_path:
  assumes "\<And>q. path_inside q \<Longrightarrow> state_io_rel (only_calls P) (f q)" and "state_io_rel (only_calls P) m"
  shows "state_io_rel (only_calls P) (case workspace_path p of None \<Rightarrow> m | Some q \<Rightarrow> f q)"
  using assms workspace_path_inside by (auto split: option.split)

text \<open>
  C15. Reading, writing and downloading files touches only paths below a folder whose name starts with
  \<open>/workspace\<close>, with no dot-dot element left: apart from the database, the only calls such a request makes are
  to print such a path, to create the folder of one, or to copy a file to one.
\<close>

theorem file_requests_stay_inside:
  "state_io_rel (only_calls inside_call) (handle_ReadFile env r) \<and>
   state_io_rel (only_calls inside_call) (handle_DownloadFile env mime r) \<and>
   state_io_rel (only_calls inside_call) (handle_WriteFile env r2)"
proof (intro conjI)
  show "state_io_rel (only_calls inside_call) (handle_ReadFile env r)"
    unfolding handle_ReadFile_def
    by (intro oc.io_intros only_calls_workspace_path only_calls_respond only_calls_cat)
  show "state_io_rel (only_calls inside_call) (handle_DownloadFile env mime r)"
    unfolding handle_DownloadFile_def Let_def
    by (intro oc.io_intros only_calls_workspace_path only_calls_respond only_calls_cat)
  show "state_io_rel (only_calls inside_call) (handle_WriteFile env r2)"
    unfolding handle_WriteFile_def respond_done_def
    by (intro oc.io_intros only_calls_workspace_path only_calls_respond only_calls_write)
qed

text \<open>
  The check does not do what its message says: a sibling of \<open>/workspace\<close> whose name continues it is
  accepted, and an upload whose file name is two dots is aimed at the root of the container.
\<close>

theorem workspace_check_is_a_prefix_check:
  "workspace_path ''/workspace/../workspace-keys/id'' = Some ''/workspace-keys/id'' \<and>
   workspace_path ''/workspace'' = Some workspace \<and> upload_dest workspace ''..'' = ''/''"
  by (simp add: workspace_path_def upload_dest_def Clean_def Join_def Base_def TrimRight_def HasPrefix_def workspace_def
      dot_def dotdot_def)

section \<open>Images\<close>

definition creates_only :: "string \<Rightarrow> call \<Rightarrow> bool" where
  "creates_only img c \<longleftrightarrow> (case c of ContainerCreate cf \<Rightarrow> cf_image cf = img | _ \<Rightarrow> True)"

lemma creates_only_other [simp]:
  "creates_only img (Sql t)" "creates_only img TxBegin" "creates_only img TxCommit" "creates_only img TxRollback"
  "creates_only img (ImageInspect s)" "creates_only img (ImagePull s)" "creates_only img (PullRead s)"
  "creates_only img (OsMkdirAll s)" "creates_only img (OsRemoveAll s)" "creates_only img (ContainerStart s)"
  "creates_only img (ContainerStop s n)" "creates_only img (ContainerRemove s)" "creates_only img (ContainerInspect s p)"
  "creates_only img (ExecCreate s cmd b)" "creates_only img (ExecAttach s b)" "creates_only img (ExecRead s)"
  "creates_only img NewUUID" "creates_only img (ContainerCreate cf) \<longleftrightarrow> cf_image cf = img"
  by (simp_all add: creates_only_def)

lemma creates_only_install: "state_io_rel (only_calls (creates_only img)) (try_install env cid ics)"
  by (induction ics) (auto intro!: oc.io_intros only_calls_ExecCommand split: sum.split)

lemma creates_only_manager:
  "state_io_rel (only_calls (creates_only img)) (CreateContainer env cm project img)"
  "state_io_rel (only_calls (creates_only img)) (CreateContainerWithPort env cm project img port)"
  unfolding CreateContainer_def CreateContainerWithPort_def in_tx_def check_quota_def GetContainersForUserByID_def GetPlanForUser_def
    pullImageIfNeeded_def installPackages_def removeFolderRollBack_def repo_CreateContainer_def Let_def
  by (intro oc.io_intros only_calls_intros creates_only_install, simp_all add: container_config_of_def)+

definition creates_among :: "string set \<Rightarrow> call \<Rightarrow> bool" where
  "creates_among T c \<longleftrightarrow> (\<forall>cf. c = ContainerCreate cf \<longrightarrow> cf_image cf \<in> T)"

lemma only_calls_among: "only_calls (creates_only img) w w' \<Longrightarrow> img \<in> T \<Longrightarrow> only_calls (creates_among T) w w'"
  unfolding only_calls_def creates_among_def by (metis creates_only_other(18))

lemma allowed_images_run:
  "env_err env (hist w) (Sql ''select allowed images'') = None \<Longrightarrow>
   run_state (GetAllowedImages env) w =
     (Inr (map t_image (templates (db w))), w\<lparr>hist := Sql ''select allowed images'' # hist w\<rparr>)"
  by (simp add: GetAllowedImages_def run_sql)

text \<open>
  C33. When there are templates and they can be read, a request to create a container starts only images of
  templates: every container created on its behalf has an image that occurs in the table.
\<close>

theorem only_template_images_are_started:
  assumes some: "templates (db w) \<noteq> []" and rd: "\<forall>h. env_err env h (Sql ''select allowed images'') = None"
    and run: "run_state (handle_CreateContainer env ch r) w = (resp, w')"
  shows "only_calls (creates_among (t_image ` set (templates (db w)))) w w'"
proof (cases "rq_method r = ''POST''")
  case False
  with run show ?thesis by (simp add: handle_CreateContainer_def method_not_allowed_def run_RespondError oc.R_refl)
next
  case post: True
  let ?T = "t_image ` set (templates (db w))"
  show ?thesis
  proof (cases "rq_body r")
    case (Inl e)
    with post run show ?thesis by (simp add: handle_CreateContainer_def run_RespondError oc.R_refl)
  next
    case (Inr req)
    show ?thesis
    proof (cases "create_request_error req")
      case (Some m)
      with post Inr run show ?thesis by (simp add: handle_CreateContainer_def run_RespondError oc.R_refl)
    next
      case None
      let ?img = "if cr_Image req = [] then ''alpine:latest'' else cr_Image req"
      let ?first = "if prj_ID (cr_Project req) = [] then do { u \<leftarrow> uuid_New env; State_Monad.return ((cr_Project req)\<lparr>prj_ID := u\<rparr>) }
                    else State_Monad.return (cr_Project req)"
      obtain project w1 where w1: "run_state ?first w = (project, w1)" by fastforce
      have 1: "db w1 = db w" "only_calls (creates_among ?T) w w1"
        using w1 by (auto simp: uuid_New_def run_simps oc.R_refl only_calls_def creates_among_def split: if_splits)
      let ?w2 = "w1\<lparr>hist := Sql ''select allowed images'' # hist w1\<rparr>"
      have 2: "only_calls (creates_among ?T) w ?w2"
        by (rule oc.R_trans[OF 1(2)]) (simp add: only_calls_def creates_among_def)
      let ?rest = "if image_refused (Inr (map t_image (templates (db w)))) ?img then RespondError image_not_allowed 400
         else do { res \<leftarrow> (if cr_Port req \<noteq> [] then CreateContainerWithPort env (hd_manager ch) project ?img (cr_Port req)
                          else CreateContainer env (hd_manager ch) project ?img);
                   (case res of Inl e \<Rightarrow> RespondError (Error_text e) 500 | Inr info \<Rightarrow> RespondData (ContainerData info) 201) }"
      have rest: "run_state ?rest ?w2 = (resp, w')"
        using run post Inr None w1 rd 1(1)
        unfolding handle_CreateContainer_def Let_def by (simp add: run_bind[of ?first] run_bind[of "GetAllowedImages env"] allowed_images_run)
      have "state_io_rel (only_calls (creates_only ?img)) ?rest"
        by (intro oc.io_intros only_calls_respond creates_only_manager)
      from state_io_relD[OF this rest] have 3: "only_calls (creates_only ?img) ?w2 w'" .
      show ?thesis
      proof (cases "?img \<in> ?T")
        case True
        from oc.R_trans[OF 2 only_calls_among[OF 3 True]] show ?thesis .
      next
        case False
        with some have "image_refused (Inr (map t_image (templates (db w)))) ?img" by (simp add: image_refused_def)
        with rest have "w' = ?w2" by (simp only: if_True run_RespondError prod.inject)
        with 2 show ?thesis by simp
      qed
    qed
  qed
qed

lemma first_row_mem: "first_row xs = Inr x \<Longrightarrow> x \<in> set xs"
  by (auto simp: first_row_def split: list.splits)

section \<open>Who may act on a container\<close>

lemma with_user_sel:
  "rq_method (with_user u r) = rq_method r" "rq_query (with_user u r) = rq_query r" "rq_body (with_user u r) = rq_body r"
  by (simp_all add: with_user_def)


text \<open>
  The health of a container is shown to its owner only: an answer of 200 means that the requester owns a container
  with the given id, and the answer is about that container.
\<close>

theorem GetHealth_only_for_the_owner:
  assumes run: "run_state (handle_GetHealth env r) w = (resp, w')" and ok: "rs_status resp = 200"
  shows "\<exists>c \<in> set (containers (db w)). int8in env (project_id r) = Some (c_id c) \<and>
    int8in env (user_or_empty r) = Some (c_user_id c) \<and>
    (\<exists>hi. rs_payload resp = Json \<lparr>Success = True, Data = Some (HealthData hi), Error = []\<rparr> \<and>
       hi_RestartCount hi = c_restart_count c \<and> hi_CircuitOpen hi = c_circuit_open c)"
proof -
  let ?q = "sql env Pool ''select health'' (\<lambda>_ _. select_health env (project_id r) (user_or_empty r))"
  obtain res w1 where q: "run_state ?q w = (res, w1)" by fastforce
  have "run_state (case res of Inl _ \<Rightarrow> RespondError ''container not found'' 404 | Inr health \<Rightarrow> RespondData (HealthData health) 200) w1 = (resp, w')"
    using run ok q by (auto simp: handle_GetHealth_def method_not_allowed_def run_RespondError run_bind split: if_splits)
  with ok obtain hi where hi: "res = Inr hi" "rs_payload resp = Json \<lparr>Success = True, Data = Some (HealthData hi), Error = []\<rparr>"
    by (cases res) (auto simp: run_RespondError run_RespondData)
  from q[unfolded hi(1)] obtain d where d: "select_health env (project_id r) (user_or_empty r) (db w) = (Inr hi, d)"
    by (rule sql_Inr) simp
  then obtain n u where nu: "int8in env (project_id r) = Some n" "int8in env (user_or_empty r) = Some u"
    by (auto simp: select_health_def with_bigint_def split: option.splits)
  from d show ?thesis unfolding select_health_def with_bigint_def nu option.case prod.inject using hi(2)
    by (auto dest!: first_row_mem) metis
qed

section \<open>Integrity\<close>

lemma sound_health: "sound_on h (select_health env pid uid)"
  by (rule sound_on_read) (simp add: select_health_def with_bigint_def split: option.split)

lemma keeps_ok_uuid: "state_io_rel keeps_ok (uuid_New env)"
  unfolding uuid_New_def by (intro ko.io_intros keeps_ok_intros)

lemma keeps_ok_container_handlers:
  "state_io_rel keeps_ok (handle_CreateContainer env h r1)" "state_io_rel keeps_ok (handle_GetContainer env h r2)"
  "state_io_rel keeps_ok (handle_StartContainer env r2)" "state_io_rel keeps_ok (handle_StopContainer env r2)"
  "state_io_rel keeps_ok (handle_RemoveContainer env r2)" "state_io_rel keeps_ok (handle_ExecCommand env r3)"
  "state_io_rel keeps_ok (handle_TreeFolder env r2)" "state_io_rel keeps_ok (handle_ReadFile env r2)"
  "state_io_rel keeps_ok (handle_WriteFile env r4)" "state_io_rel keeps_ok (handle_UploadFile env r5)"
  "state_io_rel keeps_ok (handle_DownloadFile env mime r2)" "state_io_rel keeps_ok (handle_GetHealth env r2)"
  "state_io_rel keeps_ok (handle_ResetCircuit env h r2)"
  unfolding handle_CreateContainer_def handle_GetContainer_def handle_StartContainer_def handle_StopContainer_def
    handle_RemoveContainer_def handle_ExecCommand_def handle_TreeFolder_def handle_ReadFile_def handle_WriteFile_def
    handle_UploadFile_def handle_DownloadFile_def handle_GetHealth_def handle_ResetCircuit_def respond_done_def Let_def
  by (intro ko.io_intros keeps_ok_intros keeps_ok_respond keeps_ok_manager keeps_ok_repo_reads keeps_ok_recovery keeps_ok_uuid sound_health)+

section \<open>Witnesses\<close>

definition sample_template :: template_row where
  "sample_template = \<lparr>t_id = 1, t_name = ''Alpine'', t_description = [], t_image = ''alpine:latest'', t_category = ''tools'',
     t_tags = ''[]'', t_popular = False, t_icon = None, t_default_ports = ''[]'', t_created_at = 1\<rparr>"

definition template_world :: world where
  "template_world = sample_world\<lparr>db := sample_db\<lparr>templates := [sample_template]\<rparr>\<rparr>"

abbreviation create_request :: "CreateContainerRequest request" where
  "create_request \<equiv> plain_request ''POST'' (Some ''1'') (\<lambda>_. []) (\<lambda>_. [])
     \<lparr>cr_Project = \<lparr>prj_ID = ''p1'', prj_Name = ''demo'', prj_UserId = ''1''\<rparr>, cr_Image = [], cr_Port = []\<rparr>"

abbreviation health_request :: "unit request" where
  "health_request \<equiv> plain_request ''GET'' (Some ''1'') (\<lambda>_. ''7'') (\<lambda>_. []) ()"

theorem only_template_images_are_started_witness:
  "only_calls (creates_among {''alpine:latest''}) template_world
     (snd (run_state (handle_CreateContainer sample_env \<lparr>hd_manager = \<lparr>basePath = ''/data'', autoStopTimeout = 60\<rparr>, hd_recovery = True\<rparr>
       create_request) template_world))"
proof -
  have t: "templates (db template_world) = [sample_template]" by (simp add: template_world_def)
  have i: "t_image sample_template = ''alpine:latest''" by (simp add: sample_template_def)
  show ?thesis
    using only_template_images_are_started[of template_world sample_env, OF _ _ prod.collapse[symmetric]] by (simp add: t i)
qed

theorem GetHealth_only_for_the_owner_witness:
  "rs_status (fst (run_state (handle_GetHealth sample_env health_request) sample_world)) = 200 \<and>
   (\<exists>c \<in> set (containers sample_db). int8in sample_env (user_or_empty health_request) = Some (c_user_id c))"
proof -
  have h: "project_id health_request = ''7''" "user_or_empty health_request = ''1''" "rq_method health_request = ''GET''"
    by (simp_all add: project_id_def user_or_empty_def)
  have "\<exists>hi. fst (select_health sample_env ''7'' ''1'' sample_db) = Inr hi"
    by (simp add: select_health_def with_bigint_def sample_int8in first_row_def sample_db_def sample_container_def sample_user_def sample_plan_def)
  then obtain hi where hi: "fst (select_health sample_env ''7'' ''1'' sample_db) = Inr hi" by blast
  have 200: "rs_status (fst (run_state (handle_GetHealth sample_env health_request) sample_world)) = 200"
    using hi by (simp add: handle_GetHealth_def h run_bind run_sql run_RespondData prod.case_eq_if)
  from GetHealth_only_for_the_owner[OF prod.collapse[symmetric] 200] 200 show ?thesis by auto
qed

end
