(* ===== verification/Users_Proofs.thy ===== *)
theory Users_Proofs
  imports Users Auth_Proofs
begin

text \<open>
  Properties of the account endpoints: who can log in, what a password reset and an e-mail
  verification change, and that the endpoints that take an e-mail address answer alike
  for every address.
\<close>

section \<open>Integrity\<close>

lemma db_ok_update_users:
  assumes ok: "db_ok d" and "\<And>u. u_id (f u) = u_id u" and "\<And>u. u_email (f u) = u_email u" and "\<And>u. u_role (f u) = u_role u"
    and "\<And>u. u \<in> set (users d) \<Longrightarrow> u_id u = n \<Longrightarrow> u_plan_id (f u) \<in> pl_id ` set (plans d)"
  shows "db_ok (snd (update_users n f d))"
proof -
  let ?us = "map (\<lambda>u. if u_id u = n then f u else u) (users d)"
  have cols: "map u_id ?us = map u_id (users d)" "map u_email ?us = map u_email (users d)"
    by (rule map_map_if_same, rule assms)+
  have ids: "u_id ` set ?us = u_id ` set (users d)" using arg_cong[OF cols(1), of set] by (simp only: set_map)
  have "users_ok (d\<lparr>users := ?us\<rparr>)"
    using db_okD(1)[OF ok] assms cols by (auto simp: users_ok_def simp del: map_map split: if_splits)
  with db_okD[OF ok] ids show "db_ok (snd (update_users n f d))"
    by (simp add: update_users_def db_ok_def containers_ok_def networks_ok_def members_ok_def tokens_ok_def keys_ok_def logs_ok_def
        del: set_map image_image)
qed

lemma sound_update_users:
  assumes "\<And>u. u_id (f u) = u_id u" and "\<And>u. u_email (f u) = u_email u" and "\<And>u. u_plan_id (f u) = u_plan_id u"
    and "\<And>u. u_role (f u) = u_role u"
  shows "sound_on h (update_users n f)"
proof (rule sound_onI)
  fix d
  assume ok: "db_ok d"
  with assms show "db_ok (snd (update_users n f d))"
    by (intro db_ok_update_users) (auto dest!: db_okD(1) simp: users_ok_def)
qed (simp_all add: update_users_def)

lemma sound_user_updates:
  "sound_on h (update_users n (\<lambda>u. u\<lparr>u_email_verified_at := t\<rparr>))" "sound_on h (update_users n (\<lambda>u. u\<lparr>u_password_hash := p\<rparr>))"
  by (rule sound_update_users; simp)+

lemma keeps_ok_user_service:
  "state_io_rel keeps_ok (svc_CreateUser env name email pw)" "state_io_rel keeps_ok (svc_GetUser env i)"
  "state_io_rel keeps_ok (svc_GetUserWithContainers env i)" "state_io_rel keeps_ok (svc_DeleteUser env i)"
  "state_io_rel keeps_ok (svc_GetUserByEmail env email)" "state_io_rel keeps_ok (svc_GetUserByEmailWithPassword env email)"
  "state_io_rel keeps_ok (HashPassword env pw)"
  unfolding svc_CreateUser_def svc_GetUser_def svc_GetUserWithContainers_def svc_DeleteUser_def svc_GetUserByEmail_def
    svc_GetUserByEmailWithPassword_def HashPassword_def
  by (intro ko.io_intros keeps_ok_intros keeps_ok_repo keeps_ok_repo_reads)+

lemma keeps_ok_mail:
  "state_io_rel keeps_ok (SendVerificationEmail env m a b c)" "state_io_rel keeps_ok (SendPasswordResetEmail env m a b c)"
  unfolding SendVerificationEmail_def SendPasswordResetEmail_def Send_def sendTLS_def Let_def by (intro ko.io_intros keeps_ok_intros)+

lemma keeps_ok_user_tasks:
  "state_io_rel keeps_ok (register_task env uc req)" "state_io_rel keeps_ok (resend_task env uc email)"
  "state_io_rel keeps_ok (forgot_task env uc email)"
  unfolding register_task_def resend_task_def forgot_task_def Let_def
  by (intro ko.io_intros keeps_ok_intros keeps_ok_user_service keeps_ok_tokens keeps_ok_mail)+

lemma keeps_ok_user_handlers:
  "state_io_rel keeps_ok (Login env uc v1 r1)" "state_io_rel keeps_ok (Register env uc v2 r2)"
  "state_io_rel keeps_ok (RefreshToken env uc r3)" "state_io_rel keeps_ok (GetUser env r4)"
  "state_io_rel keeps_ok (GetUserWithContainers env r5)" "state_io_rel keeps_ok (DeleteUser env r6)"
  "state_io_rel keeps_ok (VerifyEmail env v3 r7)" "state_io_rel keeps_ok (ResendVerification env uc r7)"
  "state_io_rel keeps_ok (ForgotPassword env uc r7)" "state_io_rel keeps_ok (ResetPassword env v4 r8)"
  unfolding Login_def Register_def RefreshToken_def GetUser_def GetUserWithContainers_def DeleteUser_def VerifyEmail_def
    ResendVerification_def ForgotPassword_def ResetPassword_def respond_only_def Let_def
  by (intro ko.io_intros keeps_ok_intros keeps_ok_respond keeps_ok_user_service keeps_ok_tokens sound_user_updates)+

section \<open>No enumeration\<close>

text \<open>
  C26. The endpoints that take an e-mail address do not reveal whether it belongs to an account:
  for every request the answer of \<open>ForgotPassword\<close> and of \<open>ResendVerification\<close> is the same in
  all states of the database, and they read and change nothing before answering; all work is left to the
  goroutine they start.
\<close>

theorem email_endpoints_reveal_nothing:
  "\<exists>resp1 task1 resp2 task2. \<forall>w.
     run_state (ForgotPassword env uc r) w = ((resp1, task1), w) \<and> run_state (ResendVerification env uc r) w = ((resp2, task2), w)"
  by (auto simp: ForgotPassword_def ResendVerification_def respond_only_def method_not_allowed_def run_simps split: sum.split)


section \<open>Login\<close>

lemma GetUserByEmailWithPassword_Inr:
  assumes "run_state (GetUserByEmailWithPassword env Pool email) w = (Inr user, w')"
  obtains u where "u \<in> set (users (db w))" and "u_email u = email" and "user = (scan_user env u)\<lparr>usr_Password := u_password_hash u\<rparr>"
    and "db w' = db w"
proof -
  from map_err_Inr[OF assms[unfolded GetUserByEmailWithPassword_def]] obtain d where
    d: "select_user_with_password env email (db w) = (Inr user, d)" "db w' = d"
    by (rule sql_Inr) simp
  from d(1) obtain u where u: "first_row (filter (\<lambda>r. u_email r = email) (users (db w))) = Inr u"
    "user = (scan_user env u)\<lparr>usr_Password := u_password_hash u\<rparr>" "d = db w"
    by (cases "first_row (filter (\<lambda>r. u_email r = email) (users (db w)))") (simp_all add: select_user_with_password_def)
  from u(1) have "u \<in> set (users (db w)) \<and> u_email u = email"
    by (auto simp: first_row_def filter_eq_Cons_iff split: list.splits)
  with u d(2) show ?thesis by (intro that) auto
qed


section \<open>Password reset\<close>

lemma consume_token_live:
  "consume_token h ty t d =
     (case live_token h ty t d of
        None \<Rightarrow> (Inl ErrNoRows, d)
      | Some uid \<Rightarrow> (map_sum (\<lambda>e. e) (\<lambda>r. \<lparr>tr_ID = et_id r, tr_UserID = et_user_id r, tr_Type = et_type r\<rparr>)
            (first_row (filter (token_matches h ty t) (email_tokens d))), snd (consume_token h ty t d)))"
proof (cases "live_token h ty t d")
  case None
  then have none: "\<forall>r \<in> set (email_tokens d). \<not> token_matches h ty t r" by (simp add: live_token_None)
  then have "map (\<lambda>r. if token_matches h ty t r then r\<lparr>et_used_at := Some t\<rparr> else r) (email_tokens d) = email_tokens d"
    by (intro map_idI) auto
  with none None show ?thesis by (simp add: consume_token_def first_row_def filter_empty_conv[THEN iffD2])
qed (simp add: consume_token_def)

lemma consume_token_Some:
  "live_token h ty t d = Some uid \<Longrightarrow> \<exists>rec. fst (consume_token h ty t d) = Inr rec \<and> tr_UserID rec = uid"
  by (auto simp: live_token_def consume_token_def first_row_def split: list.splits)

text \<open>
  C25. A password reset does what its link allows and nothing else: without a live reset token
  nothing changes and the answer is 400; with one, the answer is 200, the password
  hash of exactly the token's user becomes the hash of the new password, no other table
  but the tokens changes, and the token is dead from then on.
\<close>

theorem ResetPassword_effect:
  assumes "rq_method r = ''POST''" and "rq_body r = Inr req" and "vld req = None"
    and nf: "\<forall>h c. env_err env h c = None"
    and run: "run_state (ResetPassword env vld r) w = (resp, w')"
    and h: "h = HashToken env (pr_Token req)" and t: "t = env_now env (hist w)"
  shows "case live_token h ''password_reset'' t (db w) of
      None \<Rightarrow> rs_status resp = 400 \<and> db w' = db w
    | Some uid \<Rightarrow> rs_status resp = 200 \<and>
        (\<exists>pw d1. d1 = snd (consume_token h ''password_reset'' t (db w)) \<and>
           pw = env_str env (Sql ''consume token'' # hist w) (BcryptGenerate (pr_NewPassword req)) \<and>
           db w' = d1\<lparr>users := map (\<lambda>u. if u_id u = uid then u\<lparr>u_password_hash := pw\<rparr> else u) (users (db w))\<rparr>) \<and>
        (\<forall>t' \<ge> t. live_token h ''password_reset'' t' (db w') = None)"
proof (cases "live_token h ''password_reset'' t (db w)")
  case None
  have "run_state (Consume env (pr_Token req) ''password_reset'') w = (Inl ErrNoRows, w\<lparr>hist := Sql ''consume token'' # hist w\<rparr>)"
    using nf None by (simp add: Consume_def run_sql h[symmetric] t[symmetric] consume_token_live)
  with None run assms(1-3) show ?thesis by (auto simp: ResetPassword_def run_bind run_RespondError)
next
  case (Some uid)
  let ?d1 = "snd (consume_token h ''password_reset'' t (db w))"
  from consume_token_Some[OF Some] obtain rec where rec: "fst (consume_token h ''password_reset'' t (db w)) = Inr rec" "tr_UserID rec = uid"
    by blast
  let ?w1 = "w\<lparr>hist := Sql ''consume token'' # hist w, db := ?d1\<rparr>"
  have c: "run_state (Consume env (pr_Token req) ''password_reset'') w = (Inr rec, ?w1)"
    using nf rec by (simp add: Consume_def run_sql h[symmetric] t[symmetric] prod.case_eq_if)
  have us: "users ?d1 = users (db w)" by (simp add: consume_token_def)
  let ?pw = "env_str env (Sql ''consume token'' # hist w) (BcryptGenerate (pr_NewPassword req))"
  from run assms(1-3) c nf rec us have w': "rs_status resp = 200"
    "db w' = ?d1\<lparr>users := map (\<lambda>u. if u_id u = uid then u\<lparr>u_password_hash := ?pw\<rparr> else u) (users (db w))\<rparr>"
    by (auto simp: ResetPassword_def run_bind HashPassword_def run_call_str run_sql update_users_def run_RespondData)
  have "live_token h ''password_reset'' t' (db w') = None" if "t \<le> t'" for t'
    using ts.consume_dead[OF that, of h "''password_reset''" "db w"] w'(2)
    by (simp add: consume_user_snd live_token_def)
  with Some w' show ?thesis by auto
qed

text \<open>
  The token is consumed before the new password is hashed: when hashing fails, as bcrypt does
  for passwords of more than 72 bytes, the answer is 500, the password is unchanged and the link
  no longer works.
\<close>

theorem failed_reset_burns_the_token:
  assumes "rq_method r = ''POST''" and "rq_body r = Inr req" and "vld req = None"
    and "env_err env (hist w) (Sql ''consume token'') = None"
    and "\<forall>h. env_err env h (BcryptGenerate (pr_NewPassword req)) \<noteq> None"
    and run: "run_state (ResetPassword env vld r) w = (resp, w')"
    and h: "h = HashToken env (pr_Token req)" and t: "t = env_now env (hist w)"
    and live: "live_token h ''password_reset'' t (db w) = Some uid"
  shows "rs_status resp = 500 \<and> users (db w') = users (db w) \<and> (\<forall>t' \<ge> t. live_token h ''password_reset'' t' (db w') = None)"
proof -
  let ?d1 = "snd (consume_token h ''password_reset'' t (db w))"
  from consume_token_Some[OF live] obtain rec where rec: "fst (consume_token h ''password_reset'' t (db w)) = Inr rec" by blast
  have c: "run_state (Consume env (pr_Token req) ''password_reset'') w = (Inr rec, w\<lparr>hist := Sql ''consume token'' # hist w, db := ?d1\<rparr>)"
    using assms(4) rec by (simp add: Consume_def run_sql h[symmetric] t[symmetric] prod.case_eq_if)
  obtain e where e: "env_err env (Sql ''consume token'' # hist w) (BcryptGenerate (pr_NewPassword req)) = Some e"
    using assms(5) by blast
  from run assms(1-3) c e have "rs_status resp = 500" "db w' = ?d1"
    by (auto simp: ResetPassword_def run_bind HashPassword_def run_call_str run_RespondError)
  then show ?thesis
    using ts.consume_dead[of t _ h "''password_reset''" "db w"] by (auto simp: consume_user_snd consume_token_def)
qed

section \<open>Witnesses\<close>

text \<open>A library that signs the tokens of one login, a user whose address is verified, and a bcrypt that fails.\<close>

definition login_jwt :: jwt_library where
  "login_jwt = \<lparr>jwt_sign = (\<lambda>key cl.
      if cl = refresh_claims ''1'' 10001 then Inr ''ref'' else if cl = access_claims ''u'' ''a@b'' ''1'' 10001 then Inr ''acc''
      else Inl (ErrText ''claims'')),
     jwt_parse = (\<lambda>key t tok.
       if tok = ''ref'' \<and> t < 10001 + 604800 then Inr (refresh_claims ''1'' 10001, True)
       else if tok = ''acc'' \<and> t < 10001 + 900 then Inr (access_claims ''u'' ''a@b'' ''1'' 10001, True)
       else Inl (ErrText ''expired''))\<rparr>"

lemma login_jwt_lawful: "jwt_lawful login_jwt"
  by (auto simp: jwt_lawful_def login_jwt_def refresh_claims_def access_claims_def)

lemma login_claims_differ: "access_claims ''u'' ''a@b'' ''1'' t \<noteq> refresh_claims ''1'' t"
  by (auto simp: access_claims_def refresh_claims_def fun_eq_iff)

definition login_ctx :: user_ctx where
  "login_ctx = \<lparr>uc_lib = login_jwt, uc_key = ''k'',
     uc_mailer = \<lparr>ml_host = [], ml_port = [], ml_user = [], ml_password = [], ml_from = []\<rparr>,
     uc_baseURL = [], uc_bcrypt_ok = (\<lambda>h p. h = p)\<rparr>"

definition login_world :: world where
  "login_world = sample_world\<lparr>db := sample_db\<lparr>users := [(sample_user 1 ''a@b'' ''user'')\<lparr>u_email_verified_at := Some 5\<rparr>]\<rparr>\<rparr>"

definition post :: "'b \<Rightarrow> 'b request" where
  "post b = \<lparr>rq_method = ''POST'', rq_path = [], rq_header = (\<lambda>_. []), rq_query = (\<lambda>_. []), rq_vars = (\<lambda>_. []),
     rq_remote = ''10.0.0.1:99'', rq_user = None, rq_body = Inr b, rw_flush = False, rw_hijack = True\<rparr>"

lemma post_sel [simp]: "rq_method (post b) = ''POST''" "rq_body (post b) = Inr b"
  by (simp_all add: post_def)

abbreviation "login_run \<equiv> run_state (Login sample_env login_ctx (\<lambda>_. None) (post \<lparr>lr_Email = ''a@b'', lr_Password = ''pw''\<rparr>)) login_world"

lemma login_users: "users (db login_world) = [(sample_user 1 ''a@b'' ''user'')\<lparr>u_email_verified_at := Some 5\<rparr>]"
  by (simp add: login_world_def)

lemma login_found:
  "\<exists>w1. hist w1 = [Sql ''select user with password''] \<and>
     run_state (GetUserByEmailWithPassword sample_env Pool ''a@b'') login_world =
       (Inr ((scan_user sample_env ((sample_user 1 ''a@b'' ''user'')\<lparr>u_email_verified_at := Some 5\<rparr>))\<lparr>usr_Password := ''pw''\<rparr>), w1)"
  by (simp add: GetUserByEmailWithPassword_def run_map_err run_sql select_user_with_password_def login_users first_row_def)
    (simp add: login_world_def sample_user_def)

lemma login_200: "rs_status (fst login_run) = 200"
proof -
  from login_found obtain w1 where w1: "hist w1 = [Sql ''select user with password'']"
     "run_state (GetUserByEmailWithPassword sample_env Pool ''a@b'') login_world =
       (Inr ((scan_user sample_env ((sample_user 1 ''a@b'' ''user'')\<lparr>u_email_verified_at := Some 5\<rparr>))\<lparr>usr_Password := ''pw''\<rparr>), w1)" by blast
  have iss: "issueTokenPair login_ctx 10001 ''u'' ''a@b'' ''1'' = Inr (''acc'', ''ref'')"
    by (simp add: issueTokenPair_def login_ctx_def login_jwt_def CreateToken_def CreateRefreshToken_def login_claims_differ)
  have "env_now sample_env (hist w1) = 10001" using w1(1) by (simp add: sample_env_def)
  with w1(2) iss show ?thesis
    by (simp add: Login_def svc_GetUserByEmailWithPassword_def run_bind run_now run_RespondData scan_user_def sample_user_def
        empty_user_def sample_int8out) (simp add: login_ctx_def run_simps)
qed


definition bcrypt_broken :: env where
  "bcrypt_broken = sample_env\<lparr>env_err := (\<lambda>_ c. case c of BcryptGenerate _ \<Rightarrow> Some ''password length exceeds 72 bytes'' | _ \<Rightarrow> None)\<rparr>"

lemma reset_live:
  "live_token (HashToken sample_env ''abc'') ''password_reset'' (env_now sample_env (hist token_world)) (db token_world) = Some 1"
  "live_token (HashToken bcrypt_broken ''abc'') ''password_reset'' (env_now bcrypt_broken (hist token_world)) (db token_world) = Some 1"
  by (simp_all add: live_token_def token_world_def HashToken_def sample_token_def token_matches_def sample_env_def bcrypt_broken_def)

abbreviation "reset_request \<equiv> post \<lparr>pr_Token = ''abc'', pr_NewPassword = ''new''\<rparr>"

theorem ResetPassword_effect_witness:
  "rs_status (fst (run_state (ResetPassword sample_env (\<lambda>_. None) reset_request) token_world)) = 200"
  using ResetPassword_effect[of reset_request _ "\<lambda>_. None" sample_env, OF _ post_sel(2) _ _ prod.collapse[symmetric] refl refl, of token_world] reset_live(1)
  by simp

theorem failed_reset_burns_the_token_witness:
  "rs_status (fst (run_state (ResetPassword bcrypt_broken (\<lambda>_. None) reset_request) token_world)) = 500"
  using failed_reset_burns_the_token[of reset_request _ "\<lambda>_. None" bcrypt_broken token_world, OF _ post_sel(2) _ _ _ prod.collapse[symmetric] refl refl, of 1] reset_live(2)
  by (simp add: bcrypt_broken_def)

end
