(* ===== verification/Network_Proofs.thy ===== *)
theory Network_Proofs
  imports Networks Auth_Proofs Sample_Requests
begin

text \<open>
  Properties of the network manager: integrity, who may use a network, that a failing creation leaves
  nothing behind, and what the listing contains.
\<close>

section \<open>Integrity\<close>

lemma sound_on_with_uuid:
  assumes "\<And>x. sound_on h (f x)"
  shows "sound_on h (\<lambda>d. with_uuid m s (\<lambda>x. f x d) d)"
  using assms by (cases "uuid_in m s") (auto simp: with_uuid_def sound_on_def)

lemma db_ok_networks:
  assumes "db_ok d" and "networks_ok (d\<lparr>networks := ns\<rparr>)" and "nw_id ` set (networks d) \<subseteq> nw_id ` set ns"
  shows "db_ok (d\<lparr>networks := ns\<rparr>)"
proof -
  have "members_ok (d\<lparr>networks := ns\<rparr>)" using db_okD(4)[OF assms(1)] assms(3) by (simp add: members_ok_def) (blast intro: order_trans)
  with db_okD[OF assms(1)] assms(2) show ?thesis
    by (simp add: db_ok_def users_ok_def containers_ok_def tokens_ok_def keys_ok_def logs_ok_def)
qed

lemma db_ok_members: "db_ok d \<Longrightarrow> members_ok (d\<lparr>container_networks := ms\<rparr>) \<Longrightarrow> db_ok (d\<lparr>container_networks := ms\<rparr>)"
  by (simp add: db_ok_def users_ok_def containers_ok_def networks_ok_def tokens_ok_def keys_ok_def logs_ok_def)

lemma sound_insert_network: "sound_on h (insert_network env userID name did dname newid t)"
  unfolding insert_network_def
proof (intro sound_on_with_bigint sound_onI, goal_cases)
  case (1 n d)
  let ?row = "\<lparr>nw_id = newid, nw_user_id = n, nw_name = name, nw_docker_net_id = did, nw_docker_net_name = dname, nw_created_at = t\<rparr>"
  have "db_ok (d\<lparr>networks := networks d @ [?row]\<rparr>)"
    if "newid \<notin> nw_id ` set (networks d)" "did \<notin> nw_docker_net_id ` set (networks d)" "dname \<notin> nw_docker_net_name ` set (networks d)"
      "(n, name) \<notin> (\<lambda>x. (nw_user_id x, nw_name x)) ` set (networks d)" "n \<in> u_id ` set (users d)"
  proof (rule db_ok_networks[OF 1])
    show "networks_ok (d\<lparr>networks := networks d @ [?row]\<rparr>)"
      using db_okD(3)[OF 1] that by (auto simp: networks_ok_def)
  qed auto
  with 1 show ?case by simp
qed simp_all

lemma sound_upsert_member: "sound_on h (upsert_member m cid netID al)"
  unfolding upsert_member_def
proof (intro sound_on_with_uuid sound_onI, goal_cases)
  case (1 x d)
  let ?ms = "map (\<lambda>r. if cn_container_id r = cid \<and> cn_network_id r = x then r\<lparr>cn_alias := al\<rparr> else r) (container_networks d)"
  have cols: "map f ?ms = map f (container_networks d)" if "\<And>r. f (r\<lparr>cn_alias := al\<rparr>) = f r" for f :: "container_network_row \<Rightarrow> 'a"
    by (rule map_map_if_same) (rule that)
  have sets: "f ` set ?ms = f ` set (container_networks d)" if "\<And>r. f (r\<lparr>cn_alias := al\<rparr>) = f r" for f :: "container_network_row \<Rightarrow> 'a"
    using arg_cong[OF cols[of f, OF that], of set] by (simp only: set_map)
  have "members_ok (d\<lparr>container_networks := ?ms\<rparr>)"
  proof -
    have "distinct (map (\<lambda>m. (cn_container_id m, cn_network_id m)) ?ms)"
      using db_okD(4)[OF 1] cols[of "\<lambda>m. (cn_container_id m, cn_network_id m)"] by (simp add: members_ok_def del: map_map)
    moreover have "cn_container_id ` set ?ms = cn_container_id ` set (container_networks d)"
      "cn_network_id ` set ?ms = cn_network_id ` set (container_networks d)"
      by (rule sets; simp)+
    ultimately show ?thesis using db_okD(4)[OF 1] by (simp add: members_ok_def del: map_map set_map image_image)
  qed
  then have upd: "db_ok (d\<lparr>container_networks := ?ms\<rparr>)" by (rule db_ok_members[OF 1])
  have add: "db_ok (d\<lparr>container_networks := container_networks d @ [\<lparr>cn_container_id = cid, cn_network_id = x, cn_alias = al\<rparr>]\<rparr>)"
    if "cid \<in> c_id ` set (containers d)" "x \<in> nw_id ` set (networks d)"
      "(cid, x) \<notin> (\<lambda>r. (cn_container_id r, cn_network_id r)) ` set (container_networks d)"
    using db_okD(4)[OF 1] that by (intro db_ok_members[OF 1]) (auto simp: members_ok_def)
  from 1 upd add show ?case by simp
qed (simp_all split: if_split)

lemma db_ok_filter_members: "db_ok d \<Longrightarrow> db_ok (d\<lparr>container_networks := filter P (container_networks d)\<rparr>)"
  by (rule db_ok_members, assumption, drule db_okD(4)) (auto simp: members_ok_def distinct_map_filter)

lemma sound_delete_member: "sound_on h (delete_member m cid netID)"
  unfolding delete_member_def by (intro sound_on_with_uuid sound_onI) (simp_all add: db_ok_filter_members)

lemma db_ok_delete_network:
  assumes ok: "db_ok d"
  shows "db_ok (d\<lparr>networks := filter (\<lambda>r. \<not> Q r) (networks d),
    container_networks := filter (\<lambda>c. \<not> (\<exists>r \<in> set (networks d). Q r \<and> cn_network_id c = nw_id r)) (container_networks d)\<rparr>)"
    (is "db_ok ?d")
proof -
  note D = db_okD[OF ok]
  have "networks_ok ?d" using D(3) by (auto simp: networks_ok_def distinct_map_filter)
  moreover have "members_ok ?d"
  proof -
    have "cn_network_id c \<in> nw_id ` set (networks ?d)" if "c \<in> set (container_networks ?d)" for c
    proof -
      from that D(4) obtain r where "r \<in> set (networks d)" "cn_network_id c = nw_id r" by (auto simp: members_ok_def)
      with that show ?thesis by auto
    qed
    with D(4) show ?thesis by (auto simp: members_ok_def distinct_map_filter)
  qed
  ultimately show ?thesis
    using D by (simp add: db_ok_def users_ok_def containers_ok_def tokens_ok_def keys_ok_def logs_ok_def)
qed

lemma delete_network_members:
  "filter (\<lambda>c. \<not> (\<exists>r \<in> set ns. nw_id r = x \<and> nw_user_id r = n \<and> cn_network_id c = x)) ms =
   filter (\<lambda>c. \<not> (\<exists>r \<in> set ns. (nw_id r = x \<and> nw_user_id r = n) \<and> cn_network_id c = nw_id r)) ms"
  by (rule filter_cong) auto

lemma sound_delete_network: "sound_on h (delete_network env m netID userID)"
  unfolding delete_network_def delete_network_members
  by (intro sound_on_with_uuid sound_on_with_bigint sound_onI; (unfold snd_conv, erule db_ok_delete_network)?) simp_all

lemma network_reads:
  "snd (select_max_networks env u d) = d" "snd (count_networks env u d) = d" "snd (select_docker_net env m i u d) = d"
  "snd (select_member_container env p u d) = d" "snd (select_networks env u d) = d"
  by (simp_all add: select_max_networks_def count_networks_def select_docker_net_def select_member_container_def select_networks_def
      with_bigint_def with_uuid_def split: option.split)

lemma sound_network_reads:
  "sound_on h (select_max_networks env u)" "sound_on h (count_networks env u)" "sound_on h (select_docker_net env m i u)"
  "sound_on h (select_member_container env p u)" "sound_on h (select_networks env u)"
  by (rule sound_on_read, rule network_reads)+

lemmas network_sound = sound_insert_network sound_upsert_member sound_delete_member sound_delete_network sound_network_reads

lemma keeps_ok_networks:
  "state_io_rel keeps_ok (CreateNetwork env u name)" "state_io_rel keeps_ok (ConnectContainer env m u i p al)"
  "state_io_rel keeps_ok (DisconnectContainer env m u i p)" "state_io_rel keeps_ok (DeleteNetwork env m u i)"
  "state_io_rel keeps_ok (ListNetworks env u)"
  unfolding CreateNetwork_def provision_network_def ConnectContainer_def DisconnectContainer_def DeleteNetwork_def ListNetworks_def find_network_def
    find_container_def Let_def
  by (intro ko.io_intros keeps_ok_intros network_sound)+

lemma keeps_ok_no_content: "state_io_rel keeps_ok no_content"
  unfolding no_content_def by (intro ko.io_intros)

lemma keeps_ok_network_handlers:
  "state_io_rel keeps_ok (net_Dispatch env r1)" "state_io_rel keeps_ok (net_Delete env m r2)"
  "state_io_rel keeps_ok (net_Connect env m r3)" "state_io_rel keeps_ok (net_Disconnect env m r2)"
  unfolding net_Dispatch_def net_List_def net_Create_def net_Delete_def net_Connect_def net_Disconnect_def
  by (intro ko.io_intros keeps_ok_intros keeps_ok_respond keeps_ok_networks keeps_ok_no_content)+

section \<open>Ownership\<close>

definition owns_network :: "env \<Rightarrow> NetworkManager \<Rightarrow> string \<Rightarrow> string \<Rightarrow> database \<Rightarrow> bool" where
  "owns_network env m userID netID d \<longleftrightarrow>
     (\<exists>r \<in> set (networks d). uuid_in m netID = Some (nw_id r) \<and> int8in env userID = Some (nw_user_id r))"

lemma find_network_denied:
  assumes "\<not> owns_network env m userID netID (db w)"
  shows "\<exists>e. run_state (find_network env m userID netID) w = (Inl e, w\<lparr>hist := Sql ''select network'' # hist w\<rparr>)"
proof -
  have "\<exists>e. select_docker_net env m netID userID (db w) = (Inl e, db w)"
  proof (cases "uuid_in m netID")
    case (Some x)
    show ?thesis
    proof (cases "int8in env userID")
      case (Some n)
      have "filter (\<lambda>r. nw_id r = x \<and> nw_user_id r = n) (networks (db w)) = []"
        using assms Some \<open>uuid_in m netID = Some x\<close> by (auto simp: owns_network_def filter_empty_conv)
      with Some \<open>uuid_in m netID = Some x\<close> show ?thesis
        by (simp add: select_docker_net_def with_uuid_def with_bigint_def first_row_def)
    qed (use Some in \<open>simp add: select_docker_net_def with_uuid_def with_bigint_def\<close>)
  qed (simp add: select_docker_net_def with_uuid_def)
  then show ?thesis
    by (cases "env_err env (hist w) (Sql ''select network'')") (auto simp: find_network_def run_map_err run_sql)
qed


section \<open>Creation\<close>

text \<open>The networks at the daemon as the history made them: created and not removed by a call that succeeded.\<close>

fun left_networks :: "env \<Rightarrow> call list \<Rightarrow> string set" where
  "left_networks env [] = {}"
| "left_networks env (NetworkCreate a b c # h) =
     (if env_err env h (NetworkCreate a b c) = None then insert (env_str env h (NetworkCreate a b c)) (left_networks env h)
      else left_networks env h)"
| "left_networks env (NetworkRemove i # h) =
     (if env_err env h (NetworkRemove i) = None then left_networks env h - {i} else left_networks env h)"
| "left_networks env (_ # h) = left_networks env h"

definition network_added :: "env \<Rightarrow> int \<Rightarrow> string \<Rightarrow> NetworkInfo \<Rightarrow> world \<Rightarrow> world \<Rightarrow> bool" where
  "network_added env n name info w w' \<longleftrightarrow>
     (\<exists>row. db w' = (db w)\<lparr>networks := networks (db w) @ [row]\<rparr> \<and> nw_user_id row = n \<and> nw_name row = name \<and>
        nw_id row = ni_ID info \<and> nw_docker_net_id row \<in> left_networks env (hist w'))"

lemma insert_network_cases:
  assumes "int8in env userID = Some n"
  obtains (bad) e where "insert_network env userID name did dname newid t d = (Inl e, d)"
  | (good) row where "insert_network env userID name did dname newid t d = (Inr (newid, t), d\<lparr>networks := networks d @ [row]\<rparr>)"
      and "nw_user_id row = n" "nw_name row = name" "nw_id row = newid" "nw_docker_net_id row = did"
proof -
  let ?row = "\<lparr>nw_id = newid, nw_user_id = n, nw_name = name, nw_docker_net_id = did, nw_docker_net_name = dname, nw_created_at = t\<rparr>"
  have "(\<exists>e. insert_network env userID name did dname newid t d = (Inl e, d)) \<or>
      insert_network env userID name did dname newid t d = (Inr (newid, t), d\<lparr>networks := networks d @ [?row]\<rparr>)"
    using assms by (simp add: insert_network_def with_bigint_def)
  then show ?thesis
  proof
    assume "insert_network env userID name did dname newid t d = (Inr (newid, t), d\<lparr>networks := networks d @ [?row]\<rparr>)"
    then show ?thesis by (rule good) simp_all
  qed (use bad in blast)
qed

lemma provision_network_effect:
  assumes run: "run_state (provision_network env userID name) w = (res, w')" and n: "int8in env userID = Some n"
    and rm: "\<forall>h i. env_err env h (NetworkRemove i) = None"
  shows "case res of
      Inl e \<Rightarrow> db w' = db w \<and> left_networks env (hist w') \<subseteq> left_networks env (hist w)
    | Inr info \<Rightarrow> network_added env n name info w w'"
proof -
  let ?c = "NetworkCreate (docker_net_name userID name) userID name"
  let ?id = "env_str env (hist w) ?c"
  let ?h = "?c # hist w"
  show ?thesis
  proof (cases "env_err env (hist w) ?c")
    case (Some e)
    with run show ?thesis by (auto simp: provision_network_def Let_def run_on_ok run_map_err run_call_str)
  next
    case None
    let ?ins = "sql env Pool ''insert network'' (insert_network env userID name ?id (docker_net_name userID name))"
    let ?w1 = "w\<lparr>hist := ?h\<rparr>"
    obtain r w2 where ins: "run_state ?ins ?w1 = (r, w2)" by fastforce
    have rest: "run_state (case r of
              Inl e \<Rightarrow> do { call env (NetworkRemove ?id); fail (Wrap ''db insert failed: '' e) }
            | Inr (netID, createdAt) \<Rightarrow>
                ok \<lparr>ni_ID = netID, ni_Name = name, ni_DockerName = docker_net_name userID name, ni_CreatedAt = createdAt, ni_Members = []\<rparr>) w2 = (res, w')"
      using run None ins by (simp add: provision_network_def Let_def run_on_ok run_map_err run_call_str run_bind)
    have fails: ?thesis if "r = Inl e" "w2 = ?w1\<lparr>hist := Sql ''insert network'' # ?h\<rparr>" for e
      using rest that rm None by (auto simp: run_bind run_call run_fail)
    show ?thesis
    proof (cases "env_err env ?h (Sql ''insert network'')")
      case (Some e)
      with ins fails show ?thesis by (auto simp: run_sql)
    next
      case None2: None
      let ?x = "env_str env ?h (Sql ''insert network'')" and ?t = "env_now env ?h"
      from n show ?thesis
      proof (cases rule: insert_network_cases[where name = name and did = ?id and dname = "docker_net_name userID name" and newid = ?x and t = ?t and d = "db w"])
        case (bad e)
        with ins None2 fails show ?thesis by (auto simp: run_sql)
      next
        case (good row)
        with ins None2 have "r = Inr (?x, ?t)" "w2 = ?w1\<lparr>hist := Sql ''insert network'' # ?h, db := (db w)\<lparr>networks := networks (db w) @ [row]\<rparr>\<rparr>"
          by (auto simp: run_sql)
        with rest good None show ?thesis by (auto simp: run_ok network_added_def)
      qed
    qed
  qed
qed


section \<open>Listing\<close>

text \<open>What the loop over the rows has built: for every id met, the network with the members of all its rows so far.\<close>

lemma group_fold:
  "distinct (fst (fold (group_row env) rs ([], \<lambda>_. None))) \<and>
   set (fst (fold (group_row env) rs ([], \<lambda>_. None))) = (\<lambda>r. nw_id (jr_net r)) ` set rs \<and>
   (\<forall>i. snd (fold (group_row env) rs ([], \<lambda>_. None)) i =
      (case filter (\<lambda>r. nw_id (jr_net r) = i) rs of
         [] \<Rightarrow> None
       | r # qs \<Rightarrow> Some ((new_network (jr_net r))\<lparr>ni_Members := concat (map (row_member env) (r # qs))\<rparr>)))"
proof (induction rs rule: rev_induct)
  case Nil
  then show ?case by simp
next
  case (snoc x xs)
  let ?nid = "nw_id (jr_net x)"
  obtain order netMap where f: "fold (group_row env) xs ([], \<lambda>_. None) = (order, netMap)" by fastforce
  from snoc f have o: "distinct order" "set order = (\<lambda>r. nw_id (jr_net r)) ` set xs"
    and m: "netMap i = (case filter (\<lambda>r. nw_id (jr_net r) = i) xs of [] \<Rightarrow> None
       | r # qs \<Rightarrow> Some ((new_network (jr_net r))\<lparr>ni_Members := concat (map (row_member env) (r # qs))\<rparr>))" for i by simp_all
  show ?case
  proof (cases "filter (\<lambda>r. nw_id (jr_net r) = ?nid) xs")
    case Nil
    then have "?nid \<notin> set order" using o(2) by (auto simp: filter_empty_conv)
    moreover have "fold (group_row env) (xs @ [x]) ([], \<lambda>_. None) =
        (order @ [?nid], netMap(?nid \<mapsto> (new_network (jr_net x))\<lparr>ni_Members := row_member env x\<rparr>))"
      using Nil m[of ?nid] by (simp add: f group_row_def new_network_def Let_def)
    ultimately show ?thesis using o m Nil by auto
  next
    case (Cons r qs)
    then have "?nid \<in> (\<lambda>r. nw_id (jr_net r)) ` set xs" by (auto simp: filter_eq_Cons_iff)
    moreover have "fold (group_row env) (xs @ [x]) ([], \<lambda>_. None) =
        (order, netMap(?nid \<mapsto> (new_network (jr_net r))\<lparr>ni_Members := concat (map (row_member env) (r # qs)) @ row_member env x\<rparr>))"
      using Cons m[of ?nid] by (simp add: f group_row_def Let_def)
    ultimately show ?thesis using o m Cons by auto
  qed
qed

lemma group_rows_spec:
  assumes net: "\<And>r r'. r \<in> set rs \<Longrightarrow> r' \<in> set rs \<Longrightarrow> nw_id (jr_net r) = nw_id (jr_net r') \<Longrightarrow> jr_net r = jr_net r'"
  shows "distinct (map ni_ID (group_rows env rs))"
    and "set (group_rows env rs) = (\<lambda>n. (new_network n)\<lparr>ni_Members := concat (map (row_member env) (filter (\<lambda>r. jr_net r = n) rs))\<rparr>) ` jr_net ` set rs"
proof -
  obtain order netMap where f: "fold (group_row env) rs ([], \<lambda>_. None) = (order, netMap)" by fastforce
  note g = group_fold[of env rs, unfolded f fst_conv snd_conv]
  have val: "the (netMap (nw_id n)) = (new_network n)\<lparr>ni_Members := concat (map (row_member env) (filter (\<lambda>r. jr_net r = n) rs))\<rparr>"
    if "n \<in> jr_net ` set rs" for n
  proof -
    have eq: "filter (\<lambda>r. nw_id (jr_net r) = nw_id n) rs = filter (\<lambda>r. jr_net r = n) rs"
      using net that by (intro filter_cong refl) auto
    from that have "filter (\<lambda>r. jr_net r = n) rs \<noteq> []" by (auto simp: filter_empty_conv)
    then obtain r qs where rq: "filter (\<lambda>r. jr_net r = n) rs = r # qs" by (cases "filter (\<lambda>r. jr_net r = n) rs") auto
    then have "jr_net r = n" by (auto simp: filter_eq_Cons_iff)
    with g eq rq show ?thesis by simp
  qed
  have ids: "map (\<lambda>i. ni_ID (the (netMap i))) order = order"
    by (rule map_idI) (use g val in \<open>auto simp: new_network_def\<close>)
  with g show "distinct (map ni_ID (group_rows env rs))" by (simp add: group_rows_def f comp_def)
  show "set (group_rows env rs) = (\<lambda>n. (new_network n)\<lparr>ni_Members := concat (map (row_member env) (filter (\<lambda>r. jr_net r = n) rs))\<rparr>) ` jr_net ` set rs"
    using g val by (auto simp: group_rows_def f image_image intro!: image_eqI)
qed

lemma set_order_rows: "set (order_rows rs) = set rs"
  by (auto simp: order_rows_def)

lemma member_rows_net: "jr_net ` set (member_rows n d) = {n}"
proof (cases "filter (\<lambda>m. cn_network_id m = nw_id n) (container_networks d)")
  case (Cons m ms)
  then show ?thesis
    by (cases "filter (\<lambda>c. c_id c = cn_container_id m) (containers d)") (auto simp: member_rows_def split: list.splits)
qed (simp add: member_rows_def)

definition network_member :: "env \<Rightarrow> container_network_row \<Rightarrow> container_row \<Rightarrow> ContainerMember" where
  "network_member env m c = \<lparr>mb_ProjectID = int8out env (c_id c), mb_Name = c_project_name c, mb_Alias = cn_alias m, mb_Status = c_status c\<rparr>"

lemma member_rows_members:
  "(\<Union>r \<in> set (member_rows n d). set (row_member env r)) =
     {network_member env m c | m c. m \<in> set (container_networks d) \<and> cn_network_id m = nw_id n \<and> c \<in> set (containers d) \<and> c_id c = cn_container_id m}"
proof (cases "filter (\<lambda>m. cn_network_id m = nw_id n) (container_networks d)")
  case Nil
  then show ?thesis by (auto simp: member_rows_def row_member_def filter_empty_conv)
next
  case (Cons m0 ms0)
  define F where "F m = (case filter (\<lambda>c. c_id c = cn_container_id m) (containers d) of
             [] \<Rightarrow> [\<lparr>jr_net = n, jr_alias = Some (cn_alias m), jr_container = None\<rparr>]
           | cs \<Rightarrow> map (\<lambda>c. \<lparr>jr_net = n, jr_alias = Some (cn_alias m), jr_container = Some c\<rparr>) cs)" for m :: container_network_row
  have one: "(\<Union>r \<in> set (F m). set (row_member env r)) = network_member env m ` {c \<in> set (containers d). c_id c = cn_container_id m}" for m
    unfolding F_def set_filter[symmetric]
    by (cases "filter (\<lambda>c. c_id c = cn_container_id m) (containers d)") (auto simp: row_member_def network_member_def)
  have ms: "set (m0 # ms0) = {m \<in> set (container_networks d). cn_network_id m = nw_id n}" by (metis Cons set_filter)
  have "member_rows n d = concat (map F (m0 # ms0))" unfolding member_rows_def Cons list.case F_def ..
  then have "(\<Union>r \<in> set (member_rows n d). set (row_member env r)) = (\<Union>m \<in> set (m0 # ms0). \<Union>r \<in> set (F m). set (row_member env r))"
    by auto
  then show ?thesis unfolding ms one by blast
qed


section \<open>Witnesses\<close>

definition sample_network :: network_row where
  "sample_network = \<lparr>nw_id = ''n1'', nw_user_id = 1, nw_name = ''lan'', nw_docker_net_id = ''d1'', nw_docker_net_name = ''codedock_1_lan'',
     nw_created_at = 50\<rparr>"

definition network_world :: world where
  "network_world = sample_world\<lparr>db := sample_db\<lparr>networks := [sample_network],
     container_networks := [\<lparr>cn_container_id = 7, cn_network_id = ''n1'', cn_alias = ''web''\<rparr>]\<rparr>\<rparr>"

abbreviation any_uuid :: NetworkManager where
  "any_uuid \<equiv> \<lparr>uuid_in = Some\<rparr>"

lemma network_world_ok: "db_ok (db network_world)"
proof -
  have "db_ok (sample_db\<lparr>networks := [sample_network]\<rparr>)"
    by (rule db_ok_networks[OF sample_db_ok]) (auto simp: networks_ok_def sample_network_def sample_db_def sample_user_def)
  from db_ok_members[OF this] show ?thesis
    by (simp add: network_world_def members_ok_def sample_network_def sample_db_def sample_container_def)
qed


lemma sample_create_network: "\<exists>info w'. run_state (CreateNetwork sample_env ''2'' ''lan'') sample_world = (Inr info, w')"
proof -
  have "select_max_networks sample_env ''2'' sample_db = (Inr 1, sample_db)" "count_networks sample_env ''2'' sample_db = (Inr 0, sample_db)"
    by (simp_all add: select_max_networks_def count_networks_def with_bigint_def sample_int8in first_row_def sample_db_def sample_user_def
        sample_plan_def)
  moreover have "networks sample_db = []" "2 \<in> u_id ` set (users sample_db)" by (simp_all add: sample_db_def sample_user_def)
  then have "insert_network sample_env ''2'' ''lan'' did dname x t sample_db = (Inr (x, t), sample_db\<lparr>networks :=
      [\<lparr>nw_id = x, nw_user_id = 2, nw_name = ''lan'', nw_docker_net_id = did, nw_docker_net_name = dname, nw_created_at = t\<rparr>]\<rparr>)" for did dname x t
    by (simp add: insert_network_def with_bigint_def sample_int8in)
  ultimately show ?thesis
    by (simp add: CreateNetwork_def provision_network_def Let_def run_on_ok run_map_err run_bind run_sql run_call_str run_ok)
qed


lemma sample_list_networks: "\<exists>infos w'. run_state (ListNetworks sample_env ''1'') network_world = (Inr infos, w')"
  by (simp add: ListNetworks_def run_on_ok run_sql select_networks_def rows_with_bigint_def sample_int8in run_ok)


end
