(* ===== verification/Admin_Proofs.thy ===== *)
theory Admin_Proofs
  imports Admin_Api Users_Proofs Network_Proofs Orphans Sample_Requests
begin

text \<open>
  The administration and template handlers keep the integrity of the world; the pages of the user list are a
  partition of the matching users; and deleting an account, by its owner or by an administrator, leaves the account's
  containers running.
\<close>

section \<open>Integrity\<close>

lemma sound_update_plan: "sound_on h (update_plan env planID userID)"
  unfolding update_plan_def
proof (intro sound_on_with_bigint sound_onI)
  fix n d
  assume ok: "db_ok d"
  then show "db_ok (snd (if n \<in> u_id ` set (users d) \<and> planID \<notin> pl_id ` set (plans d) then (Inl (sql_violation ''users_plan_id_fkey''), d)
      else update_users n (\<lambda>u. u\<lparr>u_plan_id := planID\<rparr>) d))"
    using db_ok_update_users[OF ok, of "\<lambda>u. u\<lparr>u_plan_id := planID\<rparr>" n] by (auto simp: image_iff)
qed (simp_all add: update_users_def)

lemma sound_admin_reads:
  "sound_on h (select_users env ll pat off)" "sound_on h (\<lambda>d. (Inr (g d), d))"
  "sound_on h (\<lambda>d. with_bigint env i (\<lambda>n. (f n d, d)) d)"
  by (rule sound_on_read, simp add: select_users_def with_bigint_def split: option.split)+

lemma keeps_ok_admin_handlers:
  "state_io_rel keeps_ok (Stats env cd r1)" "state_io_rel keeps_ok (ListUsers env ll r2)"
  "state_io_rel keeps_ok (admin_DeleteUser env r3)" "state_io_rel keeps_ok (UpdateUserPlan env r4)"
  unfolding Stats_def count_or_zero_def ListUsers_def admin_DeleteUser_def UpdateUserPlan_def Let_def
  by (intro ko.io_intros keeps_ok_intros keeps_ok_respond keeps_ok_no_content sound_admin_reads sound_update_plan sound_statements)+

lemma keeps_ok_template_handlers:
  "state_io_rel keeps_ok (ListTemplates env rank js r1)" "state_io_rel keeps_ok (GetTemplate env js r2)"
  "state_io_rel keeps_ok (handle_GetImages env)" "state_io_rel keeps_ok (plans_route env r3)"
  unfolding ListTemplates_def GetTemplates_def GetTemplate_def GetTemplateByID_def handle_GetImages_def svc_GetImages_def
    GetImages_def plans_route_def
  by (intro ko.io_intros keeps_ok_intros keeps_ok_respond sound_admin_reads)+

lemma keeps_ok_small_handlers:
  "state_io_rel keeps_ok (ping_route r1)" "state_io_rel keeps_ok (health_route r2)" "state_io_rel keeps_ok (healthz r3)"
  "state_io_rel keeps_ok (readyz env r4)"
  unfolding ping_route_def health_route_def healthz_def readyz_def by (intro ko.io_intros keeps_ok_call)+

section \<open>Pages of users\<close>

definition full_list :: "env \<Rightarrow> (string \<Rightarrow> string \<Rightarrow> bool) \<Rightarrow> string \<Rightarrow> database \<Rightarrow> AdminUser list" where
  "full_list env ll pat d = map (admin_user env d) (matching_users ll pat d)"

lemma concat_pages: "concat (map (\<lambda>k. take m (drop (m * k) xs)) [0..<n]) = take (m * n) xs"
  by (induction n) (simp_all add: take_add[symmetric] algebra_simps)

lemma wrap64_id: "- (2 ^ 63) \<le> n \<Longrightarrow> n < 2 ^ 63 \<Longrightarrow> wrap64 n = n"
  by (simp add: wrap64_def)

lemma page_of_FormatInt:
  assumes "rq_query r ''page'' = FormatInt (int k + 1)" and "int k + 1 < 2 ^ 63"
  shows "page_of r = int k + 1"
  using assms ParseInt_FormatInt[of "int k + 1"] by (simp add: page_of_def)

lemma run_ListUsers:
  assumes "env_err env (hist w) (Sql ''select users'') = None" and "wrap64 ((page_of r - 1) * 20) = int off"
  shows "run_state (ListUsers env ll r) w =
    (\<lparr>rs_status = 200, rs_headers = [content_json],
      rs_payload = Json \<lparr>Success = True,
        Data = Some (UserList (take 20 (drop off (full_list env ll (search_pattern r) (db w))))), Error = []\<rparr>\<rparr>,
     w\<lparr>hist := Sql ''select users'' # hist w\<rparr>)"
  using assms
  by (simp add: ListUsers_def Let_def run_simps select_users_def full_list_def take_map drop_map)

definition page_response :: "AdminUser list \<Rightarrow> admin_data response" where
  "page_response us = \<lparr>rs_status = 200, rs_headers = [content_json],
     rs_payload = Json \<lparr>Success = True, Data = Some (UserList us), Error = []\<rparr>\<rparr>"



section \<open>Deleting an account\<close>

lemma delete_users_containers:
  "containers (snd (delete_users P d)) =
     filter (\<lambda>c. \<not> (\<exists>u \<in> set (users d). P u \<and> u_id u = c_user_id c)) (containers d)"
  unfolding delete_users_def Let_def by simp

lemma gone_row:
  assumes "db_ok d" and "c \<in> set (containers d)" and "c_user_id c = n" and "containers d' = filter (\<lambda>x. c_user_id x \<noteq> n) (containers d)"
  shows "c_container_id c \<notin> c_container_id ` set (containers d')"
proof
  assume "c_container_id c \<in> c_container_id ` set (containers d')"
  then obtain x where x: "x \<in> set (containers d)" "c_user_id x \<noteq> n" "c_container_id x = c_container_id c"
    using assms(4) by auto
  have "distinct (map c_container_id (containers d))" using db_okD(2)[OF assms(1)] by (simp add: containers_ok_def)
  with x assms(2,3) show False by (auto simp: distinct_map dest: inj_onD)
qed

lemma owner_rows:
  assumes "db_ok d"
  shows "filter (\<lambda>c. \<not> (\<exists>u \<in> set (users d). u_id u = n \<and> u_id u = c_user_id c)) (containers d) =
         filter (\<lambda>c. c_user_id c \<noteq> n) (containers d)"
proof (rule filter_cong[OF refl])
  fix c
  assume "c \<in> set (containers d)"
  with db_okD(2)[OF assms] have "c_user_id c \<in> u_id ` set (users d)" by (auto simp: containers_ok_def)
  then show "(\<not> (\<exists>u \<in> set (users d). u_id u = n \<and> u_id u = c_user_id c)) = (c_user_id c \<noteq> n)" by auto
qed

lemma svc_DeleteUser_effect:
  assumes "run_state (svc_DeleteUser env uid) w = (Inr (), w')" and "int8in env uid = Some n" and "db_ok (db w)"
  shows "containers (db w') = filter (\<lambda>c. c_user_id c \<noteq> n) (containers (db w))"
    and "hist w' = [TxRollback, TxCommit, Sql ''delete user'', Sql ''delete containers of user'', TxBegin] @ hist w"
proof -
  show "hist w' = [TxRollback, TxCommit, Sql ''delete user'', Sql ''delete containers of user'', TxBegin] @ hist w"
    using assms(1,2)
    by (auto simp: svc_DeleteUser_def DeleteUserByID_def run_simps delete_user_containers_def delete_user_def with_bigint_def
        split: option.splits prod.splits if_splits)
  show "containers (db w') = filter (\<lambda>c. c_user_id c \<noteq> n) (containers (db w))"
    using assms(1,2) delete_users_containers[of "\<lambda>u. u_id u = n" "snd (delete_containers (\<lambda>c. c_user_id c = n) (db w))"]
    by (auto simp: svc_DeleteUser_def DeleteUserByID_def run_simps delete_user_containers_def delete_user_def with_bigint_def
        delete_containers_def filter_filter intro!: filter_cong
        split: option.splits prod.splits if_splits)
qed

lemma admin_DeleteUser_effect:
  assumes "run_state (admin_DeleteUser env r) w = (resp, w')" and "rs_status resp = 204" and "int8in env (rq_vars r ''id'') = Some n"
    and "db_ok (db w)"
  shows "containers (db w') = filter (\<lambda>c. c_user_id c \<noteq> n) (containers (db w))" and "hist w' = Sql ''delete user'' # hist w"
proof -
  from assms(1-3) have w': "w' = w\<lparr>hist := Sql ''delete user'' # hist w, db := snd (delete_users (\<lambda>u. u_id u = n) (db w))\<rparr>"
    by (auto simp: admin_DeleteUser_def method_not_allowed_def no_content_def run_simps delete_user_def with_bigint_def
        split: if_splits option.splits prod.splits)
  then show "hist w' = Sql ''delete user'' # hist w" by simp
  from w' show "containers (db w') = filter (\<lambda>c. c_user_id c \<noteq> n) (containers (db w))"
    using owner_rows[OF assms(4)] by (simp add: delete_users_containers)
qed

definition deletes_account :: "env \<Rightarrow> string \<Rightarrow> world \<Rightarrow> world \<Rightarrow> bool" where
  "deletes_account env uid w w' \<longleftrightarrow>
     run_state (svc_DeleteUser env uid) w = (Inr (), w') \<or>
     (\<exists>(r :: unit request) resp. rq_vars r ''id'' = uid \<and> run_state (admin_DeleteUser env r) w = (resp, w') \<and> rs_status resp = 204)"

text \<open>
  C35. Deleting an account, by its owner or by an administrator, never touches Docker: a container of the account that is
  at the daemon stays there, while its row is gone, so no later request can stop or remove it.
\<close>

theorem account_deletion_strands_containers:
  assumes ok: "world_ok w" and c: "c \<in> set (containers (db w))" and live: "c_container_id c \<in> alive env (hist w)"
    and n: "int8in env uid = Some (c_user_id c)" and del: "deletes_account env uid w w'"
  shows "c_container_id c \<in> alive env (hist w') \<and> c_container_id c \<notin> c_container_id ` set (containers (db w'))"
proof -
  from ok have d: "db_ok (db w)" by (simp add: world_ok_def)
  have "containers (db w') = filter (\<lambda>x. c_user_id x \<noteq> c_user_id c) (containers (db w)) \<and> alive env (hist w') = alive env (hist w)"
    using del unfolding deletes_account_def
  proof (elim disjE exE conjE)
    assume "run_state (svc_DeleteUser env uid) w = (Inr (), w')"
    from svc_DeleteUser_effect[OF this n d] show ?thesis by simp
  next
    fix r :: "unit request" and resp
    assume "rq_vars r ''id'' = uid" "run_state (admin_DeleteUser env r) w = (resp, w')" "rs_status resp = 204"
    with admin_DeleteUser_effect[of env r w resp w', OF _ _ _ d] n show ?thesis by simp
  qed
  with gone_row[OF d c refl] live show ?thesis by blast
qed

text \<open>The sample container, created through the daemon, and its account deleted.\<close>

definition stranded_env :: env where
  "stranded_env = sample_env\<lparr>env_str := \<lambda>_ _. ''c7''\<rparr>"

definition stranded_world :: world where
  "stranded_world = sample_world\<lparr>hist := [ContainerCreate
     \<lparr>cf_image = ''alpine'', cf_tty = True, cf_working_dir = ''/workspace'', cf_cmd = [], cf_exposed_port = None, cf_label_user = ''1'',
      cf_mount_source = ''/data/demo/p7'', cf_mount_target = ''/workspace'', cf_host_ip = [], cf_memory = 0, cf_nano_cpus = 0\<rparr>]\<rparr>"

lemma stranded_facts:
  "world_ok stranded_world" "sample_container \<in> set (containers (db stranded_world))"
  "c_container_id sample_container \<in> alive stranded_env (hist stranded_world)"
  "int8in stranded_env ''1'' = Some (c_user_id sample_container)"
  "\<exists>w'. run_state (svc_DeleteUser stranded_env ''1'') stranded_world = (Inr (), w')"
proof -
  show "world_ok stranded_world" using sample_world_ok by (simp add: stranded_world_def world_ok_def)
  show "sample_container \<in> set (containers (db stranded_world))" by (simp add: stranded_world_def sample_containers)
  show "c_container_id sample_container \<in> alive stranded_env (hist stranded_world)"
    by (simp add: stranded_world_def stranded_env_def sample_container_def)
  show n: "int8in stranded_env ''1'' = Some (c_user_id sample_container)"
    by (simp add: stranded_env_def sample_int8in sample_container_def)
  have e: "env_err stranded_env h x = None" for h x by (simp add: stranded_env_def)
  show "\<exists>w'. run_state (svc_DeleteUser stranded_env ''1'') stranded_world = (Inr (), w')"
    by (simp add: svc_DeleteUser_def DeleteUserByID_def run_simps e delete_user_containers_def delete_user_def with_bigint_def n
        delete_containers_def delete_users_def stranded_world_def sample_db_def sample_user_def sample_container_def Let_def)
qed

theorem account_deletion_strands_containers_witness:
  "\<exists>w'. deletes_account stranded_env ''1'' stranded_world w' \<and>
     c_container_id sample_container \<in> alive stranded_env (hist w') \<and>
     c_container_id sample_container \<notin> c_container_id ` set (containers (db w'))"
proof -
  obtain w' where "run_state (svc_DeleteUser stranded_env ''1'') stranded_world = (Inr (), w')"
    using stranded_facts(5) by blast
  then have "deletes_account stranded_env ''1'' stranded_world w'" by (simp add: deletes_account_def)
  with account_deletion_strands_containers[OF stranded_facts(1-4) this] show ?thesis by blast
qed

end
