(* ===== verification/Middleware_Proofs.thy ===== *)
theory Middleware_Proofs
  imports Middleware Auth_Proofs Sample_Requests
begin

text \<open>
  Properties of the middlewares: the rate limiter forgets idle visitors without anyone noticing but trusts a
  header the client sets, and the CORS headers are sent to the configured origins only.
\<close>

section \<open>Integrity\<close>

lemma sound_insert_audit: "sound_on h (insert_audit env e)"
  unfolding insert_audit_def
  by (intro sound_on_with_bigint sound_onI) (auto simp: db_ok_def ok_defs)

lemma keeps_ok_middlewares:
  assumes "\<And>r. state_io_rel keeps_ok (next r)"
  shows "state_io_rel keeps_ok (CORSMiddleware origins next r)" "state_io_rel keeps_ok (RequestLogger next r)"
    "state_io_rel keeps_ok (AuditMiddleware env action resource next r)"
  unfolding CORSMiddleware_def RequestLogger_def AuditMiddleware_def Log_def Let_def
  by (intro ko.io_intros keeps_ok_intros assms sound_insert_audit)+

section \<open>The rate limiter over time\<close>

datatype traffic = Visit time string | CleanUp time

fun traffic_time :: "traffic \<Rightarrow> time" where
  "traffic_time (Visit t _) = t"
| "traffic_time (CleanUp t) = t"

fun is_visit :: "traffic \<Rightarrow> bool" where
  "is_visit (Visit _ _) = True"
| "is_visit (CleanUp _) = False"

text \<open>The answers of the limiter to a sequence of visits, with the turns of the clean-up loop in between.\<close>

fun decisions :: "'l limiter_library \<Rightarrow> 'l IPRateLimiter \<Rightarrow> traffic list \<Rightarrow> bool list" where
  "decisions lib rl [] = []"
| "decisions lib rl (Visit t ip # es) = (case allow_request lib t ip rl of (b, rl') \<Rightarrow> b # decisions lib rl' es)"
| "decisions lib rl (CleanUp t # es) = decisions lib (cleanup t rl) es"

text \<open>The states of a bucket, and what the code relies on: after ten idle minutes a bucket is as good as new.\<close>

inductive bucket :: "'l limiter_library \<Rightarrow> int \<Rightarrow> int \<Rightarrow> 'l \<Rightarrow> bool" for lib r b where
  "bucket lib r b (NewLimiter lib r b)"
| "bucket lib r b l \<Longrightarrow> bucket lib r b (snd (Allow lib l t))"

definition refills :: "'l limiter_library \<Rightarrow> int \<Rightarrow> int \<Rightarrow> bool" where
  "refills lib r b \<longleftrightarrow>
     (\<forall>l ls t. bucket lib r b l \<and> 10 * 60 < t - ls \<longrightarrow> Allow lib (snd (Allow lib l ls)) t = Allow lib (NewLimiter lib r b) t)"

text \<open>The limiter that cleaned up against the one that did not.\<close>

definition forgets :: "'l limiter_library \<Rightarrow> int \<Rightarrow> int \<Rightarrow> time \<Rightarrow> 'l IPRateLimiter \<Rightarrow> 'l IPRateLimiter \<Rightarrow> bool" where
  "forgets lib r b u rl rl' \<longleftrightarrow>
     rl_r rl = r \<and> rl_burst rl = b \<and> rl_r rl' = r \<and> rl_burst rl' = b \<and>
     (\<forall>ip v. rl_visitors rl' ip = Some v \<longrightarrow> (\<exists>l. bucket lib r b l \<and> v_limiter v = snd (Allow lib l (v_lastSeen v)))) \<and>
     (\<forall>ip. rl_visitors rl ip = rl_visitors rl' ip \<or>
        (rl_visitors rl ip = None \<and> (\<exists>v. rl_visitors rl' ip = Some v \<and> 10 * 60 < u - v_lastSeen v)))"

lemma forgets_later: "forgets lib r b u rl rl' \<Longrightarrow> u \<le> u' \<Longrightarrow> forgets lib r b u' rl rl'"
  unfolding forgets_def by fastforce

lemma forgets_cleanup: "forgets lib r b t rl rl' \<Longrightarrow> forgets lib r b t (cleanup t rl) rl'"
  unfolding forgets_def cleanup_def by (auto split: option.split if_splits) (metis option.distinct(1) option.inject)+

lemma allow_request_eq:
  "allow_request lib t ip rl =
     (let l = (case rl_visitors rl ip of None \<Rightarrow> NewLimiter lib (rl_r rl) (rl_burst rl) | Some v \<Rightarrow> v_limiter v)
      in (fst (Allow lib l t), rl\<lparr>rl_visitors := (rl_visitors rl)(ip \<mapsto> \<lparr>v_limiter = snd (Allow lib l t), v_lastSeen = t\<rparr>)\<rparr>))"
  by (simp add: allow_request_def getLimiter_def Let_def split: prod.split)

lemma forgets_visit:
  assumes law: "refills lib r b" and f: "forgets lib r b t rl rl'"
  shows "fst (allow_request lib t ip rl) = fst (allow_request lib t ip rl') \<and>
    forgets lib r b t (snd (allow_request lib t ip rl)) (snd (allow_request lib t ip rl'))"
proof -
  let ?l = "case rl_visitors rl ip of None \<Rightarrow> NewLimiter lib r b | Some v \<Rightarrow> v_limiter v"
  let ?l' = "case rl_visitors rl' ip of None \<Rightarrow> NewLimiter lib r b | Some v \<Rightarrow> v_limiter v"
  have rb: "rl_r rl = r" "rl_burst rl = b" "rl_r rl' = r" "rl_burst rl' = b" using f by (simp_all add: forgets_def)
  have lim: "\<exists>l. bucket lib r b l \<and> v_limiter v = snd (Allow lib l (v_lastSeen v))" if "rl_visitors rl' ip = Some v" for v ip
    using f that by (auto simp: forgets_def)
  have same: "Allow lib ?l t = Allow lib ?l' t"
  proof (cases "rl_visitors rl ip = rl_visitors rl' ip")
    case False
    with f obtain v where v: "rl_visitors rl ip = None" "rl_visitors rl' ip = Some v" "10 * 60 < t - v_lastSeen v"
      unfolding forgets_def by blast
    obtain l where "bucket lib r b l" "v_limiter v = snd (Allow lib l (v_lastSeen v))" using lim[OF v(2)] by blast
    with law v show ?thesis by (simp add: refills_def)
  qed simp
  have "bucket lib r b ?l'" using lim[of ip] by (cases "rl_visitors rl' ip") (auto intro: bucket.intros)
  with f same show ?thesis
    unfolding allow_request_eq Let_def rb fst_conv snd_conv
    by (auto simp: forgets_def)
qed

lemma decisions_forget:
  assumes law: "refills lib r b"
  shows "forgets lib r b u rl rl' \<Longrightarrow> sorted (u # map traffic_time es) \<Longrightarrow> decisions lib rl es = decisions lib rl' (filter is_visit es)"
proof (induction es arbitrary: u rl rl')
  case (Cons e es)
  then have f: "forgets lib r b (traffic_time e) rl rl'" and s: "sorted (traffic_time e # map traffic_time es)"
    by (auto intro: forgets_later)
  show ?case
  proof (cases e)
    case (Visit t ip)
    with forgets_visit[OF law, of t rl rl' ip] f Cons.IH[of t] s show ?thesis by (simp add: prod.case_eq_if)
  next
    case (CleanUp t)
    with forgets_cleanup[of lib r b t rl rl'] f Cons.IH[of t] s show ?thesis by simp
  qed
qed simp


text \<open>
  The limit is per address, and the address is the client's word: requests that each carry another
  \<open>X-Real-IP\<close> header are all let through, however many there are.
\<close>

theorem rate_limit_trusts_the_header:
  assumes full: "\<forall>t. fst (Allow lib (NewLimiter lib r b) t)"
    and dist: "distinct (map (\<lambda>(t, rq). rq_header rq ''X-Real-IP'') visits)" and hdr: "\<forall>(t, rq) \<in> set visits. rq_header rq ''X-Real-IP'' \<noteq> []"
  shows "decisions lib (NewIPRateLimiter r b) (map (\<lambda>(t, rq). Visit t (clientIP rq)) visits) = replicate (length visits) True"
proof -
  have ips: "map (\<lambda>(t, rq). Visit t (clientIP rq)) visits = map (\<lambda>(t, ip). Visit t ip) (map (\<lambda>(t, rq). (t, rq_header rq ''X-Real-IP'')) visits)"
    using hdr by (auto simp: clientIP_def)
  have "decisions lib rl (map (\<lambda>(t, ip). Visit t ip) vs) = replicate (length vs) True"
    if "distinct (map snd vs)" "\<forall>(t, ip) \<in> set vs. rl_visitors rl ip = None" "rl_r rl = r" "rl_burst rl = b" for rl vs
    using that
  proof (induction vs arbitrary: rl)
    case (Cons v vs)
    obtain t ip where v: "v = (t, ip)" by fastforce
    with Cons.prems full show ?case
      by (simp add: allow_request_eq Let_def) (rule Cons.IH; force)
  qed simp
  from this[of "map (\<lambda>(t, rq). (t, rq_header rq ''X-Real-IP'')) visits" "NewIPRateLimiter r b"] dist show ?thesis
    unfolding ips by (simp add: NewIPRateLimiter_def comp_def split_def)
qed

section \<open>CORS\<close>

definition allow_origin :: "'d response \<Rightarrow> string option" where
  "allow_origin resp = map_of (rs_headers resp) ''Access-Control-Allow-Origin''"

text \<open>
  A response allows an origin exactly when the request names it and it is one of the comma-separated origins
  of the configuration; a preflight request is answered 204 without reaching the handler.
\<close>

theorem CORS_allows_listed_origins:
  assumes run: "run_state (CORSMiddleware origins next r) w = (resp, w')"
    and own: "\<And>w. allow_origin (fst (run_state (next r) w)) = None"
  shows "(allow_origin resp = Some orig \<longleftrightarrow> orig = rq_header r ''Origin'' \<and> orig \<noteq> [] \<and>
       (\<exists>o' \<in> set (split_on CHR '','' origins). TrimSpace o' = orig)) \<and>
    (rq_method r = ''OPTIONS'' \<longrightarrow> rs_status resp = 204 \<and> w' = w)"
proof -
  let ?orig = "rq_header r ''Origin''"
  let ?hs = "if ?orig \<noteq> [] \<and> ?orig \<in> parseAllowedOriginsHTTP origins then cors_headers ?orig else []"
  have hs: "map_of ?hs ''Access-Control-Allow-Origin'' =
      (if ?orig \<noteq> [] \<and> ?orig \<in> parseAllowedOriginsHTTP origins then Some ?orig else None)" by (simp add: cors_headers_def)
  have "allow_origin resp = map_of ?hs ''Access-Control-Allow-Origin'' \<and> (rq_method r = ''OPTIONS'' \<longrightarrow> rs_status resp = 204 \<and> w' = w)"
  proof (cases "rq_method r = ''OPTIONS''")
    case True
    then show ?thesis
      using run unfolding CORSMiddleware_def Let_def by (auto simp: run_return allow_origin_def)
  next
    case False
    with run have "resp = (fst (run_state (next r) w))\<lparr>rs_headers := ?hs @ rs_headers (fst (run_state (next r) w))\<rparr>"
      unfolding CORSMiddleware_def Let_def by (auto simp: run_bind run_return prod.case_eq_if)
    with own[of w] False show ?thesis by (auto simp: allow_origin_def map_add_def split: option.split)
  qed
  moreover have "?orig \<in> parseAllowedOriginsHTTP origins \<longleftrightarrow> ?orig \<noteq> [] \<and> (\<exists>o' \<in> set (split_on CHR '','' origins). TrimSpace o' = ?orig)"
    by (auto simp: parseAllowedOriginsHTTP_def intro: rev_image_eqI)
  ultimately show ?thesis unfolding hs by auto
qed

section \<open>Witnesses\<close>

text \<open>A token bucket: tokens and the time of the last use, or unused.\<close>

fun bucket_allow :: "int \<times> int \<times> (int \<times> time) option \<Rightarrow> time \<Rightarrow> bool \<times> (int \<times> int \<times> (int \<times> time) option)" where
  "bucket_allow (r, b, None) t = (1 \<le> b, (r, b, Some (if 1 \<le> b then b - 1 else b, t)))"
| "bucket_allow (r, b, Some (k, u)) t =
     (let k' = min b (k + r * max 0 (t - u)) in (1 \<le> k', (r, b, Some (if 1 \<le> k' then k' - 1 else k', t))))"

definition token_bucket :: "(int \<times> int \<times> (int \<times> time) option) limiter_library" where
  "token_bucket = \<lparr>NewLimiter = (\<lambda>r b. (r, b, None)), Allow = bucket_allow\<rparr>"

lemma bucket_state: "bucket token_bucket 10 30 l \<Longrightarrow> \<exists>x. l = (10, 30, x) \<and> (\<forall>k u. x = Some (k, u) \<longrightarrow> 0 \<le> k)"
proof (induction rule: bucket.induct)
  case 1
  then show ?case by (simp add: token_bucket_def)
next
  case (2 l t)
  then obtain x where "l = (10, 30, x)" "\<forall>k u. x = Some (k, u) \<longrightarrow> 0 \<le> k" by blast
  then show ?case by (cases x) (auto simp: token_bucket_def Let_def)
qed

lemma token_bucket_refills: "refills token_bucket 10 30"
  unfolding refills_def
proof (intro allI impI, elim conjE)
  fix l u t
  assume l: "bucket token_bucket 10 30 l" and late: "10 * 60 < t - (u :: int)"
  from l have "bucket token_bucket 10 30 (snd (Allow token_bucket l u))" by (rule bucket.intros)
  from bucket_state[OF l] obtain x where x: "l = (10, 30, x)" by blast
  then have "\<exists>k. snd (Allow token_bucket l u) = (10, 30, Some (k, u))" by (cases x) (auto simp: token_bucket_def Let_def)
  then obtain k where k: "snd (Allow token_bucket l u) = (10, 30, Some (k, u))" by blast
  with bucket_state[OF \<open>bucket token_bucket 10 30 (snd (Allow token_bucket l u))\<close>] have "0 \<le> k" by auto
  then have "min 30 (k + 10 * max 0 (t - u)) = 30" using late by simp
  then show "Allow token_bucket (snd (Allow token_bucket l u)) t = Allow token_bucket (NewLimiter token_bucket 10 30) t"
    unfolding k by (simp add: token_bucket_def Let_def)
qed


abbreviation spoofed :: "string \<Rightarrow> unit request" where
  "spoofed ip \<equiv> (plain_request ''GET'' None (\<lambda>_. []) (\<lambda>_. []) ())\<lparr>rq_header := (\<lambda>h. if h = ''X-Real-IP'' then ip else [])\<rparr>"

theorem rate_limit_trusts_the_header_witness:
  "decisions token_bucket (NewIPRateLimiter 10 1)
     (map (\<lambda>(t, rq). Visit t (clientIP rq)) [(0, spoofed ''1''), (0, spoofed ''2''), (0, spoofed ''3'')]) = [True, True, True]"
  using rate_limit_trusts_the_header[of token_bucket 10 1 "[(0, spoofed ''1''), (0, spoofed ''2''), (0, spoofed ''3'')]"]
  by (simp add: token_bucket_def numeral_3_eq_3)

theorem CORS_allows_listed_origins_witness:
  "allow_origin (fst (run_state (CORSMiddleware ''https://a, https://b'' (\<lambda>_. RespondSuccess 200 :: unit response M)
     ((plain_request ''GET'' None (\<lambda>_. []) (\<lambda>_. []) ())\<lparr>rq_header := (\<lambda>h. if h = ''Origin'' then ''https://b'' else [])\<rparr>)) sample_world)) =
   Some ''https://b''"
proof -
  let ?r = "(plain_request ''GET'' None (\<lambda>_. []) (\<lambda>_. []) ())\<lparr>rq_header := (\<lambda>h. if h = ''Origin'' then ''https://b'' else [])\<rparr>"
  have split: "set (split_on CHR '','' ''https://a, https://b'') = {''https://a'', '' https://b''}" by auto
  have trim: "TrimSpace '' https://b'' = ''https://b''" by (simp add: TrimSpace_def TrimRight_def is_space_def)
  have own: "allow_origin (fst (run_state (RespondSuccess 200 :: unit response M) w)) = None" for w
    by (simp add: RespondSuccess_def run_simps allow_origin_def content_json_def)
  show ?thesis
    using CORS_allows_listed_origins[of "''https://a, https://b''" "\<lambda>_. RespondSuccess 200 :: unit response M" ?r sample_world,
        OF prod.collapse[symmetric] own, of "''https://b''"]
    by (simp add: split trim)
qed

end
