(* ===== verification/Server_Proofs.thy ===== *)
theory Server_Proofs
  imports Server Container_Properties Container_Handler_Proofs Admin_Proofs Middleware_Proofs Recovery_Proofs Notification_Handlers
begin

text \<open>
  The server as a transition system: requests, the goroutines they start, the auto-stop watcher, the events of the Docker
  daemon and the clean-up of the rate limiter, in any order. Every step keeps the integrity of the database and of the bus,
  and no request gets past the guards of its route without a user.
\<close>

section \<open>Routes keep the state sound\<close>

text \<open>The world is sound, and so will be whatever the goroutines that have not run yet make of it.\<close>

definition running_ok :: "running \<Rightarrow> bool" where
  "running_ok s \<longleftrightarrow> world_ok (fst s) \<and> (\<forall>t \<in> set (snd s). state_io_rel keeps_ok t)"

definition keeps_running :: "running \<Rightarrow> running \<Rightarrow> bool" where
  "keeps_running s s' \<longleftrightarrow> (running_ok s \<longrightarrow> running_ok s')"

lemma keeps_sync:
  assumes "\<And>r. state_io_rel keeps_ok (h r)"
  shows "state_io_rel keeps_running (sync h r)"
proof (rule state_io_relI)
  fix x s s'
  assume run: "run_state (sync h r) s = (x, s')"
  obtain resp w' where h: "run_state (h r) (fst s) = (resp, w')" by fastforce
  with run have "s' = (w', snd s)" by (cases s) (simp add: sync_def)
  with state_io_relD[OF assms h] show "keeps_running s s'" by (auto simp: keeps_running_def running_ok_def keeps_ok_def)
qed

lemma keeps_async:
  assumes "\<And>r. state_io_rel keeps_ok (h r)" and "\<And>r w resp task w'. run_state (h r) w = ((resp, task), w') \<Longrightarrow> state_io_rel keeps_ok task"
  shows "state_io_rel keeps_running (async h r)"
proof (rule state_io_relI)
  fix x s s'
  assume run: "run_state (async h r) s = (x, s')"
  obtain resp task w' where h: "run_state (h r) (fst s) = ((resp, task), w')" by (metis prod.exhaust)
  with run have "s' = (w', snd s @ [task])" by (cases s) (simp add: async_def)
  with state_io_relD[OF assms(1) h] assms(2)[OF h] show "keeps_running s s'"
    by (auto simp: keeps_running_def running_ok_def keeps_ok_def)
qed

lemma keeps_as_data: "state_io_rel keeps_ok m \<Longrightarrow> state_io_rel keeps_ok (as_data f m)"
  unfolding as_data_def by (intro ko.io_intros)

lemma keeps_no_task: "state_io_rel keeps_ok no_task"
  unfolding no_task_def by (rule ko.io_return)

text \<open>What the three handlers start is one of the tasks of the user handlers, or nothing.\<close>

lemma started_tasks:
  "run_state (Register env uc v r1) w = ((resp, task), w') \<Longrightarrow> state_io_rel keeps_ok task"
  "run_state (ResendVerification env uc r2) w = ((resp, task), w') \<Longrightarrow> state_io_rel keeps_ok task"
  "run_state (ForgotPassword env uc r2) w = ((resp, task), w') \<Longrightarrow> state_io_rel keeps_ok task"
  unfolding Register_def ResendVerification_def ForgotPassword_def
  by (auto simp: respond_only_def run_bind run_return prod.case_eq_if keeps_no_task keeps_ok_user_tasks
      split: if_splits sum.splits option.splits)

lemma keeps_guards:
  assumes "\<And>r. state_io_rel keeps_ok (h r)"
  shows "state_io_rel keeps_running (authed cf h r)" "state_io_rel keeps_running (keyed cf h r)" "state_io_rel keeps_running (admin cf h r)"
  unfolding authed_def keyed_def admin_def by (intro keeps_sync keeps_ok_auth assms)+

lemma keeps_ok_ws:
  "state_io_rel keeps_ok (metrics_route cf r)" "state_io_rel keeps_ok (logs_route cf r)" "state_io_rel keeps_ok (terminal_route cf r)"
  unfolding metrics_route_def logs_route_def terminal_route_def metric_WsHandler_def logs_WsHandler_def terminal_WsHandler_def
    GetMetricOfContainer_def prod.case_eq_if
  by (intro ko.io_intros keeps_ok_intros keeps_ok_refuse keeps_ok_manager keeps_ok_term_loop)+

lemma keeps_ok_containers_route: "state_io_rel keeps_ok (containers_route cf r)"
  unfolding containers_route_def by (intro ko.io_intros keeps_as_data keeps_ok_container_handlers)

lemmas handler_facts = keeps_ok_container_handlers keeps_ok_user_handlers keeps_ok_key_handlers keeps_ok_network_handlers
  keeps_ok_admin_handlers keeps_ok_template_handlers keeps_ok_small_handlers keeps_ok_notification_handlers keeps_ok_Stream

lemma keeps_key_Dispatch: "state_io_rel keeps_ok (key_Dispatch env ts v r)"
  unfolding key_Dispatch_def by (intro ko.io_intros keeps_ok_key_handlers keeps_ok_respond)

lemma keeps_routes:
  assumes "(tpl, h) \<in> set (routes cf)"
  shows "state_io_rel keeps_running (h r)"
proof -
  have "\<forall>(tpl, h) \<in> set (auth_routes cf). state_io_rel keeps_running (h r)"
    unfolding auth_routes_def Let_def
    by (simp, intro conjI keeps_sync keeps_async keeps_as_data handler_facts started_tasks; assumption)
  moreover have "\<forall>(tpl, h) \<in> set (user_routes cf @ container_routes cf). state_io_rel keeps_running (h r)"
    unfolding user_routes_def container_routes_def Let_def
    by (simp, intro conjI keeps_guards keeps_as_data handler_facts keeps_ok_containers_route)
  moreover have "\<forall>(tpl, h) \<in> set (stream_routes cf). state_io_rel keeps_running (h r)"
    unfolding stream_routes_def Let_def
    by (simp, intro conjI keeps_guards keeps_sync keeps_as_data handler_facts keeps_ok_ws)
  moreover have "\<forall>(tpl, h) \<in> set (api_routes cf). state_io_rel keeps_running (h r)"
    unfolding api_routes_def Let_def
    by (simp, intro conjI keeps_guards keeps_as_data handler_facts keeps_key_Dispatch)
  moreover have "\<forall>(tpl, h) \<in> set (admin_routes cf @ plan_routes cf). state_io_rel keeps_running (h r)"
    unfolding admin_routes_def plan_routes_def Let_def
    by (simp, intro conjI keeps_guards keeps_sync keeps_as_data handler_facts)
  ultimately show ?thesis using assms unfolding routes_def set_append by blast
qed

section \<open>Running a request through the stack\<close>

text \<open>What the code relies on: instrumenting a handler calls it once and adds no capability to the writer.\<close>

definition transparent :: "'l config \<Rightarrow> bool" where
  "transparent cf \<longleftrightarrow> (\<forall>route next r. \<exists>fl. cf_instrument cf route next r = next (r\<lparr>rw_flush := fl \<and> rw_flush r\<rparr>))"

lemma stack_cases:
  assumes "transparent cf" and "run_state (middleware_stack cf tpl h r) (rl, s) = (resp, (rl', s'))"
  shows "(resp = too_many \<and> s' = s) \<or>
    (\<exists>x. run_state (h (r\<lparr>rw_flush := False\<rparr>)) s = (x, s') \<and> (\<forall>y. x = Some y \<longrightarrow> resp = y) \<and>
       (x = None \<longrightarrow> (\<exists>m. rs_payload resp = Raw m)))"
proof -
  let ?g = "prometheusMiddleware (cf_instrument cf) (\<lambda>_. Some tpl) h"
  have g: "?g (r\<lparr>rw_flush := False\<rparr>) = h (r\<lparr>rw_flush := False\<rparr>)"
  proof (cases "EqualFold (rq_header r ''Upgrade'') ''websocket''")
    case True
    then show ?thesis by (simp add: prometheusMiddleware_def)
  next
    case False
    from assms(1) obtain fl where "cf_instrument cf tpl h (r\<lparr>rw_flush := False\<rparr>) = h ((r\<lparr>rw_flush := False\<rparr>)\<lparr>rw_flush := fl \<and> rw_flush (r\<lparr>rw_flush := False\<rparr>)\<rparr>)"
      unfolding transparent_def by blast
    with False show ?thesis by (simp add: prometheusMiddleware_def)
  qed
  show ?thesis
    using assms(2) unfolding middleware_stack_def Recovery_def rate_Middleware_def RequestLogger_def g
    by (auto simp: run_bind run_return split: prod.splits if_splits option.splits)
qed

lemma server_cases:
  assumes "transparent cf" and run: "run_state (server cf r) (rl, s) = (resp, (rl', s'))"
  shows "s' = s \<or> (\<exists>tpl h vars x. (tpl, h) \<in> set (routes cf) \<and>
     cf_mux cf (map fst (routes cf)) (rq_path r) = Some (tpl, vars) \<and>
     run_state (h (r\<lparr>rq_vars := vars, rw_flush := False\<rparr>)) s = (x, s'))"
proof -
  from run consider (opt) "s' = s" | (route) resp1 where "run_state (router cf r) (rl, s) = (resp1, (rl', s'))"
    unfolding server_def CORSMiddleware_def Let_def by (auto simp: run_bind run_return split: if_splits prod.splits)
  then show ?thesis
  proof cases
    case route
    show ?thesis
    proof (cases "s' = s")
      case False
      with route obtain tpl vars h where m: "cf_mux cf (map fst (routes cf)) (rq_path r) = Some (tpl, vars)"
        "map_of (routes cf) tpl = Some h"
        "run_state (middleware_stack cf tpl h (r\<lparr>rq_vars := vars\<rparr>)) (rl, s) = (resp1, (rl', s'))"
        unfolding router_def by (auto simp: run_return split: option.splits)
      from stack_cases[OF assms(1) m(3)] False
      obtain x where "run_state (h (r\<lparr>rq_vars := vars, rw_flush := False\<rparr>)) s = (x, s')" by auto
      with m map_of_SomeD[OF m(2)] show ?thesis by blast
    qed simp
  qed simp
qed

section \<open>The server at work\<close>

text \<open>
  One step: a request is served; a goroutine runs; the watcher sweeps; an event of the daemon starts a recovery task; the
  limiter forgets idle visitors; the readiness probe asks the database. Each runs to its end before the next.
\<close>

inductive server_step :: "'l config \<Rightarrow> 'l IPRateLimiter \<times> running \<Rightarrow> 'l IPRateLimiter \<times> running \<Rightarrow> bool" for cf where
  serve: "run_state (server cf r) s = (resp, s') \<Longrightarrow> server_step cf s s'"
| goroutine: "run_state t w = ((), w') \<Longrightarrow> server_step cf (rl, (w, xs @ t # ys)) (rl, (w', xs @ ys))"
| sweep: "run_state (checkAndStopExpiredContainers (cf_env cf) (hd_manager (cf_handler cf))) w = ((), w') \<Longrightarrow>
    server_step cf (rl, (w, ts)) (rl, (w', ts))"
| event: "dispatch action actorID exitCode = Some task \<Longrightarrow> server_step cf (rl, (w, ts)) (rl, (w, ts @ [run_task (cf_env cf) task]))"
| idle: "server_step cf (rl, s) (cleanup (clock_of cf s) rl, s)"
| probe: "run_state (readyz (cf_env cf) (r :: unit request)) w = (resp :: unit response, w') \<Longrightarrow> server_step cf (rl, (w, ts)) (rl, (w', ts))"

lemma server_keeps_running:
  assumes "transparent cf" and "run_state (server cf r) (rl, s) = (resp, (rl', s'))"
  shows "keeps_running s s'"
  using server_cases[OF assms] keeps_routes[THEN state_io_relD] by (fastforce simp: keeps_running_def)

lemma step_keeps_running:
  assumes "transparent cf" and "server_step cf x y"
  shows "running_ok (snd x) \<longrightarrow> running_ok (snd y)"
  using assms(2)
proof (cases rule: server_step.cases)
  case (serve r resp)
  then obtain rl s rl' s' where xy: "x = (rl, s)" "y = (rl', s')" by (metis prod.exhaust)
  from server_keeps_running[OF assms(1) serve[unfolded xy]] show ?thesis by (simp add: xy keeps_running_def)
next
  case (goroutine t w w' rl xs ys)
  then show ?thesis by (auto simp: running_ok_def keeps_ok_def dest: state_io_relD)
next
  case (sweep w w' rl ts)
  then show ?thesis using state_io_relD[OF keeps_ok_watcher sweep(3)] by (simp add: running_ok_def keeps_ok_def)
next
  case (event action actorID exitCode task rl w ts)
  then show ?thesis by (auto simp: running_ok_def keeps_ok_run_task)
next
  case (idle rl s)
  then show ?thesis by simp
next
  case (probe r w resp w' rl ts)
  then show ?thesis using state_io_relD[OF keeps_ok_small_handlers(4) probe(3)] by (simp add: running_ok_def keeps_ok_def)
qed

text \<open>
  C1. Whatever requests arrive, whatever the clients of its connections, the Docker daemon and the database answer, and
  in whatever order requests, goroutines, the auto-stop watcher, container events and the limiter's clean-up take their
  turns: in every state the server reaches, all keys are unique, every foreign key points at a row, the notification bus
  is well formed, and no send on a closed channel has taken the process down.
\<close>

theorem server_keeps_integrity:
  assumes "transparent cf" and "world_ok w" and "(server_step cf)\<^sup>*\<^sup>* (start_state w) (rl, (w', ts))"
  shows "db_ok (db w') \<and> bus_ok (bus w') \<and> \<not> panicked w'"
proof -
  have "running_ok (snd (start_state w))" using assms(2) by (simp add: start_state_def running_ok_def)
  from assms(3) this have "running_ok (snd (rl, (w', ts)))"
    by (induction rule: rtranclp_induct) (use step_keeps_running[OF assms(1)] in blast)+
  then show ?thesis by (simp add: running_ok_def world_ok_def)
qed

section \<open>No user, no entry\<close>

definition public_paths :: "string list" where
  "public_paths = [''/ping'', ''/auth/login'', ''/auth/register'', ''/auth/refresh'', ''/auth/verify-email'', ''/auth/resend-verification'',
     ''/auth/forgot-password'', ''/auth/reset-password'', ''/health'', ''/templates'', ''/templates/{id}'', ''/plans'']"

text \<open>A request without an API key whose token, if any, neither middleware accepts.\<close>

definition anonymous :: "'l config \<Rightarrow> world \<Rightarrow> string request \<Rightarrow> bool" where
  "anonymous cf w r \<longleftrightarrow>
     (let check = checked_user (uc_lib (cf_users cf)) (uc_key (cf_users cf)) (env_now (cf_env cf) (hist w)) r
      in rq_header r ''X-API-Key'' = [] \<and> (\<exists>m. check (header_token_split r) = Inl m) \<and> (\<exists>m. check (header_token_two r) = Inl m))"

lemma anonymous_moved [simp]: "anonymous cf w (r\<lparr>rq_vars := v, rw_flush := f\<rparr>) = anonymous cf w r"
proof -
  have "rq_query (r\<lparr>rq_vars := v, rw_flush := f\<rparr>) = rq_query r" "rq_header (r\<lparr>rq_vars := v, rw_flush := f\<rparr>) = rq_header r" by simp_all
  then show ?thesis unfolding anonymous_def checked_user_def header_token_split_def header_token_two_def by (simp only:)
qed

definition refused :: "route \<Rightarrow> string request \<Rightarrow> running \<Rightarrow> bool" where
  "refused h r s \<longleftrightarrow> (\<exists>resp. run_state (h r) s = (Some resp, s) \<and> rs_status resp = 401)"

lemma guards_refuse:
  assumes "anonymous cf w r"
  shows "refused (authed cf h) r (w, ts)" "refused (keyed cf h) r (w, ts)" "refused (admin cf h) r (w, ts)"
  using assms unfolding anonymous_def Let_def
  by (auto simp: refused_def admin_def authed_def keyed_def sync_def AuthMiddleware_def Auth_Middleware_def resolveJWT_def run_simps)

lemma protected_refuse:
  assumes "anonymous cf w r" and "(tpl, h) \<in> set (routes cf)" and "tpl \<notin> set public_paths"
  shows "refused h r (w, ts)"
proof -
  have "\<forall>(tpl, h) \<in> set (user_routes cf @ container_routes cf). refused h r (w, ts)"
    unfolding user_routes_def container_routes_def Let_def by (simp, intro conjI guards_refuse assms(1))
  moreover have "\<forall>(tpl, h) \<in> set (api_routes cf @ admin_routes cf). refused h r (w, ts)"
    unfolding api_routes_def admin_routes_def Let_def by (simp, intro conjI guards_refuse assms(1))
  moreover have "\<forall>(tpl, h) \<in> set (stream_routes cf). tpl \<notin> set public_paths \<longrightarrow> refused h r (w, ts)"
    unfolding stream_routes_def Let_def by (auto simp: public_paths_def intro: guards_refuse assms(1))
  moreover have "\<forall>(tpl, h) \<in> set (auth_routes cf @ plan_routes cf). tpl \<in> set public_paths"
    unfolding auth_routes_def plan_routes_def Let_def by (simp add: public_paths_def)
  ultimately show ?thesis using assms(2,3) unfolding routes_def set_append by blast
qed


section \<open>Witnesses\<close>

abbreviation undecodable :: "string \<Rightarrow> 'a result" where
  "undecodable \<equiv> \<lambda>_. Inl (ErrText ''invalid character'')"

definition sample_config :: "(int \<times> int \<times> (int \<times> time) option) config" where
  "sample_config =
     \<lparr>cf_env = sample_env, cf_users = login_ctx, cf_handler = \<lparr>hd_manager = sample_cm, hd_recovery = True\<rparr>,
      cf_nets = \<lparr>uuid_in = Some\<rparr>, cf_limiter = token_bucket, cf_origins = [],
      cf_mux = (\<lambda>tpls p. if p \<in> set tpls then Some (p, \<lambda>_. []) else None), cf_instrument = (\<lambda>_ next. next),
      cf_dec = \<lparr>dec_login = undecodable, dec_register = undecodable, dec_token = Inr, dec_email = Inr, dec_reset = undecodable,
        dec_create = undecodable, dec_exec = (\<lambda>s. Inr [s]), dec_write = undecodable, dec_upload = undecodable, dec_name = Inr,
        dec_connect = undecodable, dec_plan = Inr\<rparr>,
      cf_val = \<lparr>val_login = (\<lambda>_. None), val_register = (\<lambda>_. None), val_token = (\<lambda>_. None), val_reset = (\<lambda>_. None),
        val_name = (\<lambda>_. None)\<rparr>,
      cf_peer = (\<lambda>_. \<lparr>pe_handshake = True, pe_stats = [], pe_can_send = (\<lambda>_. True), pe_clock = (\<lambda>n. n), pe_frames = [],
        pe_resize = (\<lambda>_. None), pe_reads = [], pe_inputs = [], pe_events = []\<rparr>),
      cf_marshal = (\<lambda>_. []), cf_mime = (\<lambda>_. []), cf_timestamp = (\<lambda>_. None), cf_date = (\<lambda>t. t), cf_like = (\<lambda>_ _. True),
      cf_rank = (\<lambda>_. 0), cf_json = \<lparr>unmarshal_tags = (\<lambda>_. None), unmarshal_ports = (\<lambda>_. None)\<rparr>, cf_handshake_status = 403\<rparr>"

lemma sample_config_sel:
  "cf_env sample_config = sample_env" "cf_users sample_config = login_ctx"
  "cf_mux sample_config = (\<lambda>tpls p. if p \<in> set tpls then Some (p, \<lambda>_. []) else None)"
  by (simp_all add: sample_config_def)

lemma sample_transparent: "transparent sample_config"
proof -
  have "\<exists>fl. next r = next (r\<lparr>rw_flush := fl \<and> rw_flush r\<rparr>)" for "next" :: route and r
    by (rule exI[of _ True]) simp
  then show ?thesis by (simp add: transparent_def sample_config_def)
qed

text \<open>An out-of-memory event starts a recovery task, which then runs.\<close>

theorem server_keeps_integrity_witness:
  "let w' = snd (run_state (run_task sample_env (OOM ''c7'')) sample_world)
   in (server_step sample_config)\<^sup>*\<^sup>* (start_state sample_world) (NewIPRateLimiter 10 30, (w', [])) \<and>
      db_ok (db w') \<and> bus_ok (bus w') \<and> \<not> panicked w'"
proof -
  let ?t = "run_task sample_env (OOM ''c7'')"
  let ?w = "snd (run_state ?t sample_world)"
  have "dispatch ''oom'' ''c7'' [] = Some (OOM ''c7'')" by (simp add: dispatch_def)
  from server_step.event[OF this, of sample_config "NewIPRateLimiter 10 30" sample_world "[]"]
  have 1: "server_step sample_config (start_state sample_world) (NewIPRateLimiter 10 30, (sample_world, [?t]))"
    by (simp add: start_state_def sample_config_sel)
  have "run_state ?t sample_world = ((), ?w)" by (simp add: prod_eq_iff)
  from server_step.goroutine[OF this, of sample_config "NewIPRateLimiter 10 30" "[]" "[]"]
  have 2: "server_step sample_config (NewIPRateLimiter 10 30, (sample_world, [?t])) (NewIPRateLimiter 10 30, (?w, []))" by simp
  from 1 2 have "(server_step sample_config)\<^sup>*\<^sup>* (start_state sample_world) (NewIPRateLimiter 10 30, (?w, []))"
    by (meson converse_rtranclp_into_rtranclp rtranclp.rtrancl_refl)
  with server_keeps_integrity[OF sample_transparent sample_world_ok this] show ?thesis by (simp add: Let_def)
qed

definition bare_request :: "string request" where
  "bare_request = (plain_request ''GET'' None (\<lambda>_. []) (\<lambda>_. []) [])\<lparr>rq_path := ''/user/me''\<rparr>"


end
