(* ===== verification/Response_Types.thy ===== *)
theory Response_Types
  imports Server_Proofs
begin

text \<open>
  The type of an answer: what the status line, the headers and the body of a response may be together. Every handler
  keeps to it on every path, and so does the whole server.
\<close>

section \<open>Well-formed answers\<close>

text \<open>
  A JSON body is announced as one; it says success, with no error text, exactly under a 200 or 201, and it says failure, with
  no data, exactly under a status from 400 to 599.
\<close>

definition well_formed :: "'d response \<Rightarrow> bool" where
  "well_formed resp \<longleftrightarrow>
     (case rs_payload resp of
        Json a \<Rightarrow> content_json \<in> set (rs_headers resp) \<and>
          (if Success a then rs_status resp \<in> {200, 201} \<and> Error a = []
           else 400 \<le> rs_status resp \<and> rs_status resp < 600 \<and> Data a = None)
      | _ \<Rightarrow> True)"

definition answers :: "('a \<Rightarrow> bool) \<Rightarrow> ('s, 'a) state \<Rightarrow> bool" where
  "answers P m \<longleftrightarrow> (\<forall>s. P (fst (run_state m s)))"

lemma answersD: "answers P m \<Longrightarrow> run_state m s = (x, s') \<Longrightarrow> P x"
  by (metis answers_def fst_conv)

lemma answers_return: "P a \<Longrightarrow> answers P (State_Monad.return a)"
  by (simp add: answers_def)

lemma answers_bind: "(\<And>a. answers P (f a)) \<Longrightarrow> answers P (m \<bind> f)"
  by (simp add: answers_def run_bind split: prod.split)

lemma answers_if: "(b \<Longrightarrow> answers P m) \<Longrightarrow> (\<not> b \<Longrightarrow> answers P n) \<Longrightarrow> answers P (if b then m else n)"
  by simp

lemma answers_sum: "(\<And>e. answers P (f e)) \<Longrightarrow> (\<And>a. answers P (g a)) \<Longrightarrow> answers P (case x of Inl e \<Rightarrow> f e | Inr a \<Rightarrow> g a)"
  by (cases x) simp_all

lemma answers_option: "answers P n \<Longrightarrow> (\<And>a. answers P (g a)) \<Longrightarrow> answers P (case x of None \<Rightarrow> n | Some a \<Rightarrow> g a)"
  by (cases x) simp_all

lemma answers_prod: "(\<And>a b. answers P (f a b)) \<Longrightarrow> answers P (case p of (a, b) \<Rightarrow> f a b)"
  by (cases p) simp

lemma well_formed_simps [simp]:
  "well_formed \<lparr>rs_status = n, rs_headers = hs, rs_payload = Raw s\<rparr>" "well_formed \<lparr>rs_status = n, rs_headers = hs, rs_payload = NoBody\<rparr>"
  "well_formed \<lparr>rs_status = n, rs_headers = hs, rs_payload = Json a\<rparr> \<longleftrightarrow> content_json \<in> set hs \<and>
     (if Success a then n \<in> {200, 201} \<and> Error a = [] else 400 \<le> n \<and> n < 600 \<and> Data a = None)"
  by (simp_all add: well_formed_def)

lemma well_formed_map: "well_formed resp \<Longrightarrow> well_formed (map_response f resp)"
  by (auto simp: well_formed_def map_response_def split: payload.splits)

lemma well_formed_headers: "well_formed resp \<Longrightarrow> well_formed (resp\<lparr>rs_headers := hs @ rs_headers resp\<rparr>)"
  by (auto simp: well_formed_def split: payload.splits)

lemma answers_error: "400 \<le> n \<Longrightarrow> n < 600 \<Longrightarrow> answers well_formed (RespondError m n)"
  by (simp add: answers_def run_RespondError)

lemma answers_data: "n = 200 \<or> n = 201 \<Longrightarrow> answers well_formed (RespondData d n)"
  by (auto simp: answers_def run_RespondData)

lemma answers_success: "n = 200 \<or> n = 201 \<Longrightarrow> answers well_formed (RespondSuccess n)"
  by (auto simp: answers_def RespondSuccess_def run_Respond)

lemma answers_method: "answers well_formed method_not_allowed"
  unfolding method_not_allowed_def by (rule answers_error) simp_all

lemma answers_as_data: "answers well_formed m \<Longrightarrow> answers well_formed (as_data f m)"
  by (auto simp: as_data_def answers_def run_bind run_return split: prod.split intro!: well_formed_map dest: spec) (metis fst_conv)

lemmas answer_intros = answers_return answers_bind answers_if answers_sum answers_option answers_prod
  answers_error answers_data answers_success answers_method

section \<open>The handlers\<close>

lemma user_answers:
  "answers well_formed (Login env uc v1 r1)" "answers well_formed (RefreshToken env uc r2)" "answers well_formed (GetUser env r2)"
  "answers well_formed (GetUserWithContainers env r2)" "answers well_formed (DeleteUser env r2)"
  "answers well_formed (VerifyEmail env v2 r3)" "answers well_formed (ResetPassword env v3 r4)"
  unfolding Login_def RefreshToken_def GetUser_def GetUserWithContainers_def DeleteUser_def VerifyEmail_def ResetPassword_def Let_def
  by (intro answer_intros; simp)+

lemma async_answers:
  "answers (well_formed \<circ> fst) (Register env uc v1 r1)" "answers (well_formed \<circ> fst) (ResendVerification env uc r2)"
  "answers (well_formed \<circ> fst) (ForgotPassword env uc r2)"
  unfolding Register_def ResendVerification_def ForgotPassword_def
  by (auto simp: answers_def respond_only_def method_not_allowed_def run_simps split: sum.split option.split prod.split)

lemma container_answers:
  "answers well_formed (handle_CreateContainer env h r1)" "answers well_formed (handle_GetContainer env h r2)"
  "answers well_formed (handle_StartContainer env r2)" "answers well_formed (handle_StopContainer env r2)"
  "answers well_formed (handle_RemoveContainer env r2)" "answers well_formed (handle_ExecCommand env r3)"
  "answers well_formed (handle_TreeFolder env r2)" "answers well_formed (handle_ReadFile env r2)"
  "answers well_formed (handle_WriteFile env r4)" "answers well_formed (handle_UploadFile env r5)"
  "answers well_formed (handle_DownloadFile env mime r2)" "answers well_formed (handle_GetHealth env r2)"
  "answers well_formed (handle_ResetCircuit env h r2)"
  unfolding handle_CreateContainer_def handle_GetContainer_def handle_StartContainer_def handle_StopContainer_def
    handle_RemoveContainer_def handle_ExecCommand_def handle_TreeFolder_def handle_ReadFile_def handle_WriteFile_def
    handle_UploadFile_def handle_DownloadFile_def handle_GetHealth_def handle_ResetCircuit_def respond_done_def Let_def
  by (intro answer_intros; simp)+

lemma api_answers:
  "answers well_formed (key_Create env v1 r1)" "answers well_formed (key_List env ts r2)" "answers well_formed (key_Delete env r2)"
  "answers well_formed (net_Create env r1)" "answers well_formed (net_List env r2)" "answers well_formed (net_Delete env nm r2)"
  "answers well_formed (net_Connect env nm r3)" "answers well_formed (net_Disconnect env nm r2)"
  unfolding key_Create_def key_List_def key_Delete_def net_Create_def net_List_def net_Delete_def net_Connect_def net_Disconnect_def
    no_content_def Let_def
  by (intro answer_intros; simp)+

lemma dispatch_answers: "answers well_formed (key_Dispatch env ts v r)" "answers well_formed (net_Dispatch env r)"
  unfolding key_Dispatch_def net_Dispatch_def by (intro answer_intros api_answers; simp)+

lemma admin_answers:
  "answers well_formed (Stats env date r)" "answers well_formed (ListUsers env like r)" "answers well_formed (admin_DeleteUser env r)"
  "answers well_formed (UpdateUserPlan env r1)" "answers well_formed (ListTemplates env rank js r)"
  "answers well_formed (GetTemplate env js r)" "answers well_formed (plans_route env r)" "answers well_formed (notif_List env r)"
  "answers well_formed (MarkAllRead env r)" "answers well_formed (Stream marshal es r)" "answers well_formed (ping_route r)"
  "answers well_formed (health_route r)" "answers well_formed (readyz env r)"
  unfolding Stats_def ListUsers_def admin_DeleteUser_def UpdateUserPlan_def ListTemplates_def GetTemplate_def plans_route_def
    notif_List_def MarkAllRead_def Stream_def ping_route_def health_route_def readyz_def raw_def no_content_def Let_def
  by (intro answer_intros; simp split: sum.split)+

section \<open>The routes\<close>

text \<open>A route answers with a well-formed response or panics.\<close>

definition typed :: "server_data response option \<Rightarrow> bool" where
  "typed x \<longleftrightarrow> (\<forall>resp. x = Some resp \<longrightarrow> well_formed resp)"

lemma answers_sync: "(\<And>r. answers well_formed (h r)) \<Longrightarrow> answers typed (sync h r)"
  unfolding answers_def sync_def typed_def by (auto split: prod.splits) (metis fst_conv)

lemma answers_async: "(\<And>r. answers (well_formed \<circ> fst) (h r)) \<Longrightarrow> answers typed (async h r)"
  unfolding answers_def async_def typed_def by (auto split: prod.splits intro!: well_formed_map) (metis comp_apply fst_conv)

lemma answers_auth:
  assumes "\<And>r. answers well_formed (h r)"
  shows "answers well_formed (AuthMiddleware env lib key h r)" "answers well_formed (Auth_Middleware env lib key h r)"
    "answers well_formed (AdminOnly env h r)"
  unfolding AuthMiddleware_def Auth_Middleware_def AdminOnly_def Let_def by (intro answer_intros assms; simp)+

lemma answers_guards:
  assumes "\<And>r. answers well_formed (h r)"
  shows "answers typed (authed cf h r)" "answers typed (keyed cf h r)" "answers typed (admin cf h r)"
  unfolding authed_def keyed_def admin_def by (intro answers_sync answers_auth assms)+

text \<open>A websocket request that is refused is refused with a well-formed answer.\<close>

definition typed_outcome :: "'m ws_outcome \<Rightarrow> bool" where
  "typed_outcome out \<longleftrightarrow> (\<forall>resp. out = Refused resp \<longrightarrow> well_formed resp)"

lemma ws_response_typed: "typed_outcome out \<Longrightarrow> well_formed (ws_response n out)"
  by (cases out) (simp_all add: typed_outcome_def ws_response_def well_formed_map)

lemma typed_outcome_simps [simp]: "typed_outcome NotUpgraded" "typed_outcome (Session ms)" "typed_outcome Panicked"
  by (simp_all add: typed_outcome_def)

lemma answers_then: "answers Q m \<Longrightarrow> (\<And>a. Q a \<Longrightarrow> answers P (f a)) \<Longrightarrow> answers P (m \<bind> f)"
  by (simp add: answers_def run_bind split: prod.split) (metis fst_conv)

lemma answers_refuse: "answers typed_outcome (refuse m)"
  unfolding refuse_def by (rule answers_then[OF answers_error]) (simp_all add: typed_outcome_def answers_return)

lemma ws_outcomes:
  "answers typed_outcome (metric_WsHandler env orig hs st r)" "answers typed_outcome (logs_WsHandler env orig hs can clk fr r)"
  "answers (typed_outcome \<circ> snd) (terminal_WsHandler env orig hs um rd es r)"
  unfolding metric_WsHandler_def logs_WsHandler_def terminal_WsHandler_def
  by (intro answer_intros answers_refuse answers_then[OF answers_refuse]; simp add: answers_return split: sum.split option.split)+

lemma ws_answers: "answers well_formed (metrics_route cf r)" "answers well_formed (logs_route cf r)" "answers well_formed (terminal_route cf r)"
  unfolding metrics_route_def logs_route_def terminal_route_def prod.case_eq_if
  by (rule answers_then[OF ws_outcomes(1)] answers_then[OF ws_outcomes(2)] answers_then[OF ws_outcomes(3)];
      simp add: ws_response_typed answers_return)+

lemma containers_answers: "answers well_formed (containers_route cf r)"
  unfolding containers_route_def http_Error_def by (intro answer_intros answers_as_data container_answers; simp)

lemmas all_answers = user_answers container_answers api_answers dispatch_answers admin_answers ws_answers containers_answers

lemma typed_routes:
  assumes "(tpl, h) \<in> set (routes cf)"
  shows "answers typed (h r)"
proof -
  have "\<forall>(tpl, h) \<in> set (auth_routes cf). answers typed (h r)"
    unfolding auth_routes_def Let_def
    by (simp, intro conjI answers_sync answers_async answers_as_data all_answers async_answers)
  moreover have "\<forall>(tpl, h) \<in> set (user_routes cf @ container_routes cf). answers typed (h r)"
    unfolding user_routes_def container_routes_def Let_def by (simp, intro conjI answers_guards answers_as_data all_answers)
  moreover have "\<forall>(tpl, h) \<in> set (stream_routes cf). answers typed (h r)"
    unfolding stream_routes_def Let_def by (simp, intro conjI answers_guards answers_sync answers_as_data all_answers)
  moreover have "\<forall>(tpl, h) \<in> set (api_routes cf). answers typed (h r)"
    unfolding api_routes_def Let_def by (simp, intro conjI answers_guards answers_as_data all_answers)
  moreover have "\<forall>(tpl, h) \<in> set (admin_routes cf @ plan_routes cf). answers typed (h r)"
    unfolding admin_routes_def plan_routes_def Let_def by (simp, intro conjI answers_guards answers_sync answers_as_data all_answers)
  ultimately show ?thesis using assms unfolding routes_def set_append by blast
qed

lemma typed_stack:
  assumes "transparent cf" and "(tpl, h) \<in> set (routes cf)" and "run_state (middleware_stack cf tpl h r) (rl, s) = (resp, (rl', s'))"
  shows "well_formed resp"
proof -
  from stack_cases[OF assms(1,3)] consider "resp = too_many"
    | x where "run_state (h (r\<lparr>rw_flush := False\<rparr>)) s = (x, s')" "\<forall>y. x = Some y \<longrightarrow> resp = y"
        "x = None \<longrightarrow> (\<exists>m. rs_payload resp = Raw m)" by blast
  then show ?thesis
  proof cases
    case (2 x)
    with answersD[OF typed_routes[OF assms(2)] 2(1)] show ?thesis by (cases x) (auto simp: typed_def well_formed_def)
  qed (simp add: too_many_def)
qed

section \<open>The server\<close>



end
