(* ===== verification/Isolation.thy ===== *)
theory Isolation
  imports Server_Proofs
begin

text \<open>
  Whose data a request may change. What belongs to a user is a view of the database; a computation spares a view when it leaves
  it alone in the committed tables and in an open transaction. The handlers behind the guards spare every user but the one the
  guard found, with the exceptions the code has.
\<close>

section \<open>Sparing a view\<close>

definition sees :: "(database \<Rightarrow> 'o) \<Rightarrow> 'o \<Rightarrow> world \<Rightarrow> bool" where
  "sees obs x w \<longleftrightarrow> obs (db w) = x \<and> (\<forall>d. txn w = Some d \<longrightarrow> obs d = x)"

definition spares :: "(database \<Rightarrow> 'o) \<Rightarrow> world \<Rightarrow> world \<Rightarrow> bool" where
  "spares obs w w' \<longleftrightarrow> (\<forall>x. sees obs x w \<longrightarrow> sees obs x w')"

interpretation sp: effect "spares obs" for obs
  by unfold_locales (simp_all add: spares_def)

lemma sparesD: "spares obs w w' \<Longrightarrow> txn w = None \<Longrightarrow> obs (db w') = obs (db w)"
  by (simp add: spares_def sees_def)

definition keeps :: "(database \<Rightarrow> 'o) \<Rightarrow> (database \<Rightarrow> 'a \<times> database) \<Rightarrow> bool" where
  "keeps obs f \<longleftrightarrow> (\<forall>d. obs (snd (f d)) = obs d)"

lemma keepsI: "(\<And>d. obs (snd (f d)) = obs d) \<Longrightarrow> keeps obs f"
  by (simp add: keeps_def)

lemma keeps_read: "(\<And>d. snd (f d) = d) \<Longrightarrow> keeps obs f"
  by (simp add: keeps_def)

lemma keeps_with_bigint:
  "(\<And>k. int8in env s = Some k \<Longrightarrow> keeps obs (f k)) \<Longrightarrow> keeps obs (\<lambda>d. with_bigint env s (\<lambda>k. f k d) d)"
  by (cases "int8in env s") (auto simp: with_bigint_def keeps_def)

lemma keeps_with_uuid: "(\<And>x. keeps obs (f x)) \<Longrightarrow> keeps obs (\<lambda>d. with_uuid m s (\<lambda>x. f x d) d)"
  by (cases "uuid_in m s") (auto simp: with_uuid_def keeps_def)

lemma spares_call:
  "state_io_rel (spares obs) (call env c)" "state_io_rel (spares obs) (call_str env c)"
  "state_io_rel (spares obs) (call_strs env c)" "state_io_rel (spares obs) (call_out env c)"
  "state_io_rel (spares obs) (now env)" "state_io_rel (spares obs) (BeginTx env)"
  "state_io_rel (spares obs) (Commit env)" "state_io_rel (spares obs) (publish u n)"
  by (rule state_io_relI, auto simp: run_simps spares_def sees_def view_def split: option.splits)+

lemma spares_sql:
  assumes "\<And>x t. keeps obs (f x t)"
  shows "state_io_rel (spares obs) (sql env h tag f)"
proof (rule state_io_relI)
  fix r w w'
  assume run: "run_state (sql env h tag f) w = (r, w')"
  let ?d = "snd (f (env_str env (hist w) (Sql tag)) (env_now env (hist w)) (view h w))"
  have "obs ?d = obs (view h w)" using assms by (simp add: keeps_def)
  moreover from run have "w' = w\<lparr>hist := Sql tag # hist w\<rparr> \<or> w' = set_view h ?d (w\<lparr>hist := Sql tag # hist w\<rparr>)"
    by (auto simp: run_simps split: option.splits prod.splits)
  ultimately show "spares obs w w'"
    by (auto simp: spares_def sees_def set_view_def view_def split: DB.splits option.splits)
qed

text \<open>A view of rows does not see the sequences, which a roll-back moves.\<close>

locale observation =
  fixes obs :: "database \<Rightarrow> 'o"
  assumes no_seqs: "obs (d\<lparr>users_seq := i, containers_seq := j\<rparr>) = obs d"
begin

lemma spares_Rollback: "state_io_rel (spares obs) (Rollback env)"
  by (rule state_io_relI) (auto simp: run_simps spares_def sees_def rollback_world_def no_seqs split: option.splits)

lemma spares_in_tx: "state_io_rel (spares obs) m \<Longrightarrow> state_io_rel (spares obs) (in_tx env m)"
  unfolding in_tx_def by (intro sp.io_intros spares_call spares_Rollback)

end

section \<open>What belongs to a user\<close>

text \<open>Everything but containers, and the containers.\<close>

definition account :: "int \<Rightarrow> database \<Rightarrow>
    user_row list \<times> network_row list \<times> token_row list \<times> api_key_row list \<times> notification_row list \<times> audit_row list" where
  "account n d =
     (filter (\<lambda>u. u_id u = n) (users d), filter (\<lambda>x. nw_user_id x = n) (networks d), filter (\<lambda>t. et_user_id t = n) (email_tokens d),
      filter (\<lambda>k. ak_user_id k = n) (api_keys d), filter (\<lambda>x. nr_user_id x = n) (notifications d), filter (\<lambda>a. al_user_id a = n) (audit_log d))"

definition own_containers :: "int \<Rightarrow> database \<Rightarrow> container_row list" where
  "own_containers n d = filter (\<lambda>c. c_user_id c = n) (containers d)"

definition belongings :: "int \<Rightarrow> database \<Rightarrow> _" where
  "belongings n d = (account n d, own_containers n d)"

interpretation ac: observation "account n" for n
  by unfold_locales (simp add: account_def)

interpretation be: observation "belongings n" for n
  by unfold_locales (simp add: belongings_def account_def own_containers_def)

lemma filter_map_other:
  "(\<And>x. x \<in> set xs \<Longrightarrow> Q x \<Longrightarrow> \<not> P x \<and> \<not> P (f x)) \<Longrightarrow> filter P (map (\<lambda>x. if Q x then f x else x) xs) = filter P xs"
  by (induction xs) auto

section \<open>Computations that change no row\<close>

lemma spares_reads:
  "state_io_rel (spares obs) (GetContainerByID env h pid)" "state_io_rel (spares obs) (GetUserByID env h pid)"
  "state_io_rel (spares obs) (GetContainersForUserByID env h pid)" "state_io_rel (spares obs) (GetPlanForUser env h pid)"
  "state_io_rel (spares obs) (GetAllowedImages env)"
  unfolding GetContainerByID_def GetUserByID_def GetContainersForUserByID_def GetPlanForUser_def GetAllowedImages_def
  by (intro sp.io_intros spares_sql keeps_with_bigint keeps_read; simp add: read_statements)+

lemma spares_respond:
  "state_io_rel (spares obs) (RespondJSON a k)" "state_io_rel (spares obs) (RespondError m k)" "state_io_rel (spares obs) (RespondData d k)"
  "state_io_rel (spares obs) (RespondSuccess k)" "state_io_rel (spares obs) method_not_allowed" "state_io_rel (spares obs) no_content"
  "state_io_rel (spares obs) (refuse m)"
  unfolding method_not_allowed_def RespondError_def RespondData_def RespondSuccess_def RespondJSON_def no_content_def refuse_def
  by (intro sp.io_return sp.io_bind)+

lemma spares_exec: "state_io_rel (spares obs) (execInContainer env cid cmd)"
  unfolding execInContainer_def by (intro sp.io_intros spares_call)

lemma spares_try_install: "state_io_rel (spares obs) (try_install env cid ics)"
  by (induction env cid ics rule: try_install.induct) (auto intro!: sp.io_intros spares_exec)

lemma spares_passive:
  "state_io_rel (spares obs) (ExecCommand env pid cmd)" "state_io_rel (spares obs) (ExecTerminal env pid)"
  "state_io_rel (spares obs) (StreamLogs env pid)" "state_io_rel (spares obs) (GetContainerInfo env cm pid)"
  "state_io_rel (spares obs) (WriteFileToContainer env pid path content)" "state_io_rel (spares obs) (check_quota env pid)"
  "state_io_rel (spares obs) (installPackages env pid pkgs)" "state_io_rel (spares obs) (pullImageIfNeeded env img)"
  unfolding ExecCommand_def ExecTerminal_def StreamLogs_def GetContainerInfo_def WriteFileToContainer_def check_quota_def
    installPackages_def pullImageIfNeeded_def Let_def
  by (intro sp.io_intros spares_call spares_reads spares_exec spares_try_install)+

lemma spares_select_health: "keeps obs (\<lambda>d. select_health env p u d)"
  unfolding select_health_def by (intro keeps_with_bigint keeps_read) simp

lemma spares_readers:
  "state_io_rel (spares obs) (handle_GetContainer env h r2)" "state_io_rel (spares obs) (handle_ExecCommand env r3)"
  "state_io_rel (spares obs) (handle_TreeFolder env r2)" "state_io_rel (spares obs) (handle_ReadFile env r2)"
  "state_io_rel (spares obs) (handle_WriteFile env r4)" "state_io_rel (spares obs) (handle_UploadFile env r5)"
  "state_io_rel (spares obs) (handle_DownloadFile env mime r2)" "state_io_rel (spares obs) (handle_GetHealth env r2)"
  "state_io_rel (spares obs) (GetUser env r6)" "state_io_rel (spares obs) (GetUserWithContainers env r7)"
  "state_io_rel (spares obs) (notif_List env r8)"
  unfolding handle_GetContainer_def handle_ExecCommand_def handle_TreeFolder_def handle_ReadFile_def handle_WriteFile_def
    handle_UploadFile_def handle_DownloadFile_def handle_GetHealth_def GetUser_def GetUserWithContainers_def svc_GetUser_def
    svc_GetUserWithContainers_def notif_List_def select_notifications_def respond_done_def Let_def
  by (intro sp.io_intros spares_call spares_respond spares_reads spares_passive spares_sql spares_select_health keeps_with_bigint keeps_read;
      simp)+

lemma spares_term_loop: "state_io_rel (spares obs) (term_loop env unmarshal execID es)"
proof (induction es)
  case (Cons e es)
  then show ?case
    by (cases e) (auto simp: ResizeTerminal_def intro!: sp.io_intros spares_call split: option.split)
qed (simp add: sp.io_return)

lemma spares_ws:
  "state_io_rel (spares obs) (metrics_route cf r)" "state_io_rel (spares obs) (logs_route cf r)" "state_io_rel (spares obs) (terminal_route cf r)"
  unfolding metrics_route_def logs_route_def terminal_route_def metric_WsHandler_def logs_WsHandler_def terminal_WsHandler_def
    GetMetricOfContainer_def prod.case_eq_if
  by (intro sp.io_intros spares_call spares_respond spares_passive spares_term_loop spares_reads)+

lemma spares_Stream: "state_io_rel (spares obs) (Stream marshal es r)"
  by (rule state_io_relI) (auto simp: Stream_def run_simps spares_def sees_def split: if_splits option.splits)

lemma spares_as_data: "state_io_rel (spares obs) m \<Longrightarrow> state_io_rel (spares obs) (as_data f m)"
  unfolding as_data_def by (intro sp.io_intros)

section \<open>Changing containers\<close>

lemma account_containers [simp]:
  "account n (update_containers P f d) = account n d" "account n (snd (delete_containers P d)) = account n d"
  "account n (snd (insert_container env info t d)) = account n d"
  by (auto simp: account_def update_containers_def delete_containers_def insert_container_def Let_def split: option.split)

lemma keeps_container_statements:
  "keeps (account n) (insert_container env info t)" "keeps (account n) (update_container env pid info)"
  "keeps (account n) (delete_container env pid)" "keeps (account n) (reset_health env pid)"
  unfolding update_container_def delete_container_def reset_health_def Let_def
  by (intro keeps_with_bigint keepsI; simp split: prod.split; metis account_containers(2) snd_conv)+

lemma spares_manager:
  "state_io_rel (spares (account n)) (CreateContainer env cm p img)" "state_io_rel (spares (account n)) (CreateContainerWithPort env cm p img port)"
  "state_io_rel (spares (account n)) (StopContainer env pid)" "state_io_rel (spares (account n)) (StartContainer env pid)"
  "state_io_rel (spares (account n)) (RemoveContainer env pid rf)"
  unfolding CreateContainer_def CreateContainerWithPort_def StopContainer_def StartContainer_def RemoveContainer_def
    removeFolderRollBack_def repo_CreateContainer_def UpdateContainer_def DeleteContainer_def Let_def
  by (intro sp.io_intros ac.spares_in_tx spares_call spares_reads spares_passive spares_sql keeps_container_statements keeps_with_bigint keeps_read;
      simp)+

lemma spares_container_handlers:
  "state_io_rel (spares (account n)) (handle_CreateContainer env h r1)" "state_io_rel (spares (account n)) (handle_StartContainer env r2)"
  "state_io_rel (spares (account n)) (handle_StopContainer env r2)" "state_io_rel (spares (account n)) (handle_RemoveContainer env r2)"
  unfolding handle_CreateContainer_def handle_StartContainer_def handle_StopContainer_def handle_RemoveContainer_def respond_done_def uuid_New_def Let_def
  by (intro sp.io_intros spares_call spares_respond spares_reads spares_manager)+

lemma spares_containers_route: "state_io_rel (spares (account n)) (containers_route cf r)"
  unfolding containers_route_def by (intro sp.io_intros spares_as_data spares_container_handlers)

section \<open>Changing what is one's own\<close>

text \<open>The statements that name a user leave every other user's rows alone.\<close>

lemma delete_users_other:
  "u \<noteq> n \<Longrightarrow> belongings n (snd (delete_users (\<lambda>x. u_id x = u) d)) = belongings n d"
  unfolding belongings_def account_def own_containers_def delete_users_def delete_containers_def
  by (auto simp: Let_def intro!: filter_cong)

lemma keeps_own_statements:
  assumes other: "int8in env uid \<noteq> Some n"
  shows "keeps (belongings n) (insert_key env uid name hash pre newid t)" "keeps (belongings n) (delete_key env kid uid)"
    "keeps (belongings n) (insert_network env uid name did dname newid t)" "keeps (belongings n) (delete_network env m nid uid)"
    "keeps (belongings n) (mark_all_read env uid t)" "keeps (belongings n) (update_reset env uid pid)"
    "keeps (belongings n) (delete_user env uid)" "keeps (belongings n) (delete_user_containers env uid)"
proof -
  have k: "k \<noteq> n" if "int8in env uid = Some k" for k using that other by auto
  show "keeps (belongings n) (insert_key env uid name hash pre newid t)" "keeps (belongings n) (delete_key env kid uid)"
    "keeps (belongings n) (insert_network env uid name did dname newid t)" "keeps (belongings n) (delete_network env m nid uid)"
    unfolding insert_key_def delete_key_def insert_network_def delete_network_def
    by (intro keeps_with_bigint keeps_with_uuid keepsI; drule k;
        auto simp: belongings_def account_def own_containers_def intro!: filter_cong)+
  show "keeps (belongings n) (mark_all_read env uid t)"
    unfolding mark_all_read_def
    by (intro keeps_with_bigint keepsI; drule k) (auto simp: belongings_def account_def own_containers_def intro!: filter_map_other)
  show "keeps (belongings n) (update_reset env uid pid)"
    unfolding update_reset_def reset_circuit_def
    by (intro keeps_with_bigint keepsI; drule k)
      (auto simp: belongings_def account_def own_containers_def update_containers_def intro!: filter_map_other)
  show "keeps (belongings n) (delete_user env uid)"
    unfolding delete_user_def by (intro keeps_with_bigint keepsI; drule k) (auto dest: delete_users_other split: prod.split, metis delete_users_other snd_conv)
  show "keeps (belongings n) (delete_user_containers env uid)"
    unfolding delete_user_containers_def delete_containers_def
    by (intro keeps_with_bigint keepsI; drule k)
      (auto simp: belongings_def account_def own_containers_def intro!: filter_cong)
qed

lemma keeps_network_statements:
  "keeps (belongings n) (select_max_networks env uid)" "keeps (belongings n) (count_networks env uid)"
  "keeps (belongings n) (select_docker_net env m nid uid)" "keeps (belongings n) (select_member_container env pid uid)"
  "keeps (belongings n) (select_networks env uid)" "keeps (belongings n) (upsert_member m cid nid al)"
  "keeps (belongings n) (delete_member m cid nid)"
  unfolding select_max_networks_def count_networks_def select_docker_net_def select_member_container_def select_networks_def
    upsert_member_def delete_member_def
  by (intro keeps_with_bigint keeps_with_uuid keepsI; auto simp: belongings_def account_def own_containers_def)+

lemma keeps_key_reads: "keeps obs (\<lambda>d. count_keys env uid d)" "keeps obs (\<lambda>d. select_keys env uid d)"
  unfolding count_keys_def select_keys_def by (intro keeps_with_bigint keepsI; simp)+

text \<open>The handlers, for a request of a user other than \<open>n\<close>.\<close>

definition of_other :: "env \<Rightarrow> int \<Rightarrow> 'b request \<Rightarrow> bool" where
  "of_other env n r \<longleftrightarrow> (\<exists>uid. rq_user r = Some uid \<and> int8in env uid \<noteq> Some n)"

lemma of_other_user: "of_other env n r \<Longrightarrow> int8in env (user_or_empty r) \<noteq> Some n"
  by (auto simp: of_other_def user_or_empty_def)

lemma of_other_decoded: "of_other env n (decoded dec r) = of_other env n r"
  by (simp add: of_other_def decoded_def with_body_def)

lemma spares_own_handlers:
  assumes "of_other env n r"
  shows "state_io_rel (spares (belongings n)) (key_Dispatch env ts v (decoded dec r))" "state_io_rel (spares (belongings n)) (key_Delete env r)"
    "state_io_rel (spares (belongings n)) (net_Dispatch env (decoded dec r))" "state_io_rel (spares (belongings n)) (net_Delete env m r)"
    "state_io_rel (spares (belongings n)) (net_Connect env m (decoded dec2 r))" "state_io_rel (spares (belongings n)) (net_Disconnect env m r)"
    "state_io_rel (spares (belongings n)) (MarkAllRead env r)" "state_io_rel (spares (belongings n)) (handle_ResetCircuit env h r)"
proof -
  note u = of_other_user[OF assms]
  have ud: "int8in env (user_or_empty (decoded dec r)) \<noteq> Some n" for dec :: "string \<Rightarrow> 'z result"
    by (rule of_other_user) (simp add: of_other_decoded assms)
  note stmts = keeps_own_statements[OF u] keeps_own_statements[OF ud] keeps_network_statements keeps_key_reads
  show "state_io_rel (spares (belongings n)) (key_Dispatch env ts v (decoded dec r))" "state_io_rel (spares (belongings n)) (key_Delete env r)"
    unfolding key_Dispatch_def key_Create_def key_List_def key_Delete_def Let_def
    by (intro sp.io_intros spares_call spares_respond spares_sql stmts)+
  show "state_io_rel (spares (belongings n)) (net_Dispatch env (decoded dec r))" "state_io_rel (spares (belongings n)) (net_Delete env m r)"
    "state_io_rel (spares (belongings n)) (net_Connect env m (decoded dec2 r))" "state_io_rel (spares (belongings n)) (net_Disconnect env m r)"
    unfolding net_Dispatch_def net_List_def net_Create_def net_Delete_def net_Connect_def net_Disconnect_def CreateNetwork_def
      provision_network_def ConnectContainer_def DisconnectContainer_def DeleteNetwork_def ListNetworks_def find_network_def
      find_container_def Let_def
    by (intro sp.io_intros spares_call spares_respond spares_sql stmts)+
  show "state_io_rel (spares (belongings n)) (MarkAllRead env r)" "state_io_rel (spares (belongings n)) (handle_ResetCircuit env h r)"
    unfolding MarkAllRead_def handle_ResetCircuit_def ResetCircuit_def
    by (intro sp.io_intros spares_call spares_respond spares_sql stmts)+
qed

lemma spares_DeleteUser:
  assumes "of_other env n r"
  shows "state_io_rel (spares (belongings n)) (DeleteUser env r)"
proof -
  from assms obtain uid where uid: "rq_user r = Some uid" "int8in env uid \<noteq> Some n" by (auto simp: of_other_def)
  show ?thesis
    unfolding DeleteUser_def uid(1) option.case svc_DeleteUser_def DeleteUserByID_def
    by (intro sp.io_intros be.spares_in_tx spares_call spares_respond spares_sql keeps_own_statements[OF uid(2)])
qed

section \<open>Behind the guards\<close>

text \<open>The users whose credentials a request carries: a token in one of the two forms the guards read, or an API key.\<close>

definition names_user :: "'l config \<Rightarrow> world \<Rightarrow> string request \<Rightarrow> string \<Rightarrow> bool" where
  "names_user cf w r uid \<longleftrightarrow>
     (let check = checked_user (uc_lib (cf_users cf)) (uc_key (cf_users cf)) (env_now (cf_env cf) (hist w)) r
      in check (header_token_split r) = Inr uid \<or> check (header_token_two r) = Inr uid \<or>
         rq_header r ''X-API-Key'' \<noteq> [] \<and>
         (\<exists>k \<in> set (api_keys (db w)). ak_key_hash k = sha256hex (cf_env cf) (rq_header r ''X-API-Key'') \<and> uid = int8out (cf_env cf) (ak_user_id k)))"

definition acts_as :: "'l config \<Rightarrow> world \<Rightarrow> string request \<Rightarrow> int \<Rightarrow> bool" where
  "acts_as cf w r n \<longleftrightarrow> (\<exists>uid. names_user cf w r uid \<and> int8in (cf_env cf) uid = Some n)"

text \<open>PostgreSQL reads back the ids it prints.\<close>

definition owners_print :: "env \<Rightarrow> database \<Rightarrow> bool" where
  "owners_print env d \<longleftrightarrow> (\<forall>k \<in> set (api_keys d). int8in env (int8out env (ak_user_id k)) = Some (ak_user_id k))"

lemma names_user_moved [simp]: "names_user cf w (r\<lparr>rq_vars := v, rw_flush := f\<rparr>) = names_user cf w r"
proof -
  have "rq_query (r\<lparr>rq_vars := v, rw_flush := f\<rparr>) = rq_query r" "rq_header (r\<lparr>rq_vars := v, rw_flush := f\<rparr>) = rq_header r" by simp_all
  then show ?thesis unfolding names_user_def checked_user_def header_token_split_def header_token_two_def by (simp only:)
qed

lemma of_other_with_user: "int8in env uid \<noteq> Some n \<Longrightarrow> of_other env n (with_user uid r)"
  by (simp add: of_other_def with_user_def)

lemma touch_key_other:
  assumes "owners_print env (db w)" and "\<not> acts_as cf w r n" and "cf_env cf = env" and "rq_header r ''X-API-Key'' \<noteq> []"
  shows "belongings n (snd (touch_key env (sha256hex env (rq_header r ''X-API-Key'')) t (db w))) = belongings n (db w)"
proof -
  have "ak_user_id k \<noteq> n" if "k \<in> set (api_keys (db w))" "ak_key_hash k = sha256hex env (rq_header r ''X-API-Key'')" for k
    using that assms by (fastforce simp: acts_as_def names_user_def owners_print_def Let_def)
  then show ?thesis
    unfolding touch_key_def belongings_def account_def own_containers_def by (simp add: filter_map_other)
qed

text \<open>What a guard does before the handler runs: nothing, or the time of use of the key that is presented.\<close>

definition touched :: "'l config \<Rightarrow> string request \<Rightarrow> world \<Rightarrow> world \<Rightarrow> bool" where
  "touched cf r w w1 \<longleftrightarrow> txn w1 = None \<and>
     (db w1 = db w \<or> rq_header r ''X-API-Key'' \<noteq> [] \<and> (\<exists>t. db w1 = snd (touch_key (cf_env cf) (sha256hex (cf_env cf) (rq_header r ''X-API-Key'')) t (db w))))"

lemma guard_cases:
  assumes "txn w = None" and "run_state (authed cf h r) (w, ts) = (x, (w', ts')) \<or> run_state (keyed cf h r) (w, ts) = (x, (w', ts'))"
  shows "ts' = ts \<and> (touched cf r w w' \<or>
    (\<exists>uid w1 y. names_user cf w r uid \<and> touched cf r w w1 \<and> run_state (h (with_user uid r)) w1 = (y, w')))"
proof -
  let ?A = "AuthMiddleware (cf_env cf) (uc_lib (cf_users cf)) (uc_key (cf_users cf)) h r"
  let ?K = "Auth_Middleware (cf_env cf) (uc_lib (cf_users cf)) (uc_key (cf_users cf)) h r"
  have key: "\<exists>k \<in> set (api_keys d). ak_key_hash k = hash \<and> uid = int8out env (ak_user_id k)"
    if "touch_key env hash t d = (Inr uid, d')" for env hash t d uid d'
    using that by (auto simp: touch_key_def first_row_def filter_eq_Cons_iff dest!: map_sum_InrD split: list.splits)
  from assms(2) obtain y where run: "ts' = ts" "run_state ?A w = (y, w') \<or> run_state ?K w = (y, w')"
    by (auto simp: authed_def keyed_def sync_def split: prod.splits)
  from run(2) show ?thesis
  proof
    assume "run_state ?A w = (y, w')"
    with run(1) assms(1) show ?thesis
      by (auto simp: AuthMiddleware_def run_simps touched_def names_user_def Let_def split: sum.splits)
  next
    assume K: "run_state ?K w = (y, w')"
    show ?thesis
    proof (cases "rq_header r ''X-API-Key'' = []")
      case True
      with K run(1) assms(1) show ?thesis
        by (auto simp: Auth_Middleware_def resolveJWT_def run_simps touched_def names_user_def Let_def split: sum.splits)
    next
      case False
      obtain u w1 where m: "run_state (resolveApiKey (cf_env cf) (rq_header r ''X-API-Key'')) w = (u, w1)" by fastforce
      then have t: "touched cf r w w1"
        using assms(1) False unfolding resolveApiKey_def run_sql touched_def
        by (auto split: option.splits prod.splits) (metis snd_conv)
      show ?thesis
      proof (cases u)
        case (Inl e)
        with K m False t run(1) show ?thesis by (simp add: Auth_Middleware_def run_simps)
      next
        case (Inr uid)
        from m Inr False have "names_user cf w r uid"
          by (auto simp: resolveApiKey_def run_simps names_user_def Let_def dest!: key split: option.splits prod.splits)
        with K m False t run(1) Inr show ?thesis by (auto simp: Auth_Middleware_def run_simps)
      qed
    qed
  qed
qed

text \<open>A route confines a stranger \<open>n\<close> to the request when it leaves the view of \<open>n\<close> alone and starts nothing.\<close>

definition confines :: "(database \<Rightarrow> 'o) \<Rightarrow> route \<Rightarrow> string request \<Rightarrow> running \<Rightarrow> bool" where
  "confines obs h r s \<longleftrightarrow>
     (case snd (run_state (h r) s) of (w', ts') \<Rightarrow> ts' = snd s \<and> obs (db w') = obs (db (fst s)))"

lemma confinesI:
  assumes "\<And>x w' ts'. run_state (h r) (w, ts) = (x, (w', ts')) \<Longrightarrow> ts' = ts \<and> obs (db w') = obs (db w)"
  shows "confines obs h r (w, ts)"
  using assms unfolding confines_def by (cases "run_state (h r) (w, ts)") (auto split: prod.split)

lemma touched_same:
  assumes "touched cf r w w1" and "owners_print (cf_env cf) (db w)" and "\<not> acts_as cf w r n"
  shows "belongings n (db w1) = belongings n (db w)" "account n (db w1) = account n (db w)" "users (db w1) = users (db w)" "txn w1 = None"
proof -
  show b: "belongings n (db w1) = belongings n (db w)"
    using assms touch_key_other[OF assms(2,3) refl] by (auto simp: touched_def)
  show "account n (db w1) = account n (db w)" using b by (simp add: belongings_def)
  show "users (db w1) = users (db w)" "txn w1 = None" using assms(1) by (auto simp: touched_def touch_key_def)
qed

lemma guards_confine:
  assumes tx: "txn w = None" and pr: "owners_print (cf_env cf) (db w)" and no: "\<not> acts_as cf w r n" and obs: "\<And>d d'. belongings n d = belongings n d' \<Longrightarrow> obs d = obs d'"
    and h: "\<And>r'. of_other (cf_env cf) n r' \<Longrightarrow> state_io_rel (spares obs) (h r')"
  shows "confines obs (authed cf h) r (w, ts)" "confines obs (keyed cf h) r (w, ts)"
proof -
  have "ts' = ts \<and> obs (db w') = obs (db w)"
    if run: "run_state (authed cf h r) (w, ts) = (x, (w', ts')) \<or> run_state (keyed cf h r) (w, ts) = (x, (w', ts'))" for x w' ts'
  proof -
    have same: "obs (db w1) = obs (db w)" "txn w1 = None" if "touched cf r w w1" for w1
      using touched_same(1,4)[OF that pr no] obs by blast+
    from guard_cases[OF tx run] consider "ts' = ts" "touched cf r w w'"
      | uid w1 y where "ts' = ts" "names_user cf w r uid" "touched cf r w w1" "run_state (h (with_user uid r)) w1 = (y, w')" by blast
    then show ?thesis
    proof cases
      case (2 uid w1 y)
      from no 2(2) have "int8in (cf_env cf) uid \<noteq> Some n" by (auto simp: acts_as_def)
      from state_io_relD[OF h[OF of_other_with_user[OF this]] 2(4)] have "obs (db w') = obs (db w1)"
        by (rule sparesD) (rule same(2)[OF 2(3)])
      with same(1)[OF 2(3)] 2(1) show ?thesis by simp
    qed (simp add: same)
  qed
  then show "confines obs (authed cf h) r (w, ts)" "confines obs (keyed cf h) r (w, ts)"
    by (intro confinesI; blast)+
qed

text \<open>The routes of the administrators confine a request of anyone else.\<close>

definition by_admin :: "'l config \<Rightarrow> world \<Rightarrow> string request \<Rightarrow> bool" where
  "by_admin cf w r \<longleftrightarrow> (\<exists>a \<in> set (users (db w)). acts_as cf w r (u_id a) \<and> u_role a = ''admin'')"

lemma AdminOnly_refuses:
  assumes "\<And>a. a \<in> set (users (db w)) \<Longrightarrow> int8in env uid = Some (u_id a) \<Longrightarrow> u_role a \<noteq> ''admin''"
    and "run_state (AdminOnly env h (with_user uid r)) w = (x, w')"
  shows "db w' = db w"
proof -
  have u: "user_or_empty (with_user uid r) = uid" by (simp add: user_or_empty_def with_user_def)
  have "role \<noteq> ''admin''" if "select_role env uid (db w) = (Inr role, d)" for role d
    using that assms(1) by (fastforce simp: select_role_def with_bigint_def first_row_def filter_eq_Cons_iff dest!: map_sum_InrD
        split: option.splits list.splits)
  moreover have "snd (select_role env uid (db w)) = db w" by (simp add: select_role_def with_bigint_def split: option.split)
  ultimately show ?thesis
    using assms(2) by (auto simp: AdminOnly_def u run_simps split: option.splits prod.splits sum.splits if_splits)
qed

lemma admin_confines:
  assumes tx: "txn w = None" and pr: "owners_print (cf_env cf) (db w)" and no: "\<not> acts_as cf w r n" and adm: "\<not> by_admin cf w r"
  shows "confines (belongings n) (admin cf h) r (w, ts)"
proof -
  have "ts' = ts \<and> belongings n (db w') = belongings n (db w)" if run: "run_state (admin cf h r) (w, ts) = (x, (w', ts'))" for x w' ts'
  proof -
    note same = touched_same[OF _ pr no]
    from guard_cases[OF tx, of cf "AdminOnly (cf_env cf) h"] run consider "ts' = ts" "touched cf r w w'"
      | uid w1 y where "ts' = ts" "names_user cf w r uid" "touched cf r w w1" "run_state (AdminOnly (cf_env cf) h (with_user uid r)) w1 = (y, w')"
      unfolding admin_def by blast
    then show ?thesis
    proof cases
      case (2 uid w1 y)
      have "u_role a \<noteq> ''admin''" if "a \<in> set (users (db w1))" "int8in (cf_env cf) uid = Some (u_id a)" for a
        using that adm 2(2) same(3)[OF 2(3)] by (auto simp: by_admin_def acts_as_def)
      from AdminOnly_refuses[OF this 2(4)] same(1)[OF 2(3)] 2(1) show ?thesis by simp
    qed (simp add: same)
  qed
  then show ?thesis by (intro confinesI) blast
qed

section \<open>The server\<close>

definition admin_paths :: "string list" where
  "admin_paths = [''/admin/stats'', ''/admin/users'', ''/admin/users/{id}'', ''/admin/users/{id}/plan'']"

text \<open>The container routes that change rows without looking at the user.\<close>

definition unowned_paths :: "string list" where
  "unowned_paths = [''/containers'', ''/containers/start'', ''/containers/stop'', ''/containers/remove'']"

lemma confines_account: "confines (belongings n) h r s \<Longrightarrow> confines (account n) h r s"
  by (auto simp: confines_def belongings_def split: prod.splits)

lemmas spares_own = spares_as_data spares_readers spares_ws spares_Stream spares_DeleteUser spares_own_handlers

lemma routes_confine:
  assumes tx: "txn w = None" and pr: "owners_print (cf_env cf) (db w)" and no: "\<not> acts_as cf w r n"
    and mem: "(tpl, h) \<in> set (routes cf)" and prot: "tpl \<notin> set public_paths" and adm: "tpl \<in> set admin_paths \<Longrightarrow> \<not> by_admin cf w r"
  shows "confines (account n) h r (w, ts) \<and> (tpl \<notin> set unowned_paths \<longrightarrow> confines (belongings n) h r (w, ts))"
proof -
  note g = guards_confine[OF tx pr no]
  have "\<forall>(tpl, h) \<in> set (user_routes cf). confines (belongings n) h r (w, ts)"
    unfolding user_routes_def Let_def by (simp, intro conjI g; (assumption | (intro spares_own; assumption)))
  moreover have "\<forall>(tpl, h) \<in> set (container_routes cf). tpl \<notin> set unowned_paths \<longrightarrow> confines (belongings n) h r (w, ts)"
    unfolding container_routes_def Let_def
    by (simp add: unowned_paths_def, intro conjI g; (assumption | (intro spares_own; assumption)))
  moreover have "\<forall>(tpl, h) \<in> set (container_routes cf). tpl \<in> set unowned_paths \<longrightarrow> confines (account n) h r (w, ts)"
    unfolding container_routes_def Let_def
    by (simp add: unowned_paths_def, intro conjI g;
        (simp only: belongings_def prod.inject | (intro spares_as_data spares_container_handlers spares_containers_route)))
  moreover have "\<forall>(tpl, h) \<in> set (stream_routes cf). tpl \<notin> set public_paths \<longrightarrow> confines (belongings n) h r (w, ts)"
    unfolding stream_routes_def Let_def
    by (simp add: public_paths_def, intro conjI g; (assumption | (intro spares_own; assumption)))
  moreover have "\<forall>(tpl, h) \<in> set (api_routes cf). confines (belongings n) h r (w, ts)"
    unfolding api_routes_def Let_def by (simp, intro conjI g; (assumption | (intro spares_own; assumption)))
  moreover have "\<forall>(tpl, h) \<in> set (admin_routes cf). tpl \<in> set admin_paths \<and> (\<not> by_admin cf w r \<longrightarrow> confines (belongings n) h r (w, ts))"
    unfolding admin_routes_def Let_def by (simp add: admin_paths_def admin_confines[OF tx pr no])
  moreover have "\<forall>(tpl, h) \<in> set (auth_routes cf @ plan_routes cf). tpl \<in> set public_paths"
    unfolding auth_routes_def plan_routes_def Let_def by (simp add: public_paths_def)
  ultimately show ?thesis
    using mem prot adm confines_account unfolding routes_def set_append by fast
qed


text \<open>The first user deletes the account with a token; the second user's rows stay.\<close>

definition delete_me :: "string request" where
  "delete_me = (plain_request ''DELETE'' None (\<lambda>q. if q = ''token'' then ''acc'' else []) (\<lambda>_. []) [])\<lparr>rq_path := ''/user''\<rparr>"


end
