(* ===== verification/Confidentiality.thy ===== *)
theory Confidentiality
  imports Isolation
begin

text \<open>
  What the answers of the reading endpoints show: two databases that agree on what belongs to a user and on the plans
  give the user the same answers, so nothing of the other users can be read off them.
\<close>

section \<open>Computations that do not tell two states apart\<close>

definition alike :: "int \<Rightarrow> world \<Rightarrow> world \<Rightarrow> bool" where
  "alike n v w \<longleftrightarrow> hist v = hist w \<and> belongings n (db v) = belongings n (db w) \<and> plans (db v) = plans (db w)"

definition same_answer :: "world \<Rightarrow> world \<Rightarrow> 'a M \<Rightarrow> bool" where
  "same_answer v w m \<longleftrightarrow> fst (run_state m v) = fst (run_state m w)"

lemma same_return: "same_answer v w (State_Monad.return a)"
  by (simp add: same_answer_def)

lemma same_bind: "same_answer v w m \<Longrightarrow> (\<And>a v' w'. same_answer v' w' (f a)) \<Longrightarrow> same_answer v w (m \<bind> f)"
  unfolding same_answer_def run_bind by (simp split: prod.split) (metis fst_conv)

lemma same_on_ok: "same_answer v w m \<Longrightarrow> (\<And>a v' w'. same_answer v' w' (f a)) \<Longrightarrow> same_answer v w (on_ok m f)"
  unfolding on_ok_def by (intro same_bind) (auto simp: fail_def same_return split: sum.split)

lemma same_map_err: "same_answer v w m \<Longrightarrow> same_answer v w (map_err g m)"
  unfolding map_err_def by (intro same_bind same_return)

lemma same_if: "same_answer v w m \<Longrightarrow> same_answer v w k \<Longrightarrow> same_answer v w (if b then m else k)"
  by simp

lemma same_sum: "(\<And>e. same_answer v w (f e)) \<Longrightarrow> (\<And>a. same_answer v w (g a)) \<Longrightarrow> same_answer v w (case x of Inl e \<Rightarrow> f e | Inr a \<Rightarrow> g a)"
  by (cases x) auto

lemma same_prod: "(\<And>a b. same_answer v w (f a b)) \<Longrightarrow> same_answer v w (case p of (a, b) \<Rightarrow> f a b)"
  by (cases p) auto

lemma same_simple: "same_answer v w (ok a)" "same_answer v w (fail e)"
  by (simp_all add: same_answer_def run_simps)

lemma same_respond:
  "same_answer v w (RespondError m k)" "same_answer v w (RespondData d k)" "same_answer v w method_not_allowed"
  unfolding method_not_allowed_def RespondError_def RespondData_def RespondJSON_def by (intro same_return)+

lemma same_sql:
  assumes "alike n v w" and "\<And>x t. fst (f x t (db v)) = fst (f x t (db w))"
  shows "same_answer v w (sql env Pool tag f)"
  using assms by (auto simp: same_answer_def alike_def run_sql split: option.split prod.split) (metis fst_conv)+

lemmas same_intros = same_bind same_on_ok same_map_err same_if same_sum same_prod same_return same_simple same_respond

section \<open>The queries\<close>

lemma alikeD:
  assumes "alike n v w"
  shows "filter (\<lambda>u. u_id u = n) (users (db v)) = filter (\<lambda>u. u_id u = n) (users (db w))"
    "filter (\<lambda>k. ak_user_id k = n) (api_keys (db v)) = filter (\<lambda>k. ak_user_id k = n) (api_keys (db w))"
    "filter (\<lambda>x. nr_user_id x = n) (notifications (db v)) = filter (\<lambda>x. nr_user_id x = n) (notifications (db w))"
    "filter (\<lambda>c. c_user_id c = n) (containers (db v)) = filter (\<lambda>c. c_user_id c = n) (containers (db w))"
    "plans (db v) = plans (db w)"
  using assms by (auto simp: alike_def belongings_def account_def own_containers_def)

lemma join_containers_same: "alike n v w \<Longrightarrow> u_id u = n \<Longrightarrow> join_containers u (db v) = join_containers u (db w)"
  by (simp add: join_containers_def alikeD(4))

lemma concat_if: "concat (map (\<lambda>x. if P x then f x else []) xs) = concat (map f (filter P xs))"
  by (induction xs) auto

lemma filter_both: "filter (\<lambda>x. P x \<and> Q x) xs = filter P (filter Q xs)"
  by (induction xs) auto

lemma select_health_same:
  assumes a: "alike n v w" and u: "int8in env uid = Some n"
  shows "fst (select_health env pid uid (db v)) = fst (select_health env pid uid (db w))"
proof -
  let ?row = "\<lambda>d c. concat (map (\<lambda>x. concat (map (\<lambda>p. if pl_id p = u_plan_id x then
      [\<lparr>hi_RestartCount = c_restart_count c, hi_LastRestartAt = c_last_restart_at c, hi_HealthStatus = c_health_status c,
        hi_OOMKilled = c_oom_killed c, hi_CircuitOpen = c_circuit_open c, hi_MaxRestarts = pl_max_auto_restarts p\<rparr>] else []) (plans d)))
      (filter (\<lambda>x. u_id x = c_user_id c) (users d)))"
  have rows: "map (?row (db v)) (filter (\<lambda>c. c_id c = i \<and> c_user_id c = n) (containers (db v))) =
      map (?row (db w)) (filter (\<lambda>c. c_id c = i \<and> c_user_id c = n) (containers (db w)))" for i
    unfolding filter_both[of "\<lambda>c. c_id c = i"] alikeD(4)[OF a]
    by (rule map_cong[OF refl]) (simp only: set_filter mem_Collect_eq alikeD(1)[OF a] alikeD(5)[OF a])
  show ?thesis
    unfolding select_health_def with_bigint_def u option.case
    by (cases "int8in env pid") (simp_all only: option.case fst_conv concat_if[of "\<lambda>c. c_id c = _ \<and> c_user_id c = _"]
        concat_if[of "\<lambda>x. u_id x = _"] rows)
qed

lemma queries_same:
  assumes a: "alike n v w" and u: "int8in env uid = Some n"
  shows "fst (select_user_by_id env uid (db v)) = fst (select_user_by_id env uid (db w))"
    "fst (select_user_containers env uid (db v)) = fst (select_user_containers env uid (db w))"
    "fst (select_keys env uid (db v)) = fst (select_keys env uid (db w))"
    "fst (select_notifications env uid (db v)) = fst (select_notifications env uid (db w))"
  using alikeD[OF a] join_containers_same[OF a]
  by (auto simp: select_user_by_id_def select_user_containers_def select_keys_def select_notifications_def rows_with_bigint_def
      with_bigint_def u intro!: arg_cong[of _ _ concat] map_cong)

section \<open>The endpoints\<close>



end
