(* ===== verification/Startup.thy ===== *)
theory Startup
  imports Server Users_Proofs
begin

text \<open>
  The life of the process in \<open>main.go\<close>: reading the environment, opening the pool, migrating the schema, building the
  handlers, starting the goroutines, listening, and shutting down. \<open>log.Fatal\<close> ends the process at once: it is the error of
  the computation, and no deferred function runs after it. The environment is the function \<open>os.Getenv\<close>; OpenTelemetry,
  the PostgreSQL pool and the migration library are parameters. The texts of fatal errors are kept up to the value they quote.
\<close>

section \<open>The process\<close>

datatype boot_event =
    OtelInstalled string | MetricsRegistered | PoolOpened string | SchemaMigrated string | HandlerReady | WatcherStarted
  | ListenerStarted | AdminListening string | AppListening string
  | AppShutdown | AdminShutdown | WatcherStopped | HandlerClosed | PoolClosed | OtelShutdown | SignalsReleased

record boot =
  bo_getenv :: "string \<Rightarrow> string"
  bo_ParseDuration :: "string \<Rightarrow> time result"
  bo_exporter :: "go_error option"
  bo_resource :: "string \<Rightarrow> go_error option"
  bo_connect :: "string \<Rightarrow> go_error option"
  bo_migrator :: migrator
  bo_env :: env

text \<open>The pool, the world, what has happened so far (newest first) and whether the watcher's stop channel is closed.\<close>

record boot_state =
  bs_pool :: pool_state
  bs_world :: world
  bs_log :: "boot_event list"
  bs_stopped :: bool

type_synonym 'a B = "(boot_state, 'a result) state"

definition emit :: "boot_event \<Rightarrow> unit B" where
  "emit ev = do { s \<leftarrow> State_Monad.get; State_Monad.set (s\<lparr>bs_log := ev # bs_log s\<rparr>); ok () }"

definition in_world :: "'a R \<Rightarrow> 'a B" where
  "in_world m = State (\<lambda>s. case run_state m (bs_world s) of (r, w) \<Rightarrow> (r, s\<lparr>bs_world := w\<rparr>))"

definition checked :: "'a result \<Rightarrow> 'a B" where
  "checked r = State_Monad.return r"

definition fatal :: "string \<Rightarrow> 'a B \<Rightarrow> 'a B" where
  "fatal msg m = map_err (Wrap msg) m"

section \<open>Observability\<close>

text \<open>Without an endpoint OpenTelemetry is skipped; the flag says whether there is a provider to shut down.\<close>

definition initOpenTelemetry :: "boot \<Rightarrow> string \<Rightarrow> bool B" where
  "initOpenTelemetry b serviceName =
     (if bo_getenv b ''OTEL_EXPORTER_OTLP_ENDPOINT'' = [] then ok False
      else case bo_exporter b of
        Some e \<Rightarrow> fail e
      | None \<Rightarrow>
          (case bo_resource b serviceName of
             Some e \<Rightarrow> fail e
           | None \<Rightarrow> on_ok (emit (OtelInstalled serviceName)) (\<lambda>_. ok True)))"

section \<open>The admin listener\<close>

datatype admin_target = Prometheus | Healthz | Readyz | Pprof string

definition admin_mux :: "boot \<Rightarrow> (string \<times> admin_target) list" where
  "admin_mux b =
     [(''/metrics'', Prometheus), (''/healthz'', Healthz), (''/readyz'', Readyz)] @
     (if bo_getenv b ''ENABLE_PPROF'' = ''true''
      then [(''/debug/pprof/'', Pprof ''Index''), (''/debug/pprof/cmdline'', Pprof ''Cmdline''), (''/debug/pprof/profile'', Pprof ''Profile''),
            (''/debug/pprof/symbol'', Pprof ''Symbol''), (''/debug/pprof/trace'', Pprof ''Trace'')]
      else [])"

text \<open>\<open>http.ServeMux\<close>: a pattern that ends in a slash matches a subtree, and the longest match wins.\<close>

definition mux_match :: "(string \<times> 'h) list \<Rightarrow> string \<Rightarrow> 'h option" where
  "mux_match pats path =
     (case sort_key (\<lambda>(p, _). - int (length p)) (filter (\<lambda>(p, _). p = path \<or> last p = CHR ''/'' \<and> HasPrefix path p) pats) of
        [] \<Rightarrow> None
      | (_, h) # _ \<Rightarrow> Some h)"

section \<open>Starting\<close>

definition env_or :: "boot \<Rightarrow> string \<Rightarrow> string \<Rightarrow> string" where
  "env_or b name dflt = (if bo_getenv b name = [] then dflt else bo_getenv b name)"

definition open_pool :: "boot \<Rightarrow> string \<Rightarrow> unit B" where
  "open_pool b dsn =
     State (\<lambda>s. case Init (bo_connect b) dsn (bs_pool s) of
       (Inl e, p) \<Rightarrow> (Inl e, s\<lparr>bs_pool := p\<rparr>)
     | (Inr u, p) \<Rightarrow> (Inr u, s\<lparr>bs_pool := p, bs_log := PoolOpened dsn # bs_log s\<rparr>))"

definition NewUserHandler :: "(string \<Rightarrow> string) \<Rightarrow> user_ctx \<Rightarrow> user_ctx" where
  "NewUserHandler getenv libs = libs\<lparr>uc_mailer := NewMailer getenv, uc_baseURL := getenv ''APP_BASE_URL''\<rparr>"

record serving =
  sv_app :: string
  sv_admin :: string
  sv_handler :: Handler
  sv_users :: user_ctx
  sv_otel :: bool

text \<open>
  The handlers \<open>main\<close> builds between the watcher and the listener only keep pointers; \<open>NewMetricHandler\<close> returns no error. The
  two servers listen in goroutines of their own, started in this order.
\<close>

definition main_start :: "boot \<Rightarrow> user_ctx \<Rightarrow> serving B" where
  "main_start b libs =
     (let serviceName = env_or b ''OTEL_SERVICE_NAME'' ''my-go-service'';
          appAddr = env_or b ''APP_ADDR'' '':8080'';
          adminAddr = env_or b ''ADMIN_ADDR'' '':2112'';
          basePath = env_or b ''PROJECTS_BASE_PATH'' ''/tmp/projects'';
          dsn = bo_getenv b ''DATABASE_URL'';
          timeoutStr = env_or b ''CONTAINER_AUTO_STOP_TIMEOUT'' ''30m'' in
      on_ok (fatal ''otel init failed'' (initOpenTelemetry b serviceName)) (\<lambda>otel.
      on_ok (emit MetricsRegistered) (\<lambda>_.
      on_ok (if dsn = [] then fail (ErrText ''DATABASE_URL environment variable must be set'') else ok ()) (\<lambda>_.
      on_ok (fatal ''Invalid CONTAINER_AUTO_STOP_TIMEOUT value'' (checked (bo_ParseDuration b timeoutStr))) (\<lambda>timeout.
      on_ok (fatal ''Failed to initialize database: '' (open_pool b dsn)) (\<lambda>_.
      on_ok (fatal ''Failed to run database migrations: '' (checked (runMigrations (bo_migrator b) dsn))) (\<lambda>_.
      on_ok (emit (SchemaMigrated dsn)) (\<lambda>_.
      on_ok (fatal ''Failed to create handler: '' (in_world (NewHandler (bo_env b) basePath timeout))) (\<lambda>handler.
      on_ok (emit HandlerReady) (\<lambda>_.
      on_ok (emit WatcherStarted) (\<lambda>_.
      on_ok (emit ListenerStarted) (\<lambda>_.
      on_ok (emit (AdminListening adminAddr)) (\<lambda>_.
      on_ok (emit (AppListening appAddr)) (\<lambda>_.
        ok \<lparr>sv_app = appAddr, sv_admin = adminAddr, sv_handler = SetRecovery handler,
            sv_users = NewUserHandler (bo_getenv b) libs, sv_otel = otel\<rparr>))))))))))))))"

text \<open>The validator of \<open>utils/validator.go\<close> is made by the first request that needs it and shared by all later ones.\<close>

definition Validator :: "'v \<Rightarrow> 'v option \<Rightarrow> 'v \<times> 'v option" where
  "Validator New once = (case once of None \<Rightarrow> (New, Some New) | Some v \<Rightarrow> (v, once))"

definition BindAndValidate :: "('v \<Rightarrow> 'a \<Rightarrow> unit result) \<Rightarrow> 'v \<Rightarrow> 'v option \<Rightarrow> 'a \<Rightarrow> unit result \<times> 'v option" where
  "BindAndValidate Struct New once dst =
     (case Validator New once of (v, once') \<Rightarrow> (case Struct v dst of Inl e \<Rightarrow> Inl e | Inr _ \<Rightarrow> Inr (), once'))"

section \<open>Stopping\<close>

text \<open>Closing a channel twice panics.\<close>

definition StopAutoStopWatcher :: "unit B" where
  "StopAutoStopWatcher =
     do { s \<leftarrow> State_Monad.get;
          (if bs_stopped s then fail (ErrText ''close of closed channel'')
           else do { State_Monad.set (s\<lparr>bs_stopped := True, bs_log := WatcherStopped # bs_log s\<rparr>); ok () }) }"

definition close_pool :: "unit B" where
  "close_pool = do { s \<leftarrow> State_Monad.get; State_Monad.set (s\<lparr>bs_pool := Close_pool (bs_pool s), bs_log := PoolClosed # bs_log s\<rparr>); ok () }"

text \<open>
  What ends the wait of \<open>main\<close>: the signal, or a listener that fails. The deferred functions of \<open>main\<close> run in reverse order,
  after both servers were shut down.
\<close>

datatype stop_cause = Signal | AdminFailed go_error | AppFailed go_error

definition main_wait :: "serving \<Rightarrow> stop_cause \<Rightarrow> unit B" where
  "main_wait sv cause =
     (case cause of
        AdminFailed e \<Rightarrow> fail (Wrap ''admin server error'' e)
      | AppFailed e \<Rightarrow> fail (Wrap ''Server error: '' e)
      | Signal \<Rightarrow>
          on_ok (emit AppShutdown) (\<lambda>_.
          on_ok (emit AdminShutdown) (\<lambda>_.
          on_ok StopAutoStopWatcher (\<lambda>_.
          on_ok (emit HandlerClosed) (\<lambda>_.
          on_ok close_pool (\<lambda>_.
          on_ok (if sv_otel sv then emit OtelShutdown else ok ()) (\<lambda>_.
          emit SignalsReleased)))))))"

definition boot_world :: "world \<Rightarrow> boot_state" where
  "boot_world w = \<lparr>bs_pool = \<lparr>ps_pool = None, ps_once = False, ps_open = False\<rparr>, bs_world = w, bs_log = [], bs_stopped = False\<rparr>"

section \<open>Running the steps\<close>

lemma run_emit [run_simps]: "run_state (emit ev) s = (Inr (), s\<lparr>bs_log := ev # bs_log s\<rparr>)"
  by (simp add: emit_def run_simps)

lemma run_checked [run_simps]: "run_state (checked r) s = (r, s)"
  by (simp add: checked_def)

lemma run_fatal [run_simps]:
  "run_state (fatal msg m) s = (case run_state m s of (Inl e, s') \<Rightarrow> (Inl (Wrap msg e), s') | (Inr a, s') \<Rightarrow> (Inr a, s'))"
  by (simp add: fatal_def run_map_err)

lemma run_in_world [run_simps]:
  "run_state (in_world m) s = (case run_state m (bs_world s) of (r, w) \<Rightarrow> (r, s\<lparr>bs_world := w\<rparr>))"
  by (simp add: in_world_def)

lemma run_open_pool [run_simps]:
  "run_state (open_pool b dsn) s = (case Init (bo_connect b) dsn (bs_pool s) of
     (Inl e, p) \<Rightarrow> (Inl e, s\<lparr>bs_pool := p\<rparr>)
   | (Inr u, p) \<Rightarrow> (Inr u, s\<lparr>bs_pool := p, bs_log := PoolOpened dsn # bs_log s\<rparr>))"
  by (simp add: open_pool_def)

lemma run_StopAutoStopWatcher [run_simps]:
  "run_state StopAutoStopWatcher s =
     (if bs_stopped s then (Inl (ErrText ''close of closed channel''), s)
      else (Inr (), s\<lparr>bs_stopped := True, bs_log := WatcherStopped # bs_log s\<rparr>))"
  by (simp add: StopAutoStopWatcher_def run_simps)

lemma run_close_pool [run_simps]:
  "run_state close_pool s = (Inr (), s\<lparr>bs_pool := Close_pool (bs_pool s), bs_log := PoolClosed # bs_log s\<rparr>)"
  by (simp add: close_pool_def run_simps)

lemma pprof_disabled:
  assumes "bo_getenv b ''ENABLE_PPROF'' \<noteq> ''true''" and "mux_match (admin_mux b) path = Some t"
  shows "t \<in> {Prometheus, Healthz, Readyz}"
  using assms by (auto simp: mux_match_def admin_mux_def split: list.splits if_splits)

section \<open>Properties\<close>

definition listening :: "boot_event \<Rightarrow> bool" where
  "listening ev \<longleftrightarrow> (\<exists>a. ev = AdminListening a \<or> ev = AppListening a)"

lemma Init_fresh:
  "Init connect dsn \<lparr>ps_pool = None, ps_once = False, ps_open = False\<rparr> = (case connect dsn of
     Some e \<Rightarrow> (Inl e, \<lparr>ps_pool = None, ps_once = True, ps_open = False\<rparr>)
   | None \<Rightarrow> (Inr (), \<lparr>ps_pool = Some dsn, ps_once = True, ps_open = True\<rparr>))"
  by (simp add: Init_def split: option.split)

lemma main_start_Inr:
  assumes "run_state (main_start b libs) (boot_world w) = (Inr sv, s)"
  obtains timeout h w' where "bo_getenv b ''DATABASE_URL'' \<noteq> []"
    and "bo_ParseDuration b (env_or b ''CONTAINER_AUTO_STOP_TIMEOUT'' ''30m'') = Inr timeout"
    and "bo_connect b (bo_getenv b ''DATABASE_URL'') = None"
    and "runMigrations (bo_migrator b) (bo_getenv b ''DATABASE_URL'') = Inr ()"
    and "run_state (NewHandler (bo_env b) (env_or b ''PROJECTS_BASE_PATH'' ''/tmp/projects'') timeout) w = (Inr h, w')"
    and "sv_handler sv = SetRecovery h" and "sv_users sv = NewUserHandler (bo_getenv b) libs"
    and "bs_pool s = \<lparr>ps_pool = Some (bo_getenv b ''DATABASE_URL''), ps_once = True, ps_open = True\<rparr>"
    and "bs_log s = [AppListening (env_or b ''APP_ADDR'' '':8080''), AdminListening (env_or b ''ADMIN_ADDR'' '':2112''), ListenerStarted,
          WatcherStarted, HandlerReady, SchemaMigrated (bo_getenv b ''DATABASE_URL''), PoolOpened (bo_getenv b ''DATABASE_URL''),
          MetricsRegistered] @ (if sv_otel sv then [OtelInstalled (env_or b ''OTEL_SERVICE_NAME'' ''my-go-service'')] else [])"
    and "bs_world s = w'" and "\<not> bs_stopped s"
  using assms unfolding main_start_def initOpenTelemetry_def Let_def
  by (auto simp: run_simps Init_fresh boot_world_def split: if_splits option.splits sum.splits prod.splits)

lemma NewHandler_Inr:
  "run_state (NewHandler env base timeout) w = (Inr h, w') \<Longrightarrow> h = \<lparr>hd_manager = \<lparr>basePath = base, autoStopTimeout = timeout\<rparr>, hd_recovery = False\<rparr>"
  unfolding NewHandler_def NewContainerManager_def by (auto elim!: on_ok_Inr simp: run_ok dest!: map_err_Inr)

lemma main_start_Inl:
  "run_state (main_start b libs) s0 = (Inl e, s) \<Longrightarrow> \<forall>ev \<in> set (bs_log s0). \<not> listening ev \<Longrightarrow> \<forall>ev \<in> set (bs_log s). \<not> listening ev"
  unfolding main_start_def initOpenTelemetry_def Let_def
  by (auto simp: run_simps listening_def split: if_splits option.splits sum.splits prod.splits)

text \<open>
  C12. The process listens only when it is ready, and stops in the reverse order. Starting up either fails with no listener open, or
  it has, in this order, opened the pool on \<open>DATABASE_URL\<close>, migrated the schema there, built the handlers with the recovery
  service and the configured auto-stop timeout, started the watcher and the event listener, and only then opened the two
  listeners. On a signal both servers are shut down before the watcher is stopped, the Docker client closed and the pool
  closed, and nothing panics; when a listener fails, the process ends with the pool open and none of this.
\<close>

theorem process_lifecycle:
  assumes run: "run_state (main_start b libs) (boot_world w) = (res, s)" and dsn: "dsn = bo_getenv b ''DATABASE_URL''"
  shows "case res of
      Inl e \<Rightarrow> \<forall>ev \<in> set (bs_log s). \<not> listening ev
    | Inr sv \<Rightarrow>
        dsn \<noteq> [] \<and> runMigrations (bo_migrator b) dsn = Inr () \<and>
        bo_ParseDuration b (env_or b ''CONTAINER_AUTO_STOP_TIMEOUT'' ''30m'') = Inr (autoStopTimeout (hd_manager (sv_handler sv))) \<and>
        hd_recovery (sv_handler sv) \<and> bs_pool s = \<lparr>ps_pool = Some dsn, ps_once = True, ps_open = True\<rparr> \<and>
        (\<exists>app adm tr. bs_log s = [AppListening app, AdminListening adm, ListenerStarted, WatcherStarted, HandlerReady, SchemaMigrated dsn,
           PoolOpened dsn, MetricsRegistered] @ tr \<and> (\<forall>ev \<in> set tr. \<not> listening ev)) \<and>
        (\<exists>s'. run_state (main_wait sv Signal) s = (Inr (), s') \<and> \<not> ps_open (bs_pool s') \<and>
           bs_log s' = SignalsReleased # (if sv_otel sv then [OtelShutdown] else []) @
             [PoolClosed, HandlerClosed, WatcherStopped, AdminShutdown, AppShutdown] @ bs_log s) \<and>
        (\<forall>e cause. cause = AdminFailed e \<or> cause = AppFailed e \<longrightarrow> snd (run_state (main_wait sv cause) s) = s)"
proof (cases res)
  case (Inl e)
  with main_start_Inl[OF run[unfolded Inl]] show ?thesis by (simp add: boot_world_def)
next
  case (Inr sv)
  from main_start_Inr[OF run[unfolded Inr]] obtain timeout h w' where f: "dsn \<noteq> []" "runMigrations (bo_migrator b) dsn = Inr ()"
    and t: "bo_ParseDuration b (env_or b ''CONTAINER_AUTO_STOP_TIMEOUT'' ''30m'') = Inr timeout"
    and h: "run_state (NewHandler (bo_env b) (env_or b ''PROJECTS_BASE_PATH'' ''/tmp/projects'') timeout) w = (Inr h, w')"
      "sv_handler sv = SetRecovery h"
    and p: "bs_pool s = \<lparr>ps_pool = Some dsn, ps_once = True, ps_open = True\<rparr>"
    and l: "bs_log s = [AppListening (env_or b ''APP_ADDR'' '':8080''), AdminListening (env_or b ''ADMIN_ADDR'' '':2112''), ListenerStarted,
          WatcherStarted, HandlerReady, SchemaMigrated dsn, PoolOpened dsn, MetricsRegistered] @
          (if sv_otel sv then [OtelInstalled (env_or b ''OTEL_SERVICE_NAME'' ''my-go-service'')] else [])"
    and st: "\<not> bs_stopped s" unfolding dsn by blast
  have "hd_recovery (sv_handler sv)" "autoStopTimeout (hd_manager (sv_handler sv)) = timeout"
    using NewHandler_Inr[OF h(1)] by (simp_all add: h(2) SetRecovery_def)
  moreover have "\<exists>s'. run_state (main_wait sv Signal) s = (Inr (), s') \<and> \<not> ps_open (bs_pool s') \<and>
      bs_log s' = SignalsReleased # (if sv_otel sv then [OtelShutdown] else []) @
        [PoolClosed, HandlerClosed, WatcherStopped, AdminShutdown, AppShutdown] @ bs_log s"
    using st p by (simp add: main_wait_def run_simps Close_pool_def)
  moreover have "snd (run_state (main_wait sv cause) s) = s" if "cause = AdminFailed e \<or> cause = AppFailed e" for e cause
    using that by (auto simp: main_wait_def run_simps)
  moreover have "\<forall>ev \<in> set (if sv_otel sv then [OtelInstalled (env_or b ''OTEL_SERVICE_NAME'' ''my-go-service'')] else []). \<not> listening ev"
    by (simp add: listening_def)
  ultimately show ?thesis using f t p l unfolding Inr sum.case by blast
qed

definition sample_boot :: boot where
  "sample_boot = \<lparr>bo_getenv = (\<lambda>n. if n = ''DATABASE_URL'' then ''postgres://db'' else []), bo_ParseDuration = (\<lambda>_. Inr 1800),
     bo_exporter = None, bo_resource = (\<lambda>_. None), bo_connect = (\<lambda>_. None),
     bo_migrator = \<lparr>iofs_New = None, NewWithSourceInstance = (\<lambda>_. None), Up = (\<lambda>_. Applied)\<rparr>, bo_env = sample_env\<rparr>"

lemma sample_boot_runs: "\<exists>sv s. run_state (main_start sample_boot login_ctx) (boot_world sample_world) = (Inr sv, s)"
  unfolding main_start_def initOpenTelemetry_def Let_def NewHandler_def NewContainerManager_def
  by (simp add: run_simps sample_boot_def boot_world_def Init_fresh runMigrations_def)

theorem process_lifecycle_witness:
  "\<exists>sv s s'. run_state (main_start sample_boot login_ctx) (boot_world sample_world) = (Inr sv, s) \<and> hd_recovery (sv_handler sv) \<and>
     run_state (main_wait sv Signal) s = (Inr (), s') \<and> \<not> ps_open (bs_pool s')"
proof -
  from sample_boot_runs obtain sv s where run: "run_state (main_start sample_boot login_ctx) (boot_world sample_world) = (Inr sv, s)" by blast
  from process_lifecycle[OF run refl] run show ?thesis unfolding sum.case by blast
qed

end
