(* ===== verification/Schema.thy ===== *)
theory Schema
  imports Admin_Api Container_Handlers
begin

text \<open>
  The database as the migrations leave it: empty tables, the plans with the columns that later migrations add, the images and
  the templates. Keys, foreign keys and checks of the migrations are part of the statements (theory Repository) and of \<open>db_ok\<close>.
  Text is a sequence of bytes, as in Go: an accented letter is two. The time is that of the migration.
\<close>

section \<open>The rows the migrations insert\<close>

definition created_tables :: database where
  "created_tables = \<lparr>users = [], containers = [], plans = [], networks = [], container_networks = [], email_tokens = [], api_keys = [],
     notifications = [], templates = [], audit_log = [], images = [], users_seq = 1, containers_seq = 1\<rparr>"

text \<open>\<open>BIGSERIAL\<close> numbers the rows from 1.\<close>

definition seed_images :: "time \<Rightarrow> image_row list" where
  "seed_images t = map (\<lambda>(n, i). \<lparr>i_id = n, i_name = i, i_tag = ''latest'', i_created_at = t\<rparr>) (zip [1..10]
     [''nginx'', ''postgres'', ''redis'', ''node'', ''python'', ''ubuntu'', ''alpine'', ''mysql'', ''mongo'', ''rabbitmq''])"

definition plan :: "string \<Rightarrow> string \<Rightarrow> int \<Rightarrow> int \<Rightarrow> int \<Rightarrow> int \<Rightarrow> int \<Rightarrow> plan_row" where
  "plan i n ct mem cpu stop usd = \<lparr>pl_id = i, pl_name = n, pl_max_containers = ct, pl_max_memory_mb = mem, pl_max_cpu_nanocores = cpu,
     pl_auto_stop_minutes = stop, pl_price_usd_cents = usd, pl_max_networks = 1, pl_max_auto_restarts = 3\<rparr>"

definition seed_plans :: "plan_row list" where
  "seed_plans =
     [plan ''free'' ''Free'' 3 512 1000000000 30 0,
      plan ''pro'' ''Pro'' 10 2048 2000000000 120 900,
      plan ''team'' ''Team'' 30 4096 4000000000 480 2900]"

definition set_plan :: "string \<Rightarrow> (plan_row \<Rightarrow> plan_row) \<Rightarrow> plan_row list \<Rightarrow> plan_row list" where
  "set_plan i f = map (\<lambda>p. if pl_id p = i then f p else p)"

definition set_max_networks :: "plan_row list \<Rightarrow> plan_row list" where
  "set_max_networks ps =
     set_plan ''team'' (\<lambda>p. p\<lparr>pl_max_networks := 20\<rparr>) (set_plan ''pro'' (\<lambda>p. p\<lparr>pl_max_networks := 5\<rparr>)
       (set_plan ''free'' (\<lambda>p. p\<lparr>pl_max_networks := 1\<rparr>) ps))"

definition set_max_auto_restarts :: "plan_row list \<Rightarrow> plan_row list" where
  "set_max_auto_restarts ps =
     set_plan ''team'' (\<lambda>p. p\<lparr>pl_max_auto_restarts := 30\<rparr>) (set_plan ''pro'' (\<lambda>p. p\<lparr>pl_max_auto_restarts := 10\<rparr>)
       (set_plan ''free'' (\<lambda>p. p\<lparr>pl_max_auto_restarts := 3\<rparr>) ps))"

definition e_acute :: string where "e_acute = [CHR 0xC3, CHR 0xA9]"

definition e_grave :: string where "e_grave = [CHR 0xC3, CHR 0xA8]"

fun json_strings :: "string list \<Rightarrow> string" where
  "json_strings [] = []"
| "json_strings [s] = dq @ s @ dq"
| "json_strings (s # ss) = dq @ s @ dq @ '','' @ json_strings ss"

definition json_port :: "string \<Rightarrow> string \<Rightarrow> string" where
  "json_port i e = ''[{'' @ dq @ ''internal'' @ dq @ '':'' @ i @ '','' @ dq @ ''external'' @ dq @ '':'' @ e @ '','' @
     dq @ ''protocol'' @ dq @ '':'' @ dq @ ''tcp'' @ dq @ ''}]''"

definition template :: "time \<Rightarrow> int \<Rightarrow> string \<Rightarrow> string \<Rightarrow> string \<Rightarrow> string \<Rightarrow> string list \<Rightarrow> bool \<Rightarrow> string \<Rightarrow> string \<Rightarrow> template_row" where
  "template t i n descr img cat tags pop icon ports = \<lparr>t_id = i, t_name = n, t_description = descr, t_image = img, t_category = cat,
     t_tags = ''['' @ json_strings tags @ '']'', t_popular = pop, t_icon = Some icon, t_default_ports = ports, t_created_at = t\<rparr>"

definition seed_templates :: "time \<Rightarrow> template_row list" where
  "seed_templates t =
     [template t 1 ''Nginx'' ''Serveur web et reverse proxy haute performance'' ''nginx:alpine'' ''web''
        [''web'', ''http'', ''proxy''] True ''nginx'' (json_port ''80'' ''8080''),
      template t 2 ''Node.js'' (''Environnement d'' @ apos @ ''ex'' @ e_acute @ ''cution JavaScript'') ''node:20-alpine'' ''runtime''
        [''javascript'', ''node'', ''npm''] True ''nodejs'' (json_port ''3000'' ''3000''),
      template t 3 ''Python'' ''Environnement Python 3'' ''python:3-alpine'' ''runtime'' [''python'', ''pip''] True ''python'' ''[]'',
      template t 4 ''PostgreSQL'' (''Base de donn'' @ e_acute @ ''es relationnelle robuste'') ''postgres:16'' ''database''
        [''database'', ''sql'', ''postgres''] True ''postgres'' (json_port ''5432'' ''5432''),
      template t 5 ''Redis'' (''Cache et broker de messages en m'' @ e_acute @ ''moire'') ''redis:alpine'' ''database''
        [''cache'', ''redis'', ''nosql''] True ''redis'' (json_port ''6379'' ''6379''),
      template t 6 ''MySQL'' (''Base de donn'' @ e_acute @ ''es relationnelle populaire'') ''mysql:8'' ''database''
        [''database'', ''sql'', ''mysql''] False ''mysql'' (json_port ''3306'' ''3306''),
      template t 7 ''MongoDB'' (''Base de donn'' @ e_acute @ ''es orient'' @ e_acute @ ''e documents'') ''mongo:7'' ''database''
        [''database'', ''nosql'', ''mongo''] False ''mongo'' (json_port ''27017'' ''27017''),
      template t 8 ''Alpine'' (''Image Linux ultra-l'' @ e_acute @ ''g'' @ e_grave @ ''re'') ''alpine:latest'' ''tools''
        [''linux'', ''shell'', ''minimal''] False ''alpine'' ''[]'',
      template t 9 ''Ubuntu'' ''Environnement Linux Ubuntu complet'' ''ubuntu:22.04'' ''tools''
        [''linux'', ''ubuntu'', ''shell''] False ''ubuntu'' ''[]'',
      template t 10 ''RabbitMQ'' ''Message broker AMQP'' ''rabbitmq:alpine'' ''tools''
        [''messaging'', ''amqp'', ''queue''] False ''rabbitmq'' (json_port ''5672'' ''5672'')]"

definition migrated :: "time \<Rightarrow> database" where
  "migrated t = created_tables\<lparr>images := seed_images t, templates := seed_templates t,
     plans := set_max_auto_restarts (set_max_networks seed_plans)\<rparr>"

definition fresh_world :: "time \<Rightarrow> world" where
  "fresh_world t = \<lparr>db = migrated t, txn = None, hist = [], bus = GlobalBus, panicked = False\<rparr>"

section \<open>A fresh installation\<close>

lemma migrated_plans:
  "plans (migrated t) =
     [(plan ''free'' ''Free'' 3 512 1000000000 30 0),
      (plan ''pro'' ''Pro'' 10 2048 2000000000 120 900)\<lparr>pl_max_networks := 5, pl_max_auto_restarts := 10\<rparr>,
      (plan ''team'' ''Team'' 30 4096 4000000000 480 2900)\<lparr>pl_max_networks := 20, pl_max_auto_restarts := 30\<rparr>]"
  by (simp add: migrated_def set_max_auto_restarts_def set_max_networks_def set_plan_def seed_plans_def plan_def)

lemma migrated_plan_ids: "map pl_id (plans (migrated t)) = [''free'', ''pro'', ''team'']"
  by (simp add: migrated_plans plan_def)

lemma migrated_tables [simp]:
  "users (migrated t) = []" "containers (migrated t) = []" "networks (migrated t) = []" "container_networks (migrated t) = []"
  "email_tokens (migrated t) = []" "api_keys (migrated t) = []" "notifications (migrated t) = []" "audit_log (migrated t) = []"
  "templates (migrated t) = seed_templates t" "users_seq (migrated t) = 1" "containers_seq (migrated t) = 1"
  by (simp_all add: migrated_def created_tables_def)

lemma migrated_ok: "db_ok (migrated t)"
  using migrated_plan_ids[of t] by (simp add: db_ok_def ok_defs)

lemma seed_template_images:
  "map t_image (seed_templates t) = [''nginx:alpine'', ''node:20-alpine'', ''python:3-alpine'', ''postgres:16'', ''redis:alpine'', ''mysql:8'',
     ''mongo:7'', ''alpine:latest'', ''ubuntu:22.04'', ''rabbitmq:alpine'']"
  by (simp add: seed_templates_def template_def)

text \<open>
  A migrated database is ready for the code. It is in a state the server keeps, so every reachable state of a
  server started on it is sound; the first user registers with id 1 on the free plan with 3 containers, 1 network and 3
  restarts; the plan ids that \<open>UpdateUserPlan\<close> has in its code are exactly the ones of the table; and the whitelist of images
  read from it accepts the image a request without one falls back to.
\<close>

theorem migrated_database_is_ready:
  "world_ok (fresh_world t) \<and>
   fst (insert_user env usr (migrated t)) = Inr (int8out env 1) \<and>
   map (\<lambda>p. (pl_max_containers p, pl_max_networks p, pl_max_auto_restarts p)) (plans_of_user 1 (snd (insert_user env usr (migrated t)))) = [(3, 1, 3)] \<and>
   (rs_status (fst (run_state (UpdateUserPlan env (r\<lparr>rq_method := ''PATCH'', rq_body := Inr pid\<rparr>)) w)) = 400 \<longleftrightarrow>
      pid \<notin> pl_id ` set (plans (migrated t))) \<and>
   \<not> image_refused (Inr (map t_image (templates (migrated t)))) ''alpine:latest''"
proof (intro conjI)
  note ids = arg_cong[OF migrated_plan_ids[of t], of set, simplified]
  show "world_ok (fresh_world t)" using migrated_ok by (simp add: world_ok_def fresh_world_def bus_ok_GlobalBus)
  show "fst (insert_user env usr (migrated t)) = Inr (int8out env 1)" by (simp add: insert_user_def ids)
  show "map (\<lambda>p. (pl_max_containers p, pl_max_networks p, pl_max_auto_restarts p)) (plans_of_user 1 (snd (insert_user env usr (migrated t)))) = [(3, 1, 3)]"
    by (simp add: insert_user_def plans_of_user_def ids) (simp add: migrated_plans plan_def)
  show "rs_status (fst (run_state (UpdateUserPlan env (r\<lparr>rq_method := ''PATCH'', rq_body := Inr pid\<rparr>)) w)) = 400 \<longleftrightarrow>
      pid \<notin> pl_id ` set (plans (migrated t))"
    unfolding ids by (auto simp: UpdateUserPlan_def RespondSuccess_def RespondJSON_def run_simps split: sum.split prod.split)
  show "\<not> image_refused (Inr (map t_image (templates (migrated t)))) ''alpine:latest''"
    by (simp add: image_refused_def seed_template_images)
qed

end
