(* ===== verification/Migrations.thy ===== *)
theory Migrations
  imports Schema
begin

text \<open>
  The migrations as scripts on the structure of the database: tables with their columns and the tables these refer to, and
  indexes. A statement fails as it does in PostgreSQL: on a name that is missing or taken, and on dropping a table that
  another one refers to. Column types, defaults and checks are not part of the structure,
  nor is the removal of the indexes on a dropped column (no script drops an indexed one) and the transaction of a script. What the scripts
  do to rows is in theory Schema.
\<close>

section \<open>Structures and statements\<close>

type_synonym column = "string \<times> string option"

record schema =
  st_tables :: "(string \<times> column list) list"
  st_indexes :: "(string \<times> string) list"

datatype ddl =
    CreateTable string "column list" | CreateTableIfNotExists string "column list"
  | CreateIndex string string | CreateIndexIfNotExists string string
  | AddColumn string column
  | DropTableIfExists string | DropColumnIfExists string string | DropIndexIfExists string
  | WriteRows string

definition columns_of :: "string \<Rightarrow> schema \<Rightarrow> column list option" where
  "columns_of t s = map_of (st_tables s) t"

definition refers_to :: "string \<Rightarrow> string \<times> column list \<Rightarrow> bool" where
  "refers_to t tab \<longleftrightarrow> fst tab \<noteq> t \<and> (\<exists>c \<in> set (snd tab). snd c = Some t)"

text \<open>A reference to a table that does not exist; one to the table itself is allowed.\<close>

definition dangling :: "string \<Rightarrow> schema \<Rightarrow> column \<Rightarrow> bool" where
  "dangling t s c = (case snd c of None \<Rightarrow> False | Some r \<Rightarrow> r \<noteq> t \<and> columns_of r s = None)"

definition create_table :: "string \<Rightarrow> column list \<Rightarrow> schema \<Rightarrow> schema option" where
  "create_table t cs s =
     (if columns_of t s \<noteq> None \<or> list_ex (dangling t s) cs then None
      else Some (s\<lparr>st_tables := st_tables s @ [(t, cs)]\<rparr>))"

definition create_index :: "string \<Rightarrow> string \<Rightarrow> schema \<Rightarrow> schema option" where
  "create_index i t s =
     (if columns_of t s = None \<or> i \<in> fst ` set (st_indexes s) then None else Some (s\<lparr>st_indexes := st_indexes s @ [(i, t)]\<rparr>))"

fun exec :: "ddl \<Rightarrow> schema \<Rightarrow> schema option" where
  "exec (CreateTable t cs) s = create_table t cs s"
| "exec (CreateTableIfNotExists t cs) s = (if columns_of t s \<noteq> None then Some s else create_table t cs s)"
| "exec (CreateIndex i t) s = create_index i t s"
| "exec (CreateIndexIfNotExists i t) s = (if i \<in> fst ` set (st_indexes s) then Some s else create_index i t s)"
| "exec (AddColumn t c) s =
     (case columns_of t s of
        None \<Rightarrow> None
      | Some cs \<Rightarrow>
          if fst c \<in> fst ` set cs \<or> dangling t s c then None
          else Some (s\<lparr>st_tables := map (\<lambda>(t', cs'). (t', if t' = t then cs' @ [c] else cs')) (st_tables s)\<rparr>))"
| "exec (DropTableIfExists t) s =
     (if \<exists>tab \<in> set (st_tables s). refers_to t tab then None
      else Some (s\<lparr>st_tables := filter (\<lambda>(t', _). t' \<noteq> t) (st_tables s), st_indexes := filter (\<lambda>(_, t'). t' \<noteq> t) (st_indexes s)\<rparr>))"
| "exec (DropColumnIfExists t c) s =
     (if columns_of t s = None then None
      else Some (s\<lparr>st_tables := map (\<lambda>(t', cs). (t', if t' = t then filter (\<lambda>x. fst x \<noteq> c) cs else cs)) (st_tables s)\<rparr>))"
| "exec (DropIndexIfExists i) s = Some (s\<lparr>st_indexes := filter (\<lambda>(i', _). i' \<noteq> i) (st_indexes s)\<rparr>)"
| "exec (WriteRows t) s = (if columns_of t s = None then None else Some s)"

fun script :: "ddl list \<Rightarrow> schema \<Rightarrow> schema option" where
  "script [] s = Some s"
| "script (x # xs) s = Option.bind (exec x s) (script xs)"

section \<open>The migrations\<close>

definition col :: "string \<Rightarrow> column" where "col n = (n, None)"

definition fk :: "string \<Rightarrow> string \<Rightarrow> column" where "fk n t = (n, Some t)"

definition init_up :: "ddl list" where
  "init_up =
     [CreateTable ''users'' (map col [''id'', ''name'', ''email'', ''password_hash'']),
      CreateTable ''containers'' (map col [''id'', ''container_id'', ''project_name'', ''folder_path'', ''port'', ''status''] @ [fk ''user_id'' ''users'']),
      CreateIndex ''idx_containers_user_id'' ''containers'']"

definition init_down :: "ddl list" where
  "init_down = [DropIndexIfExists ''idx_containers_user_id'', DropTableIfExists ''containers'', DropTableIfExists ''users'']"

definition started_at_up :: "ddl list" where
  "started_at_up = [AddColumn ''containers'' (col ''started_at'')]"

definition started_at_down :: "ddl list" where
  "started_at_down = [DropColumnIfExists ''containers'' ''started_at'']"

definition image_table_up :: "ddl list" where
  "image_table_up =
     [CreateTable ''images'' (map col [''id'', ''name'', ''tag'', ''created_at'']), CreateIndex ''idx_images_name'' ''images'', WriteRows ''images'']"

definition image_table_down :: "ddl list" where
  "image_table_down = [WriteRows ''images'', DropIndexIfExists ''idx_images_name'', DropTableIfExists ''images'']"

definition image_name_up :: "ddl list" where
  "image_name_up = [AddColumn ''containers'' (col ''image_name''), AddColumn ''containers'' (col ''created_at'')]"

definition image_name_down :: "ddl list" where
  "image_name_down = [DropColumnIfExists ''containers'' ''image_name'', DropColumnIfExists ''containers'' ''created_at'']"

definition audit_log_up :: "ddl list" where
  "audit_log_up =
     [CreateTableIfNotExists ''audit_log'' ([col ''id'', fk ''user_id'' ''users''] @
        map col [''action'', ''resource'', ''resource_id'', ''ip'', ''user_agent'', ''metadata'', ''created_at'']),
      CreateIndexIfNotExists ''idx_audit_log_user_id'' ''audit_log'', CreateIndexIfNotExists ''idx_audit_log_created_at'' ''audit_log'',
      CreateIndexIfNotExists ''idx_audit_log_action'' ''audit_log'']"

definition audit_log_down :: "ddl list" where
  "audit_log_down = [DropTableIfExists ''audit_log'']"

definition templates_up :: "ddl list" where
  "templates_up =
     [CreateTable ''templates'' (map col [''id'', ''name'', ''description'', ''image'', ''category'', ''tags'', ''popular'', ''icon'',
        ''default_ports'', ''created_at'']),
      WriteRows ''templates'']"

definition templates_down :: "ddl list" where
  "templates_down = [DropTableIfExists ''templates'']"

definition email_verification_up :: "ddl list" where
  "email_verification_up =
     [AddColumn ''users'' (col ''email_verified_at''),
      CreateTable ''email_tokens'' ([col ''id'', fk ''user_id'' ''users''] @
        map col [''token_hash'', ''type'', ''expires_at'', ''used_at'', ''created_at'']),
      CreateIndex ''idx_email_tokens_user_id'' ''email_tokens'', CreateIndex ''idx_email_tokens_type'' ''email_tokens'']"

definition email_verification_down :: "ddl list" where
  "email_verification_down = [DropTableIfExists ''email_tokens'', DropColumnIfExists ''users'' ''email_verified_at'']"

definition notifications_up :: "ddl list" where
  "notifications_up =
     [CreateTable ''notifications'' ([col ''id'', fk ''user_id'' ''users''] @
        map col [''type'', ''title'', ''body'', ''metadata'', ''read_at'', ''created_at'']),
      CreateIndex ''idx_notifications_user_id'' ''notifications'', CreateIndex ''idx_notifications_created_at'' ''notifications'',
      CreateIndex ''idx_notifications_unread'' ''notifications'']"

definition notifications_down :: "ddl list" where
  "notifications_down = [DropTableIfExists ''notifications'']"

definition plans_roles_up :: "ddl list" where
  "plans_roles_up =
     [CreateTable ''plans'' (map col [''id'', ''name'', ''max_containers'', ''max_memory_mb'', ''max_cpu_nanocores'', ''auto_stop_minutes'',
        ''price_usd_cents'']),
      WriteRows ''plans'', AddColumn ''users'' (fk ''plan_id'' ''plans''), AddColumn ''users'' (col ''role'')]"

definition plans_roles_down :: "ddl list" where
  "plans_roles_down = [DropColumnIfExists ''users'' ''plan_id'', DropColumnIfExists ''users'' ''role'', DropTableIfExists ''plans'']"

definition api_keys_up :: "ddl list" where
  "api_keys_up =
     [CreateTable ''api_keys'' ([col ''id'', fk ''user_id'' ''users''] @
        map col [''name'', ''key_hash'', ''key_prefix'', ''last_used_at'', ''created_at'']),
      CreateIndex ''idx_api_keys_user_id'' ''api_keys'', CreateIndex ''idx_api_keys_key_hash'' ''api_keys'']"

definition api_keys_down :: "ddl list" where
  "api_keys_down = [DropTableIfExists ''api_keys'']"

definition networks_up :: "ddl list" where
  "networks_up =
     [CreateTable ''networks'' ([col ''id'', fk ''user_id'' ''users''] @ map col [''name'', ''docker_net_id'', ''docker_net_name'', ''created_at'']),
      CreateTable ''container_networks'' ([fk ''container_id'' ''containers'', fk ''network_id'' ''networks''] @ map col [''alias'', ''connected_at'']),
      CreateIndex ''idx_networks_user_id'' ''networks'', CreateIndex ''idx_container_networks_net_id'' ''container_networks'',
      AddColumn ''plans'' (col ''max_networks''), WriteRows ''plans'', WriteRows ''plans'', WriteRows ''plans'']"

definition networks_down :: "ddl list" where
  "networks_down = [DropTableIfExists ''container_networks'', DropTableIfExists ''networks'', DropColumnIfExists ''plans'' ''max_networks'']"

definition health_columns :: "string list" where
  "health_columns = [''restart_count'', ''last_restart_at'', ''health_status'', ''oom_killed'', ''circuit_open'']"

definition healthcheck_columns :: "string list" where
  "healthcheck_columns = [''healthcheck_test'', ''healthcheck_interval'', ''healthcheck_timeout'', ''healthcheck_retries'']"

definition health_monitoring_up :: "ddl list" where
  "health_monitoring_up =
     map (\<lambda>c. AddColumn ''containers'' (col c)) health_columns @
     [AddColumn ''plans'' (col ''max_auto_restarts''), WriteRows ''plans'', WriteRows ''plans'', WriteRows ''plans''] @
     map (\<lambda>c. AddColumn ''templates'' (col c)) healthcheck_columns"

definition health_monitoring_down :: "ddl list" where
  "health_monitoring_down =
     map (DropColumnIfExists ''containers'') health_columns @ [DropColumnIfExists ''plans'' ''max_auto_restarts''] @
     map (DropColumnIfExists ''templates'') healthcheck_columns"

definition migrations :: "(ddl list \<times> ddl list) list" where
  "migrations =
     [(init_up, init_down), (started_at_up, started_at_down), (image_table_up, image_table_down), (image_name_up, image_name_down),
      (audit_log_up, audit_log_down), (templates_up, templates_down), (email_verification_up, email_verification_down),
      (notifications_up, notifications_down), (plans_roles_up, plans_roles_down), (api_keys_up, api_keys_down),
      (networks_up, networks_down), (health_monitoring_up, health_monitoring_down)]"

definition no_tables :: schema where
  "no_tables = \<lparr>st_tables = [], st_indexes = []\<rparr>"

text \<open>What \<open>Up\<close> of the migration library does: the scripts after the version the database is at, in order, until one fails.\<close>

fun migrate_up :: "(ddl list \<times> ddl list) list \<Rightarrow> schema \<Rightarrow> schema option" where
  "migrate_up [] s = Some s"
| "migrate_up (m # ms) s = Option.bind (script (fst m) s) (migrate_up ms)"

fun migrate_down :: "(ddl list \<times> ddl list) list \<Rightarrow> schema \<Rightarrow> schema option" where
  "migrate_down [] s = Some s"
| "migrate_down (m # ms) s = Option.bind (migrate_down ms s) (script (snd m))"

section \<open>Going back\<close>

text \<open>Each script applies after the ones before it, and its counterpart takes back exactly what it did.\<close>

fun reverses :: "(ddl list \<times> ddl list) list \<Rightarrow> schema \<Rightarrow> bool" where
  "reverses [] s \<longleftrightarrow> True"
| "reverses (m # ms) s \<longleftrightarrow> (case script (fst m) s of None \<Rightarrow> False | Some s' \<Rightarrow> script (snd m) s' = Some s \<and> reverses ms s')"

lemma reverses_round_trip: "reverses ms s \<Longrightarrow> \<exists>s'. migrate_up ms s = Some s' \<and> migrate_down ms s' = Some s"
proof (induction ms arbitrary: s)
  case (Cons m ms)
  then obtain s1 where "script (fst m) s = Some s1" "script (snd m) s1 = Some s" "reverses ms s1" by (auto split: option.splits)
  with Cons.IH[of s1] show ?case by auto
qed simp

lemma migrations_reverse: "reverses migrations no_tables"
  by code_simp

definition model_tables :: "string list" where
  "model_tables = [''users'', ''containers'', ''images'', ''audit_log'', ''templates'', ''email_tokens'', ''notifications'', ''plans'',
     ''api_keys'', ''networks'', ''container_networks'']"


end
