(* ===== verification/Sign_Up.thy ===== *)
theory Sign_Up
  imports Users_Proofs
begin

text \<open>
  From registration to login: what \<open>Register\<close> stores, and what \<open>Login\<close> then makes of it before and after the address is
  verified. What verifies an address is in theory Mail_Proofs.
\<close>

section \<open>The new account\<close>

definition new_user :: "int \<Rightarrow> string \<Rightarrow> string \<Rightarrow> string \<Rightarrow> user_row" where
  "new_user n name email hash = \<lparr>u_id = n, u_name = name, u_email = email, u_password_hash = hash, u_email_verified_at = None,
     u_plan_id = ''free'', u_role = ''user''\<rparr>"

definition add_user :: "user_row \<Rightarrow> database \<Rightarrow> database" where
  "add_user u d = d\<lparr>users_seq := users_seq d + 1, users := users d @ [u]\<rparr>"

lemma svc_CreateUser_Inr:
  assumes "run_state (svc_CreateUser env name email hash) w = (Inr i, w')"
  shows "email \<notin> u_email ` set (users (db w)) \<and> db w' = add_user (new_user (users_seq (db w)) name email hash) (db w)"
  using assms
  by (auto simp: svc_CreateUser_def CreateUser_def run_simps insert_user_def Let_def empty_user_def add_user_def new_user_def
      split: option.splits prod.splits sum.splits if_splits)

lemma Register_201:
  assumes "run_state (Register env uc vld r) w = ((resp, task), w')" and "rs_status resp = 201"
  obtains req where "rq_body r = Inr req" and "rr_Email req \<notin> u_email ` set (users (db w))" and "task = register_task env uc req"
    and "db w' = add_user (new_user (users_seq (db w)) (rr_Name req) (rr_Email req) (env_str env (hist w) (BcryptGenerate (rr_Password req)))) (db w)"
proof -
  from assms obtain req where b: "rq_body r = Inr req" "rq_method r = ''POST''" "vld req = None"
    by (auto simp: Register_def respond_only_def run_simps method_not_allowed_def split: if_splits sum.splits option.splits)
  let ?h = "env_str env (hist w) (BcryptGenerate (rr_Password req))"
  let ?w1 = "w\<lparr>hist := BcryptGenerate (rr_Password req) # hist w\<rparr>"
  from assms b have hash: "run_state (HashPassword env (rr_Password req)) w = (Inr ?h, ?w1)"
    by (auto simp: Register_def respond_only_def HashPassword_def run_simps split: option.splits)
  obtain res w2 where c: "run_state (svc_CreateUser env (rr_Name req) (rr_Email req) ?h) ?w1 = (res, w2)" by fastforce
  from assms b hash c obtain i where i: "res = Inr i" "w2 = w'" "task = register_task env uc req"
    by (auto simp: Register_def respond_only_def run_simps split: sum.splits)
  from svc_CreateUser_Inr[OF c[unfolded i]] b i show ?thesis by (intro that) auto
qed

section \<open>Logging in\<close>

text \<open>What \<open>Login\<close> answers when exactly one row has the address.\<close>

lemma Login_by_row:
  assumes nf: "env_err env (hist w) (Sql ''select user with password'') = None" and b: "rq_method r = ''POST''" "rq_body r = Inr req" "vld req = None"
    and row: "filter (\<lambda>u. u_email u = lr_Email req) (users (db w)) = [u]"
    and sign: "\<And>key cl. \<exists>tok. jwt_sign (uc_lib uc) key cl = Inr tok"
  shows "rs_status (fst (run_state (Login env uc vld r) w)) =
    (if \<not> uc_bcrypt_ok uc (u_password_hash u) (lr_Password req) then 401 else if u_email_verified_at u = None then 403 else 200)"
proof -
  obtain w1 where g: "run_state (svc_GetUserByEmailWithPassword env (lr_Email req)) w =
      (Inr ((scan_user env u)\<lparr>usr_Password := u_password_hash u\<rparr>), w1)"
    using nf by (simp add: svc_GetUserByEmailWithPassword_def GetUserByEmailWithPassword_def run_simps select_user_with_password_def row first_row_def)
  have "issueTokenPair uc t name email uid \<noteq> Inl e" for t name email uid e
  proof -
    obtain a f where "CreateToken (uc_lib uc) (uc_key uc) t name email uid = Inr a" "CreateRefreshToken (uc_lib uc) (uc_key uc) t uid = Inr f"
      using sign unfolding CreateToken_def CreateRefreshToken_def by meson
    then show ?thesis by (simp add: issueTokenPair_def)
  qed
  then show ?thesis
    using b g by (auto simp: Login_def run_simps scan_user_def empty_user_def split: sum.split)
qed

text \<open>
  C18. A registered user can log in once the address is verified, and not before. When \<open>Register\<close> answers 201 it has added one
  account, new and unverified, on the free plan and without privileges, with the hash of the password in place of it. In any
  later state that still has these accounts, \<open>Login\<close> with the address and the password answers 403, and after the address is
  marked verified it answers 200; with a password the hash does not match it answers 401 in both.
\<close>

theorem registered_users_log_in_once_verified:
  assumes run: "run_state (Register env uc vld r) w = ((resp, task), w')" and created: "rs_status resp = 201"
    and ok: "db_ok (db w)" and nf: "\<forall>h. env_err env h (Sql ''select user with password'') = None"
    and bcrypt: "\<forall>h pw. uc_bcrypt_ok uc (env_str env h (BcryptGenerate pw)) pw"
    and sign: "\<forall>key cl. \<exists>tok. jwt_sign (uc_lib uc) key cl = Inr tok"
  shows "\<exists>req u. rq_body r = Inr req \<and> db w' = add_user u (db w) \<and> u_email u = rr_Email req \<and> u_role u = ''user'' \<and> u_plan_id u = ''free'' \<and>
    (\<forall>pw. let login = (\<lambda>w2. rs_status (fst (run_state (Login env uc (\<lambda>_. None)
        (q\<lparr>rq_method := ''POST'', rq_body := Inr \<lparr>lr_Email = rr_Email req, lr_Password = pw\<rparr>\<rparr>)) w2)))
      in (\<forall>w2. users (db w2) = users (db w') \<longrightarrow> login w2 = (if uc_bcrypt_ok uc (u_password_hash u) pw then 403 else 401)) \<and>
         (\<forall>w2 t. users (db w2) = map (\<lambda>x. if u_id x = u_id u then x\<lparr>u_email_verified_at := Some t\<rparr> else x) (users (db w')) \<longrightarrow>
            login w2 = (if uc_bcrypt_ok uc (u_password_hash u) pw then 200 else 401))) \<and>
    uc_bcrypt_ok uc (u_password_hash u) (rr_Password req)"
proof -
  from Register_201[OF run created] obtain req where b: "rq_body r = Inr req" "rr_Email req \<notin> u_email ` set (users (db w))"
    and d: "db w' = add_user (new_user (users_seq (db w)) (rr_Name req) (rr_Email req)
      (env_str env (hist w) (BcryptGenerate (rr_Password req)))) (db w)" by metis
  let ?u = "new_user (users_seq (db w)) (rr_Name req) (rr_Email req) (env_str env (hist w) (BcryptGenerate (rr_Password req)))"
  have us: "users (db w') = users (db w) @ [?u]" by (simp add: d add_user_def)
  have none: "filter (\<lambda>x. u_email x = rr_Email req) (users (db w)) = []" using b(2) by (force simp: filter_empty_conv)
  have fresh: "u_id x \<noteq> u_id ?u" if "x \<in> set (users (db w))" for x
    using that db_okD(1)[OF ok] by (auto simp: users_ok_def new_user_def)
  let ?v = "\<lambda>t x. if u_id x = u_id ?u then x\<lparr>u_email_verified_at := Some t\<rparr> else x"
  have old: "map (?v t) (users (db w)) = users (db w)" for t using fresh by (simp add: map_idI)
  have rows: "filter (\<lambda>x. u_email x = rr_Email req) (users (db w')) = [?u]"
    "filter (\<lambda>x. u_email x = rr_Email req) (map (?v t) (users (db w'))) = [?u\<lparr>u_email_verified_at := Some t\<rparr>]" for t
    unfolding us map_append old using none by (simp_all add: new_user_def)
  note login = Login_by_row[where vld = "\<lambda>_. None", OF nf[rule_format] _ _ refl _ sign[rule_format]]
  show ?thesis
    using b d rows bcrypt by (intro exI[of _ req] exI[of _ ?u]) (auto simp: Let_def login new_user_def)
qed

definition hashing_env :: env where
  "hashing_env = sample_env\<lparr>env_str := (\<lambda>h c. case c of BcryptGenerate pw \<Rightarrow> CHR ''$'' # pw | _ \<Rightarrow> ''x'')\<rparr>"

definition sign_up_ctx :: user_ctx where
  "sign_up_ctx = login_ctx\<lparr>uc_lib := \<lparr>jwt_sign = (\<lambda>_ _. Inr ''tok''), jwt_parse = (\<lambda>_ _ _. Inl (ErrText ''invalid''))\<rparr>,
     uc_bcrypt_ok := (\<lambda>h p. h = CHR ''$'' # p)\<rparr>"

abbreviation "sign_up_request \<equiv> post \<lparr>rr_Name = ''n'', rr_Email = ''e@f'', rr_Password = ''secret12''\<rparr>"

lemma sign_up_created:
  "\<exists>resp task w'. run_state (Register hashing_env sign_up_ctx (\<lambda>_. None) sign_up_request) sample_world = ((resp, task), w') \<and> rs_status resp = 201"
  by (simp add: Register_def HashPassword_def svc_CreateUser_def CreateUser_def run_simps insert_user_def Let_def empty_user_def hashing_env_def
      sample_db_def sample_user_def sample_plan_def sample_world_def)

theorem registered_users_log_in_once_verified_witness:
  "\<exists>resp task w' u. run_state (Register hashing_env sign_up_ctx (\<lambda>_. None) sign_up_request) sample_world = ((resp, task), w') \<and>
     db w' = add_user u sample_db \<and> u_email u = ''e@f'' \<and>
     rs_status (fst (run_state (Login hashing_env sign_up_ctx (\<lambda>_. None) (post \<lparr>lr_Email = ''e@f'', lr_Password = ''secret12''\<rparr>)) w')) = 403"
proof -
  from sign_up_created obtain resp task w' where
    run: "run_state (Register hashing_env sign_up_ctx (\<lambda>_. None) sign_up_request) sample_world = ((resp, task), w')" "rs_status resp = 201" by blast
  have lib: "\<forall>h. env_err hashing_env h (Sql ''select user with password'') = None"
    "\<forall>h pw. uc_bcrypt_ok sign_up_ctx (env_str hashing_env h (BcryptGenerate pw)) pw" "\<forall>key cl. \<exists>tok. jwt_sign (uc_lib sign_up_ctx) key cl = Inr tok"
    by (simp_all add: hashing_env_def sign_up_ctx_def)
  have upd: "(post b)\<lparr>rq_method := ''POST'', rq_body := Inr c\<rparr> = post c" for b c :: LoginRequest by (simp add: post_def)
  have "db_ok (db sample_world)" by (simp add: sample_db_ok)
  from registered_users_log_in_once_verified[OF run this lib, where q = "post \<lparr>lr_Email = [], lr_Password = []\<rparr>", unfolded upd Let_def]
  obtain req u where u: "rq_body sign_up_request = Inr req" "db w' = add_user u (db sample_world)" "u_email u = rr_Email req"
    "uc_bcrypt_ok sign_up_ctx (u_password_hash u) (rr_Password req)"
    and login: "\<forall>pw w2. users (db w2) = users (db w') \<longrightarrow>
      rs_status (fst (run_state (Login hashing_env sign_up_ctx (\<lambda>_. None) (post \<lparr>lr_Email = rr_Email req, lr_Password = pw\<rparr>)) w2)) =
        (if uc_bcrypt_ok sign_up_ctx (u_password_hash u) pw then 403 else 401)" by blast
  from u(1) have "req = \<lparr>rr_Name = ''n'', rr_Email = ''e@f'', rr_Password = ''secret12''\<rparr>" by simp
  with u login[rule_format, OF refl, of "rr_Password req"] run show ?thesis by (intro exI[of _ resp] exI[of _ task] exI[of _ w'] exI[of _ u]) simp
qed

end
