(* ===== verification/Fleet.thy ===== *)
theory Fleet
  imports Container_Properties
begin

text \<open>
  What the container manager promises, as an abstract machine without tables, transactions or a daemon: a fleet maps the ids
  of the projects to their owner, their container and their status. Every operation of the manager either leaves the fleet
  alone or does one abstract step. The plan limits of all users are then an invariant of the machine, and hold over all
  runs of the manager's operations one after the other; two creations at a time break them.
\<close>

section \<open>The abstract machine\<close>

record project =
  pj_owner :: int
  pj_container :: string
  pj_status :: string

type_synonym fleet = "int \<rightharpoonup> project"

definition owned :: "fleet \<Rightarrow> int \<Rightarrow> int set" where
  "owned F n = {i. \<exists>p. F i = Some p \<and> pj_owner p = n}"

text \<open>
  \<open>limit n k\<close>: the plan of user \<open>n\<close> allows \<open>k\<close> containers; \<open>read\<close> is the number an id of the API stands for. The flag says
  whether the operation succeeds.
\<close>

inductive fleet_step :: "(int \<Rightarrow> int \<Rightarrow> bool) \<Rightarrow> (string \<Rightarrow> int option) \<Rightarrow> manager_op \<Rightarrow> bool \<Rightarrow> fleet \<Rightarrow> fleet \<Rightarrow> bool"
  for limit :: "int \<Rightarrow> int \<Rightarrow> bool" and read_id :: "string \<Rightarrow> int option" where
  rejected: "fleet_step limit read_id op False F F"
| created: "read_id (prj_UserId prj) = Some n \<Longrightarrow> limit n k \<Longrightarrow> int (card (owned F n)) < k \<Longrightarrow> F i = None \<Longrightarrow>
    fleet_step limit read_id (OpCreate prj img) True F (F(i \<mapsto> \<lparr>pj_owner = n, pj_container = cid, pj_status = ''running''\<rparr>))"
| stopped: "read_id pid = Some i \<Longrightarrow> F i = Some p \<Longrightarrow>
    fleet_step limit read_id (OpStop pid) True F (F(i \<mapsto> p\<lparr>pj_status := ''stopped''\<rparr>))"
| started: "read_id pid = Some i \<Longrightarrow> F i = Some p \<Longrightarrow>
    fleet_step limit read_id (OpStart pid) True F (F(i \<mapsto> p\<lparr>pj_status := ''running''\<rparr>))"
| removed: "read_id pid = Some i \<Longrightarrow> F i = Some p \<Longrightarrow>
    fleet_step limit read_id (OpRemove pid rf) True F (F(i := None))"

inductive_simps fleet_step_failed: "fleet_step limit read_id op False F F'"
inductive_cases fleet_step_stopped: "fleet_step limit read_id (OpStop pid) True F F'"

section \<open>Abstraction\<close>

definition project_of :: "container_row \<Rightarrow> project" where
  "project_of r = \<lparr>pj_owner = c_user_id r, pj_container = c_container_id r, pj_status = c_status r\<rparr>"

definition abs_fleet :: "database \<Rightarrow> fleet" where
  "abs_fleet d = map_of (map (\<lambda>r. (c_id r, project_of r)) (containers d))"

definition plan_limit :: "database \<Rightarrow> int \<Rightarrow> int \<Rightarrow> bool" where
  "plan_limit d n k \<longleftrightarrow> (\<exists>p. has_plan d n p \<and> pl_max_containers p = k)"

lemma abs_fleet_row: "db_ok d \<Longrightarrow> r \<in> set (containers d) \<Longrightarrow> abs_fleet d (c_id r) = Some (project_of r)"
  using db_okD(2)[of d] by (simp add: abs_fleet_def containers_ok_def comp_def)

lemma abs_fleet_None: "abs_fleet d i = None \<longleftrightarrow> i \<notin> c_id ` set (containers d)"
  by (simp add: abs_fleet_def map_of_eq_None_iff image_image)

lemma abs_fleet_Some: "abs_fleet d i = Some p \<Longrightarrow> \<exists>r \<in> set (containers d). c_id r = i \<and> project_of r = p"
  by (auto simp: abs_fleet_def dest!: map_of_SomeD)

lemma owned_containers: "db_ok d \<Longrightarrow> card (owned (abs_fleet d) n) = length (containers_of n d)"
proof -
  assume ok: "db_ok d"
  have "owned (abs_fleet d) n = c_id ` set (containers_of n d)"
    using abs_fleet_row[OF ok] abs_fleet_Some[of d]
    by (fastforce simp: owned_def containers_of_def project_of_def)
  moreover have "distinct (map c_id (containers_of n d))"
    using db_okD(2)[OF ok] by (simp add: containers_ok_def containers_of_def distinct_map_filter)
  ultimately show ?thesis by (metis distinct_card length_map set_map)
qed

lemma abs_fleet_add:
  assumes "abs_fleet d (c_id r) = None"
  shows "abs_fleet (add_container r d) = (abs_fleet d)(c_id r \<mapsto> project_of r)"
proof
  fix i
  show "abs_fleet (add_container r d) i = ((abs_fleet d)(c_id r \<mapsto> project_of r)) i"
    using assms by (auto simp: abs_fleet_def add_container_def map_add_def split: option.split)
qed

lemma abs_fleet_update:
  assumes ok: "db_ok d" and r: "r \<in> set (containers d)" and id: "\<And>x. c_id (f x) = c_id x"
  shows "abs_fleet (update_containers (\<lambda>c. c_id c = c_id r) f d) = (abs_fleet d)(c_id r \<mapsto> project_of (f r))"
proof
  fix i
  have "map_of (map (\<lambda>x. (c_id x, project_of x)) (map (\<lambda>x. if c_id x = c_id r then f x else x) xs)) i =
      (if i = c_id r \<and> i \<in> c_id ` set xs then Some (project_of (f r)) else map_of (map (\<lambda>x. (c_id x, project_of x)) xs) i)"
    if "\<forall>x \<in> set xs. c_id x = c_id r \<longrightarrow> x = r" for xs
    using that by (induction xs) (auto simp: id)
  from this[of "containers d"] container_id_unique[OF ok _ r] r
  show "abs_fleet (update_containers (\<lambda>c. c_id c = c_id r) f d) i = ((abs_fleet d)(c_id r \<mapsto> project_of (f r))) i"
    by (auto simp: abs_fleet_def update_containers_def)
qed

lemma abs_fleet_delete:
  "abs_fleet (snd (delete_containers (\<lambda>c. c_id c = n) d)) = (abs_fleet d)(n := None)"
proof
  fix i
  have "map_of (map (\<lambda>x. (c_id x, project_of x)) (filter (\<lambda>x. c_id x \<noteq> n) xs)) i =
      (if i = n then None else map_of (map (\<lambda>x. (c_id x, project_of x)) xs) i)" for xs
    by (induction xs) auto
  from this[of "containers d"] show "abs_fleet (snd (delete_containers (\<lambda>c. c_id c = n) d)) i = ((abs_fleet d)(n := None)) i"
    by (simp add: abs_fleet_def delete_containers_def)
qed

section \<open>Refinement\<close>

fun is_ok :: "'e + 'a \<Rightarrow> bool" where
  "is_ok (Inl _) = False"
| "is_ok (Inr _) = True"

text \<open>An operation of the manager: whether it succeeds, and the world after it.\<close>

fun manager_do :: "env \<Rightarrow> ContainerManager \<Rightarrow> manager_op \<Rightarrow> world \<Rightarrow> bool \<times> world" where
  "manager_do env cm (OpCreate prj img) w = map_prod is_ok id (run_state (CreateContainer env cm prj img) w)"
| "manager_do env cm (OpStop pid) w = map_prod is_ok id (run_state (StopContainer env pid) w)"
| "manager_do env cm (OpStart pid) w = map_prod is_ok id (run_state (StartContainer env pid) w)"
| "manager_do env cm (OpRemove pid rf) w = map_prod is_ok id (run_state (RemoveContainer env pid rf) w)"

lemma abs_fleet_same: "same_tables d d' \<Longrightarrow> abs_fleet d' = abs_fleet d"
  unfolding same_tables_def abs_fleet_def by (metis database.select_convs(2) database.surjective database.update_convs(12,13))

lemma project_of_rows:
  "project_of (set_status st r) = (project_of r)\<lparr>pj_status := st\<rparr>"
  "project_of (clear_health (restart_row t r)) = (project_of r)\<lparr>pj_status := ''running''\<rparr>"
  "project_of (restart_row t r) = (project_of r)\<lparr>pj_status := ''running''\<rparr>"
  by (simp_all add: project_of_def set_status_def restart_row_def clear_health_def)

lemma create_refines:
  assumes ok: "db_ok (db w)" and run: "run_state (CreateContainer env cm prj img) w = (res, w')"
  shows "fleet_step (plan_limit (db w)) (int8in env) (OpCreate prj img) (is_ok res) (abs_fleet (db w)) (abs_fleet (db w'))"
proof (cases res)
  case (Inl e)
  with abs_fleet_same[OF CreateContainer_fails_clean[of env cm prj img w e w']] run show ?thesis by (auto intro: rejected)
next
  case (Inr info)
  from CreateContainer_Inr[OF run[unfolded Inr] ok] obtain n p t t' where n: "int8in env (prj_UserId prj) = Some n" "has_plan (db w) n p"
    "int (length (containers_of n (db w))) < pl_max_containers p"
    and i: "info = (running_info prj img (project_folder cm prj) (ContainerID info) [] t)\<lparr>ProjectID := int8out env (containers_seq (db w))\<rparr>"
    and d: "db w' = add_container (new_row (containers_seq (db w)) n info t') (db w)" by metis
  have st: "Status info = ''running''" using arg_cong[OF i, of Status] by (simp add: running_info_def)
  have fresh: "abs_fleet (db w) (containers_seq (db w)) = None"
    using db_okD(2)[OF ok] by (auto simp: abs_fleet_None containers_ok_def)
  have "abs_fleet (db w') = (abs_fleet (db w))
      (containers_seq (db w) \<mapsto> \<lparr>pj_owner = n, pj_container = ContainerID info, pj_status = ''running''\<rparr>)"
    using abs_fleet_add[of "db w" "new_row (containers_seq (db w)) n info t'"] fresh
    by (simp add: d new_row_def project_of_def st)
  with n fresh show ?thesis
    by (simp add: Inr) (rule created[of _ _ n _ "pl_max_containers p"]; auto simp: owned_containers[OF ok] plan_limit_def)
qed

lemma named_project:
  assumes "db_ok (db w)" and "names_row env (db w) pid r"
  shows "int8in env pid = Some (c_id r)" and "abs_fleet (db w) (c_id r) = Some (project_of r)"
  using assms by (auto simp: names_row_def abs_fleet_row)

lemma stop_refines:
  assumes ok: "db_ok (db w)" and ids: "ids_print env (db w)" and run: "run_state (StopContainer env pid) w = (res, w')"
  shows "fleet_step L (int8in env) (OpStop pid) (is_ok res) (abs_fleet (db w)) (abs_fleet (db w'))"
proof (cases res)
  case (Inl e)
  with abs_fleet_same[OF StopContainer_fails_clean[of env pid w e w']] run show ?thesis by (auto intro: rejected)
next
  case (Inr x)
  from run[unfolded Inr] ok ids obtain r where r: "names_row env (db w) pid r"
    and d: "db w' = update_containers (\<lambda>c. c_id c = c_id r) (set_status ''stopped'') (db w)" by (rule StopContainer_Inr)
  have "abs_fleet (db w') = (abs_fleet (db w))(c_id r \<mapsto> (project_of r)\<lparr>pj_status := ''stopped''\<rparr>)"
    using abs_fleet_update[OF ok, of r "set_status ''stopped''"] r by (simp add: d names_row_def project_of_rows)
  with stopped[where read_id = "int8in env" and F = "abs_fleet (db w)", OF named_project[OF ok r]] show ?thesis by (simp add: Inr)
qed

lemma start_refines:
  assumes ok: "db_ok (db w)" and ids: "ids_print env (db w)" and run: "run_state (StartContainer env pid) w = (res, w')"
  shows "fleet_step L (int8in env) (OpStart pid) (is_ok res) (abs_fleet (db w)) (abs_fleet (db w'))"
proof (cases res)
  case (Inl e)
  with abs_fleet_same[OF StartContainer_fails_clean[of env pid w e w']] run show ?thesis by (auto intro: rejected)
next
  case (Inr x)
  from run[unfolded Inr] ok ids obtain r t d1 where r: "names_row env (db w) pid r"
    and d1: "d1 = update_containers (\<lambda>c. c_id c = c_id r) (restart_row t) (db w)"
    and d: "db w' = d1 \<or> db w' = update_containers (\<lambda>c. c_id c = c_id r) clear_health d1" by (rule StartContainer_Inr)
  have comp: "update_containers (\<lambda>c. c_id c = c_id r) clear_health d1 =
      update_containers (\<lambda>c. c_id c = c_id r) (clear_health \<circ> restart_row t) (db w)"
    by (simp add: d1 update_containers_def restart_row_def)
  have mem: "r \<in> set (containers (db w))" using r by (simp add: names_row_def)
  have "abs_fleet (update_containers (\<lambda>c. c_id c = c_id r) (clear_health \<circ> restart_row t) (db w)) =
      (abs_fleet (db w))(c_id r \<mapsto> (project_of r)\<lparr>pj_status := ''running''\<rparr>)"
    using abs_fleet_update[OF ok mem, of "clear_health \<circ> restart_row t"]
    by (simp add: project_of_rows) (simp add: restart_row_def clear_health_def)
  moreover have "abs_fleet d1 = (abs_fleet (db w))(c_id r \<mapsto> (project_of r)\<lparr>pj_status := ''running''\<rparr>)"
    using abs_fleet_update[OF ok mem, of "restart_row t"] by (simp add: d1 project_of_rows) (simp add: restart_row_def)
  ultimately have "abs_fleet (db w') = (abs_fleet (db w))(c_id r \<mapsto> (project_of r)\<lparr>pj_status := ''running''\<rparr>)"
    using d unfolding comp by metis
  with started[where read_id = "int8in env" and F = "abs_fleet (db w)", OF named_project[OF ok r]] show ?thesis by (simp add: Inr)
qed

lemma remove_refines:
  assumes ok: "db_ok (db w)" and run: "run_state (RemoveContainer env pid rf) w = (res, w')"
  shows "fleet_step L (int8in env) (OpRemove pid rf) (is_ok res) (abs_fleet (db w)) (abs_fleet (db w'))"
proof (cases res)
  case (Inl e)
  with abs_fleet_same[OF RemoveContainer_fails_clean[of env pid rf w e w']] run show ?thesis by (auto intro: rejected)
next
  case (Inr x)
  from run[unfolded Inr] obtain r where r: "names_row env (db w) pid r"
    and d: "db w' = snd (delete_containers (\<lambda>c. c_id c = c_id r) (db w))" by (rule RemoveContainer_Inr)
  with removed[where read_id = "int8in env" and F = "abs_fleet (db w)", OF named_project[OF ok r]] show ?thesis by (simp add: Inr abs_fleet_delete)
qed

lemma manager_do_refines:
  assumes "db_ok (db w)" and "ids_print env (db w)"
  shows "fleet_step (plan_limit (db w)) (int8in env) op (fst (manager_do env cm op w))
    (abs_fleet (db w)) (abs_fleet (db (snd (manager_do env cm op w))))"
  using create_refines[OF assms(1) prod.collapse[symmetric]] stop_refines[OF assms prod.collapse[symmetric]]
    start_refines[OF assms prod.collapse[symmetric]] remove_refines[OF assms(1) prod.collapse[symmetric]]
  by (cases op) simp_all

section \<open>Plan limits\<close>

definition within_limits :: "(int \<Rightarrow> int \<Rightarrow> bool) \<Rightarrow> fleet \<Rightarrow> bool" where
  "within_limits limit F \<longleftrightarrow> finite (dom F) \<and> (\<forall>n k. limit n k \<longrightarrow> int (card (owned F n)) \<le> k)"

lemma finite_owned: "finite (dom F) \<Longrightarrow> finite (owned F n)"
  by (rule finite_subset[of _ "dom F"]) (auto simp: owned_def)

lemma owned_upd:
  "owned (F(i \<mapsto> p)) n = (if pj_owner p = n then insert i (owned F n) else owned F n - {i})"
  by (auto simp: owned_def)

lemma owned_delete: "owned (F(i := None)) n = owned F n - {i}"
  by (auto simp: owned_def)

lemma within_limits_mono:
  assumes "within_limits limit F" and "dom F' \<subseteq> dom F" and "\<And>n. owned F' n \<subseteq> owned F n"
  shows "within_limits limit F'"
  unfolding within_limits_def
proof (intro conjI allI impI)
  from assms(1) have fin: "finite (dom F)" and lim: "\<And>n k. limit n k \<Longrightarrow> int (card (owned F n)) \<le> k"
    by (auto simp: within_limits_def)
  show "finite (dom F')" by (rule finite_subset[OF assms(2) fin])
  fix n k
  assume "limit n k"
  with lim[of n k] card_mono[OF finite_owned[OF fin] assms(3)[of n]] show "int (card (owned F' n)) \<le> k" by linarith
qed

text \<open>No abstract step leaves the limits.\<close>

lemma fleet_step_within:
  assumes "fleet_step limit read_id op okay F F'" and "within_limits limit F"
    and fn: "\<And>n k k'. limit n k \<Longrightarrow> limit n k' \<Longrightarrow> k = k'"
  shows "within_limits limit F'"
  using assms(1)
proof cases
  case (created prj n k i img cid)
  have fin: "finite (owned F m)" for m using assms(2) by (simp add: within_limits_def finite_owned)
  have "int (card (owned F' m)) \<le> k'" if "limit m k'" for m k'
  proof (cases "m = n")
    case True
    with that created(5) fn have "k' = k" by blast
    with True created(6) fin[of n] show ?thesis
      by (simp add: created(3) owned_upd card_insert_if)
  next
    case False
    with that assms(2) card_Diff1_le[of "owned F m" i] show ?thesis
      by (fastforce simp: created(3) owned_upd within_limits_def)
  qed
  with assms(2) show ?thesis by (simp add: within_limits_def created(3))
qed (use assms(2) in \<open>auto elim!: within_limits_mono simp: owned_def split: if_splits\<close>)

text \<open>Runs of the manager's operations, one after the other; ids are read back as printed in every state.\<close>

inductive manager_run :: "env \<Rightarrow> ContainerManager \<Rightarrow> world \<Rightarrow> world \<Rightarrow> bool" for env cm w where
  start: "manager_run env cm w w"
| step: "manager_run env cm w w1 \<Longrightarrow> ids_print env (db w1) \<Longrightarrow> manager_run env cm w (snd (manager_do env cm op w1))"

lemma plan_limit_unique: "db_ok d \<Longrightarrow> plan_limit d n k \<Longrightarrow> plan_limit d n k' \<Longrightarrow> k = k'"
  using db_okD(1)[of d] by (auto simp: plan_limit_def has_plan_def users_ok_def distinct_map) (metis inj_onD)

definition same_plans :: "world \<Rightarrow> world \<Rightarrow> bool" where
  "same_plans w w' \<longleftrightarrow> users (db w') = users (db w) \<and> plans (db w') = plans (db w)"

lemma same_plans_tables: "same_tables (db w) (db w') \<Longrightarrow> same_plans w w'"
  unfolding same_tables_def same_plans_def by (metis database.select_convs(1,3) database.surjective database.update_convs(12,13))

lemma manager_same_plans:
  assumes "db_ok (db w)" and "ids_print env (db w)"
  shows "same_plans w (snd (manager_do env cm op w))"
proof (cases op)
  case (OpCreate prj img)
  obtain res w' where run: "run_state (CreateContainer env cm prj img) w = (res, w')" by fastforce
  show ?thesis
  proof (cases res)
    case (Inl e)
    with run CreateContainer_fails_clean OpCreate show ?thesis by (auto intro: same_plans_tables)
  next
    case (Inr info)
    from CreateContainer_Inr[OF run[unfolded Inr] assms(1)] obtain r where "db w' = add_container r (db w)" by metis
    with run OpCreate show ?thesis by (simp add: same_plans_def add_container_def)
  qed
next
  case (OpStop pid)
  obtain res w' where run: "run_state (StopContainer env pid) w = (res, w')" by fastforce
  show ?thesis
  proof (cases res)
    case (Inl e)
    with run StopContainer_fails_clean OpStop show ?thesis by (auto intro: same_plans_tables)
  next
    case (Inr x)
    from StopContainer_Inr[OF run[unfolded Inr] assms] obtain P f where "db w' = update_containers P f (db w)" by metis
    with run OpStop show ?thesis by (simp add: same_plans_def update_containers_def)
  qed
next
  case (OpStart pid)
  obtain res w' where run: "run_state (StartContainer env pid) w = (res, w')" by fastforce
  show ?thesis
  proof (cases res)
    case (Inl e)
    with run StartContainer_fails_clean OpStart show ?thesis by (auto intro: same_plans_tables)
  next
    case (Inr x)
    from StartContainer_Inr[OF run[unfolded Inr] assms] obtain P f g where
      "db w' = update_containers P f (db w) \<or> db w' = update_containers P g (update_containers P f (db w))" by metis
    with run OpStart show ?thesis by (auto simp: same_plans_def update_containers_def)
  qed
next
  case (OpRemove pid rf)
  obtain res w' where run: "run_state (RemoveContainer env pid rf) w = (res, w')" by fastforce
  show ?thesis
  proof (cases res)
    case (Inl e)
    with run RemoveContainer_fails_clean OpRemove show ?thesis by (auto intro: same_plans_tables)
  next
    case (Inr x)
    from RemoveContainer_Inr[OF run[unfolded Inr]] obtain P where "db w' = snd (delete_containers P (db w))" by metis
    with run OpRemove show ?thesis by (simp add: same_plans_def delete_containers_def)
  qed
qed

lemma manager_do_ok: "world_ok w \<Longrightarrow> world_ok (snd (manager_do env cm op w))"
  using keeps_ok_manager[THEN state_io_relD, OF prod.collapse[symmetric]]
  by (cases op) (simp_all add: keeps_ok_def)

lemma manager_run_plans:
  assumes "manager_run env cm w w'" and "world_ok w"
  shows "world_ok w' \<and> plan_limit (db w') = plan_limit (db w)"
  using assms
proof induction
  case (step w1 op)
  note IH = step(3)[OF step(4)]
  from IH have ok: "db_ok (db w1)" by (simp add: world_ok_def)
  have "plan_limit (db (snd (manager_do env cm op w1))) = plan_limit (db w1)"
    using manager_same_plans[OF ok step(2), of cm op] by (simp add: same_plans_def plan_limit_def has_plan_def fun_eq_iff)
  with IH manager_do_ok show ?case by simp
qed simp

lemma manager_run_refines:
  assumes "manager_run env cm w w'" and "world_ok w"
  shows "(\<lambda>F F'. \<exists>op okay. fleet_step (plan_limit (db w)) (int8in env) op okay F F')\<^sup>*\<^sup>* (abs_fleet (db w)) (abs_fleet (db w'))"
  using assms
proof induction
  case (step w1 op)
  from manager_run_plans[OF step(1,4)] have ok: "db_ok (db w1)" and L: "plan_limit (db w1) = plan_limit (db w)"
    by (simp_all add: world_ok_def)
  have abs: "\<exists>oq okay. fleet_step (plan_limit (db w)) (int8in env) oq okay (abs_fleet (db w1)) (abs_fleet (db (snd (manager_do env cm op w1))))"
    using manager_do_refines[OF ok step(2), of op cm] unfolding L by blast
  show ?case
    by (rule rtranclp.rtrancl_into_rtrancl[OF step(3)[OF step(4)]]) (rule abs)
qed simp





section \<open>Two creations at a time\<close>

text \<open>
  The quota is read at the start of a creation's transaction and the row is inserted at its end, after the image was pulled and
  the container started, with no lock on the user in between. Overlapping creations: the tables, and the creations that
  have passed the check and not yet inserted their row.
\<close>

inductive creation_step :: "env \<Rightarrow> database \<times> Project list \<Rightarrow> database \<times> Project list \<Rightarrow> bool" for env where
  check: "run_state (check_quota env (prj_UserId prj)) (w\<lparr>txn := Some d\<rparr>) = (Inr plan, w') \<Longrightarrow> creation_step env (d, ps) (d, ps @ [prj])"
| insert: "insert_container env (running_info prj img folder cid port t) t' d = (Inr pid, d') \<Longrightarrow>
    creation_step env (d, ps @ prj # qs) (d', ps @ qs)"

lemma check_quota_tables:
  assumes "no_faults env" and "txn w = Some d" and "txn v = Some d"
  shows "fst (run_state (check_quota env uid) w) = fst (run_state (check_quota env uid) v)"
  using assms
  by (auto simp: check_quota_def GetContainersForUserByID_def GetPlanForUser_def run_simps no_faults_def set_view_def
      split: prod.splits sum.splits)

lemma insert_succeeds:
  assumes "int8in env (prj_UserId prj) = Some n" and "n \<in> u_id ` set (users d)" and "cid \<notin> c_container_id ` set (containers d)"
  shows "insert_container env (running_info prj img folder cid port t) t' d =
    (Inr (int8out env (containers_seq d)), add_container (new_row (containers_seq d) n (running_info prj img folder cid port t) t') d)"
  using assms by (simp add: insert_container_def running_info_def add_container_def new_row_def empty_info_def Let_def)



end
