(* ===== verification/Broker_Spec.thy ===== *)
theory Broker_Spec
  imports Notification_Bus
begin

text \<open>
  What the notification bus promises, as an abstract machine without channels: every subscription is a bounded
  first-in first-out queue that belongs to a user. The bus with its channel addresses, its map of slices and its
  closing of channels refines this machine operation by operation.
\<close>

section \<open>The abstract machine\<close>

text \<open>The number the next subscription gets, and the queue of each subscription of each user.\<close>

type_synonym mailboxes = "nat \<times> (string \<Rightarrow> nat \<rightharpoonup> Notification list)"

definition enqueue :: "Notification \<Rightarrow> Notification list \<Rightarrow> Notification list" where
  "enqueue n q = (if length q < chan_cap then q @ [n] else q)"

text \<open>How many notifications a connection takes off its queue before it ends.\<close>

fun reads :: "select_case list \<Rightarrow> nat" where
  "reads [] = 0"
| "reads (CtxDone # es) = 0"
| "reads (HeartbeatTick # es) = reads es"
| "reads (FromChannel # es) = Suc (reads es)"

fun spec_step :: "bus_op \<Rightarrow> mailboxes \<Rightarrow> mailboxes" where
  "spec_step (OpSubscribe u) (k, m) = (Suc k, m(u := (m u)(k \<mapsto> [])))"
| "spec_step (OpPublish u n) (k, m) = (k, m(u := (\<lambda>c. map_option (enqueue n) (m u c))))"
| "spec_step (OpCancel u c) (k, m) = (k, m(u := (m u)(c := None)))"
| "spec_step (OpStream c es) (k, m) = (k, \<lambda>u. (m u)(c := map_option (drop (reads es)) (m u c)))"

definition no_mailboxes :: mailboxes where
  "no_mailboxes = (0, \<lambda>_ _. None)"

section \<open>Abstraction\<close>

definition abs_bus :: "NotificationBus \<Rightarrow> mailboxes" where
  "abs_bus b = (next_chan b, \<lambda>u c. if c \<in> set (subscribers b u) then Some (ch_buf (chans b c)) else None)"

definition delivered :: "sse_chunk list \<Rightarrow> Notification list" where
  "delivered out = concat (map (\<lambda>x. case x of NotificationEvent n \<Rightarrow> [n] | Heartbeat \<Rightarrow> []) out)"

lemma stream_loop_queue:
  assumes "stream_loop c es b = (out, b')"
  shows "delivered out = take (reads es) (ch_buf (chans b c)) \<and>
    ch_buf (chans b' x) = (if x = c then drop (reads es) (ch_buf (chans b c)) else ch_buf (chans b x))"
  using assms
proof (induction c es b arbitrary: out b' rule: stream_loop.induct)
  case (4 c es b)
  show ?case
  proof (cases "ch_buf (chans b c)")
    case Nil
    with 4 show ?thesis by auto
  next
    case (Cons n ns)
    from 4(3) Cons obtain out1 where "stream_loop c es (b\<lparr>chans := (chans b)(c := (chans b c)\<lparr>ch_buf := ns\<rparr>)\<rparr>) = (out1, b')"
      and "out = NotificationEvent n # out1" by (auto split: prod.splits)
    with 4(2)[OF Cons this(1)] Cons show ?thesis by (auto simp: delivered_def)
  qed
qed (auto simp: delivered_def split: prod.splits)

lemma abs_Subscribe:
  assumes "bus_ok b"
  shows "abs_bus (snd (Subscribe u b)) = spec_step (OpSubscribe u) (abs_bus b)"
proof -
  have "next_chan b \<notin> set (subscribers b v)" for v using bus_okD(2)[OF assms] by blast
  then show ?thesis by (auto simp: abs_bus_def Subscribe_def Let_def fun_eq_iff)
qed

lemma abs_Publish:
  assumes "bus_ok b" and "Publish u n b = Some b'"
  shows "abs_bus b' = spec_step (OpPublish u n) (abs_bus b)"
proof -
  have other: "c \<in> set (subscribers b u) \<longleftrightarrow> v = u" if "c \<in> set (subscribers b v)" for c v
    using bus_okD(4)[OF assms(1)] that by blast
  from Publish_spec[OF assms(1), of u n] assms(2) other show ?thesis
    by (auto simp: abs_bus_def enqueue_def fun_eq_iff)
qed

lemma abs_unsubscribe:
  assumes "bus_ok b" and "unsubscribe u c b = Some b'"
  shows "abs_bus b' = spec_step (OpCancel u c) (abs_bus b)"
proof (cases "c \<in> set (subscribers b u)")
  case True
  from assms(2) bus_okD(1)[OF assms(1), of u] show ?thesis
    unfolding unsubscribe_member[OF assms(1) True] by (auto simp: abs_bus_def fun_eq_iff)
next
  case False
  with assms(2) show ?thesis by (auto simp: unsubscribe_def abs_bus_def fun_eq_iff)
qed

lemma abs_stream_loop:
  assumes "stream_loop c es b = (out, b')"
  shows "abs_bus b' = spec_step (OpStream c es) (abs_bus b)"
  using stream_loop_frame[OF assms] stream_loop_queue[OF assms] by (auto simp: abs_bus_def fun_eq_iff)

lemma bus_step_refines:
  assumes "bus_ok b"
  shows "\<exists>b'. bus_step x b = Some b' \<and> bus_ok b' \<and> abs_bus b' = spec_step x (abs_bus b)"
proof -
  from bus_step_ok[OF assms] obtain b' where b': "bus_step x b = Some b'" "bus_ok b'" by blast
  have "abs_bus b' = spec_step x (abs_bus b)"
  proof (cases x)
    case (OpSubscribe u)
    with b'(1) abs_Subscribe[OF assms] show ?thesis by auto
  next
    case (OpPublish u n)
    with b'(1) abs_Publish[OF assms] show ?thesis by auto
  next
    case (OpCancel u c)
    with b'(1) abs_unsubscribe[OF assms] show ?thesis by auto
  next
    case (OpStream c es)
    with b'(1) abs_stream_loop[OF prod.collapse[symmetric]] show ?thesis by auto
  qed
  with b' show ?thesis by blast
qed

section \<open>Refinement\<close>

text \<open>
  C4. The bus refines the abstract machine: any sequence of subscriptions, publications, cancellations and streaming
  connections runs without a panic and leaves the bus at exactly the queues the abstract machine computes, and a connection to
  a subscription in any such state delivers the front of its abstract queue, in order.
\<close>

theorem bus_refines_bounded_queues:
  "\<exists>b. opt_fold bus_step ops GlobalBus = Some b \<and> abs_bus b = fold spec_step ops no_mailboxes \<and>
     (\<forall>u c q es. snd (abs_bus b) u c = Some q \<longrightarrow> delivered (fst (stream_loop c es b)) = take (reads es) q)"
proof -
  have run: "\<exists>b'. opt_fold bus_step ops b = Some b' \<and> abs_bus b' = fold spec_step ops (abs_bus b)" if "bus_ok b" for b
    using that
  proof (induction ops arbitrary: b)
    case (Cons x ops)
    from bus_step_refines[OF Cons.prems, of x] obtain b1 where "bus_step x b = Some b1" "bus_ok b1" "abs_bus b1 = spec_step x (abs_bus b)"
      by blast
    with Cons.IH[of b1] show ?case by auto
  qed simp
  have "abs_bus GlobalBus = no_mailboxes" by (simp add: abs_bus_def GlobalBus_def no_mailboxes_def fun_eq_iff)
  with run[OF bus_ok_GlobalBus] obtain b where b: "opt_fold bus_step ops GlobalBus = Some b" "abs_bus b = fold spec_step ops no_mailboxes"
    by auto
  have "delivered (fst (stream_loop c es b)) = take (reads es) q" if "snd (abs_bus b) u c = Some q" for u c q es
    using that stream_loop_queue[of c es b, OF prod.collapse[symmetric]] by (auto simp: abs_bus_def split: if_splits)
  with b show ?thesis by blast
qed

definition sample_note :: Notification where
  "sample_note = \<lparr>n_id = ''1'', n_type = ''t'', n_title = [], n_body = [], n_metadata = None, n_created_at = 0\<rparr>"

theorem bus_refines_bounded_queues_witness:
  "\<exists>b. opt_fold bus_step [OpSubscribe ''u'', OpPublish ''u'' sample_note, OpCancel ''v'' 0, OpPublish ''v'' sample_note] GlobalBus = Some b \<and>
     snd (abs_bus b) ''u'' 0 = Some [sample_note] \<and> delivered (fst (stream_loop 0 [HeartbeatTick, FromChannel] b)) = [sample_note]"
proof -
  from bus_refines_bounded_queues[of "[OpSubscribe ''u'', OpPublish ''u'' sample_note, OpCancel ''v'' 0, OpPublish ''v'' sample_note]"]
  obtain b where b: "opt_fold bus_step [OpSubscribe ''u'', OpPublish ''u'' sample_note, OpCancel ''v'' 0, OpPublish ''v'' sample_note] GlobalBus = Some b"
    "abs_bus b = fold spec_step [OpSubscribe ''u'', OpPublish ''u'' sample_note, OpCancel ''v'' 0, OpPublish ''v'' sample_note] no_mailboxes"
    and d: "\<And>u c q es. snd (abs_bus b) u c = Some q \<Longrightarrow> delivered (fst (stream_loop c es b)) = take (reads es) q" by blast
  have q: "snd (abs_bus b) ''u'' 0 = Some [sample_note]" by (simp add: b(2) no_mailboxes_def enqueue_def chan_cap_def)
  from d[OF q, of "[HeartbeatTick, FromChannel]"] q b(1) show ?thesis by auto
qed

end
