(* ===== verification/Listener.thy ===== *)
theory Listener
  imports Recovery
begin

text \<open>
  \<open>service/containerEventsService.go\<close>: the goroutine that listens to the events of the Docker daemon. It runs until its
  context is cancelled and reconnects when the stream fails, so its two loops may run forever: they are
  partial functions, and not returning is the value \<open>None\<close>. The input is the sequence of cases the inner
  \<open>select\<close> takes, over all connections, and whether the context is cancelled before each of them. The result is the
  sequence of goroutines started.
\<close>

section \<open>The loops\<close>

datatype listen_event = CtxDoneEvent | StreamError | Message string string string

definition spawned :: "recovery_task option \<Rightarrow> recovery_task list" where
  "spawned t = (case t of None \<Rightarrow> [] | Some x \<Rightarrow> [x])"

text \<open>
  \<open>listen\<close> returns when the context is cancelled or the stream reports an error, and dispatches every message before; the
  second component is where the sequence of events goes on.
\<close>

partial_function (option) listen :: "(nat \<Rightarrow> listen_event) \<Rightarrow> nat \<Rightarrow> (recovery_task list \<times> nat) option" where
  "listen ev i =
     (case ev i of
        CtxDoneEvent \<Rightarrow> Some ([], Suc i)
      | StreamError \<Rightarrow> Some ([], Suc i)
      | Message action actor code \<Rightarrow>
          Option.bind (listen ev (Suc i)) (\<lambda>r. Some (spawned (dispatch action actor code) @ fst r, snd r)))"

text \<open>The outer loop of \<open>Start\<close>: look at the context, else connect and listen.\<close>

partial_function (option) Start :: "(nat \<Rightarrow> bool) \<Rightarrow> (nat \<Rightarrow> listen_event) \<Rightarrow> nat \<Rightarrow> recovery_task list option" where
  "Start cancelled ev i =
     (if cancelled i then Some []
      else Option.bind (listen ev i) (\<lambda>r. Option.bind (Start cancelled ev (snd r)) (\<lambda>ts. Some (fst r @ ts))))"

section \<open>What they return\<close>

fun is_message :: "listen_event \<Rightarrow> bool" where
  "is_message (Message _ _ _) = True"
| "is_message _ = False"

fun event_tasks :: "listen_event \<Rightarrow> recovery_task list" where
  "event_tasks (Message action actor code) = spawned (dispatch action actor code)"
| "event_tasks _ = []"

text \<open>All goroutines for the events from \<open>i\<close> up to \<open>j\<close>.\<close>

definition tasks_between :: "(nat \<Rightarrow> listen_event) \<Rightarrow> nat \<Rightarrow> nat \<Rightarrow> recovery_task list" where
  "tasks_between ev i j = concat (map (\<lambda>k. event_tasks (ev k)) [i..<j])"

lemma tasks_between_Cons: "i < j \<Longrightarrow> tasks_between ev i j = event_tasks (ev i) @ tasks_between ev (Suc i) j"
  by (simp add: tasks_between_def upt_conv_Cons)

lemma tasks_between_join: "i \<le> j \<Longrightarrow> j \<le> k \<Longrightarrow> tasks_between ev i j @ tasks_between ev j k = tasks_between ev i k"
  using upt_add_eq_append[of i j "k - j"] by (simp add: tasks_between_def)

lemma listen_result:
  assumes "listen ev i = Some r"
  shows "i < snd r \<and> fst r = tasks_between ev i (snd r)"
proof (rule listen.raw_induct[OF _ assms], goal_cases)
  case (1 f ev i r)
  show ?case
  proof (cases "ev i")
    case (Message action actor code)
    with 1(2) obtain r' where r': "f ev (Suc i) = Some r'" "r = (spawned (dispatch action actor code) @ fst r', snd r')"
      by (auto simp: bind_eq_Some_conv)
    with 1(1)[OF r'(1)] Message show ?thesis by (simp add: tasks_between_Cons)
  qed (use 1(2) in \<open>auto simp: tasks_between_Cons tasks_between_def\<close>)
qed

lemma listen_returns:
  assumes "i \<le> j" and "\<not> is_message (ev j)"
  shows "\<exists>r. listen ev i = Some r"
  using assms
proof (induction "j - i" arbitrary: i)
  case 0
  then show ?case by (cases "ev i") (auto simp: listen.simps)
next
  case (Suc d)
  show ?case
  proof (cases "ev i")
    case (Message action actor code)
    have "\<exists>r. listen ev (Suc i) = Some r" using Suc by (intro Suc(1)) auto
    with Message show ?thesis by (auto simp: listen.simps)
  qed (simp_all add: listen.simps)
qed

lemma listen_forever: "(\<And>j. i \<le> j \<Longrightarrow> is_message (ev j)) \<Longrightarrow> listen ev i = None"
proof (rule ccontr)
  assume msgs: "\<And>j. i \<le> j \<Longrightarrow> is_message (ev j)" and "listen ev i \<noteq> None"
  then obtain r where "listen ev i = Some r" by blast
  then have "\<exists>j \<ge> i. \<not> is_message (ev j)"
  proof (rule listen.raw_induct[rotated], goal_cases)
    case (1 f ev i r)
    then show ?case
    proof (cases "ev i")
      case (Message action actor code)
      with 1(2) obtain r' where "f ev (Suc i) = Some r'" by (auto simp: bind_eq_Some_conv)
      from 1(1)[OF this] show ?thesis by (meson Suc_leD)
    qed auto
  qed
  with msgs show False by blast
qed

lemma Start_result:
  assumes "Start cancelled ev i = Some ts"
  shows "\<exists>n \<ge> i. cancelled n \<and> ts = tasks_between ev i n"
proof (rule Start.raw_induct[OF _ assms], goal_cases)
  case (1 f cancelled ev i ts)
  show ?case
  proof (cases "cancelled i")
    case True
    with 1(2) show ?thesis by (auto simp: tasks_between_def)
  next
    case False
    with 1(2) obtain r us where r: "listen ev i = Some r" "f cancelled ev (snd r) = Some us" "ts = fst r @ us"
      by (auto simp: bind_eq_Some_conv)
    from 1(1)[OF r(2)] obtain n where n: "snd r \<le> n" "cancelled n" "us = tasks_between ev (snd r) n" by blast
    with listen_result[OF r(1)] r(3) show ?thesis by (intro exI[of _ n]) (simp add: tasks_between_join)
  qed
qed

lemma Start_returns:
  assumes closed: "\<And>i j. i \<le> j \<Longrightarrow> cancelled i \<Longrightarrow> cancelled j"
    and seen: "\<And>i. cancelled i \<Longrightarrow> \<exists>j \<ge> i. \<not> is_message (ev j)"
    and n: "cancelled n"
  shows "\<exists>ts. Start cancelled ev i = Some ts"
proof (induction "n - i" arbitrary: i rule: less_induct)
  case less
  show ?case
  proof (cases "cancelled i")
    case True
    then show ?thesis by (simp add: Start.simps)
  next
    case False
    then have "i < n" using closed[of n i] n by (meson linorder_not_less)
    moreover obtain j where "n \<le> j" "\<not> is_message (ev j)" using seen[OF n] by blast
    ultimately obtain r where r: "listen ev i = Some r" using listen_returns[of i j ev] by auto
    with listen_result[OF r] \<open>i < n\<close> have "n - snd r < n - i" by auto
    from less[OF this] r False show ?thesis by (auto simp: Start.simps[of cancelled ev i])
  qed
qed

lemma crash_event:
  "Crash dcid code \<in> set (event_tasks e) \<Longrightarrow>
     code \<noteq> 0 \<and> (\<exists>attr. e = Message ''die'' dcid attr \<and> fst (ParseInt attr) = code)"
  by (cases e) (auto simp: spawned_def dispatch_def Let_def split: if_splits option.splits)

section \<open>Termination\<close>

text \<open>
  C14. The listener terminates exactly when the server shuts down. For a context that stays cancelled once it is, and a
  \<open>select\<close> that does not pick messages for ever after that, \<open>Start\<close> returns if and only if the context is
  cancelled, whatever the stream delivers and however often it breaks; and then it has started the goroutines of all
  messages up to its return, in order, none lost or repeated by a reconnection, and none that restarts a container
  but for a \<open>die\<close> message of it with an exit code other than zero.
\<close>

theorem listener_stops_exactly_when_cancelled:
  assumes "\<And>i j. i \<le> j \<Longrightarrow> cancelled i \<Longrightarrow> cancelled j"
    and "\<And>i. cancelled i \<Longrightarrow> \<exists>j \<ge> i. \<not> is_message (ev j)"
  shows "((\<exists>ts. Start cancelled ev 0 = Some ts) \<longleftrightarrow> (\<exists>n. cancelled n)) \<and>
    (\<forall>ts. Start cancelled ev 0 = Some ts \<longrightarrow>
       (\<exists>n. cancelled n \<and> ts = tasks_between ev 0 n \<and>
         (\<forall>dcid code. Crash dcid code \<in> set ts \<longrightarrow>
            code \<noteq> 0 \<and> (\<exists>i < n. \<exists>attr. ev i = Message ''die'' dcid attr \<and> fst (ParseInt attr) = code))))"
proof -
  have crash: "code \<noteq> 0 \<and> (\<exists>i < n. \<exists>attr. ev i = Message ''die'' dcid attr \<and> fst (ParseInt attr) = code)"
    if "Crash dcid code \<in> set (tasks_between ev 0 n)" for dcid code n
  proof -
    from that obtain i where "i < n" and "Crash dcid code \<in> set (event_tasks (ev i))" by (auto simp: tasks_between_def)
    with crash_event[OF this(2)] show ?thesis by blast
  qed
  have returns: "\<exists>ts. Start cancelled ev 0 = Some ts" if "cancelled n" for n
  proof (rule Start_returns[where cancelled = cancelled and n = n])
    show "cancelled i \<Longrightarrow> \<exists>j \<ge> i. \<not> is_message (ev j)" for i by (rule assms(2))
    show "i \<le> j \<Longrightarrow> cancelled i \<Longrightarrow> cancelled j" for i j by (rule assms(1))
    show "cancelled n" by (rule that)
  qed
  have result: "\<exists>n. cancelled n \<and> ts = tasks_between ev 0 n" if "Start cancelled ev 0 = Some ts" for ts
    using Start_result[OF that] by blast
  have "(\<exists>ts. Start cancelled ev 0 = Some ts) \<longleftrightarrow> (\<exists>n. cancelled n)"
    using returns result by blast
  moreover have "\<exists>n. cancelled n \<and> ts = tasks_between ev 0 n \<and>
         (\<forall>dcid code. Crash dcid code \<in> set ts \<longrightarrow>
            code \<noteq> 0 \<and> (\<exists>i < n. \<exists>attr. ev i = Message ''die'' dcid attr \<and> fst (ParseInt attr) = code))"
    if st: "Start cancelled ev 0 = Some ts" for ts
  proof -
    from result[OF st] obtain n where n: "cancelled n" "ts = tasks_between ev 0 n" by blast
    with crash[of _ _ n] show ?thesis by (intro exI[of _ n] conjI n) simp_all
  qed
  ultimately show ?thesis by blast
qed

theorem listener_stops_exactly_when_cancelled_witness:
  "Start (\<lambda>i. 3 \<le> i) (\<lambda>i. if i = 0 then Message ''die'' ''c8'' ''1'' else StreamError) 0 = Some [Crash ''c8'' 1]"
proof -
  let ?ev = "\<lambda>i. if i = 0 then Message ''die'' ''c8'' ''1'' else StreamError"
  obtain ts n where "Start (\<lambda>i. 3 \<le> i) ?ev 0 = Some ts" and "3 \<le> n" and "ts = tasks_between ?ev 0 n"
  proof -
    have seen: "\<exists>j \<ge> i. \<not> is_message (?ev j)" if "3 \<le> i" for i :: nat using that by (intro exI[of _ i]) simp
    from listener_stops_exactly_when_cancelled[of "\<lambda>i. 3 \<le> i" ?ev, OF _ seen]
    have r: "(\<exists>ts. Start (\<lambda>i. 3 \<le> i) ?ev 0 = Some ts) \<longleftrightarrow> (\<exists>n::nat. 3 \<le> n)"
      "\<And>ts. Start (\<lambda>i. 3 \<le> i) ?ev 0 = Some ts \<Longrightarrow> \<exists>n \<ge> 3. ts = tasks_between ?ev 0 n"
      by auto
    from r(1) obtain ts where "Start (\<lambda>i. 3 \<le> i) ?ev 0 = Some ts" by auto
    with r(2)[OF this] that show ?thesis by blast
  qed
  moreover have "event_tasks (?ev 0) = [Crash ''c8'' 1]" by (simp add: dispatch_def ParseInt_def digit_val_def spawned_def)
  moreover have "tasks_between ?ev (Suc 0) n = []" by (auto simp: tasks_between_def)
  moreover have "tasks_between ?ev 0 n = event_tasks (?ev 0) @ tasks_between ?ev (Suc 0) n"
    using \<open>3 \<le> n\<close> by (simp add: tasks_between_Cons[of 0 n ?ev])
  ultimately show ?thesis by (metis append_Nil2)
qed

end
