(* ===== verification/Mail_Proofs.thy ===== *)
theory Mail_Proofs
  imports Users_Proofs
begin

text \<open>
  Properties of the mails: a name or an address can add no markup to them, the link a registration sends
  verifies the account it was sent for, and a message the mail server refuses counts as sent.
\<close>

section \<open>Reading a mail\<close>

text \<open>The characters that can open or close a tag or an attribute, and what a browser makes of the entities used.\<close>

definition markup :: "char \<Rightarrow> bool" where
  "markup c \<longleftrightarrow> c \<in> {CHR ''<'', CHR ''>'', CHR 0x22, CHR 0x27}"

definition entities :: "(string \<times> string) list" where
  "entities = [(''amp;'', ''&''), (''lt;'', ''<''), (''gt;'', ''>''), (''#34;'', dq), (''#39;'', apos), (''#43;'', ''+'')]"

fun html_unescape :: "string \<Rightarrow> string" where
  "html_unescape [] = []"
| "html_unescape (c # s) =
     (if c = CHR ''&'' then
        (case find (\<lambda>e. HasPrefix s (fst e)) entities of
           Some e \<Rightarrow> snd e @ html_unescape (drop (length (fst e)) s)
         | None \<Rightarrow> c # html_unescape s)
      else c # html_unescape s)"

fun literal :: "piece \<Rightarrow> string" where
  "literal (Lit s) = s"
| "literal _ = []"

lemma no_markup_repl: "filter markup (html_repl c) = []"
  by (simp add: html_repl_def markup_def)

lemma no_markup_escape: "filter markup (html_escape s) = []"
  by (simp add: html_escape_def filter_concat no_markup_repl concat_eq_Nil_conv)

lemma unescape_repl: "c \<noteq> CHR 0x00 \<Longrightarrow> html_unescape (html_repl c @ s) = c # html_unescape s"
  by (simp add: html_repl_def entities_def HasPrefix_def dq_def apos_def)

lemma unescape_escape: "CHR 0x00 \<notin> set s \<Longrightarrow> html_unescape (html_escape s) = s"
  by (induction s) (auto simp: html_escape_def unescape_repl)

lemma url_normalize_plain: "list_all url_plain s \<Longrightarrow> url_normalize s = s"
  by (induction s) auto

lemma nul_not_plain: "\<not> url_plain (CHR 0x00)"
  by (simp add: url_plain_def is_alnum_def hex_chars_def)

lemma plain_not_nul: "list_all url_plain s \<Longrightarrow> CHR 0x00 \<notin> set s"
  using nul_not_plain by (auto simp: list_all_iff)

lemma href_plain: "isSafeURL u \<Longrightarrow> list_all url_plain u \<Longrightarrow> html_unescape (html_escape (url_normalize (url_filter u))) = u"
  by (simp add: url_filter_def url_normalize_plain unescape_escape plain_not_nul)

lemma render_markup: "filter markup (renderTemplate t data) = filter markup (concat (map literal t))"
proof (induction t)
  case (Cons p t)
  then show ?case by (cases p) (simp_all add: renderTemplate_def no_markup_escape)
qed (simp add: renderTemplate_def)

lemma render_member: "p \<in> set t \<Longrightarrow> \<exists>pre post. renderTemplate t data = pre @ render_piece data p @ post"
  by (auto simp: renderTemplate_def dest!: split_list) blast

lemma template_fields:
  "TextField ''Name'' \<in> set verificationTmpl" "HrefField ''URL'' \<in> set verificationTmpl"
  "TextField ''Name'' \<in> set passwordResetTmpl" "HrefField ''URL'' \<in> set passwordResetTmpl"
  unfolding verificationTmpl_def passwordResetTmpl_def by (simp_all only: list.set insert_iff simp_thms)

text \<open>
  C19. The user's name and the link cannot add markup to a mail: in both mails the sequence of tag and attribute
  delimiters is that of the template, whatever the name and the URL are; the mail contains the name in a form that
  reads back as the name itself (unless it holds a NUL), and the link in a form that reads back as the URL itself
  when that is made of URL characters and has a web or mail scheme or none.
\<close>

theorem mails_add_no_markup:
  assumes "t \<in> {verificationTmpl, passwordResetTmpl}" and "mail = renderTemplate t [''Name'' \<mapsto> name, ''URL'' \<mapsto> url]"
  shows "filter markup mail = filter markup (concat (map literal t)) \<and>
    (CHR 0x00 \<notin> set name \<longrightarrow> (\<exists>pre shown post. mail = pre @ shown @ post \<and> html_unescape shown = name)) \<and>
    (isSafeURL url \<and> list_all url_plain url \<longrightarrow> (\<exists>pre href post. mail = pre @ href @ post \<and> html_unescape href = url))"
proof -
  let ?d = "[''Name'' \<mapsto> name, ''URL'' \<mapsto> url]"
  have f: "field ?d ''Name'' = name" "field ?d ''URL'' = url" by (simp_all add: field_def)
  have mem: "TextField ''Name'' \<in> set t" "HrefField ''URL'' \<in> set t" using assms(1) template_fields by auto
  obtain a b where n: "mail = a @ html_escape name @ b"
    using render_member[OF mem(1), of ?d] assms(2) f(1) by auto
  obtain a' b' where u: "mail = a' @ html_escape (url_normalize (url_filter url)) @ b'"
    using render_member[OF mem(2), of ?d] assms(2) f(2) by auto
  have "filter markup mail = filter markup (concat (map literal t))" unfolding assms(2) by (rule render_markup)
  with n u unescape_escape[of name] href_plain[of url] show ?thesis by blast
qed

theorem mails_add_no_markup_witness:
  "filter markup (renderTemplate verificationTmpl [''Name'' \<mapsto> ''<b>'', ''URL'' \<mapsto> ''http://h/v?token=1'']) =
   filter markup (concat (map literal verificationTmpl))"
  using mails_add_no_markup[OF _ refl, of verificationTmpl "''<b>''" "''http://h/v?token=1''"] by simp

section \<open>The dialogue\<close>

text \<open>
  On port 465 the server's verdict on the message is lost: when the dialogue succeeds up to the message, \<open>Send\<close>
  reports success whatever the server answers to its end, and ends the session.
\<close>

theorem refused_mail_is_reported_as_sent:
  assumes "Enabled m" and "ml_port m = ''465''" and "\<And>h c. c \<noteq> SmtpDataClose \<Longrightarrow> env_err env h c = None"
    and "run_state (Send env m to_addr subject body) w = (r, w')"
  shows "r = Inr () \<and> (\<exists>cs. hist w' = [SmtpQuit, SmtpDataClose, SmtpWrite (buildMessage (ml_from m) to_addr subject body), SmtpData,
    SmtpRcpt to_addr, SmtpMail (ml_from m)] @ cs @ hist w)"
  using assms by (auto simp: Send_def sendTLS_def Let_def run_simps)

section \<open>The registration link\<close>

text \<open>The messages handed to a mail server, newest first.\<close>

fun mail_of :: "call \<Rightarrow> string list" where
  "mail_of (SendMail _ _ _ _ m) = [m]"
| "mail_of (SmtpWrite m) = [m]"
| "mail_of _ = []"

definition mails :: "call list \<Rightarrow> string list" where
  "mails cs = concat (map mail_of cs)"

lemma mails_simps [simp]: "mails [] = []" "mails (c # cs) = mail_of c @ mails cs" "mails (cs @ ds) = mails cs @ mails ds"
  by (simp_all add: mails_def)

lemma no_mails:
  assumes "state_io_rel (only_calls (\<lambda>c. mail_of c = [])) m" and "run_state m w = (r, w')"
  shows "mails (hist w') = mails (hist w)"
proof -
  from state_io_relD[OF assms] obtain cs where "hist w' = cs @ hist w" "\<forall>c \<in> set cs. mail_of c = []"
    by (auto simp: only_calls_def)
  then show ?thesis by (auto simp: mails_def)
qed

lemma Send_mails:
  assumes "run_state (Send env m to_addr subject body) w = (r, w')"
  shows "db w' = db w" and "mails (hist w') = mails (hist w) \<or>
    mails (hist w') = buildMessage (ml_from m) to_addr subject body # mails (hist w)"
  using assms by (auto simp: Send_def sendTLS_def Let_def run_simps split: if_splits option.splits)

lemma no_mail_parts:
  "state_io_rel (only_calls (\<lambda>c. mail_of c = [])) (svc_GetUserByEmail env email)"
  "state_io_rel (only_calls (\<lambda>c. mail_of c = [])) (token_Create env uid ty ttl)"
  unfolding svc_GetUserByEmail_def GetUserByEmail_def token_Create_def GenerateRawToken_def Let_def
  by (intro oc.io_intros only_calls_intros; simp)+

lemma hex_digits_hex: "k < 16 \<Longrightarrow> is_hex (hex_digit k)"
proof -
  assume "k < 16"
  moreover have "list_all (\<lambda>k. is_hex (hex_digit k)) [0..<16]" by code_simp
  ultimately show ?thesis by (simp add: list_all_iff)
qed

lemma hex_is_hex: "list_all is_hex (hex_EncodeToString bs)"
  by (induction bs) (simp_all add: hex_EncodeToString_def Let_def hex_digits_hex less_mult_imp_div_less)

lemma hex_plain: "list_all url_plain (hex_EncodeToString bs)"
proof -
  have "url_plain c" if "is_hex c" for c using that by (simp add: url_plain_def is_alnum_def is_hex_def)
  with hex_is_hex[of bs] show ?thesis by (auto simp: list_all_iff)
qed

lemma no_colon_hex: "CHR '':'' \<notin> set (hex_EncodeToString bs)"
proof -
  have "\<not> is_hex CHR '':''" by (simp add: is_hex_def hex_chars_def)
  with hex_is_hex[of bs] show ?thesis by (auto simp: list_all_iff)
qed

lemma index_of_append: "index_of c (xs @ ys) = (case index_of c xs of None \<Rightarrow> map_option ((+) (length xs)) (index_of c ys) | Some i \<Rightarrow> Some i)"
  by (induction xs) (cases "index_of c ys"; auto split: option.splits)+

lemma index_of_None: "index_of c xs = None \<longleftrightarrow> c \<notin> set xs"
  by (induction xs) auto

lemma index_of_less: "index_of c xs = Some i \<Longrightarrow> i < length xs"
  by (induction xs arbitrary: i) (auto split: if_splits)

lemma isSafeURL_append: "isSafeURL xs \<Longrightarrow> CHR '':'' \<notin> set ys \<Longrightarrow> isSafeURL (xs @ ys)"
  using index_of_less[of "CHR '':''" xs]
  by (auto simp: isSafeURL_def index_of_append index_of_None[THEN iffD2] split: option.splits)

text \<open>A mail of the registration goroutine was sent for a token that was issued to the account.\<close>

lemma register_task_mail:
  assumes run: "run_state (register_task env uc req) w = ((), w')" and sent: "mails (hist w') \<noteq> mails (hist w)"
  obtains user w1 tok w2 where "run_state (svc_GetUserByEmail env (rr_Email req)) w = (Inr user, w1)"
    and "run_state (token_Create env (IDInt user) ''email_verification'' (24 * 3600)) w1 = (Inr tok, w2)" and "db w' = db w2"
    and "mails (hist w') = buildMessage (ml_from (uc_mailer uc)) (rr_Email req) ''Verify your Docker Wrapper account''
      (renderTemplate verificationTmpl [''Name'' \<mapsto> rr_Name req, ''URL'' \<mapsto> uc_baseURL uc @ ''/verify-email?token='' @ tok]) # mails (hist w)"
proof -
  obtain ur w1 where u: "run_state (svc_GetUserByEmail env (rr_Email req)) w = (ur, w1)" by fastforce
  have m1: "mails (hist w1) = mails (hist w)" by (rule no_mails[OF no_mail_parts(1) u])
  let ?id = "case ur of Inl _ \<Rightarrow> 0 | Inr user \<Rightarrow> IDInt user"
  obtain tr w2 where t: "run_state (token_Create env ?id ''email_verification'' (24 * 3600)) w1 = (tr, w2)" by fastforce
  have m2: "mails (hist w2) = mails (hist w1)" by (rule no_mails[OF no_mail_parts(2) t])
  show ?thesis
  proof (cases "?id = 0 \<or> (\<exists>e. tr = Inl e)")
    case True
    with run u t m1 m2 sent show ?thesis by (auto simp: register_task_def Let_def run_simps split: if_splits)
  next
    case False
    then obtain user tok where ok: "ur = Inr user" "tr = Inr tok" "IDInt user \<noteq> 0"
      by (cases ur; cases tr) auto
    let ?body = "renderTemplate verificationTmpl [''Name'' \<mapsto> rr_Name req, ''URL'' \<mapsto> uc_baseURL uc @ ''/verify-email?token='' @ tok]"
    obtain r w3 where s: "run_state (Send env (uc_mailer uc) (rr_Email req) ''Verify your Docker Wrapper account'' ?body) w2 = (r, w3)"
      by fastforce
    with run u t ok have "w3 = w'"
      by (simp add: register_task_def SendVerificationEmail_def Let_def run_simps)
    with Send_mails[OF s] m1 m2 sent u t ok show ?thesis by (intro that[of user w1 tok w2]) auto
  qed
qed

lemma token_Create_hex:
  assumes "run_state (token_Create env uid ty ttl) w = (Inr raw, w')"
  obtains bs where "raw = hex_EncodeToString bs"
proof -
  from assms obtain b w1 where g: "run_state (GenerateRawToken env) w = (Inr b, w1)"
    and rest: "run_state (do { let hash = HashToken env b;
            ignoring (sql env Pool ''invalidate tokens'' (\<lambda>_ t. invalidate_tokens uid ty t));
            t \<leftarrow> now env;
            on_ok (sql env Pool ''insert token'' (\<lambda>x _. insert_token uid hash ty (t + ttl) x)) (\<lambda>_. ok b) }) w1 = (Inr raw, w')"
    unfolding token_Create_def by (rule on_ok_Inr)
  from g obtain bs where "b = hex_EncodeToString bs"
    unfolding GenerateRawToken_def by (auto elim!: on_ok_Inr dest!: success_dests simp: run_ok)
  moreover from rest have "raw = b"
    by (auto simp: Let_def run_bind run_ok elim!: on_ok_Inr split: prod.splits)
  ultimately show ?thesis using that by blast
qed

lemma GetUserByEmail_Inr:
  assumes "run_state (GetUserByEmail env Pool email) w = (Inr user, w')"
  obtains u where "u \<in> set (users (db w))" and "u_email u = email" and "user = scan_user env u"
    and "db w' = db w" and "hist w' = Sql ''select user by email'' # hist w"
proof -
  from map_err_Inr[OF assms[unfolded GetUserByEmail_def]]
  have r: "run_state (sql env Pool ''select user by email'' (\<lambda>_ _. select_user_by_email env email)) w = (Inr user, w')" .
  then have h: "hist w' = Sql ''select user by email'' # hist w"
    by (auto simp: run_sql select_user_by_email_def split: option.splits)
  from r obtain d where d: "select_user_by_email env email (db w) = (Inr user, d)" "db w' = d"
    by (rule sql_Inr) simp
  from d(1) obtain u where u: "first_row (filter (\<lambda>r. u_email r = email) (users (db w))) = Inr u" "user = scan_user env u" "d = db w"
    by (cases "first_row (filter (\<lambda>r. u_email r = email) (users (db w)))") (simp_all add: select_user_by_email_def)
  from u(1) have "u \<in> set (users (db w)) \<and> u_email u = email"
    by (auto simp: first_row_def filter_eq_Cons_iff split: list.splits)
  with u d(2) h show ?thesis by (intro that) auto
qed

text \<open>A live verification token verifies the address of exactly its user.\<close>

lemma VerifyEmail_live:
  assumes "rq_method r = ''POST''" and "rq_body r = Inr tok" and "vld tok = None"
    and nf: "\<forall>h c. env_err env h c = None"
    and live: "live_token (HashToken env tok) ''email_verification'' (env_now env (hist w)) (db w) = Some uid"
    and run: "run_state (VerifyEmail env vld r) w = (resp, w')"
  shows "rs_status resp = 200 \<and> users (db w') =
    map (\<lambda>x. if u_id x = uid then x\<lparr>u_email_verified_at := Some (env_now env (Sql ''consume token'' # hist w))\<rparr> else x) (users (db w))"
proof -
  let ?h = "HashToken env tok" and ?t = "env_now env (hist w)"
  let ?d1 = "snd (consume_token ?h ''email_verification'' ?t (db w))"
  from consume_token_Some[OF live] obtain rec where rec: "fst (consume_token ?h ''email_verification'' ?t (db w)) = Inr rec" "tr_UserID rec = uid"
    by blast
  have c: "run_state (Consume env tok ''email_verification'') w = (Inr rec, w\<lparr>hist := Sql ''consume token'' # hist w, db := ?d1\<rparr>)"
    using nf rec by (simp add: Consume_def run_sql prod.case_eq_if)
  have us: "users ?d1 = users (db w)" by (simp add: consume_token_def)
  from run assms(1-3) c nf rec us show ?thesis
    by (auto simp: VerifyEmail_def run_bind run_sql update_users_def run_RespondData)
qed

text \<open>
  C20. Whenever the goroutine of a registration hands a message to the mail server, the message is one to a registered
  account with the given address, and it contains a link to the configured address whose token verifies that account: sent to
  the verification endpoint in any later state in which the tokens are as the goroutine left them, within 24 hours of its
  issue, it is answered with 200 and marks exactly that account as verified.
\<close>

theorem registration_link_verifies_the_account:
  assumes run: "run_state (register_task env uc req) w = ((), w')" and sent: "mails (hist w') \<noteq> mails (hist w)"
    and nf: "\<forall>h c. env_err env h c = None"
    and ids: "\<forall>u \<in> set (users (db w)). fst (ParseInt (int8out env (u_id u))) = u_id u"
    and base: "isSafeURL (uc_baseURL uc @ ''/verify-email?token='')" "list_all url_plain (uc_baseURL uc)"
    and e: "e = env_now env (Sql ''invalidate tokens'' # RandRead 32 # Sql ''select user by email'' # hist w) + 24 * 3600"
  shows "\<exists>u tok pre href post. u \<in> set (users (db w)) \<and> u_email u = rr_Email req \<and>
    mails (hist w') = (pre @ href @ post) # mails (hist w) \<and>
    html_unescape href = uc_baseURL uc @ ''/verify-email?token='' @ tok \<and>
    (\<forall>w2 r vld resp w3. email_tokens (db w2) = email_tokens (db w') \<and> env_now env (hist w2) < e \<and>
       rq_method r = ''POST'' \<and> rq_body r = Inr tok \<and> vld tok = None \<and> run_state (VerifyEmail env vld r) w2 = (resp, w3) \<longrightarrow>
       rs_status resp = 200 \<and> users (db w3) =
         map (\<lambda>x. if u_id x = u_id u then x\<lparr>u_email_verified_at := Some (env_now env (Sql ''consume token'' # hist w2))\<rparr> else x)
           (users (db w2)))"
proof -
  from register_task_mail[OF run sent] obtain user w1 tok w2 where
    g: "run_state (svc_GetUserByEmail env (rr_Email req)) w = (Inr user, w1)"
    and t: "run_state (token_Create env (IDInt user) ''email_verification'' (24 * 3600)) w1 = (Inr tok, w2)" and d: "db w' = db w2"
    and m: "mails (hist w') = buildMessage (ml_from (uc_mailer uc)) (rr_Email req) ''Verify your Docker Wrapper account''
      (renderTemplate verificationTmpl [''Name'' \<mapsto> rr_Name req, ''URL'' \<mapsto> uc_baseURL uc @ ''/verify-email?token='' @ tok]) # mails (hist w)" .
  from g[unfolded svc_GetUserByEmail_def] obtain u where u: "u \<in> set (users (db w))" "u_email u = rr_Email req"
    "user = scan_user env u" "hist w1 = Sql ''select user by email'' # hist w" by (rule GetUserByEmail_Inr)
  have id: "IDInt user = u_id u" using u(1) ids by (simp add: IDInt_def u(3) scan_user_def empty_user_def)
  have inv: "\<forall>h. env_err env h (Sql ''invalidate tokens'') = None" using nf by simp
  from t inv obtain n t0 where i: "issue_token (u_id u) ''email_verification'' (HashToken env tok) e n t0 (db w1) = Some (db w2)"
    unfolding id e u(4)[symmetric] by (rule token_Create_Inr)
  from t obtain bs where tok: "tok = hex_EncodeToString bs" by (rule token_Create_hex)
  let ?link = "uc_baseURL uc @ ''/verify-email?token='' @ tok"
  have "isSafeURL ?link" using isSafeURL_append[OF base(1) no_colon_hex[of bs]] by (simp add: tok)
  moreover have "list_all url_plain ''/verify-email?token=''" by (simp add: url_plain_def is_alnum_def hex_chars_def)
  then have "list_all url_plain ?link" using base(2) hex_plain[of bs] unfolding tok list_all_append by blast
  ultimately have href: "html_unescape (html_escape (url_normalize (url_filter ?link))) = ?link" by (rule href_plain)
  obtain a b where body: "renderTemplate verificationTmpl [''Name'' \<mapsto> rr_Name req, ''URL'' \<mapsto> ?link] =
      a @ html_escape (url_normalize (url_filter ?link)) @ b"
    using render_member[OF template_fields(2), of "[''Name'' \<mapsto> rr_Name req, ''URL'' \<mapsto> ?link]"] by (auto simp: field_def)
  obtain pre where msg: "buildMessage (ml_from (uc_mailer uc)) (rr_Email req) ''Verify your Docker Wrapper account'' x = pre @ x" for x
    by (simp add: buildMessage_def)
  have live: "live_token (HashToken env tok) ''email_verification'' t' (db v) = Some (u_id u)"
    if "email_tokens (db v) = email_tokens (db w')" "t' < e" for v t'
    using ts.issue_live[OF i, of t'] that d by (simp add: live_token_def)
  show ?thesis
  proof (rule exI[of _ u], rule exI[of _ tok], rule exI[of _ "pre @ a"],
      rule exI[of _ "html_escape (url_normalize (url_filter ?link))"], rule exI[of _ b], intro conjI allI impI, goal_cases)
    case 3 then show ?case using m body msg by simp
  next
    case 5 then show ?case using VerifyEmail_live[OF _ _ _ nf live] by blast
  next
    case 6 then show ?case using VerifyEmail_live[OF _ _ _ nf live] by blast
  qed (use u href in simp_all)
qed

section \<open>Witnesses\<close>

definition mail_ctx :: user_ctx where
  "mail_ctx = login_ctx\<lparr>uc_mailer := \<lparr>ml_host = ''m'', ml_port = ''25'', ml_user = [], ml_password = [], ml_from = ''d@m''\<rparr>,
     uc_baseURL := ''http://h''\<rparr>"

definition register_req :: RegisterRequest where
  "register_req = \<lparr>rr_Name = ''u'', rr_Email = ''a@b'', rr_Password = ''pw345678''\<rparr>"

abbreviation "registered \<equiv> snd (run_state (register_task sample_env mail_ctx register_req) sample_world)"

lemma register_found:
  "run_state (svc_GetUserByEmail sample_env ''a@b'') sample_world =
     (Inr (scan_user sample_env (sample_user 1 ''a@b'' ''user'')), sample_world\<lparr>hist := [Sql ''select user by email'']\<rparr>)"
  by (simp add: svc_GetUserByEmail_def GetUserByEmail_def run_map_err run_sql select_user_by_email_def first_row_def)
    (simp add: sample_db_def sample_user_def sample_world_def)

lemma register_id: "IDInt (scan_user sample_env (sample_user 1 ''a@b'' ''user'')) = 1"
  by (simp add: IDInt_def scan_user_def empty_user_def sample_user_def sample_int8out ParseInt_def digit_val_def)

lemma register_token:
  "\<exists>tok w2. run_state (token_Create sample_env 1 ''email_verification'' (24 * 3600)) (sample_world\<lparr>hist := [Sql ''select user by email'']\<rparr>)
     = (Inr tok, w2) \<and> mails (hist w2) = []"
  by (simp add: token_Create_def GenerateRawToken_def HashToken_def Let_def run_simps invalidate_tokens_def insert_token_def)
    (simp add: sample_db_def sample_user_def sample_env_def)

lemma register_sent: "mails (hist registered) \<noteq> mails (hist sample_world)"
proof -
  from register_token obtain tok w2 where
    "run_state (token_Create sample_env 1 ''email_verification'' (24 * 3600)) (sample_world\<lparr>hist := [Sql ''select user by email'']\<rparr>) = (Inr tok, w2)"
    "mails (hist w2) = []" by blast
  then show ?thesis
    by (simp add: register_task_def register_req_def register_found register_id run_bind Let_def SendVerificationEmail_def Send_def
        mail_ctx_def Enabled_def run_simps)
qed

theorem registration_link_verifies_the_account_witness:
  "\<exists>u tok pre href post. u \<in> set (users sample_db) \<and> u_email u = ''a@b'' \<and> mails (hist registered) = [pre @ href @ post] \<and>
     html_unescape href = ''http://h/verify-email?token='' @ tok"
proof -
  have run: "run_state (register_task sample_env mail_ctx register_req) sample_world = ((), registered)"
    by (simp add: prod_eq_iff)
  have base: "isSafeURL (uc_baseURL mail_ctx @ ''/verify-email?token='')" "list_all url_plain (uc_baseURL mail_ctx)"
    by (simp_all add: mail_ctx_def isSafeURL_def ToLower_def lower_char_def Let_def url_plain_def is_alnum_def hex_chars_def)
  have ids: "\<forall>u \<in> set (users (db sample_world)). fst (ParseInt (int8out sample_env (u_id u))) = u_id u"
    by (simp add: sample_db_def sample_user_def sample_int8out ParseInt_def digit_val_def)
  have nf: "\<forall>h c. env_err sample_env h c = None" by simp
  have sel: "uc_baseURL mail_ctx = ''http://h''" "rr_Email register_req = ''a@b''" by (simp_all add: mail_ctx_def register_req_def)
  from registration_link_verifies_the_account[OF run register_sent nf ids base refl]
  obtain u tok pre href post where u: "u \<in> set (users (db sample_world))" "u_email u = rr_Email register_req"
    and m: "mails (hist registered) = (pre @ href @ post) # mails (hist sample_world)"
    and l: "html_unescape href = uc_baseURL mail_ctx @ ''/verify-email?token='' @ tok" by blast
  have "html_unescape href = ''http://h/verify-email?token='' @ tok" unfolding l sel by simp
  moreover have "u \<in> set (users sample_db)" "u_email u = ''a@b''" "mails (hist registered) = [pre @ href @ post]"
    using u m sel by simp_all
  ultimately show ?thesis by blast
qed

definition refusing_env :: env where
  "refusing_env = sample_env\<lparr>env_err := (\<lambda>_ c. if c = SmtpDataClose then Some ''554 message refused'' else None)\<rparr>"

definition tls_mailer :: Mailer where
  "tls_mailer = \<lparr>ml_host = ''m'', ml_port = ''465'', ml_user = [], ml_password = [], ml_from = ''d@m''\<rparr>"

theorem refused_mail_is_reported_as_sent_witness:
  "env_err refusing_env [] SmtpDataClose = Some ''554 message refused'' \<and>
   fst (run_state (Send refusing_env tls_mailer ''a@b'' ''s'' ''body'') sample_world) = Inr ()"
  using refused_mail_is_reported_as_sent[of tls_mailer refusing_env, OF _ _ _ prod.collapse[symmetric], of "''a@b''" "''s''" "''body''" sample_world]
  by (simp add: tls_mailer_def Enabled_def refusing_env_def)

end
